(* ===== verification/Kyth_Prelude.thy ===== *)
theory Kyth_Prelude
  imports Main
begin

text \<open>
  The vocabulary the component theories share: the fragment of the Rust standard library the
  installer uses.  Results and options are sums and options; a Rust \<open>String\<close> is its list of
  UTF-8 bytes; a \<open>u64\<close> or \<open>i64\<close> is a \<open>nat\<close> or an \<open>int\<close> whose saturating, checked and
  wrapping operations are written out; a \<open>HashMap\<close> or \<open>BTreeMap\<close> is an association list with
  distinct keys; a JSON document is a datatype.  The collections \<open>str_simps\<close>, \<open>int_simps\<close> and
  \<open>res_simps\<close> carry the component proofs.
\<close>

named_theorems str_simps \<open>evaluation of the string operations\<close>
named_theorems int_simps \<open>the bounded integer operations, unfolded\<close>
named_theorems res_simps \<open>inversion of successful results\<close>

section \<open>Results\<close>

type_synonym ('e, 'a) res = "'e + 'a"

fun and_then :: "('e, 'a) res \<Rightarrow> ('a \<Rightarrow> ('e, 'b) res) \<Rightarrow> ('e, 'b) res" where
  "and_then (Inl e) f = Inl e"
| "and_then (Inr x) f = f x"

definition map_err :: "('e \<Rightarrow> 'f) \<Rightarrow> ('e, 'a) res \<Rightarrow> ('f, 'a) res" where
  "map_err f r = (case r of Inl e \<Rightarrow> Inl (f e) | Inr x \<Rightarrow> Inr x)"

definition ok_or :: "'e \<Rightarrow> 'a option \<Rightarrow> ('e, 'a) res" where
  "ok_or e v = (case v of None \<Rightarrow> Inl e | Some x \<Rightarrow> Inr x)"

definition guard :: "bool \<Rightarrow> 'e \<Rightarrow> ('e, unit) res" where
  "guard ok e = (if ok then Inr () else Inl e)"

definition is_ok :: "('e, 'a) res \<Rightarrow> bool" where
  "is_ok r = (case r of Inl _ \<Rightarrow> False | Inr _ \<Rightarrow> True)"

lemma and_then_Inr [simp, res_simps]:
  "and_then r f = Inr y \<longleftrightarrow> (\<exists>x. r = Inr x \<and> f x = Inr y)"
  by (cases r) auto

lemma and_then_Inl: "and_then r f = Inl e \<longleftrightarrow> r = Inl e \<or> (\<exists>x. r = Inr x \<and> f x = Inl e)"
  by (cases r) auto

lemma map_err_Inr [simp, res_simps]: "map_err f r = Inr x \<longleftrightarrow> r = Inr x"
  by (cases r) (auto simp: map_err_def)

lemma map_err_simps [simp]: "map_err f (Inl e) = Inl (f e)" "map_err f (Inr x) = Inr x"
  by (simp_all add: map_err_def)

lemma ok_or_Inr [simp, res_simps]: "ok_or e v = Inr x \<longleftrightarrow> v = Some x"
  by (cases v) (auto simp: ok_or_def)

lemma ok_or_simps [simp]: "ok_or e None = Inl e" "ok_or e (Some x) = Inr x"
  by (simp_all add: ok_or_def)

lemma guard_Inr [simp, res_simps]: "guard b e = Inr u \<longleftrightarrow> b"
  by (simp add: guard_def)

lemma guard_simps [simp]: "guard True e = Inr ()" "guard False e = Inl e"
  by (simp_all add: guard_def)

lemma is_ok_simps [simp]: "is_ok (Inr x)" "\<not> is_ok (Inl e)"
  by (simp_all add: is_ok_def)

section \<open>Byte strings\<close>

abbreviation byte :: "char \<Rightarrow> nat" where
  "byte c \<equiv> of_char c"

definition is_ascii_digit :: "char \<Rightarrow> bool" where
  "is_ascii_digit c \<longleftrightarrow> 48 \<le> byte c \<and> byte c \<le> 57"

definition is_ascii_alphanumeric :: "char \<Rightarrow> bool" where
  "is_ascii_alphanumeric c \<longleftrightarrow>
     48 \<le> byte c \<and> byte c \<le> 57 \<or> 65 \<le> byte c \<and> byte c \<le> 90 \<or> 97 \<le> byte c \<and> byte c \<le> 122"

definition is_ascii_hexdigit :: "char \<Rightarrow> bool" where
  "is_ascii_hexdigit c \<longleftrightarrow>
     48 \<le> byte c \<and> byte c \<le> 57 \<or> 65 \<le> byte c \<and> byte c \<le> 70 \<or> 97 \<le> byte c \<and> byte c \<le> 102"

definition ascii_lower :: "char \<Rightarrow> char" where
  "ascii_lower c = (if 65 \<le> byte c \<and> byte c \<le> 90 then char_of (byte c + 32) else c)"

definition to_ascii_lowercase :: "string \<Rightarrow> string" where
  "to_ascii_lowercase s = map ascii_lower s"

definition eq_ignore_ascii_case :: "string \<Rightarrow> string \<Rightarrow> bool" where
  "eq_ignore_ascii_case a b \<longleftrightarrow> to_ascii_lowercase a = to_ascii_lowercase b"

fun starts_with :: "string \<Rightarrow> string \<Rightarrow> bool" where
  "starts_with s [] = True"
| "starts_with [] (p # ps) = False"
| "starts_with (c # cs) (p # ps) = (c = p \<and> starts_with cs ps)"

definition strip_prefix :: "string \<Rightarrow> string \<Rightarrow> string option" where
  "strip_prefix s p = (if starts_with s p then Some (drop (length p) s) else None)"

fun str_contains :: "string \<Rightarrow> string \<Rightarrow> bool" where
  "str_contains [] p = (p = [])"
| "str_contains (c # cs) p = (starts_with (c # cs) p \<or> str_contains cs p)"

text \<open>
  Rust's \<open>trim\<close> removes the characters with the Unicode property White_Space; these are their
  UTF-8 encodings.  UTF-8 is self-synchronising, so matching the encodings as bytes at either
  end of a string removes the same characters.
\<close>

definition ws_encodings :: "string list" where
  "ws_encodings =
     map (\<lambda>n. [char_of n]) [9, 10, 11, 12, 13, 32 :: nat]
     @ map (map char_of)
         [[0xC2, 0x85 :: nat], [0xC2, 0xA0], [0xE1, 0x9A, 0x80],
          [0xE2, 0x80, 0x80], [0xE2, 0x80, 0x81], [0xE2, 0x80, 0x82], [0xE2, 0x80, 0x83],
          [0xE2, 0x80, 0x84], [0xE2, 0x80, 0x85], [0xE2, 0x80, 0x86], [0xE2, 0x80, 0x87],
          [0xE2, 0x80, 0x88], [0xE2, 0x80, 0x89], [0xE2, 0x80, 0x8A], [0xE2, 0x80, 0xA8],
          [0xE2, 0x80, 0xA9], [0xE2, 0x80, 0xAF], [0xE2, 0x81, 0x9F], [0xE3, 0x80, 0x80]]"

text \<open>The length of the first of the sequences \<open>ps\<close> that \<open>s\<close> starts with, 0 for none.\<close>

fun match_len :: "string list \<Rightarrow> string \<Rightarrow> nat" where
  "match_len [] s = 0"
| "match_len (p # ps) s = (if starts_with s p then length p else match_len ps s)"

function strip_leading :: "string list \<Rightarrow> string \<Rightarrow> string" where
  "strip_leading ps s =
     (if match_len ps s = 0 \<or> s = [] then s else strip_leading ps (drop (match_len ps s) s))"
  by pat_completeness auto
termination
  by (relation "measure (\<lambda>(ps, s). length s)") auto

declare strip_leading.simps [simp del]

definition trim_start :: "string \<Rightarrow> string" where
  "trim_start s = strip_leading ws_encodings s"

definition trim_end :: "string \<Rightarrow> string" where
  "trim_end s = rev (strip_leading (map rev ws_encodings) (rev s))"

definition trim :: "string \<Rightarrow> string" where
  "trim s = trim_end (trim_start s)"

definition trim_end_matches :: "char \<Rightarrow> string \<Rightarrow> string" where
  "trim_end_matches c s = rev (dropWhile (\<lambda>d. d = c) (rev s))"

text \<open>\<open>str::split\<close> on one character: always at least one component.\<close>

fun split_on :: "char \<Rightarrow> string \<Rightarrow> string list" where
  "split_on d [] = [[]]"
| "split_on d (c # cs) =
     (if c = d then [] # split_on d cs
      else case split_on d cs of [] \<Rightarrow> [[c]] | w # ws \<Rightarrow> (c # w) # ws)"

section \<open>Numbers\<close>

definition u64_max :: nat where
  "u64_max = 18446744073709551615"

definition u32_max :: nat where
  "u32_max = 4294967295"

definition i64_max :: int where
  "i64_max = 9223372036854775807"

definition i64_min :: int where
  "i64_min = - 9223372036854775808"

definition saturating_add :: "nat \<Rightarrow> nat \<Rightarrow> nat" where
  "saturating_add a b = min (a + b) u64_max"

definition saturating_mul :: "nat \<Rightarrow> nat \<Rightarrow> nat" where
  "saturating_mul a b = min (a * b) u64_max"

definition saturating_sub :: "nat \<Rightarrow> nat \<Rightarrow> nat" where
  "saturating_sub a b = a - b"

definition checked_add :: "nat \<Rightarrow> nat \<Rightarrow> nat option" where
  "checked_add a b = (if a + b \<le> u64_max then Some (a + b) else None)"

definition checked_mul :: "nat \<Rightarrow> nat \<Rightarrow> nat option" where
  "checked_mul a b = (if a * b \<le> u64_max then Some (a * b) else None)"

definition abs_diff :: "nat \<Rightarrow> nat \<Rightarrow> nat" where
  "abs_diff a b = (if a \<le> b then b - a else a - b)"

definition div_ceil :: "nat \<Rightarrow> nat \<Rightarrow> nat" where
  "div_ceil a b = (if a mod b = 0 then a div b else a div b + 1)"

definition i64_saturate :: "int \<Rightarrow> int" where
  "i64_saturate n = (if n > i64_max then i64_max else if n < i64_min then i64_min else n)"

definition saturating_add_i64 :: "int \<Rightarrow> int \<Rightarrow> int" where
  "saturating_add_i64 a b = i64_saturate (a + b)"

definition saturating_sub_i64 :: "int \<Rightarrow> int \<Rightarrow> int" where
  "saturating_sub_i64 a b = i64_saturate (a - b)"

text \<open>The casts \<open>as i64\<close> and \<open>as u64\<close>, which keep the 64 bits and change how they are read.\<close>

definition as_i64 :: "nat \<Rightarrow> int" where
  "as_i64 n = (let m = int n mod 2 ^ 64 in if m \<ge> 2 ^ 63 then m - 2 ^ 64 else m)"

definition as_u64 :: "int \<Rightarrow> nat" where
  "as_u64 i = nat (i mod 2 ^ 64)"

text \<open>Rust's \<open>%\<close> on signed integers takes the sign of the dividend.\<close>

definition rem_i64 :: "int \<Rightarrow> int \<Rightarrow> int" where
  "rem_i64 a b = (if a < 0 then - ((- a) mod \<bar>b\<bar>) else a mod \<bar>b\<bar>)"

text \<open>Exactly one bit set: halve while even, then 1 must remain.\<close>

fun is_power_of_two :: "nat \<Rightarrow> bool" where
  "is_power_of_two n = (if n = 0 then False else if n = 1 then True
     else even n \<and> is_power_of_two (n div 2))"

declare is_power_of_two.simps [simp del]

text \<open>Decimal text of a number, and the parsers \<open>str::parse\<close> uses: digits after an optional
  sign, refused when the value does not fit.\<close>

fun nat_to_string :: "nat \<Rightarrow> string" where
  "nat_to_string n =
     (if n < 10 then [char_of (48 + n)]
      else nat_to_string (n div 10) @ [char_of (48 + n mod 10)])"

declare nat_to_string.simps [simp del]

definition digits_value :: "string \<Rightarrow> nat" where
  "digits_value s = foldl (\<lambda>acc c. acc * 10 + (byte c - 48)) 0 s"

definition all_digits :: "string \<Rightarrow> bool" where
  "all_digits s \<longleftrightarrow> s \<noteq> [] \<and> list_all is_ascii_digit s"

definition parse_unsigned :: "nat \<Rightarrow> string \<Rightarrow> nat option" where
  "parse_unsigned limit s =
     (let ds = (case s of c # cs \<Rightarrow> if c = CHR ''+'' then cs else s | [] \<Rightarrow> s)
      in if all_digits ds \<and> digits_value ds \<le> limit then Some (digits_value ds) else None)"

definition parse_u64 :: "string \<Rightarrow> nat option" where
  "parse_u64 s = parse_unsigned u64_max s"

definition parse_i64 :: "string \<Rightarrow> int option" where
  "parse_i64 s =
     (case s of
        c # cs \<Rightarrow>
          if c = CHR ''-'' then
            (if all_digits cs \<and> - int (digits_value cs) \<ge> i64_min
             then Some (- int (digits_value cs)) else None)
          else map_option int (parse_unsigned (nat i64_max) s)
      | [] \<Rightarrow> None)"

section \<open>Maps and sets\<close>

text \<open>
  \<open>HashMap::insert\<close>, \<open>remove\<close> and \<open>get\<close> on an association list.  An insert under a key that is
  present replaces the value in place, so keys stay distinct.  The order of a \<open>HashMap\<close> is not
  specified; where the program's result depends on it, the models say so.
\<close>

fun map_insert :: "'k \<Rightarrow> 'v \<Rightarrow> ('k \<times> 'v) list \<Rightarrow> ('k \<times> 'v) list" where
  "map_insert k v [] = [(k, v)]"
| "map_insert k v (e # es) = (if fst e = k then (k, v) # es else e # map_insert k v es)"

definition map_remove :: "'k \<Rightarrow> ('k \<times> 'v) list \<Rightarrow> ('k \<times> 'v) list" where
  "map_remove k m = filter (\<lambda>e. fst e \<noteq> k) m"

abbreviation map_get :: "('k \<times> 'v) list \<Rightarrow> 'k \<Rightarrow> 'v option" where
  "map_get m k \<equiv> map_of m k"

abbreviation map_keys :: "('k \<times> 'v) list \<Rightarrow> 'k list" where
  "map_keys m \<equiv> map fst m"

abbreviation map_values :: "('k \<times> 'v) list \<Rightarrow> 'v list" where
  "map_values m \<equiv> map snd m"

text \<open>\<open>HashSet::insert\<close>: the set as a list, and whether the element was new.\<close>

definition set_insert :: "'a \<Rightarrow> 'a list \<Rightarrow> 'a list \<times> bool" where
  "set_insert x s = (if x \<in> set s then (s, False) else (s @ [x], True))"

text \<open>\<open>Iterator::find_map\<close> and \<open>filter_map\<close>.\<close>

fun find_map :: "('a \<Rightarrow> 'b option) \<Rightarrow> 'a list \<Rightarrow> 'b option" where
  "find_map f [] = None"
| "find_map f (x # xs) = (case f x of None \<Rightarrow> find_map f xs | Some y \<Rightarrow> Some y)"

lemma find_map_cong [fundef_cong]:
  "xs = ys \<Longrightarrow> (\<And>x. x \<in> set ys \<Longrightarrow> f x = g x) \<Longrightarrow> find_map f xs = find_map g ys"
proof (induction ys arbitrary: xs)
  case (Cons y ys)
  then show ?case by (auto split: option.splits)
qed simp

lemma find_map_Some: "find_map f xs = Some y \<Longrightarrow> \<exists>x \<in> set xs. f x = Some y"
  by (induction xs) (auto split: option.splits)

section \<open>JSON\<close>

text \<open>\<open>serde_json::Value\<close>: a number is an unsigned or a negative 64-bit integer, or a float.  \<open>NegInt n\<close>
  is the number \<open>- 1 - n\<close>, so that it is negative by construction.\<close>

datatype jnumber = PosInt nat | NegInt nat | Float string

datatype json =
    JNull
  | JBool bool
  | JNumber jnumber
  | JString string
  | JArray "json list"
  | JObject "(string \<times> json) list"

fun json_get :: "json \<Rightarrow> string \<Rightarrow> json option" where
  "json_get (JObject fields) key = map_of fields key"
| "json_get _ key = None"

fun json_as_str :: "json \<Rightarrow> string option" where
  "json_as_str (JString s) = Some s"
| "json_as_str _ = None"

fun json_as_bool :: "json \<Rightarrow> bool option" where
  "json_as_bool (JBool b) = Some b"
| "json_as_bool _ = None"

fun json_as_array :: "json \<Rightarrow> json list option" where
  "json_as_array (JArray xs) = Some xs"
| "json_as_array _ = None"

fun json_is_object :: "json \<Rightarrow> bool" where
  "json_is_object (JObject _) = True"
| "json_is_object _ = False"

fun number_as_i64 :: "jnumber \<Rightarrow> int option" where
  "number_as_i64 (PosInt n) = (if int n \<le> i64_max then Some (int n) else None)"
| "number_as_i64 (NegInt n) = Some (- 1 - int n)"
| "number_as_i64 (Float _) = None"

fun number_as_u64 :: "jnumber \<Rightarrow> nat option" where
  "number_as_u64 (PosInt n) = Some n"
| "number_as_u64 _ = None"

fun json_as_u64 :: "json \<Rightarrow> nat option" where
  "json_as_u64 (JNumber n) = number_as_u64 n"
| "json_as_u64 _ = None"

section \<open>Lemmas on results, strings and numbers\<close>

lemma starts_with_iff: "starts_with s p \<longleftrightarrow> (\<exists>r. s = p @ r)"
  by (induction s p rule: starts_with.induct) auto

lemma starts_with_append [simp]: "starts_with (p @ r) p"
  by (auto simp: starts_with_iff)

lemma strip_prefix_Some [simp]: "strip_prefix s p = Some r \<longleftrightarrow> s = p @ r"
  by (auto simp: strip_prefix_def starts_with_iff)

lemma strip_prefix_append [simp]: "strip_prefix (p @ r) p = Some r"
  by simp

lemma str_contains_iff: "str_contains s p \<longleftrightarrow> (\<exists>u v. s = u @ p @ v)"
proof (induction s)
  case (Cons c cs)
  show ?case (is "?L \<longleftrightarrow> ?R")
  proof
    assume ?L
    then consider "starts_with (c # cs) p" | "str_contains cs p" by auto
    then show ?R
    proof cases
      case 1
      then obtain r where "c # cs = p @ r" by (auto simp: starts_with_iff)
      then show ?thesis by (intro exI [of _ "[]"] exI [of _ r]) simp
    next
      case 2
      with Cons.IH obtain u v where "cs = u @ p @ v" by auto
      then show ?thesis by (intro exI [of _ "c # u"] exI [of _ v]) simp
    qed
  next
    assume ?R
    then obtain u v where *: "c # cs = u @ p @ v" by auto
    show ?L
    proof (cases u)
      case Nil
      with * show ?thesis by (metis append_Nil starts_with_append str_contains.simps(2))
    next
      case (Cons d ds)
      with * Cons.IH show ?thesis by auto
    qed
  qed
qed simp

text \<open>A string of visible ASCII characters has nothing to trim.\<close>

definition graphic :: "char \<Rightarrow> bool" where
  "graphic c \<longleftrightarrow> 33 \<le> byte c \<and> byte c < 127"

lemma match_len_0: "list_all (\<lambda>p. p \<noteq> [] \<and> hd p \<noteq> hd s) ps \<Longrightarrow> s \<noteq> [] \<Longrightarrow> match_len ps s = 0"
proof (induction ps)
  case (Cons p ps)
  then have "\<not> starts_with s p" by (cases s; cases p) auto
  with Cons show ?case by simp
qed simp

lemma ws_hd_not_graphic:
  "list_all (\<lambda>p. p \<noteq> [] \<and> \<not> graphic (hd p)) ws_encodings"
  "list_all (\<lambda>p. p \<noteq> [] \<and> \<not> graphic (hd p)) (map rev ws_encodings)"
  by (simp_all add: ws_encodings_def graphic_def)

lemma strip_leading_graphic:
  assumes "list_all (\<lambda>p. p \<noteq> [] \<and> \<not> graphic (hd p)) ps" and "list_all graphic s"
  shows "strip_leading ps s = s"
proof (cases "s = []")
  case True
  then show ?thesis by (simp add: strip_leading.simps)
next
  case False
  with assms(2) have "graphic (hd s)" by (cases s) auto
  with assms(1) have "list_all (\<lambda>p. p \<noteq> [] \<and> hd p \<noteq> hd s) ps"
    by (auto simp: list_all_iff)
  with False have "match_len ps s = 0" by (rule match_len_0 [rotated])
  then show ?thesis by (simp add: strip_leading.simps)
qed

lemma trim_graphic [str_simps]: "list_all graphic s \<Longrightarrow> trim s = s"
  by (simp add: trim_def trim_start_def trim_end_def strip_leading_graphic ws_hd_not_graphic
      list_all_rev)

text \<open>Trimming twice changes nothing: the first pass leaves no whitespace at either end, and a prefix
  of a string that starts with none starts with none.\<close>

lemma match_len_pos: "[] \<notin> set ps \<Longrightarrow> match_len ps s = 0 \<longleftrightarrow> (\<forall>p \<in> set ps. \<not> starts_with s p)"
  by (induction ps) auto

lemma strip_leading_fix: "strip_leading ps s = [] \<or> match_len ps (strip_leading ps s) = 0"
proof (induction ps s rule: strip_leading.induct)
  case (1 ps s)
  then show ?case by (cases "match_len ps s = 0 \<or> s = []") (auto simp: strip_leading.simps [of ps s])
qed

lemma strip_leading_done: "s = [] \<or> match_len ps s = 0 \<Longrightarrow> strip_leading ps s = s"
  by (subst strip_leading.simps) auto

lemma strip_leading_suffix: "\<exists>u. s = u @ strip_leading ps s"
proof (induction ps s rule: strip_leading.induct)
  case (1 ps s)
  show ?case
  proof (cases "match_len ps s = 0 \<or> s = []")
    case True
    then show ?thesis by (simp add: strip_leading.simps [of ps s])
  next
    case False
    with 1 obtain u where "drop (match_len ps s) s = u @ strip_leading ps (drop (match_len ps s) s)"
      by auto
    then have "s = (take (match_len ps s) s @ u) @ strip_leading ps (drop (match_len ps s) s)"
      by (metis append.assoc append_take_drop_id)
    with False show ?thesis by (metis strip_leading.simps)
  qed
qed

lemma trim_idem [simp]: "trim (trim s) = trim s"
proof -
  have ne: "[] \<notin> set ws_encodings" using ws_hd_not_graphic(1) by (auto simp: list_all_iff)
  define t where "t = trim_start s"
  have "\<exists>v. rev t = v @ rev (trim_end t)"
    using strip_leading_suffix [of "rev t"] by (simp add: trim_end_def)
  then obtain v where v: "rev t = v @ rev (trim_end t)" by blast
  then have pre: "t = trim_end t @ rev v" by (metis rev_append rev_rev_ident)
  have "t = [] \<or> match_len ws_encodings t = 0"
    using strip_leading_fix [of ws_encodings s] by (simp add: t_def trim_start_def)
  then have "trim_end t = [] \<or> match_len ws_encodings (trim_end t) = 0"
  proof
    assume "match_len ws_encodings t = 0"
    then have none: "\<forall>p \<in> set ws_encodings. \<not> starts_with t p" using ne by (simp add: match_len_pos)
    have "\<forall>p \<in> set ws_encodings. \<not> starts_with (trim_end t) p"
    proof (intro ballI notI)
      fix p assume p: "p \<in> set ws_encodings" "starts_with (trim_end t) p"
      then obtain r where "trim_end t = p @ r" by (auto simp: starts_with_iff)
      with pre have "t = p @ (r @ rev v)" by simp
      with none p(1) show False by (metis starts_with_append)
    qed
    with ne show ?thesis by (simp add: match_len_pos)
  qed (use pre in simp)
  then have "trim_start (trim_end t) = trim_end t"
    by (simp add: trim_start_def strip_leading_done)
  moreover have "trim_end (trim_end t) = trim_end t"
    using strip_leading_done [OF strip_leading_fix] by (simp add: trim_end_def)
  ultimately show ?thesis by (simp add: trim_def t_def)
qed

lemmas byte_eval [str_simps] = graphic_def char_of_eq_iff is_ascii_digit_def is_ascii_alphanumeric_def is_ascii_hexdigit_def
  ascii_lower_def to_ascii_lowercase_def eq_ignore_ascii_case_def strip_prefix_def
  trim_end_matches_def

lemma is_ascii_alphanumeric_graphic: "is_ascii_alphanumeric c \<Longrightarrow> graphic c"
  by (auto simp: is_ascii_alphanumeric_def graphic_def)

lemma ascii_lower_idem [simp]: "ascii_lower (ascii_lower c) = ascii_lower c"
  by (simp add: ascii_lower_def of_char_of)

lemma to_ascii_lowercase_idem [simp]:
  "to_ascii_lowercase (to_ascii_lowercase s) = to_ascii_lowercase s"
  by (simp add: to_ascii_lowercase_def)

lemma eq_ignore_ascii_case_refl [simp]: "eq_ignore_ascii_case a a"
  by (simp add: eq_ignore_ascii_case_def)

lemma is_power_of_two_iff: "is_power_of_two n \<longleftrightarrow> (\<exists>k. n = 2 ^ k)"
proof (induction n rule: is_power_of_two.induct)
  case (1 n)
  show ?case
  proof (cases "n = 0 \<or> n = 1")
    case True
    then show ?thesis
      by (auto simp: is_power_of_two.simps [of n] intro: exI [of _ 0])
  next
    case False
    have "(\<exists>k. n = 2 ^ k) \<longleftrightarrow> even n \<and> (\<exists>k. n div 2 = 2 ^ k)"
    proof
      assume "\<exists>k. n = 2 ^ k"
      then obtain k where k: "n = 2 ^ k" by blast
      with False obtain j where "k = Suc j" by (cases k) auto
      with k show "even n \<and> (\<exists>k. n div 2 = 2 ^ k)" by auto
    next
      assume "even n \<and> (\<exists>k. n div 2 = 2 ^ k)"
      then obtain k where "even n" "n div 2 = 2 ^ k" by blast
      then have "n = 2 ^ Suc k" by (metis dvd_mult_div_cancel power_Suc)
      then show "\<exists>k. n = 2 ^ k" by blast
    qed
    with False 1 show ?thesis by (simp add: is_power_of_two.simps [of n])
  qed
qed

lemma sector_power_of_two:
  "is_power_of_two n \<and> 512 \<le> n \<and> n \<le> 4096 \<longleftrightarrow> n \<in> {512, 1024, 2048, 4096}"
proof
  assume h: "is_power_of_two n \<and> 512 \<le> n \<and> n \<le> 4096"
  then obtain k where k: "n = 2 ^ k" by (auto simp: is_power_of_two_iff)
  with h have "(2::nat) ^ 9 \<le> 2 ^ k" and "(2::nat) ^ k \<le> 2 ^ 12" by simp_all
  then have "9 \<le> k" and "k \<le> 12" by (auto simp only: power_increasing_iff)
  then have "k \<in> {9, 10, 11, 12}" by auto
  with k show "n \<in> {512, 1024, 2048, 4096}" by auto
next
  have "is_power_of_two 512 \<and> is_power_of_two 1024 \<and> is_power_of_two 2048 \<and> is_power_of_two 4096"
    by (simp add: is_power_of_two.simps)
  moreover assume "n \<in> {512, 1024, 2048, 4096}"
  ultimately show "is_power_of_two n \<and> 512 \<le> n \<and> n \<le> 4096" by auto
qed

lemma as_i64_small: "int n \<le> i64_max \<Longrightarrow> as_i64 n = int n"
  by (simp add: as_i64_def i64_max_def Let_def)

lemma as_u64_small: "0 \<le> i \<Longrightarrow> i \<le> i64_max \<Longrightarrow> as_u64 i = nat i"
  by (simp add: as_u64_def i64_max_def)

lemma rem_i64_0: "rem_i64 a b = 0 \<longleftrightarrow> b dvd a"
  by (cases "a < 0") (auto simp: rem_i64_def dvd_eq_mod_eq_0 [symmetric] mod_eq_0_iff_dvd)

lemma div_ceil_le:
  assumes "0 < b"
  shows "a \<le> div_ceil a b * b"
proof -
  have "a div b * b + a mod b = a" and "a mod b < b" using assms by simp_all
  then have "a \<le> a div b * b + b" by linarith
  then show ?thesis by (auto simp: div_ceil_def)
qed

subsection \<open>Decimal text round trip\<close>

lemma digits_value_snoc: "digits_value (s @ [c]) = digits_value s * 10 + (byte c - 48)"
  by (simp add: digits_value_def)

lemma nat_to_string_digits: "all_digits (nat_to_string n)"
proof (induction n rule: nat_to_string.induct)
  case (1 n)
  have "is_ascii_digit (char_of (48 + d))" if "d < 10" for d :: nat
    using that by (simp add: is_ascii_digit_def of_char_of)
  then show ?case
    using 1 by (auto simp: nat_to_string.simps [of n] all_digits_def)
qed

lemma digits_value_nat_to_string: "digits_value (nat_to_string n) = n"
proof (induction n rule: nat_to_string.induct)
  case (1 n)
  have b: "byte (char_of (48 + d)) - 48 = d" if "d < 10" for d :: nat
    using that by (simp add: of_char_of)
  show ?case
  proof (cases "n < 10")
    case True
    then show ?thesis
      by (simp add: nat_to_string.simps [of n] b digits_value_def)
  next
    case False
    then have "digits_value (nat_to_string n) = (n div 10) * 10 + n mod 10"
      using 1 by (simp add: nat_to_string.simps [of n] digits_value_snoc b)
    then show ?thesis by simp
  qed
qed

lemma nat_to_string_hd: "nat_to_string n \<noteq> [] \<and> hd (nat_to_string n) \<noteq> CHR ''+''"
  using nat_to_string_digits [of n]
  by (cases "nat_to_string n") (auto simp: all_digits_def is_ascii_digit_def)

lemma parse_u64_nat_to_string:
  assumes "n \<le> u64_max"
  shows "parse_u64 (nat_to_string n) = Some n"
proof -
  obtain c cs where s: "nat_to_string n = c # cs" "c \<noteq> CHR ''+''"
    using nat_to_string_hd [of n] by (cases "nat_to_string n") auto
  with assms nat_to_string_digits [of n] digits_value_nat_to_string [of n] show ?thesis
    by (simp add: parse_u64_def parse_unsigned_def)
qed

lemma nat_to_string_inject [simp]: "nat_to_string m = nat_to_string n \<longleftrightarrow> m = n"
  by (metis digits_value_nat_to_string)

section \<open>The map interface\<close>

text \<open>
  What the program relies on of its \<open>HashMap\<close>s: lookup after insert and remove, and that a key
  occurs once.  \<open>vals\<close> is the collection \<open>values()\<close> iterates.
\<close>

locale keyed_map =
  fixes ins :: "'k \<Rightarrow> 'v \<Rightarrow> 'm \<Rightarrow> 'm"
    and rem :: "'k \<Rightarrow> 'm \<Rightarrow> 'm"
    and get :: "'m \<Rightarrow> 'k \<Rightarrow> 'v option"
    and vals :: "'m \<Rightarrow> 'v set"
    and inv :: "'m \<Rightarrow> bool"
  assumes get_ins: "get (ins k v m) = (get m)(k \<mapsto> v)"
    and get_rem: "get (rem k m) = (get m)(k := None)"
    and inv_ins: "inv m \<Longrightarrow> inv (ins k v m)"
    and inv_rem: "inv m \<Longrightarrow> inv (rem k m)"
    and vals_get: "inv m \<Longrightarrow> vals m = ran (get m)"
begin

definition one_to_one :: "'m \<Rightarrow> bool" where
  "one_to_one m \<longleftrightarrow> (\<forall>a b v. get m a = Some v \<and> get m b = Some v \<longrightarrow> a = b)"

lemma one_to_one_ins:
  assumes "one_to_one m" and "\<forall>a. a \<noteq> k \<longrightarrow> get m a \<noteq> Some v"
  shows "one_to_one (ins k v m)"
  using assms by (auto simp: one_to_one_def get_ins)

lemma one_to_one_ins_fresh:
  "one_to_one m \<Longrightarrow> inv m \<Longrightarrow> v \<notin> vals m \<Longrightarrow> one_to_one (ins k v m)"
  by (rule one_to_one_ins) (auto simp: vals_get ran_def)

lemma one_to_one_rem: "one_to_one m \<Longrightarrow> one_to_one (rem k m)"
  by (auto simp: one_to_one_def get_rem)

end

lemma map_of_map_insert: "map_of (map_insert k v m) = (map_of m)(k \<mapsto> v)"
  by (induction m) (auto simp: fun_eq_iff)

lemma map_of_map_remove: "map_of (map_remove k m) = (map_of m)(k := None)"
  by (induction m) (auto simp: map_remove_def fun_eq_iff)

lemma map_keys_insert:
  "map_keys (map_insert k v m) = (if k \<in> set (map_keys m) then map_keys m else map_keys m @ [k])"
  by (induction m) auto

lemma distinct_map_insert: "distinct (map_keys m) \<Longrightarrow> distinct (map_keys (map_insert k v m))"
  by (simp add: map_keys_insert del: set_map)

lemma distinct_map_remove: "distinct (map_keys m) \<Longrightarrow> distinct (map_keys (map_remove k m))"
  by (simp add: map_remove_def distinct_map_filter)

lemma map_values_ran: "distinct (map_keys m) \<Longrightarrow> set (map_values m) = ran (map_of m)"
  by (simp add: ran_distinct)

interpretation alist: keyed_map map_insert map_remove map_of "\<lambda>m. set (map_values m)"
  "\<lambda>m. distinct (map_keys m)"
  by unfold_locales
    (simp_all add: map_of_map_insert map_of_map_remove distinct_map_insert distinct_map_remove
      ran_distinct)

end
