(* ===== verification/Installer_Plan.thy ===== *)
theory Installer_Plan
  imports Kyth_Prelude
begin

text \<open>
  Request normalisation, \<open>installer_plan.rs\<close>: the Flatpak allowlist, the device-path
  normaliser every destructive operation goes through, and \<open>build_plan\<close>, which turns a frontend
  request into an install plan or refuses it.  The interface \<open>device_normalizer\<close> states what the
  storage, disk and journal components rely on of a normalised path.
\<close>

datatype plan_error =
    NoInstallMode
  | UnsupportedMode string
  | NoTargetDisk
  | NoAlongsidePartition
  | ShrinkTooSmall
  | NoShrinkPartition
  | SizeTooLarge
  | NoFreeRegion
  | FreeRegionTooSmall
  | TooManyFlatpaks
  | UnsupportedFlatpak string

record installer_plan_input =
  inp_disk :: string
  inp_install_mode :: string
  inp_target_partition :: string
  inp_resize_partition :: string
  inp_resize_gib :: int
  inp_free_region_start :: int
  inp_free_region_end :: int
  inp_target_disk_serial :: "string option"
  inp_target_disk_model :: "string option"
  inp_target_disk_size_bytes :: "nat option"
  inp_flatpaks :: "string list"

record installer_plan =
  plan_mode :: string
  plan_disk :: string
  plan_target_partition :: "string option"
  plan_resize_partition :: "string option"
  plan_resize_bytes :: nat
  plan_free_region_start :: "nat option"
  plan_free_region_end :: "nat option"
  plan_pre_shrink_bytes :: "nat option"
  plan_target_disk_serial :: "string option"
  plan_target_disk_model :: "string option"
  plan_target_disk_size_bytes :: "nat option"
  plan_flatpaks :: "string list"

definition MIN_KYTHOS_GIB :: int where
  "MIN_KYTHOS_GIB = 32"

definition BYTES_PER_GIB :: nat where
  "BYTES_PER_GIB = 1024 * 1024 * 1024"

definition ALLOWED_FLATPAKS :: "string list" where
  "ALLOWED_FLATPAKS =
    [''com.valvesoftware.Steam'',
     ''com.heroicgameslauncher.hgl'',
     ''com.discordapp.Discord'',
     ''org.prismlauncher.PrismLauncher'',
     ''com.visualstudio.code'',
     ''io.dbeaver.DBeaverCommunity'',
     ''io.podman_desktop.PodmanDesktop'',
     ''org.gimp.GIMP'',
     ''org.kde.kdenlive'',
     ''org.blender.Blender'',
     ''org.audacityteam.Audacity'',
     ''org.libreoffice.LibreOffice'',
     ''org.mozilla.firefox'',
     ''org.mozilla.Thunderbird'',
     ''org.videolan.VLC'',
     ''com.spotify.Client'',
     ''org.telegram.desktop'',
     ''com.slack.Slack'',
     ''us.zoom.Zoom'',
     ''org.keepassxc.KeePassXC'',
     ''org.gnome.Calculator'',
     ''org.gnome.TextEditor'',
     ''io.github.zen_browser.zen'',
     ''com.github.tchx84.Flatseal'',
     ''org.flameshot.Flameshot'',
     ''com.obsproject.Studio'',
     ''org.inkscape.Inkscape'']"

text \<open>The loop of \<open>validate_flatpaks\<close>: \<open>valid\<close> holds the ids seen so far, once each.\<close>

fun collect_flatpaks :: "string list \<Rightarrow> string list \<Rightarrow> (plan_error, string list) res" where
  "collect_flatpaks [] valid = Inr valid"
| "collect_flatpaks (i # ids) valid =
     (if i \<notin> set ALLOWED_FLATPAKS then Inl (UnsupportedFlatpak i)
      else if i \<in> set valid then collect_flatpaks ids valid
      else collect_flatpaks ids (valid @ [i]))"

definition validate_flatpaks :: "string list \<Rightarrow> (plan_error, string list) res" where
  "validate_flatpaks ids =
     (if length ids > 64 then Inl TooManyFlatpaks else collect_flatpaks ids [])"

definition path_char :: "char \<Rightarrow> bool" where
  "path_char c \<longleftrightarrow> is_ascii_alphanumeric c \<or> c \<in> set ''._/+:-''"

abbreviation dev_prefix :: string where
  "dev_prefix \<equiv> ''/dev/''"

definition normalize_device_path :: "string \<Rightarrow> string option" where
  "normalize_device_path raw =
     (let v = trim raw in
      if v = [] then None
      else if \<not> starts_with v dev_prefix \<and> CHR ''/'' \<in> set v then None
      else
        let v = (if starts_with v dev_prefix then v else dev_prefix @ v);
            basename = (case strip_prefix v dev_prefix of Some b \<Rightarrow> b | None \<Rightarrow> [])
        in if basename = [] \<or> CHR ''/'' \<in> set basename \<or> length v > 4096
              \<or> str_contains v ''..'' \<or> \<not> list_all path_char v
           then None else Some v)"

definition required_device :: "string \<Rightarrow> plan_error \<Rightarrow> (plan_error, string) res" where
  "required_device raw message = ok_or message (normalize_device_path raw)"

text \<open>The three mode-dependent parts of \<open>build_plan\<close>, in the order the code evaluates them.\<close>

definition plan_target :: "string \<Rightarrow> string \<Rightarrow> (plan_error, string option) res" where
  "plan_target mode target_partition =
     (if mode = ''alongside''
      then and_then (required_device target_partition NoAlongsidePartition) (\<lambda>d. Inr (Some d))
      else if mode = ''manual'' then Inr (normalize_device_path target_partition)
      else Inr None)"

definition plan_resize ::
    "string \<Rightarrow> string \<Rightarrow> string \<Rightarrow> int \<Rightarrow> (plan_error, string option \<times> nat) res" where
  "plan_resize mode resize_partition target_partition resize_gib =
     (if mode = ''resize_ntfs'' then
        let partition = (if trim resize_partition = [] then target_partition else resize_partition)
        in if resize_gib < MIN_KYTHOS_GIB then Inl ShrinkTooSmall
           else and_then (required_device partition NoShrinkPartition) (\<lambda>p.
                and_then (ok_or SizeTooLarge (checked_mul (as_u64 resize_gib) BYTES_PER_GIB)) (\<lambda>b.
                Inr (Some p, b)))
      else Inr (None, 0))"

definition plan_free_region ::
    "string \<Rightarrow> int \<Rightarrow> int \<Rightarrow> (plan_error, nat option \<times> nat option) res" where
  "plan_free_region mode region_start region_end =
     (if mode = ''free_space'' then
        (if region_start < 0 \<or> region_end \<le> region_start then Inl NoFreeRegion
         else let s = as_u64 region_start; e = as_u64 region_end in
           if e - s < as_u64 MIN_KYTHOS_GIB * BYTES_PER_GIB then Inl FreeRegionTooSmall
           else Inr (Some s, Some e))
      else Inr (None, None))"

definition install_modes :: "string list" where
  "install_modes = [''wipe'', ''resize_ntfs'', ''alongside'', ''free_space'', ''manual'']"

definition build_plan :: "installer_plan_input \<Rightarrow> (plan_error, installer_plan) res" where
  "build_plan input =
     (let mode = to_ascii_lowercase (trim (inp_install_mode input)) in
      if mode = [] then Inl NoInstallMode
      else if mode \<notin> set install_modes then Inl (UnsupportedMode mode)
      else
        and_then (required_device (inp_disk input) NoTargetDisk) (\<lambda>disk.
        and_then (plan_target mode (inp_target_partition input)) (\<lambda>target.
        and_then (plan_resize mode (inp_resize_partition input) (inp_target_partition input)
                   (inp_resize_gib input)) (\<lambda>(resize, resize_bytes).
        and_then (plan_free_region mode (inp_free_region_start input)
                   (inp_free_region_end input)) (\<lambda>(region_start, region_end).
        and_then (validate_flatpaks (inp_flatpaks input)) (\<lambda>flatpaks.
        Inr \<lparr>plan_mode = mode, plan_disk = disk, plan_target_partition = target,
             plan_resize_partition = resize, plan_resize_bytes = resize_bytes,
             plan_free_region_start = region_start, plan_free_region_end = region_end,
             plan_pre_shrink_bytes = None,
             plan_target_disk_serial = inp_target_disk_serial input,
             plan_target_disk_model = inp_target_disk_model input,
             plan_target_disk_size_bytes = inp_target_disk_size_bytes input,
             plan_flatpaks = flatpaks\<rparr>))))))"

section \<open>The device-path interface\<close>

lemma path_char_graphic: "path_char c \<Longrightarrow> graphic c"
  by (auto simp: path_char_def is_ascii_alphanumeric_def graphic_def)

locale device_normalizer =
  fixes norm :: "string \<Rightarrow> string option"
  assumes norm_dev: "norm raw = Some d \<Longrightarrow> \<exists>b. d = dev_prefix @ b \<and> b \<noteq> []"
    and norm_safe: "norm raw = Some d \<Longrightarrow> list_all path_char d"
    and norm_dots: "norm raw = Some d \<Longrightarrow> \<not> str_contains d ''..''"
    and norm_idem: "norm raw = Some d \<Longrightarrow> norm d = Some d"
begin

lemma norm_graphic: "norm raw = Some d \<Longrightarrow> list_all graphic d"
  using norm_safe [of raw d] by (auto simp: list_all_iff path_char_graphic)

lemma norm_trim: "norm raw = Some d \<Longrightarrow> trim d = d"
  by (simp add: norm_graphic trim_graphic)

lemma norm_not_flag: "norm raw = Some d \<Longrightarrow> hd d = CHR ''/''"
  using norm_dev by fastforce

lemma norm_stable: "norm raw = Some d \<Longrightarrow> norm d = Some e \<longleftrightarrow> e = d"
  using norm_idem by fastforce

lemma norm_length: "norm raw = Some d \<Longrightarrow> length dev_prefix < length d"
  using norm_dev by fastforce

end

lemma safe_trim: "list_all path_char s \<Longrightarrow> trim s = s"
  by (rule trim_graphic) (auto simp: list_all_iff path_char_graphic)

lemma normalize_device_path_Some:
  "normalize_device_path raw = Some d \<longleftrightarrow>
     (\<exists>b. d = dev_prefix @ b \<and> (trim raw = d \<or> trim raw = b \<and> CHR ''/'' \<notin> set b) \<and> b \<noteq> [] \<and>
          CHR ''/'' \<notin> set b \<and> length d \<le> 4096 \<and> \<not> str_contains d ''..'' \<and> list_all path_char d)"
proof -
  have "starts_with (dev_prefix @ b) dev_prefix" for b by simp
  moreover have "\<not> starts_with b dev_prefix" if "CHR ''/'' \<notin> set b" for b
    using that by (auto simp: starts_with_iff)
  ultimately show ?thesis
    unfolding normalize_device_path_def Let_def strip_prefix_def
    by (auto simp: starts_with_iff split: if_splits)
qed

interpretation plan_device: device_normalizer normalize_device_path
proof
  fix raw d
  assume n: "normalize_device_path raw = Some d"
  then obtain b where b: "d = dev_prefix @ b" "b \<noteq> []" "CHR ''/'' \<notin> set b" "length d \<le> 4096"
      "\<not> str_contains d ''..''" "list_all path_char d"
    by (auto simp: normalize_device_path_Some)
  then show "\<exists>b. d = dev_prefix @ b \<and> b \<noteq> []" "list_all path_char d" "\<not> str_contains d ''..''"
    by blast+
  from b show "normalize_device_path d = Some d"
    by (simp add: normalize_device_path_Some safe_trim)
qed

section \<open>Properties\<close>

lemma collect_flatpaks_sound:
  "collect_flatpaks ids valid = Inr out \<Longrightarrow> distinct valid \<Longrightarrow> set valid \<subseteq> set ALLOWED_FLATPAKS \<Longrightarrow>
   distinct out \<and> set out = set valid \<union> set ids \<and> set out \<subseteq> set ALLOWED_FLATPAKS"
  by (induction ids valid rule: collect_flatpaks.induct) (auto split: if_splits)

lemma collect_flatpaks_complete:
  "set ids \<subseteq> set ALLOWED_FLATPAKS \<Longrightarrow> \<exists>out. collect_flatpaks ids valid = Inr out"
  by (induction ids valid rule: collect_flatpaks.induct) auto

lemma build_plan_Inr:
  "build_plan input = Inr p \<Longrightarrow>
     plan_mode p \<in> set install_modes \<and>
     normalize_device_path (inp_disk input) = Some (plan_disk p) \<and>
     plan_target (plan_mode p) (inp_target_partition input) = Inr (plan_target_partition p) \<and>
     plan_resize (plan_mode p) (inp_resize_partition input) (inp_target_partition input)
       (inp_resize_gib input) = Inr (plan_resize_partition p, plan_resize_bytes p) \<and>
     plan_free_region (plan_mode p) (inp_free_region_start input) (inp_free_region_end input)
       = Inr (plan_free_region_start p, plan_free_region_end p) \<and>
     validate_flatpaks (inp_flatpaks input) = Inr (plan_flatpaks p)"
  by (auto simp: build_plan_def Let_def required_device_def split: if_splits)

lemma remdups_snoc: "remdups (xs @ [x]) = filter (\<lambda>y. y \<noteq> x) (remdups xs) @ [x]"
  by (induction xs) auto

lemma keep_first_Cons:
  "rev (remdups (rev (x # xs))) = x # filter (\<lambda>y. y \<noteq> x) (rev (remdups (rev xs)))"
  by (simp add: remdups_snoc rev_filter)

lemma collect_flatpaks_remdups:
  "set ids \<subseteq> set ALLOWED_FLATPAKS \<Longrightarrow>
   collect_flatpaks ids valid = Inr (valid @ filter (\<lambda>i. i \<notin> set valid) (rev (remdups (rev ids))))"
proof (induction ids valid rule: collect_flatpaks.induct)
  case (2 i ids valid)
  then show ?case
    by (cases "i \<in> set valid")
      (auto simp: keep_first_Cons simp del: rev.simps intro!: filter_cong)
qed simp

lemma collect_flatpaks_allowed:
  "collect_flatpaks ids valid = Inr out \<Longrightarrow> set ids \<subseteq> set ALLOWED_FLATPAKS"
  by (induction ids valid rule: collect_flatpaks.induct) (auto split: if_splits)

text \<open>the Flatpak allowlist is exact: a request is accepted when it names at most 64 ids, all of
  them allowed, and then the result is the request with repeats dropped (first occurrence kept).\<close>

theorem validate_flatpaks_iff:
  "validate_flatpaks ids = Inr out \<longleftrightarrow>
     length ids \<le> 64 \<and> set ids \<subseteq> set ALLOWED_FLATPAKS \<and> out = rev (remdups (rev ids))"
  using collect_flatpaks_remdups [of ids "[]"] collect_flatpaks_allowed [of ids "[]" out]
  by (auto simp: validate_flatpaks_def)

text \<open>every plan names a disk that is one level below /dev, with no parent-directory step and
  only the characters the disk tools take verbatim; normalising it again changes nothing.\<close>

theorem build_plan_disk_safe:
  assumes "build_plan input = Inr p"
  shows "(\<exists>b. plan_disk p = dev_prefix @ b \<and> b \<noteq> [] \<and> CHR ''/'' \<notin> set b) \<and>
    list_all path_char (plan_disk p) \<and> \<not> str_contains (plan_disk p) ''..'' \<and>
    normalize_device_path (plan_disk p) = Some (plan_disk p)"
proof -
  from assms have n: "normalize_device_path (inp_disk input) = Some (plan_disk p)"
    by (simp add: build_plan_Inr)
  then show ?thesis
    using plan_device.norm_safe [OF n] plan_device.norm_dots [OF n] plan_device.norm_idem [OF n]
    by (auto simp: normalize_device_path_Some)
qed

text \<open>The range of the request's \<open>i64\<close> fields.\<close>

definition input_in_range :: "installer_plan_input \<Rightarrow> bool" where
  "input_in_range input \<longleftrightarrow>
     (\<forall>f \<in> {inp_resize_gib, inp_free_region_start, inp_free_region_end}.
        i64_min \<le> f input \<and> f input \<le> i64_max)"

text \<open>an accepted plan leaves at least 32 GiB for KythOS in the modes that choose a size, and
  the byte counts are the exact products, with no wrap-around.\<close>

theorem build_plan_size_bounds:
  assumes "build_plan input = Inr p" and "input_in_range input"
  shows "(plan_mode p = ''resize_ntfs'' \<longrightarrow>
            plan_resize_bytes p = nat (inp_resize_gib input) * BYTES_PER_GIB \<and>
            32 * BYTES_PER_GIB \<le> plan_resize_bytes p \<and> plan_resize_bytes p \<le> u64_max) \<and>
         (plan_mode p = ''free_space'' \<longrightarrow>
            (\<exists>s e. plan_free_region_start p = Some s \<and> plan_free_region_end p = Some e \<and>
                   s + 32 * BYTES_PER_GIB \<le> e))"
proof (intro conjI impI)
  note facts = build_plan_Inr [OF assms(1)]
  have range: "inp_resize_gib input \<le> i64_max" "inp_free_region_end input \<le> i64_max"
    "inp_free_region_start input \<le> i64_max"
    using assms(2) by (auto simp: input_in_range_def)
  { assume "plan_mode p = ''resize_ntfs''"
    with facts have g: "32 \<le> inp_resize_gib input"
      and b: "checked_mul (as_u64 (inp_resize_gib input)) BYTES_PER_GIB = Some (plan_resize_bytes p)"
      by (auto simp: plan_resize_def MIN_KYTHOS_GIB_def Let_def split: if_splits)
    from g range(1) b show "plan_resize_bytes p = nat (inp_resize_gib input) * BYTES_PER_GIB"
      and "plan_resize_bytes p \<le> u64_max"
      by (auto simp: checked_mul_def as_u64_small split: if_splits)
    with g show "32 * BYTES_PER_GIB \<le> plan_resize_bytes p" by (simp add: BYTES_PER_GIB_def) }
  { assume "plan_mode p = ''free_space''"
    with facts range have "plan_free_region_start p = Some (nat (inp_free_region_start input))"
      "plan_free_region_end p = Some (nat (inp_free_region_end input))"
      "nat (inp_free_region_start input) + 32 * BYTES_PER_GIB \<le> nat (inp_free_region_end input)"
      by (auto simp: plan_free_region_def MIN_KYTHOS_GIB_def Let_def as_u64_small
          BYTES_PER_GIB_def i64_max_def split: if_splits)
    then show "\<exists>s e. plan_free_region_start p = Some s \<and> plan_free_region_end p = Some e \<and>
        s + 32 * BYTES_PER_GIB \<le> e" by blast }
qed

definition sample_input :: installer_plan_input where
  "sample_input = \<lparr>inp_disk = ''sda'', inp_install_mode = ''Resize_NTFS'',
     inp_target_partition = ''/dev/sda3'', inp_resize_partition = [], inp_resize_gib = 64,
     inp_free_region_start = 0, inp_free_region_end = 0, inp_target_disk_serial = None,
     inp_target_disk_model = None, inp_target_disk_size_bytes = None,
     inp_flatpaks = [''org.gimp.GIMP'', ''org.gimp.GIMP'']\<rparr>"

lemma sample_plan:
  "build_plan sample_input =
     Inr \<lparr>plan_mode = ''resize_ntfs'', plan_disk = ''/dev/sda'', plan_target_partition = None,
          plan_resize_partition = Some ''/dev/sda3'', plan_resize_bytes = 68719476736,
          plan_free_region_start = None, plan_free_region_end = None, plan_pre_shrink_bytes = None,
          plan_target_disk_serial = None, plan_target_disk_model = None,
          plan_target_disk_size_bytes = None, plan_flatpaks = [''org.gimp.GIMP'']\<rparr>"
  by (simp add: build_plan_def sample_input_def Let_def install_modes_def required_device_def
      normalize_device_path_def path_char_def plan_target_def plan_resize_def plan_free_region_def
      MIN_KYTHOS_GIB_def BYTES_PER_GIB_def checked_mul_def u64_max_def as_u64_def
      validate_flatpaks_def ALLOWED_FLATPAKS_def str_simps)

theorem build_plan_disk_safe_witness:
  "plan_disk (projr (build_plan sample_input)) = ''/dev/sda'' \<and>
   normalize_device_path ''/dev/sda'' = Some ''/dev/sda''"
  using build_plan_disk_safe [OF sample_plan] by (simp add: sample_plan)

theorem build_plan_size_bounds_witness:
  "plan_mode (projr (build_plan sample_input)) = ''resize_ntfs'' \<and>
   32 * BYTES_PER_GIB \<le> plan_resize_bytes (projr (build_plan sample_input))"
proof -
  have "input_in_range sample_input"
    by (simp add: input_in_range_def sample_input_def i64_max_def i64_min_def)
  from build_plan_size_bounds [OF sample_plan this] show ?thesis
    by (simp add: sample_plan)
qed

end
