(* ===== verification/Installer_Storage.thy ===== *)
theory Installer_Storage
  imports Installer_Plan "HOL-Library.Product_Lexorder"
begin

text \<open>
  Storage discovery, \<open>installer_storage.rs\<close>: the parsed \<open>lsblk\<close> and \<open>findmnt\<close> trees, the safety
  predicates over them (which disk may be targeted, which partition may be replaced or formatted),
  the free-region computation and the ESP and Windows preflight.  Decoding the JSON text is
  serde's work: a snapshot argument is what \<open>serde_json::from_str\<close> made of the text, either its
  error message or the device list.
\<close>

section \<open>Data\<close>

record lsblk_fields =
  ld_name :: "string option"
  ld_partn :: "nat option"
  ld_size :: "nat option"
  ld_device_type :: "string option"
  ld_pkname :: "string option"
  ld_fstype :: "string option"
  ld_parttype :: "string option"
  ld_label :: "string option"
  ld_model :: "string option"
  ld_mountpoint :: "string option"
  ld_mountpoints_list :: "string option list option"
  ld_start :: "nat option"
  ld_ro :: "bool option"
  ld_rm :: "bool option"
  ld_rota :: "bool option"
  ld_tran :: "string option"
  ld_pttype :: "string option"
  ld_serial :: "string option"
  ld_partuuid :: "string option"

datatype lsblk_device = LsblkDevice (dev: lsblk_fields) (dev_children: "lsblk_device list")

text \<open>\<open>LsblkSnapshot\<close> as decoded, or serde's message.\<close>

type_synonym lsblk_text = "string + lsblk_device list"

datatype findmnt_entry =
  FindmntEntry (fm_target: string) (fm_source: string) (fm_children: "findmnt_entry list")

type_synonym findmnt_text = "string + findmnt_entry list"

record mount_table =
  entries :: "(string \<times> string) list"

record disk_record =
  dr_name :: string
  dr_size_bytes :: nat
  dr_model :: string
  dr_ssd :: bool
  dr_transport :: string
  dr_removable :: bool
  dr_partition_table :: string
  dr_current :: bool

record partition_record =
  pr_name :: string
  pr_size_bytes :: nat
  pr_start_bytes :: nat
  pr_fstype :: string
  pr_label :: string
  pr_parttype :: string
  pr_mountpoints :: "string list"
  pr_efi :: bool
  pr_current :: bool
  pr_in_use :: bool
  pr_read_only :: bool
  pr_alongside_candidate :: bool
  pr_ntfs_resize_candidate :: bool

record free_region_record =
  fr_start_bytes :: nat
  fr_end_bytes :: nat
  fr_size_bytes :: nat

record partition_probe =
  pp_name :: string
  pp_number :: nat
  pp_size_bytes :: nat
  pp_start_bytes :: nat
  pp_fstype :: string
  pp_label :: string
  pp_partuuid :: string
  pp_efi :: bool
  pp_current :: bool
  pp_in_use :: bool
  pp_read_only :: bool

record disk_identity =
  id_serial :: "string option"
  id_model :: "string option"
  id_size_bytes :: "nat option"

record efi_partition =
  efi_name :: string
  mounted_at :: "string option"

record storage_preflight =
  sp_disk :: string
  esp_present :: bool
  esp_name :: string
  windows_present :: bool
  bitlocker_locked :: bool
  checked_partitions :: nat

datatype storage_error =
    FindmntUnparsable string
  | InvalidSnapshot string
  | InvalidQueryDisk
  | InvalidQueryPartition
  | ProbeFailed string
  | DiskNotPresent
  | SerialMismatch
  | ModelMismatch
  | SizeMismatch
  | UnsupportedSectorSize
  | ForeignFilesystem string string string
  | MayHoldData string string string
  | EfiNotUsable string
  | EfiNotFormattable
  | TargetBusy string
  | PartitionTooSmall string
  | AmbiguousEsp
  | PartitionNotPresent
  | PartitionNumberZero
  | IdentityNotPresent
  | GeometryNotPositive
  | NewPartitionInvisible
  | NewPartitionAmbiguous
  | NoBtrfsRoot
  | AmbiguousBtrfsRoot
  | NoBiosBoot
  | BitLockerLocked
  | NoEsp

section \<open>Constants\<close>

definition EFI_PART_GUID :: string where
  "EFI_PART_GUID = ''c12a7328-f81f-11d2-ba4b-00a0c93ec93b''"

definition MIN_KYTHOS_BYTES :: nat where
  "MIN_KYTHOS_BYTES = 32 * 1024 * 1024 * 1024"

definition NTFS_MIN_BYTES :: nat where
  "NTFS_MIN_BYTES = (64 + 32) * 1024 * 1024 * 1024"

definition BIOS_BOOT_GUID :: string where
  "BIOS_BOOT_GUID = ''21686148-6449-6e6f-744e-656564454649''"

definition GPT_RESERVE_BYTES :: nat where
  "GPT_RESERVE_BYTES = 1024 * 1024"

definition REGION_ALIGN_BYTES :: nat where
  "REGION_ALIGN_BYTES = 1024 * 1024"

definition PROTECTED_MOUNT_TARGETS :: "string list" where
  "PROTECTED_MOUNT_TARGETS =
     [''/'', ''/boot'', ''/boot/efi'', ''/sysroot'', ''/run/initramfs/live'', ''/run/initramfs/iso'']"

definition PROTECTED_MOUNT_SUBTREES :: "string list" where
  "PROTECTED_MOUNT_SUBTREES = [''/run/initramfs'', ''/run/media'']"

definition FOREIGN_DATA_FSTYPES :: "string list" where
  "FOREIGN_DATA_FSTYPES =
     [''ntfs'', ''ntfs3'', ''bitlocker'', ''apfs'', ''hfsplus'', ''hfs'', ''exfat'']"

definition WINDOWS_DATA_GUID :: string where
  "WINDOWS_DATA_GUID = ''ebd0a0a2-b9e5-4433-87c0-68b6b72699c7''"

abbreviation unwrap_or :: "'a \<Rightarrow> 'a option \<Rightarrow> 'a" where
  "unwrap_or d v \<equiv> (case v of None \<Rightarrow> d | Some x \<Rightarrow> x)"

section \<open>The mount table\<close>

fun collect_mounts :: "findmnt_entry \<Rightarrow> (string \<times> string) list" where
  "collect_mounts (FindmntEntry t s cs) =
     (if starts_with s dev_prefix then [(t, s)] else []) @ concat (map collect_mounts cs)"

definition mount_table_parse :: "findmnt_text \<Rightarrow> (storage_error, mount_table) res" where
  "mount_table_parse output =
     and_then (map_err FindmntUnparsable output) (\<lambda>tree.
     Inr \<lparr>entries = concat (map collect_mounts tree)\<rparr>)"

fun collect_sources ::
    "(string \<Rightarrow> bool) \<Rightarrow> (string \<times> string) list \<Rightarrow> string list \<Rightarrow> string list" where
  "collect_sources matches [] sources = sources"
| "collect_sources matches ((t, s) # es) sources =
     (if matches t \<and> s \<notin> set sources then collect_sources matches es (sources @ [s])
      else collect_sources matches es sources)"

definition sources_matching :: "(string \<Rightarrow> bool) \<Rightarrow> mount_table \<Rightarrow> string list" where
  "sources_matching matches table = collect_sources matches (entries table) []"

definition sources_at :: "string \<Rightarrow> mount_table \<Rightarrow> string list" where
  "sources_at target table = sources_matching (\<lambda>candidate. candidate = target) table"

definition sources_under :: "string \<Rightarrow> mount_table \<Rightarrow> string list" where
  "sources_under prefix table =
     sources_matching (\<lambda>candidate. candidate = prefix \<or> starts_with candidate (prefix @ ''/'')) table"

definition protected_sources :: "mount_table \<Rightarrow> string list" where
  "protected_sources table =
     concat (map (\<lambda>t. sources_at t table) PROTECTED_MOUNT_TARGETS)
     @ concat (map (\<lambda>p. sources_under p table) PROTECTED_MOUNT_SUBTREES)"

definition current_source :: "mount_table \<Rightarrow> string option" where
  "current_source table = (case sources_at ''/'' table of [] \<Rightarrow> None | s # _ \<Rightarrow> Some s)"

section \<open>Device paths and the snapshot tree\<close>

text \<open>This module's own normaliser: it also admits \<open>/dev/mapper/<name>\<close>.\<close>

definition storage_normalize :: "string \<Rightarrow> string option" where
  "storage_normalize raw =
     (let v = trim raw in
      if v = [] then None
      else
        let v = (if starts_with v dev_prefix then v else dev_prefix @ v);
            basename = (case strip_prefix v dev_prefix of Some b \<Rightarrow> b | None \<Rightarrow> []);
            valid_name = (basename \<noteq> [] \<and>
              (CHR ''/'' \<notin> set basename \<or>
               (case strip_prefix basename ''mapper/'' of
                  None \<Rightarrow> False
                | Some m \<Rightarrow> m \<noteq> [] \<and> CHR ''/'' \<notin> set m)))
        in if \<not> starts_with v dev_prefix \<or> \<not> valid_name \<or> str_contains v ''..''
              \<or> \<not> list_all path_char v
           then None else Some v)"

definition device_name :: "lsblk_device \<Rightarrow> string option" where
  "device_name d = Option.bind (ld_name (dev d)) storage_normalize"

definition mountpoints :: "lsblk_device \<Rightarrow> string list" where
  "mountpoints d =
     (case ld_mountpoints_list (dev d) of
        Some values \<Rightarrow> List.map_filter (\<lambda>v. v) values
      | None \<Rightarrow> (case ld_mountpoint (dev d) of None \<Rightarrow> [] | Some m \<Rightarrow> [m]))"

fun descendant_mountpoints :: "lsblk_device \<Rightarrow> string list" where
  "descendant_mountpoints (LsblkDevice f cs) =
     concat (map (\<lambda>child. mountpoints child @ descendant_mountpoints child) cs)"

definition parse_snapshot :: "lsblk_text \<Rightarrow> (storage_error, lsblk_device list) res" where
  "parse_snapshot input = map_err InvalidSnapshot input"

definition is_disk :: "lsblk_device \<Rightarrow> string \<Rightarrow> bool" where
  "is_disk d disk \<longleftrightarrow> device_name d = Some disk \<and> ld_device_type (dev d) = Some ''disk''"

text \<open>\<open>device_ancestry\<close>: a later entry for the same name replaces an earlier one.\<close>

definition ancestry_entry ::
    "lsblk_device \<Rightarrow> (string \<times> (string \<times> string option)) list
       \<Rightarrow> (string \<times> (string \<times> string option)) list" where
  "ancestry_entry d devices =
     (case device_name d of
        None \<Rightarrow> devices
      | Some n \<Rightarrow>
          map_insert n (unwrap_or [] (ld_device_type (dev d)),
                        Option.bind (ld_pkname (dev d)) storage_normalize) devices)"

fun ancestry_walk ::
    "lsblk_device \<Rightarrow> (string \<times> (string \<times> string option)) list
       \<Rightarrow> (string \<times> (string \<times> string option)) list" where
  "ancestry_walk (LsblkDevice f cs) devices =
     fold ancestry_walk cs (ancestry_entry (LsblkDevice f cs) devices)"

definition device_ancestry ::
    "lsblk_text \<Rightarrow> (storage_error, (string \<times> (string \<times> string option)) list) res" where
  "device_ancestry input =
     and_then (parse_snapshot input) (\<lambda>snapshot. Inr (fold ancestry_walk snapshot []))"

text \<open>The loop of \<open>parent_disk_in_snapshot\<close>: it follows parents until a disk, a missing device or
  a device it has seen before.\<close>

function parent_loop ::
    "(string \<times> (string \<times> string option)) list \<Rightarrow> string list \<Rightarrow> string option \<Rightarrow> string option" where
  "parent_loop devices seen None = None"
| "parent_loop devices seen (Some device) =
     (if device \<in> set seen then None
      else case map_of devices device of
        None \<Rightarrow> None
      | Some (t, parent) \<Rightarrow>
          if t = ''disk'' then Some device
          else parent_loop devices (device # seen) parent)"
  by pat_completeness auto
termination
proof (relation "measure (\<lambda>(devices, seen, cur). card (dom (map_of devices) - set seen))")
  fix devices :: "(string \<times> (string \<times> string option)) list" and seen device t parent x
  assume "device \<notin> set seen" and "map_of devices device = Some x"
  then have "dom (map_of devices) - set (device # seen) \<subset> dom (map_of devices) - set seen"
    by auto
  then have "card (dom (map_of devices) - set (device # seen)) < card (dom (map_of devices) - set seen)"
    by (intro psubset_card_mono) (auto simp: finite_dom_map_of)
  then show "((devices, device # seen, parent), devices, seen, Some device)
      \<in> measure (\<lambda>(devices, seen, cur). card (dom (map_of devices) - set seen))"
    by simp
qed simp

definition parent_disk_in_snapshot ::
    "lsblk_text \<Rightarrow> string \<Rightarrow> (storage_error, string option) res" where
  "parent_disk_in_snapshot input source =
     and_then (device_ancestry input) (\<lambda>devices.
     Inr (parent_loop devices [] (storage_normalize source)))"

definition on_selected_disk :: "string \<Rightarrow> string \<Rightarrow> bool" where
  "on_selected_disk n disk =
     (case strip_prefix n disk of
        None \<Rightarrow> False
      | Some suffix \<Rightarrow>
          suffix \<noteq> [] \<and>
          list_all is_ascii_digit (case strip_prefix suffix ''p'' of Some r \<Rightarrow> r | None \<Rightarrow> suffix))"

section \<open>Disk identity\<close>

definition identity_device :: "lsblk_text \<Rightarrow> string \<Rightarrow> (storage_error, lsblk_device) res" where
  "identity_device input disk =
     and_then (parse_snapshot input) (\<lambda>snapshot.
     ok_or DiskNotPresent (List.find (\<lambda>entry. is_disk entry disk) snapshot))"

definition verify_disk_identity_in_snapshot ::
    "lsblk_text \<Rightarrow> string \<Rightarrow> disk_identity \<Rightarrow> (storage_error, unit) res" where
  "verify_disk_identity_in_snapshot input raw_disk expected =
     and_then (ok_or InvalidQueryDisk (storage_normalize raw_disk)) (\<lambda>disk.
     and_then (identity_device input disk) (\<lambda>device.
     and_then (case id_serial expected of
         None \<Rightarrow> Inr ()
       | Some s \<Rightarrow>
           let actual = trim (unwrap_or [] (ld_serial (dev device)))
           in guard (actual \<noteq> [] \<and> eq_ignore_ascii_case actual (trim s)) SerialMismatch) (\<lambda>_.
     and_then (case id_model expected of
         None \<Rightarrow> Inr ()
       | Some m \<Rightarrow>
           let actual = trim (unwrap_or [] (ld_model (dev device)))
           in guard (actual \<noteq> [] \<and> actual = trim m) ModelMismatch) (\<lambda>_.
     case id_size_bytes expected of
       None \<Rightarrow> Inr ()
     | Some n \<Rightarrow> guard (unwrap_or 0 (ld_size (dev device)) = n) SizeMismatch))))"

text \<open>The two probing entry points; \<open>probe\<close> runs the fixed \<open>lsblk\<close> command on the normalised disk
  and either fails or returns its output.\<close>

definition verify_disk_identity ::
    "(string \<Rightarrow> (storage_error, lsblk_text) res) \<Rightarrow> string \<Rightarrow> disk_identity
       \<Rightarrow> (storage_error, unit) res" where
  "verify_disk_identity probe raw_disk expected =
     and_then (ok_or InvalidQueryDisk (storage_normalize raw_disk)) (\<lambda>disk.
     and_then (probe disk) (\<lambda>snapshot. verify_disk_identity_in_snapshot snapshot disk expected))"

definition nonempty :: "string option \<Rightarrow> string option" where
  "nonempty v = (case v of None \<Rightarrow> None | Some s \<Rightarrow> if trim s = [] then None else Some (trim s))"

definition read_disk_identity ::
    "(string \<Rightarrow> (storage_error, lsblk_text) res) \<Rightarrow> string \<Rightarrow> (storage_error, disk_identity) res" where
  "read_disk_identity probe raw_disk =
     and_then (ok_or InvalidQueryDisk (storage_normalize raw_disk)) (\<lambda>disk.
     and_then (probe disk) (\<lambda>snapshot.
     and_then (identity_device snapshot disk) (\<lambda>device.
     Inr \<lparr>id_serial = nonempty (ld_serial (dev device)),
          id_model = nonempty (ld_model (dev device)),
          id_size_bytes = ld_size (dev device)\<rparr>)))"

section \<open>Partition records and probes\<close>

definition valid_sector_size :: "nat \<Rightarrow> (storage_error, unit) res" where
  "valid_sector_size sector_size =
     guard (is_power_of_two sector_size \<and> 512 \<le> sector_size \<and> sector_size \<le> 4096)
       UnsupportedSectorSize"

definition foreign_data_reason :: "string \<Rightarrow> string \<Rightarrow> string \<Rightarrow> storage_error option" where
  "foreign_data_reason fs raw_label role =
     (let lab = trim raw_label in
      if fs \<in> set FOREIGN_DATA_FSTYPES then Some (ForeignFilesystem role fs lab)
      else if fs \<noteq> [] \<and> \<not> (fs = ''btrfs'' \<and> eq_ignore_ascii_case lab ''kythos'')
      then Some (MayHoldData role fs lab)
      else None)"

definition partition_record_of :: "lsblk_device \<Rightarrow> partition_record option" where
  "partition_record_of d =
     (if ld_device_type (dev d) \<noteq> Some ''part'' then None
      else case device_name d of None \<Rightarrow> None | Some nm \<Rightarrow>
        let size_bytes = unwrap_or 0 (ld_size (dev d));
            fs = to_ascii_lowercase (unwrap_or [] (ld_fstype (dev d)));
            pt = to_ascii_lowercase (unwrap_or [] (ld_parttype (dev d)));
            mounts = mountpoints d @ descendant_mountpoints d;
            efi = (pt = EFI_PART_GUID \<or> fs = ''vfat'' \<and> ''/boot/efi'' \<in> set mounts);
            current = (mounts \<noteq> []);
            in_use = (dev_children d \<noteq> []);
            read_only = unwrap_or False (ld_ro (dev d));
            replaceable = (size_bytes \<ge> MIN_KYTHOS_BYTES \<and> \<not> efi \<and> \<not> current \<and> \<not> in_use \<and> \<not> read_only);
            is_windows = (fs = ''ntfs'' \<or> fs = ''ntfs3'');
            lab = unwrap_or [] (ld_label (dev d))
        in Some
          \<lparr>pr_name = nm, pr_size_bytes = size_bytes,
           pr_start_bytes = saturating_mul (unwrap_or 0 (ld_start (dev d))) 512,
           pr_fstype = fs, pr_label = lab, pr_parttype = pt, pr_mountpoints = mounts,
           pr_efi = efi, pr_current = current, pr_in_use = in_use, pr_read_only = read_only,
           pr_alongside_candidate = (replaceable \<and> foreign_data_reason fs lab [] = None),
           pr_ntfs_resize_candidate = (replaceable \<and> is_windows \<and> size_bytes \<ge> NTFS_MIN_BYTES)\<rparr>)"

fun partition_walk :: "lsblk_device \<Rightarrow> partition_record list" where
  "partition_walk (LsblkDevice f cs) =
     (case partition_record_of (LsblkDevice f cs) of None \<Rightarrow> [] | Some r \<Rightarrow> [r])
     @ concat (map partition_walk cs)"

definition parse_partitions ::
    "lsblk_text \<Rightarrow> nat \<Rightarrow> (storage_error, partition_record list) res" where
  "parse_partitions input sector_size =
     and_then (valid_sector_size sector_size) (\<lambda>_.
     and_then (parse_snapshot input) (\<lambda>snapshot.
     Inr (concat (map partition_walk snapshot))))"

definition probe_of :: "lsblk_device \<Rightarrow> partition_probe option" where
  "probe_of d =
     (case device_name d of None \<Rightarrow> None | Some nm \<Rightarrow>
      case ld_partn (dev d) of None \<Rightarrow> None | Some number \<Rightarrow>
        let fs = to_ascii_lowercase (unwrap_or [] (ld_fstype (dev d)));
            mounts = mountpoints d;
            efi = ((case ld_parttype (dev d) of None \<Rightarrow> False
                      | Some pt \<Rightarrow> eq_ignore_ascii_case pt EFI_PART_GUID)
                   \<or> fs = ''vfat'' \<and> ''/boot/efi'' \<in> set mounts)
        in Some
          \<lparr>pp_name = nm, pp_number = number, pp_size_bytes = unwrap_or 0 (ld_size (dev d)),
           pp_start_bytes = saturating_mul (unwrap_or 0 (ld_start (dev d))) 512,
           pp_fstype = fs, pp_label = unwrap_or [] (ld_label (dev d)),
           pp_partuuid = unwrap_or [] (ld_partuuid (dev d)),
           pp_efi = efi, pp_current = (mounts \<noteq> []), pp_in_use = (dev_children d \<noteq> []),
           pp_read_only = unwrap_or False (ld_ro (dev d))\<rparr>)"

fun find_partition :: "string \<Rightarrow> lsblk_device \<Rightarrow> partition_probe option" where
  "find_partition wanted (LsblkDevice f cs) =
     (if ld_device_type f = Some ''part'' \<and> device_name (LsblkDevice f cs) = Some wanted
      then probe_of (LsblkDevice f cs)
      else find_map (find_partition wanted) cs)"

definition partition_probe_from_snapshot ::
    "lsblk_text \<Rightarrow> string \<Rightarrow> string \<Rightarrow> nat \<Rightarrow> (storage_error, partition_probe) res" where
  "partition_probe_from_snapshot input raw_disk raw_partition sector_size =
     and_then (valid_sector_size sector_size) (\<lambda>_.
     and_then (ok_or InvalidQueryDisk (storage_normalize raw_disk)) (\<lambda>disk.
     and_then (ok_or InvalidQueryPartition (storage_normalize raw_partition)) (\<lambda>partition.
     and_then (parse_snapshot input) (\<lambda>snapshot.
     and_then (ok_or DiskNotPresent (List.find (\<lambda>d. is_disk d disk) snapshot)) (\<lambda>root.
     ok_or PartitionNotPresent (find_partition partition root))))))"

definition validate_replace_target ::
    "lsblk_text \<Rightarrow> string \<Rightarrow> string \<Rightarrow> string \<Rightarrow> nat \<Rightarrow> (storage_error, partition_probe) res" where
  "validate_replace_target input disk part role sector_size =
     and_then (partition_probe_from_snapshot input disk part sector_size) (\<lambda>probe.
     if pp_efi probe then Inl (EfiNotUsable role)
     else if pp_current probe \<or> pp_in_use probe \<or> pp_read_only probe then Inl (TargetBusy role)
     else if pp_size_bytes probe < MIN_KYTHOS_BYTES then Inl (PartitionTooSmall role)
     else case foreign_data_reason (pp_fstype probe) (pp_label probe) role of
       Some reason \<Rightarrow> Inl reason
     | None \<Rightarrow> Inr probe)"

definition validate_format_target ::
    "lsblk_text \<Rightarrow> string \<Rightarrow> string \<Rightarrow> nat \<Rightarrow> (storage_error, partition_probe) res" where
  "validate_format_target input disk part sector_size =
     and_then (partition_probe_from_snapshot input disk part sector_size) (\<lambda>probe.
     if pp_efi probe then Inl EfiNotFormattable
     else if pp_current probe \<or> pp_in_use probe \<or> pp_read_only probe
     then Inl (TargetBusy ''partition'')
     else Inr probe)"

text \<open>\<open>found\<close> is overwritten by every matching device, so the last one decides.\<close>

definition partuuid_step :: "string \<Rightarrow> nat \<Rightarrow> lsblk_device \<Rightarrow> string option \<Rightarrow> string option" where
  "partuuid_step disk part_num d found =
     (if ld_device_type (dev d) = Some ''part'' \<and> ld_partn (dev d) = Some part_num then
        (case device_name d of
           None \<Rightarrow> found
         | Some n \<Rightarrow> if on_selected_disk n disk then nonempty (ld_partuuid (dev d)) else found)
      else found)"

fun partuuid_walk :: "string \<Rightarrow> nat \<Rightarrow> lsblk_device \<Rightarrow> string option \<Rightarrow> string option" where
  "partuuid_walk disk part_num (LsblkDevice f cs) found =
     fold (partuuid_walk disk part_num) cs
       (partuuid_step disk part_num (LsblkDevice f cs) found)"

definition partuuid_for_partition_number ::
    "lsblk_text \<Rightarrow> string \<Rightarrow> nat \<Rightarrow> (storage_error, string) res" where
  "partuuid_for_partition_number input raw_disk part_num =
     and_then (ok_or InvalidQueryDisk (storage_normalize raw_disk)) (\<lambda>disk.
     if part_num = 0 then Inl PartitionNumberZero
     else and_then (parse_snapshot input) (\<lambda>snapshot.
          ok_or IdentityNotPresent (fold (partuuid_walk disk part_num) snapshot None)))"

definition new_partition_from_snapshots ::
    "lsblk_text \<Rightarrow> lsblk_text \<Rightarrow> nat \<Rightarrow> nat \<Rightarrow> nat \<Rightarrow> (storage_error, string) res" where
  "new_partition_from_snapshots before after start_bytes size_bytes sector_size =
     (if start_bytes = 0 \<or> size_bytes = 0 then Inl GeometryNotPositive
      else and_then (parse_partitions before sector_size) (\<lambda>prior_parts.
        let prior = map pr_name prior_parts; tolerance = 1024 * 1024 in
        and_then (parse_partitions after sector_size) (\<lambda>parts.
        case filter (\<lambda>p. pr_name p \<notin> set prior
                   \<and> abs_diff (pr_start_bytes p) start_bytes \<le> tolerance
                   \<and> abs_diff (pr_size_bytes p) size_bytes \<le> tolerance) parts of
          [] \<Rightarrow> Inl NewPartitionInvisible
        | [p] \<Rightarrow> Inr (pr_name p)
        | _ \<Rightarrow> Inl NewPartitionAmbiguous)))"

definition has_bios_boot_partition :: "lsblk_text \<Rightarrow> nat \<Rightarrow> (storage_error, bool) res" where
  "has_bios_boot_partition input sector_size =
     and_then (parse_partitions input sector_size) (\<lambda>parts.
     Inr (list_ex (\<lambda>p. eq_ignore_ascii_case (pr_parttype p) BIOS_BOOT_GUID) parts))"

section \<open>Disks\<close>

definition disk_record_of ::
    "string list \<Rightarrow> string option \<Rightarrow> lsblk_device \<Rightarrow> disk_record option" where
  "disk_record_of protected current_disk d =
     (if ld_device_type (dev d) \<noteq> Some ''disk'' then None
      else case device_name d of None \<Rightarrow> None | Some n \<Rightarrow>
        let size_bytes = unwrap_or 0 (ld_size (dev d)) in
        if size_bytes = 0 \<or> unwrap_or False (ld_ro (dev d)) \<or> n \<in> set protected then None
        else Some
          \<lparr>dr_name = n, dr_size_bytes = size_bytes,
           dr_model = trim (unwrap_or ''Unknown drive'' (ld_model (dev d))),
           dr_ssd = (\<not> unwrap_or False (ld_rota (dev d))),
           dr_transport = unwrap_or [] (ld_tran (dev d)),
           dr_removable = unwrap_or False (ld_rm (dev d)),
           dr_partition_table = to_ascii_lowercase (unwrap_or [] (ld_pttype (dev d))),
           dr_current = (current_disk = Some n)\<rparr>)"

definition parse_disks ::
    "lsblk_text \<Rightarrow> string list \<Rightarrow> string option \<Rightarrow> (storage_error, disk_record list) res" where
  "parse_disks input protected current_disk =
     and_then (parse_snapshot input) (\<lambda>snapshot.
     Inr (List.map_filter (disk_record_of protected current_disk) snapshot))"

fun protected_disks ::
    "lsblk_text \<Rightarrow> string list \<Rightarrow> string list \<Rightarrow> (storage_error, string list) res" where
  "protected_disks ancestry [] protected = Inr protected"
| "protected_disks ancestry (source # sources) protected =
     and_then (parent_disk_in_snapshot ancestry source) (\<lambda>disk.
     protected_disks ancestry sources
       (case disk of None \<Rightarrow> protected | Some d \<Rightarrow> fst (set_insert d protected)))"

definition runtime_disks_from_snapshots ::
    "lsblk_text \<Rightarrow> lsblk_text \<Rightarrow> string list \<Rightarrow> string option
       \<Rightarrow> (storage_error, disk_record list) res" where
  "runtime_disks_from_snapshots disk_snapshot ancestry_snapshot sources current =
     and_then (protected_disks ancestry_snapshot sources []) (\<lambda>protected.
     and_then (case current of
         None \<Rightarrow> Inr None
       | Some source \<Rightarrow> parent_disk_in_snapshot ancestry_snapshot source) (\<lambda>current_disk.
     parse_disks disk_snapshot protected current_disk))"

definition disk_metadata :: "lsblk_text \<Rightarrow> string \<Rightarrow> (storage_error, nat \<times> bool) res" where
  "disk_metadata input raw_disk =
     and_then (parse_snapshot input) (\<lambda>snapshot.
     and_then (ok_or InvalidQueryDisk (storage_normalize raw_disk)) (\<lambda>target.
     ok_or DiskNotPresent
       (find_map (\<lambda>entry.
          if is_disk entry target
          then Some (unwrap_or 0 (ld_size (dev entry)),
                     eq_ignore_ascii_case (unwrap_or [] (ld_pttype (dev entry))) ''gpt'')
          else None) snapshot)))"

fun collect_btrfs :: "lsblk_device \<Rightarrow> string list" where
  "collect_btrfs (LsblkDevice f cs) =
     (case ld_fstype f of
        None \<Rightarrow> []
      | Some fs \<Rightarrow>
          if eq_ignore_ascii_case fs ''btrfs''
          then (case device_name (LsblkDevice f cs) of None \<Rightarrow> [] | Some n \<Rightarrow> [n]) else [])
     @ concat (map collect_btrfs cs)"

definition root_partition_from_snapshot :: "lsblk_text \<Rightarrow> string \<Rightarrow> (storage_error, string) res" where
  "root_partition_from_snapshot input raw_disk =
     and_then (ok_or InvalidQueryDisk (storage_normalize raw_disk)) (\<lambda>disk.
     and_then (parse_snapshot input) (\<lambda>snapshot.
     and_then (ok_or DiskNotPresent (List.find (\<lambda>d. is_disk d disk) snapshot)) (\<lambda>root.
     case collect_btrfs root of
       [part] \<Rightarrow> Inr part
     | [] \<Rightarrow> Inl NoBtrfsRoot
     | _ \<Rightarrow> Inl AmbiguousBtrfsRoot)))"

section \<open>Free regions\<close>

definition append_region ::
    "free_region_record list \<Rightarrow> nat \<Rightarrow> nat \<Rightarrow> nat \<Rightarrow> nat \<Rightarrow> free_region_record list" where
  "append_region regions s e sector_size required =
     (let align = max sector_size REGION_ALIGN_BYTES;
          aligned_start = div_ceil s align * align;
          aligned_end = (e div align) * align
      in if aligned_end > aligned_start \<and> aligned_end - aligned_start \<ge> required
         then regions @ [\<lparr>fr_start_bytes = aligned_start, fr_end_bytes = aligned_end,
                          fr_size_bytes = aligned_end - aligned_start\<rparr>]
         else regions)"

text \<open>The sweep over the sorted spans; the result is the regions and the final cursor.\<close>

fun sweep ::
    "nat \<Rightarrow> nat \<Rightarrow> (nat \<times> nat) list \<Rightarrow> nat \<Rightarrow> free_region_record list
       \<Rightarrow> free_region_record list \<times> nat" where
  "sweep sector_size required [] cursor regions = (regions, cursor)"
| "sweep sector_size required ((s, e) # spans) cursor regions =
     sweep sector_size required spans (max cursor e)
       (if s > cursor then append_region regions cursor s sector_size required else regions)"

text \<open>\<open>None\<close> is the early \<open>return Ok(Vec::new())\<close> for a partition whose geometry makes no sense.\<close>

fun collect_spans :: "nat \<Rightarrow> nat \<Rightarrow> partition_record list \<Rightarrow> (nat \<times> nat) list option" where
  "collect_spans disk_size sector_size [] = Some []"
| "collect_spans disk_size sector_size (p # ps) =
     (if pr_size_bytes p = 0 \<or> pr_start_bytes p > disk_size
         \<or> pr_size_bytes p > saturating_sub disk_size (pr_start_bytes p)
      then None
      else
        let s = (pr_start_bytes p div sector_size) * sector_size;
            n = (pr_size_bytes p div sector_size) * sector_size
        in if n = 0 \<or> s > saturating_sub disk_size n then None
           else map_option (\<lambda>rest. (s, s + n) # rest) (collect_spans disk_size sector_size ps))"

definition required_bytes :: "bool \<Rightarrow> partition_record list \<Rightarrow> nat" where
  "required_bytes is_gpt parts =
     MIN_KYTHOS_BYTES +
     (if is_gpt \<and> \<not> list_ex (\<lambda>p. eq_ignore_ascii_case (pr_parttype p) BIOS_BOOT_GUID) parts
      then GPT_RESERVE_BYTES else 0)"

definition regions_between ::
    "nat \<Rightarrow> nat \<Rightarrow> nat \<Rightarrow> (nat \<times> nat) list \<Rightarrow> free_region_record list" where
  "regions_between disk_size sector_size required spans =
     (let usable_end = disk_size - GPT_RESERVE_BYTES;
          (regions, cursor) = sweep sector_size required (sort spans) GPT_RESERVE_BYTES []
      in if cursor < usable_end
         then append_region regions cursor usable_end sector_size required
         else regions)"

definition free_regions ::
    "lsblk_text \<Rightarrow> string \<Rightarrow> nat \<Rightarrow> (storage_error, free_region_record list) res" where
  "free_regions disk_snapshot raw_disk sector_size =
     and_then (valid_sector_size sector_size) (\<lambda>_.
     and_then (disk_metadata disk_snapshot raw_disk) (\<lambda>(disk_size, is_gpt).
     if disk_size \<le> saturating_mul GPT_RESERVE_BYTES 2 then Inr []
     else and_then (parse_partitions disk_snapshot sector_size) (\<lambda>parts.
          and_then (ok_or InvalidQueryDisk (storage_normalize raw_disk)) (\<lambda>selected_disk.
          case collect_spans disk_size sector_size
                 (filter (\<lambda>p. on_selected_disk (pr_name p) selected_disk) parts) of
            None \<Rightarrow> Inr []
          | Some spans \<Rightarrow>
              Inr (regions_between disk_size sector_size (required_bytes is_gpt parts) spans)))))"

definition contains_free_region ::
    "lsblk_text \<Rightarrow> string \<Rightarrow> nat \<Rightarrow> nat \<Rightarrow> nat \<Rightarrow> (storage_error, bool) res" where
  "contains_free_region input disk s e sector_size =
     (if e \<le> s then Inr False
      else and_then (free_regions input disk sector_size) (\<lambda>regions.
           Inr (list_ex (\<lambda>r. s \<ge> fr_start_bytes r \<and> e \<le> fr_end_bytes r) regions)))"

section \<open>ESP, BIOS boot and the preflight\<close>

definition first_safe_mountpoint :: "string list \<Rightarrow> string option" where
  "first_safe_mountpoint mounts =
     List.find (\<lambda>m. starts_with m ''/'' \<and> \<not> str_contains m ''..'' \<and> \<not> str_contains m ''//'') mounts"

definition resolve_esp :: "efi_partition list \<Rightarrow> (storage_error, efi_partition option) res" where
  "resolve_esp candidates =
     (case candidates of
        [] \<Rightarrow> Inr None
      | [efi] \<Rightarrow> Inr (Some efi)
      | _ \<Rightarrow> (case filter (\<lambda>efi. mounted_at efi = Some ''/boot/efi'') candidates of
                [efi] \<Rightarrow> Inr (Some efi)
              | _ \<Rightarrow> Inl AmbiguousEsp))"

definition efi_candidates :: "string \<Rightarrow> partition_record list \<Rightarrow> efi_partition list" where
  "efi_candidates disk parts =
     map (\<lambda>p. \<lparr>efi_name = pr_name p, mounted_at = first_safe_mountpoint (pr_mountpoints p)\<rparr>)
       (filter (\<lambda>p. pr_efi p \<and> on_selected_disk (pr_name p) disk) parts)"

definition efi_partition_from_snapshot ::
    "lsblk_text \<Rightarrow> string \<Rightarrow> nat \<Rightarrow> (storage_error, efi_partition option) res" where
  "efi_partition_from_snapshot input raw_disk sector_size =
     and_then (ok_or InvalidQueryDisk (storage_normalize raw_disk)) (\<lambda>disk.
     and_then (parse_partitions input sector_size) (\<lambda>parts.
     resolve_esp (efi_candidates disk parts)))"

definition validate_alongside_bios_boot ::
    "lsblk_text \<Rightarrow> string \<Rightarrow> bool \<Rightarrow> nat \<Rightarrow> (storage_error, unit) res" where
  "validate_alongside_bios_boot input raw_disk uefi_boot sector_size =
     (if uefi_boot then Inr ()
      else and_then (disk_metadata input raw_disk) (\<lambda>(_, is_gpt).
        if \<not> is_gpt then Inr ()
        else and_then (ok_or InvalidQueryDisk (storage_normalize raw_disk)) (\<lambda>disk.
             and_then (parse_partitions input sector_size) (\<lambda>parts.
             guard (list_ex (\<lambda>p. on_selected_disk (pr_name p) disk
                        \<and> eq_ignore_ascii_case (pr_parttype p) BIOS_BOOT_GUID) parts)
               NoBiosBoot))))"

definition is_ntfs :: "string \<Rightarrow> bool" where
  "is_ntfs fs \<longleftrightarrow> fs = ''ntfs'' \<or> fs = ''ntfs3''"

definition windows_indicator :: "partition_record \<Rightarrow> bool" where
  "windows_indicator p \<longleftrightarrow>
     is_ntfs (pr_fstype p) \<or> pr_parttype p = WINDOWS_DATA_GUID
     \<or> str_contains (to_ascii_lowercase (pr_label p)) ''windows''"

definition bitlocker_indicator :: "partition_record \<Rightarrow> bool" where
  "bitlocker_indicator p \<longleftrightarrow>
     pr_fstype p = ''bitlocker'' \<or> is_ntfs (pr_fstype p) \<and> pr_in_use p"

definition storage_preflight_from_snapshot ::
    "lsblk_text \<Rightarrow> string \<Rightarrow> nat \<Rightarrow> (storage_error, storage_preflight) res" where
  "storage_preflight_from_snapshot input raw_disk sector_size =
     and_then (ok_or InvalidQueryDisk (storage_normalize raw_disk)) (\<lambda>disk.
     and_then (parse_partitions input sector_size) (\<lambda>all_parts.
     let parts = filter (\<lambda>p. on_selected_disk (pr_name p) disk) all_parts in
     and_then (resolve_esp (efi_candidates disk parts)) (\<lambda>esp.
     Inr \<lparr>sp_disk = disk, esp_present = (esp \<noteq> None),
          esp_name = (case esp of None \<Rightarrow> [] | Some e \<Rightarrow> efi_name e),
          windows_present = list_ex windows_indicator parts,
          bitlocker_locked = list_ex bitlocker_indicator parts,
          checked_partitions = length parts\<rparr>)))"

definition validate_storage_preflight ::
    "storage_preflight \<Rightarrow> string \<Rightarrow> (storage_error, unit) res" where
  "validate_storage_preflight preflight install_mode =
     (if bitlocker_locked preflight then Inl BitLockerLocked
      else if install_mode \<noteq> ''wipe'' \<and> \<not> esp_present preflight then Inl NoEsp
      else Inr ())"

end
