(* ===== verification/Storage_Regions.thy ===== *)
theory Storage_Regions
  imports Installer_Storage
begin

text \<open>
  Free-region correctness.  \<open>free_region_spec\<close> is the abstract contract: which intervals of a disk
  an installation may use.  The sweep of \<open>free_regions\<close> is sound for it (every region it reports
  satisfies the contract) and complete (every admissible interval lies in a reported region).
\<close>

definition disjoint_spans :: "nat \<times> nat \<Rightarrow> nat \<times> nat \<Rightarrow> bool" where
  "disjoint_spans a b \<longleftrightarrow> snd a \<le> fst b \<or> snd b \<le> fst a"

definition free_region_spec ::
    "nat \<Rightarrow> nat \<Rightarrow> nat \<Rightarrow> (nat \<times> nat) set \<Rightarrow> nat \<times> nat \<Rightarrow> bool" where
  "free_region_spec disk_size align required spans r \<longleftrightarrow>
     GPT_RESERVE_BYTES \<le> fst r \<and>
     (snd r \<le> disk_size - GPT_RESERVE_BYTES \<or> (\<exists>s \<in> spans. snd r \<le> fst s)) \<and>
     align dvd fst r \<and> align dvd snd r \<and> fst r < snd r \<and> required \<le> snd r - fst r \<and>
     (\<forall>s \<in> spans. disjoint_spans s r)"

abbreviation interval :: "free_region_record \<Rightarrow> nat \<times> nat" where
  "interval r \<equiv> (fr_start_bytes r, fr_end_bytes r)"

definition region_align :: "nat \<Rightarrow> nat" where
  "region_align sector_size = max sector_size REGION_ALIGN_BYTES"

lemma region_align_pos [simp]: "0 < region_align n"
  by (simp add: region_align_def REGION_ALIGN_BYTES_def max_def)

lemma append_region_eq:
  "append_region regions s e ss req =
     (if div_ceil s (region_align ss) * region_align ss < e div region_align ss * region_align ss
         \<and> req \<le> e div region_align ss * region_align ss - div_ceil s (region_align ss) * region_align ss
      then regions @ [\<lparr>fr_start_bytes = div_ceil s (region_align ss) * region_align ss,
                       fr_end_bytes = e div region_align ss * region_align ss,
                       fr_size_bytes = e div region_align ss * region_align ss
                         - div_ceil s (region_align ss) * region_align ss\<rparr>]
      else regions)"
  by (simp only: append_region_def region_align_def Let_def)

lemma append_region_mono: "set regions \<subseteq> set (append_region regions s e ss req)"
  by (auto simp: append_region_eq)

lemma append_region_sound:
  assumes "r \<in> set (append_region regions s e ss req)"
  shows "r \<in> set regions \<or>
    s \<le> fr_start_bytes r \<and> fr_end_bytes r \<le> e \<and> region_align ss dvd fr_start_bytes r \<and>
    region_align ss dvd fr_end_bytes r \<and> fr_start_bytes r < fr_end_bytes r \<and>
    req \<le> fr_end_bytes r - fr_start_bytes r \<and>
    fr_size_bytes r = fr_end_bytes r - fr_start_bytes r"
proof -
  let ?al = "region_align ss"
  have "s \<le> div_ceil s ?al * ?al" and "e div ?al * ?al \<le> e"
    by (simp_all add: div_ceil_le)
  with assms show ?thesis
    by (cases "r \<in> set regions") (simp_all add: append_region_eq split: if_splits)
qed

lemma div_ceil_least: "0 < a \<Longrightarrow> a dvd x \<Longrightarrow> s \<le> x \<Longrightarrow> div_ceil s a * a \<le> (x :: nat)"
proof -
  assume a: "0 < a" and d: "a dvd x" and sx: "s \<le> x"
  from d obtain k where k: "x = k * a" by (auto simp: dvd_def mult.commute)
  have "div_ceil s a \<le> k"
  proof (cases "s mod a = 0")
    case True
    then have "s = s div a * a" by auto
    with sx k have "s div a * a \<le> k * a" by simp
    with a True show ?thesis by (simp add: div_ceil_def)
  next
    case False
    have eq: "s div a * a + s mod a = s" by simp
    with False have "s div a * a < s" by linarith
    with sx k have "s div a * a < k * a" by linarith
    with a False show ?thesis by (simp add: div_ceil_def)
  qed
  with k show ?thesis by simp
qed

lemma div_mult_greatest: "a dvd x \<Longrightarrow> x \<le> e \<Longrightarrow> x \<le> e div a * (a :: nat)"
  by (metis div_le_mono dvd_div_mult_self mult_le_mono1)

lemma append_region_complete:
  assumes "s \<le> fst i" and "snd i \<le> e" and "region_align ss dvd fst i" and "region_align ss dvd snd i"
    and "fst i < snd i" and "req \<le> snd i - fst i"
  shows "\<exists>r \<in> set (append_region regions s e ss req).
    fr_start_bytes r \<le> fst i \<and> snd i \<le> fr_end_bytes r"
proof -
  let ?al = "region_align ss"
  have lo: "div_ceil s ?al * ?al \<le> fst i" using assms by (intro div_ceil_least) auto
  have hi: "snd i \<le> e div ?al * ?al" using assms by (intro div_mult_greatest) auto
  from lo hi assms(5,6) have "div_ceil s ?al * ?al < e div ?al * ?al"
    and "req \<le> e div ?al * ?al - div_ceil s ?al * ?al" by linarith+
  with lo hi show ?thesis by (simp add: append_region_eq)
qed

section \<open>The sweep\<close>

lemma sweep_mono: "sweep ss req spans c regions = (out, c') \<Longrightarrow> set regions \<subseteq> set out"
proof (induction ss req spans c regions rule: sweep.induct)
  case (2 ss req s e spans c regions)
  then have "set (if s > c then append_region regions c s ss req else regions) \<subseteq> set out" by simp
  moreover have "set regions \<subseteq> set (if s > c then append_region regions c s ss req else regions)"
    using append_region_mono by auto
  ultimately show ?case by blast
qed simp

lemma sweep_cursor:
  "sweep ss req spans c regions = (out, c') \<Longrightarrow> c \<le> c' \<and> (\<forall>sp \<in> set spans. snd sp \<le> c')"
  by (induction ss req spans c regions rule: sweep.induct) auto

lemma sweep_sound:
  assumes "sweep ss req spans c regions = (out, c')" and "sorted (map fst spans)"
    and "\<forall>r \<in> set regions. free_region_spec n (region_align ss) req all (interval r)"
    and "GPT_RESERVE_BYTES \<le> c" and "\<forall>sp \<in> all. snd sp \<le> c \<or> sp \<in> set spans"
    and "set spans \<subseteq> all"
  shows "\<forall>r \<in> set out. free_region_spec n (region_align ss) req all (interval r)"
  using assms
proof (induction ss req spans c regions rule: sweep.induct)
  case (1 ss req c regions)
  then show ?case by simp
next
  case (2 ss req s e spans c regions)
  let ?regions = "if s > c then append_region regions c s ss req else regions"
  have new: "free_region_spec n (region_align ss) req all (interval r)" if r: "r \<in> set ?regions" for r
  proof (cases "r \<in> set regions")
    case True
    with 2 show ?thesis by blast
  next
    case False
    with r have "s > c" and app: "r \<in> set (append_region regions c s ss req)"
      by (auto split: if_splits)
    from app False have *: "c \<le> fr_start_bytes r" "fr_end_bytes r \<le> s"
      "region_align ss dvd fr_start_bytes r" "region_align ss dvd fr_end_bytes r"
      "fr_start_bytes r < fr_end_bytes r" "req \<le> fr_end_bytes r - fr_start_bytes r"
      using append_region_sound by blast+
    have "disjoint_spans sp (interval r)" if "sp \<in> all" for sp
      using that * 2(6) 2(3) by (fastforce simp: disjoint_spans_def)
    moreover from 2(7) * have "\<exists>sp \<in> all. fr_end_bytes r \<le> fst sp"
      by (intro bexI [of _ "(s, e)"]) auto
    ultimately show ?thesis using * 2(5) by (simp add: free_region_spec_def)
  qed
  show ?case
    by (rule 2(1)) (use 2 new in \<open>auto simp: le_max_iff_disj\<close>)
qed

lemma sweep_complete:
  assumes "sweep ss req spans c regions = (out, c')" and "sorted (map fst spans)"
    and "\<forall>sp \<in> set spans. disjoint_spans sp i \<and> fst sp < snd sp"
    and "c \<le> fst i" and "region_align ss dvd fst i" and "region_align ss dvd snd i"
    and "fst i < snd i" and "req \<le> snd i - fst i"
  shows "(\<exists>r \<in> set out. fr_start_bytes r \<le> fst i \<and> snd i \<le> fr_end_bytes r) \<or>
    c' \<le> fst i \<and> (\<forall>sp \<in> set spans. snd sp \<le> fst i)"
  using assms
proof (induction ss req spans c regions rule: sweep.induct)
  case (1 ss req c regions)
  then show ?case by simp
next
  case (2 ss req s e spans c regions)
  show ?case
  proof (cases "snd i \<le> s")
    case True
    with 2 have "s > c" by linarith
    with 2 True append_region_complete [of c i s ss req regions]
    have "\<exists>r \<in> set (append_region regions c s ss req).
        fr_start_bytes r \<le> fst i \<and> snd i \<le> fr_end_bytes r" by simp
    moreover from 2(2) \<open>s > c\<close> have "set (append_region regions c s ss req) \<subseteq> set out"
      using sweep_mono by fastforce
    ultimately show ?thesis by blast
  next
    case False
    with 2 have "e \<le> fst i" by (auto simp: disjoint_spans_def)
    with 2 show ?thesis by simp
  qed
qed

lemma sorted_fst_sort: "sorted (map fst (sort (spans :: (nat \<times> nat) list)))"
proof -
  have "sorted (sort spans)" by simp
  then have "sorted_wrt (\<lambda>a b. fst a \<le> fst b) (sort spans)"
    by (rule sorted_wrt_mono_rel [rotated]) (auto simp: less_eq_prod_def)
  then show ?thesis by (simp add: sorted_map)
qed

lemma regions_between_sound:
  assumes "r \<in> set (regions_between n ss req spans)"
  shows "free_region_spec n (region_align ss) req (set spans) (interval r)"
proof -
  obtain regions c where sw: "sweep ss req (sort spans) GPT_RESERVE_BYTES [] = (regions, c)"
    by fastforce
  have all: "\<forall>r \<in> set regions. free_region_spec n (region_align ss) req (set spans) (interval r)"
    by (rule sweep_sound [OF sw sorted_fst_sort]) auto
  from sweep_cursor [OF sw] have c: "GPT_RESERVE_BYTES \<le> c" "\<forall>sp \<in> set spans. snd sp \<le> c" by auto
  show ?thesis
  proof (cases "r \<in> set regions")
    case True
    with all show ?thesis by blast
  next
    case False
    with assms sw have "r \<in> set (append_region regions c (n - GPT_RESERVE_BYTES) ss req)"
      by (auto simp: regions_between_def Let_def split: if_splits)
    from append_region_sound [OF this] False c show ?thesis
      by (auto simp: free_region_spec_def disjoint_spans_def)
  qed
qed

lemma regions_between_complete:
  assumes spec: "free_region_spec n (region_align ss) req (set spans) i"
    and spans: "\<forall>sp \<in> set spans. fst sp < snd sp"
  shows "\<exists>r \<in> set (regions_between n ss req spans). fr_start_bytes r \<le> fst i \<and> snd i \<le> fr_end_bytes r"
proof -
  obtain regions c where sw: "sweep ss req (sort spans) GPT_RESERVE_BYTES [] = (regions, c)"
    by fastforce
  have "set regions \<subseteq> set (regions_between n ss req spans)"
    using sw append_region_mono [of regions] by (auto simp: regions_between_def Let_def)
  moreover from sweep_complete [OF sw sorted_fst_sort, of i] spec spans
  have "(\<exists>r \<in> set regions. fr_start_bytes r \<le> fst i \<and> snd i \<le> fr_end_bytes r) \<or>
      c \<le> fst i \<and> (\<forall>sp \<in> set spans. snd sp \<le> fst i)"
    by (auto simp: free_region_spec_def)
  moreover have ?thesis if *: "c \<le> fst i" "\<forall>sp \<in> set spans. snd sp \<le> fst i"
  proof -
    have "\<not> (\<exists>s \<in> set spans. snd i \<le> fst s)"
    proof
      assume "\<exists>s \<in> set spans. snd i \<le> fst s"
      then obtain s where "s \<in> set spans" "snd i \<le> fst s" by blast
      with *(2) spans spec show False by (fastforce simp: free_region_spec_def)
    qed
    with spec have "snd i \<le> n - GPT_RESERVE_BYTES" by (simp add: free_region_spec_def)
    with spec * have "c < n - GPT_RESERVE_BYTES" by (auto simp: free_region_spec_def)
    then show ?thesis
      using append_region_complete [of c i "n - GPT_RESERVE_BYTES" ss req regions] sw spec *
        \<open>snd i \<le> n - GPT_RESERVE_BYTES\<close>
      by (simp add: regions_between_def free_region_spec_def)
  qed
  ultimately show ?thesis by blast
qed

section \<open>Soundness and completeness of the query\<close>

definition span_of :: "nat \<Rightarrow> partition_record \<Rightarrow> nat \<times> nat" where
  "span_of ss p = (pr_start_bytes p div ss * ss, pr_start_bytes p div ss * ss + pr_size_bytes p div ss * ss)"

lemma collect_spans_Some:
  "collect_spans n ss ps = Some spans \<Longrightarrow>
   spans = map (span_of ss) ps \<and> (\<forall>sp \<in> set spans. fst sp < snd sp \<and> snd sp \<le> n)"
proof (induction ps arbitrary: spans)
  case (Cons p ps)
  let ?s = "pr_start_bytes p div ss * ss" and ?n = "pr_size_bytes p div ss * ss"
  from Cons.prems obtain rest where "collect_spans n ss ps = Some rest"
      "spans = (?s, ?s + ?n) # rest" "?n \<noteq> 0" "?s \<le> n - ?n" "pr_size_bytes p \<le> n"
    by (auto simp: Let_def saturating_sub_def split: if_splits)
  moreover have "?n \<le> pr_size_bytes p" by simp
  ultimately have "?s + ?n \<le> n" and "spans = span_of ss p # rest" and "0 < ?n"
    and "collect_spans n ss ps = Some rest" unfolding span_of_def by (linarith, blast, linarith, blast)
  with Cons.IH [of rest] show ?case by (simp add: span_of_def)
qed simp

lemma valid_sector_size_iff: "valid_sector_size ss = Inr u \<longleftrightarrow> ss \<in> {512, 1024, 2048, 4096}"
  using sector_power_of_two [of ss] by (simp add: valid_sector_size_def)

lemma region_align_valid: "valid_sector_size ss = Inr u \<Longrightarrow> region_align ss = 1024 * 1024"
  by (auto simp: valid_sector_size_iff region_align_def REGION_ALIGN_BYTES_def)

lemma free_regions_Inr:
  assumes "free_regions input disk ss = Inr rs" and "r \<in> set rs"
  shows "\<exists>n gpt parts sel spans.
    valid_sector_size ss = Inr () \<and> disk_metadata input disk = Inr (n, gpt) \<and>
    parse_partitions input ss = Inr parts \<and> storage_normalize disk = Some sel \<and>
    collect_spans n ss (filter (\<lambda>p. on_selected_disk (pr_name p) sel) parts) = Some spans \<and>
    rs = regions_between n ss (required_bytes gpt parts) spans"
  using assms by (auto simp: free_regions_def split: if_splits option.splits)

lemma region_size:
  assumes "r \<in> set (regions_between n ss req spans)"
  shows "fr_size_bytes r = fr_end_bytes r - fr_start_bytes r"
proof -
  have inv: "\<forall>r \<in> set out. fr_size_bytes r = fr_end_bytes r - fr_start_bytes r"
    if "sweep ss req sps c regions = (out, c')"
      "\<forall>r \<in> set regions. fr_size_bytes r = fr_end_bytes r - fr_start_bytes r" for sps c regions out c'
    using that
  proof (induction ss req sps c regions rule: sweep.induct)
    case (2 ss req s e sps c regions)
    have "\<forall>r \<in> set (if s > c then append_region regions c s ss req else regions).
        fr_size_bytes r = fr_end_bytes r - fr_start_bytes r"
      using 2(3) append_region_sound [of _ regions c s ss req] by auto
    with 2 show ?case by simp
  qed simp
  obtain regions c where sw: "sweep ss req (sort spans) GPT_RESERVE_BYTES [] = (regions, c)"
    by fastforce
  from inv [OF sw] assms sw append_region_sound [of r regions c "n - GPT_RESERVE_BYTES" ss req]
  show ?thesis by (auto simp: regions_between_def Let_def split: if_splits)
qed


text \<open>C17: no usable space is missed: a 1 MiB aligned interval that is large enough, keeps clear of
  both reserved ends and of every partition span of the disk is accepted by the commit-time check.\<close>

theorem contains_free_region_complete:
  assumes "valid_sector_size ss = Inr ()" and "disk_metadata input disk = Inr (n, gpt)"
    and "2 * GPT_RESERVE_BYTES < n" and "parse_partitions input ss = Inr parts"
    and "storage_normalize disk = Some sel"
    and "collect_spans n ss (filter (\<lambda>p. on_selected_disk (pr_name p) sel) parts) = Some spans"
    and "free_region_spec n (1024 * 1024) (required_bytes gpt parts) (set spans) (a, b)"
  shows "contains_free_region input disk a b ss = Inr True"
proof -
  have fr: "free_regions input disk ss = Inr (regions_between n ss (required_bytes gpt parts) spans)"
    using assms by (simp add: free_regions_def saturating_mul_def u64_max_def GPT_RESERVE_BYTES_def)
  have "\<exists>r \<in> set (regions_between n ss (required_bytes gpt parts) spans).
      fr_start_bytes r \<le> fst (a, b) \<and> snd (a, b) \<le> fr_end_bytes r"
    using assms(7) region_align_valid [OF assms(1)] collect_spans_Some [OF assms(6)]
    by (intro regions_between_complete) auto
  moreover have "a < b" using assms(7) by (simp add: free_region_spec_def)
  ultimately show ?thesis using fr by (auto simp: contains_free_region_def list_ex_iff)
qed

section \<open>A concrete disk\<close>

definition blank_fields :: lsblk_fields where
  "blank_fields = \<lparr>ld_name = None, ld_partn = None, ld_size = None, ld_device_type = None,
     ld_pkname = None, ld_fstype = None, ld_parttype = None, ld_label = None, ld_model = None,
     ld_mountpoint = None, ld_mountpoints_list = None, ld_start = None, ld_ro = None, ld_rm = None,
     ld_rota = None, ld_tran = None, ld_pttype = None, ld_serial = None, ld_partuuid = None\<rparr>"

definition sample_part :: lsblk_device where
  "sample_part = LsblkDevice
     (blank_fields\<lparr>ld_name := Some ''/dev/sda1'', ld_partn := Some 1, ld_size := Some 10737418240,
        ld_device_type := Some ''part'', ld_start := Some 2048, ld_fstype := Some ''vfat'',
        ld_parttype := Some EFI_PART_GUID, ld_partuuid := Some ''ab-01''\<rparr>) []"

definition sample_snapshot :: lsblk_text where
  "sample_snapshot = Inr [LsblkDevice
     (blank_fields\<lparr>ld_name := Some ''/dev/sda'', ld_size := Some 107374182400,
        ld_device_type := Some ''disk'', ld_pttype := Some ''gpt'', ld_model := Some ''Disk'',
        ld_serial := Some ''S1''\<rparr>) [sample_part]]"

lemma normalize_samples:
  "storage_normalize ''/dev/sda'' = Some ''/dev/sda''"
  "storage_normalize ''/dev/sda1'' = Some ''/dev/sda1''"
  by (simp_all add: storage_normalize_def Let_def path_char_def str_simps)

lemma valid_512: "valid_sector_size 512 = Inr ()"
  by (simp add: valid_sector_size_iff)

lemma sample_partitions:
  "parse_partitions sample_snapshot 512 =
     Inr [\<lparr>pr_name = ''/dev/sda1'', pr_size_bytes = 10737418240, pr_start_bytes = 1048576,
           pr_fstype = ''vfat'', pr_label = [], pr_parttype = EFI_PART_GUID, pr_mountpoints = [],
           pr_efi = True, pr_current = False, pr_in_use = False, pr_read_only = False,
           pr_alongside_candidate = False, pr_ntfs_resize_candidate = False\<rparr>]"
  by (simp add: parse_partitions_def parse_snapshot_def sample_snapshot_def sample_part_def
      blank_fields_def partition_record_of_def device_name_def normalize_samples mountpoints_def
      saturating_mul_def u64_max_def EFI_PART_GUID_def valid_512
      str_simps)

lemma sample_metadata: "disk_metadata sample_snapshot ''/dev/sda'' = Inr (107374182400, True)"
  by (simp add: disk_metadata_def parse_snapshot_def sample_snapshot_def sample_part_def
      blank_fields_def is_disk_def device_name_def normalize_samples str_simps)

lemma sample_on_disk: "on_selected_disk ''/dev/sda1'' ''/dev/sda''"
  by (simp add: on_selected_disk_def str_simps)

lemma sample_regions:
  "free_regions sample_snapshot ''/dev/sda'' 512 =
     Inr [\<lparr>fr_start_bytes = 10738466816, fr_end_bytes = 107373133824, fr_size_bytes = 96634667008\<rparr>]"
  by (simp add: free_regions_def valid_512 sample_metadata sample_partitions normalize_samples
      sample_on_disk saturating_mul_def saturating_sub_def u64_max_def GPT_RESERVE_BYTES_def
      regions_between_def append_region_def REGION_ALIGN_BYTES_def div_ceil_def required_bytes_def
      MIN_KYTHOS_BYTES_def EFI_PART_GUID_def BIOS_BOOT_GUID_def str_simps)


theorem contains_free_region_complete_witness:
  "contains_free_region sample_snapshot ''/dev/sda'' 10738466816 107373133824 512 = Inr True"
proof (rule contains_free_region_complete [OF valid_512 sample_metadata])
  show "2 * GPT_RESERVE_BYTES < 107374182400" by (simp add: GPT_RESERVE_BYTES_def)
  show "parse_partitions sample_snapshot 512 = Inr (projr (parse_partitions sample_snapshot 512))"
    by (simp add: sample_partitions)
  show "storage_normalize ''/dev/sda'' = Some ''/dev/sda''" by (simp add: normalize_samples)
  show "collect_spans 107374182400 512
      (filter (\<lambda>p. on_selected_disk (pr_name p) ''/dev/sda'')
        (projr (parse_partitions sample_snapshot 512))) = Some [(1048576, 10738466816)]"
    by (simp add: sample_partitions sample_on_disk saturating_sub_def)
  show "free_region_spec 107374182400 (1024 * 1024)
      (required_bytes True (projr (parse_partitions sample_snapshot 512)))
      (set [(1048576, 10738466816)]) (10738466816, 107373133824)"
    by (simp add: free_region_spec_def disjoint_spans_def GPT_RESERVE_BYTES_def required_bytes_def
        MIN_KYTHOS_BYTES_def sample_partitions EFI_PART_GUID_def BIOS_BOOT_GUID_def str_simps)
qed

end
