(* ===== verification/Storage_Safety.thy ===== *)
theory Storage_Safety
  imports Storage_Regions
begin

text \<open>
  Safety of the storage queries: the second normaliser meets the device-path interface, parent
  lookup follows the ancestry exactly, protected disks are never offered, the format and replace
  gates decide what they should, the interface shows exactly the partitions the commit accepts,
  and a disk identity read from a probe is accepted by the same probe.
\<close>

section \<open>The storage normaliser\<close>

definition valid_basename :: "string \<Rightarrow> bool" where
  "valid_basename b \<longleftrightarrow> b \<noteq> [] \<and>
     (CHR ''/'' \<notin> set b \<or> (\<exists>m. b = ''mapper/'' @ m \<and> m \<noteq> [] \<and> CHR ''/'' \<notin> set m))"

lemma mapper_suffix:
  "(case strip_prefix b ''mapper/'' of None \<Rightarrow> False | Some m \<Rightarrow> m \<noteq> [] \<and> CHR ''/'' \<notin> set m) \<longleftrightarrow>
   (\<exists>m. b = ''mapper/'' @ m \<and> m \<noteq> [] \<and> CHR ''/'' \<notin> set m)"
  by (cases "strip_prefix b ''mapper/''") (auto simp: strip_prefix_def starts_with_iff split: if_splits)

lemma storage_normalize_Some:
  "storage_normalize raw = Some d \<longleftrightarrow>
     (\<exists>b. d = dev_prefix @ b \<and> trim raw \<noteq> [] \<and>
          (trim raw = d \<or> trim raw = b \<and> \<not> starts_with b dev_prefix) \<and>
          valid_basename b \<and> \<not> str_contains d ''..'' \<and> list_all path_char d)"
proof (cases "trim raw = []")
  case True
  then show ?thesis by (auto simp: storage_normalize_def)
next
  case False
  define v where "v = (if starts_with (trim raw) dev_prefix then trim raw else dev_prefix @ trim raw)"
  obtain b where b: "v = dev_prefix @ b"
    by (cases "starts_with (trim raw) dev_prefix") (auto simp: v_def starts_with_iff)
  have sp: "strip_prefix v dev_prefix = Some b" unfolding b by (rule strip_prefix_append)
  have sw: "starts_with v dev_prefix" unfolding b by (rule starts_with_append)
  have eq: "storage_normalize raw =
      (if \<not> valid_basename b \<or> str_contains v ''..'' \<or> \<not> list_all path_char v then None else Some v)"
    unfolding storage_normalize_def Let_def v_def [symmetric] sp option.case mapper_suffix
      valid_basename_def
    using False sw by simp
  have tr: "trim raw = v \<or> trim raw = b \<and> \<not> starts_with b dev_prefix"
    using b by (auto simp: v_def split: if_splits)
  have unique: "d = v" if "d = dev_prefix @ b'" "trim raw = d \<or> trim raw = b' \<and> \<not> starts_with b' dev_prefix" for b' d
    using that by (auto simp: v_def)
  show ?thesis
  proof (intro iffI)
    assume "storage_normalize raw = Some d"
    with eq have d: "d = v" "valid_basename b" "\<not> str_contains v ''..''" "list_all path_char v"
      by (auto split: if_splits)
    with b False tr show "\<exists>b. d = dev_prefix @ b \<and> trim raw \<noteq> [] \<and>
          (trim raw = d \<or> trim raw = b \<and> \<not> starts_with b dev_prefix) \<and>
          valid_basename b \<and> \<not> str_contains d ''..'' \<and> list_all path_char d"
      by blast
  next
    assume "\<exists>b. d = dev_prefix @ b \<and> trim raw \<noteq> [] \<and>
          (trim raw = d \<or> trim raw = b \<and> \<not> starts_with b dev_prefix) \<and>
          valid_basename b \<and> \<not> str_contains d ''..'' \<and> list_all path_char d"
    then obtain b' where b': "d = dev_prefix @ b'"
        "trim raw = d \<or> trim raw = b' \<and> \<not> starts_with b' dev_prefix"
        "valid_basename b'" "\<not> str_contains d ''..''" "list_all path_char d"
      by blast
    have "d = v" by (rule unique [OF b'(1,2)])
    with b b'(1) have "b' = b" by (metis same_append_eq)
    show "storage_normalize raw = Some d"
      unfolding eq using b' \<open>d = v\<close> \<open>b' = b\<close> by (simp only: if_False simp_thms)
  qed
qed

interpretation storage_device: device_normalizer storage_normalize
proof
  fix raw d
  assume n: "storage_normalize raw = Some d"
  then obtain b where b: "d = dev_prefix @ b" "valid_basename b" "\<not> str_contains d ''..''"
      "list_all path_char d"
    by (auto simp: storage_normalize_Some)
  then show "\<exists>b. d = dev_prefix @ b \<and> b \<noteq> []" "list_all path_char d" "\<not> str_contains d ''..''"
    by (auto simp: valid_basename_def)
  from b show "storage_normalize d = Some d"
    by (auto simp: storage_normalize_Some safe_trim)
qed

section \<open>Parent lookup\<close>

text \<open>One step of the ancestry: from a device that is not a disk to its parent.\<close>

definition parent_step :: "(string \<times> (string \<times> string option)) list \<Rightarrow> string \<Rightarrow> string \<Rightarrow> bool" where
  "parent_step devices a b \<longleftrightarrow> (\<exists>t. map_of devices a = Some (t, Some b) \<and> t \<noteq> ''disk'')"

definition disk_device :: "(string \<times> (string \<times> string option)) list \<Rightarrow> string \<Rightarrow> bool" where
  "disk_device devices d \<longleftrightarrow> (\<exists>p. map_of devices d = Some (''disk'', p))"

lemma parent_step_det: "parent_step ds a b \<Longrightarrow> parent_step ds a c \<Longrightarrow> b = c"
  by (auto simp: parent_step_def)

lemma disk_device_stuck: "disk_device ds d \<Longrightarrow> \<not> parent_step ds d x"
  by (auto simp: disk_device_def parent_step_def)

lemma parent_loop_sound:
  "parent_loop ds seen cur = Some d \<Longrightarrow>
   disk_device ds d \<and> (\<exists>a. cur = Some a \<and> (parent_step ds)\<^sup>*\<^sup>* a d)"
proof (induction ds seen cur rule: parent_loop.induct)
  case (2 ds seen a)
  from "2.prems" obtain t p where nd: "a \<notin> set seen" and a: "map_of ds a = Some (t, p)"
    by (auto split: if_splits option.splits)
  show ?case
  proof (cases "t = ''disk''")
    case True
    with 2 nd a show ?thesis by (auto simp: disk_device_def)
  next
    case False
    with "2.prems" nd a have "parent_loop ds (a # seen) p = Some d" by simp
    from "2.IH" [OF nd a refl False this]
    obtain b where "p = Some b" "disk_device ds d" "(parent_step ds)\<^sup>*\<^sup>* b d" by blast
    with a False have "parent_step ds a b" by (auto simp: parent_step_def)
    with \<open>(parent_step ds)\<^sup>*\<^sup>* b d\<close> \<open>disk_device ds d\<close> show ?thesis
      by (auto intro: converse_rtranclp_into_rtranclp)
  qed
qed simp

text \<open>A device that reaches a disk lies on no cycle: its path is the only one and it ends.\<close>

lemma reach_disk_linear:
  assumes "(parent_step ds)\<^sup>*\<^sup>* a d" and "disk_device ds d" and "(parent_step ds)\<^sup>*\<^sup>* a x"
  shows "(parent_step ds)\<^sup>*\<^sup>* x d"
  using assms(3,1)
proof (induction rule: rtranclp_induct)
  case (step y z)
  from step have yd: "(parent_step ds)\<^sup>*\<^sup>* y d" by blast
  from this step(2) disk_device_stuck [OF assms(2)] obtain z' where
    "parent_step ds y z'" "(parent_step ds)\<^sup>*\<^sup>* z' d" by (metis converse_rtranclpE)
  with step(2) parent_step_det show ?case by metis
qed simp

lemma no_cycle_to_disk:
  assumes "(parent_step ds)\<^sup>*\<^sup>* a d" and "disk_device ds d" and "parent_step ds a b"
  shows "\<not> (parent_step ds)\<^sup>*\<^sup>* b a"
proof
  assume cyc: "(parent_step ds)\<^sup>*\<^sup>* b a"
  have "(parent_step ds)\<^sup>*\<^sup>* d a" if "(parent_step ds)\<^sup>*\<^sup>* a d" for d
    using that
  proof (induction rule: rtranclp_induct)
    case (step y z)
    show ?case
    proof (cases "y = a")
      case True
      with step(2) assms(3) cyc parent_step_det show ?thesis by metis
    next
      case False
      with step obtain z' where "parent_step ds y z'" "(parent_step ds)\<^sup>*\<^sup>* z' a"
        by (metis converse_rtranclpE)
      with step(2) parent_step_det show ?thesis by metis
    qed
  qed simp
  with assms(1) have "(parent_step ds)\<^sup>*\<^sup>* d a" by blast
  with disk_device_stuck [OF assms(2)] have "a = d" by (metis converse_rtranclpE)
  with assms(2,3) disk_device_stuck show False by metis
qed

lemma parent_loop_complete:
  "(parent_step ds)\<^sup>*\<^sup>* a d \<Longrightarrow> disk_device ds d \<Longrightarrow> \<forall>x \<in> set seen. \<not> (parent_step ds)\<^sup>*\<^sup>* a x \<Longrightarrow>
   parent_loop ds seen (Some a) = Some d"
proof (induction arbitrary: seen rule: converse_rtranclp_induct)
  case base
  then show ?case by (auto simp: disk_device_def)
next
  case (step a b)
  from step(1) obtain t where t: "map_of ds a = Some (t, Some b)" "t \<noteq> ''disk''"
    by (auto simp: parent_step_def)
  have "\<forall>x \<in> set (a # seen). \<not> (parent_step ds)\<^sup>*\<^sup>* b x"
    using no_cycle_to_disk [OF _ step(4) step(1)] step(1,2,5)
    by (auto intro: converse_rtranclp_into_rtranclp)
  with step.IH step(4) have "parent_loop ds (a # seen) (Some b) = Some d" by blast
  with t step(5) show ?case by auto
qed

text \<open>C16: looking up the physical disk of a mount source follows the ancestry exactly: it returns a
  disk when and only when the chain of parents of the source ends in that disk, whatever cycles
  or missing entries the snapshot contains elsewhere.\<close>

theorem parent_disk_exact:
  "parent_disk_in_snapshot input source = Inr (Some d) \<longleftrightarrow>
     (\<exists>devices a. device_ancestry input = Inr devices \<and> storage_normalize source = Some a \<and>
        (parent_step devices)\<^sup>*\<^sup>* a d \<and> disk_device devices d)"
proof
  assume "parent_disk_in_snapshot input source = Inr (Some d)"
  then obtain ds where "device_ancestry input = Inr ds"
      "parent_loop ds [] (storage_normalize source) = Some d"
    by (auto simp: parent_disk_in_snapshot_def)
  with parent_loop_sound show "\<exists>devices a. device_ancestry input = Inr devices \<and>
      storage_normalize source = Some a \<and> (parent_step devices)\<^sup>*\<^sup>* a d \<and> disk_device devices d"
    by blast
next
  assume "\<exists>devices a. device_ancestry input = Inr devices \<and> storage_normalize source = Some a \<and>
      (parent_step devices)\<^sup>*\<^sup>* a d \<and> disk_device devices d"
  then obtain ds a where *: "device_ancestry input = Inr ds" "storage_normalize source = Some a"
      "(parent_step ds)\<^sup>*\<^sup>* a d" "disk_device ds d"
    by blast
  then have "parent_loop ds [] (Some a) = Some d" by (intro parent_loop_complete) simp_all
  with * show "parent_disk_in_snapshot input source = Inr (Some d)"
    by (simp add: parent_disk_in_snapshot_def del: parent_loop.simps)
qed

section \<open>Protected disks\<close>

lemma protected_disks_set:
  "protected_disks anc sources acc = Inr protected \<Longrightarrow>
   set protected = set acc \<union> {d. \<exists>s \<in> set sources. parent_disk_in_snapshot anc s = Inr (Some d)}"
proof (induction sources arbitrary: acc)
  case (Cons s ss)
  from Cons.prems obtain disk where d: "parent_disk_in_snapshot anc s = Inr disk"
    and r: "protected_disks anc ss (case disk of None \<Rightarrow> acc | Some d \<Rightarrow> fst (set_insert d acc)) = Inr protected"
    by auto
  from Cons.IH [OF r] d show ?case by (cases disk) (auto simp: set_insert_def)
qed simp

lemma set_map_filter: "set (List.map_filter f xs) = {y. \<exists>x \<in> set xs. f x = Some y}"
  by (force simp: List.map_filter_def)

lemma disk_record_of_Some:
  "disk_record_of protected cur d = Some r \<Longrightarrow>
     is_disk d (dr_name r) \<and> dr_size_bytes r = unwrap_or 0 (ld_size (dev d)) \<and> dr_size_bytes r > 0 \<and>
     \<not> unwrap_or False (ld_ro (dev d)) \<and> dr_name r \<notin> set protected \<and> (dr_current r \<longleftrightarrow> cur = Some (dr_name r))"
  by (auto simp: disk_record_of_def is_disk_def Let_def split: if_splits option.splits)

lemma disk_record_of_offered:
  "is_disk d n \<Longrightarrow> unwrap_or 0 (ld_size (dev d)) > 0 \<Longrightarrow> \<not> unwrap_or False (ld_ro (dev d)) \<Longrightarrow>
   n \<notin> set protected \<Longrightarrow> \<exists>r. disk_record_of protected cur d = Some r \<and> dr_name r = n"
  by (auto simp: disk_record_of_def is_disk_def Let_def)

lemma runtime_disks_members:
  assumes "runtime_disks_from_snapshots snap anc sources cur = Inr disks"
    and "parse_snapshot snap = Inr devices"
  shows "n \<in> dr_name ` set disks \<longleftrightarrow>
    (\<exists>d \<in> set devices. is_disk d n \<and> unwrap_or 0 (ld_size (dev d)) > 0 \<and> \<not> unwrap_or False (ld_ro (dev d)))
    \<and> (\<forall>s \<in> set sources. parent_disk_in_snapshot anc s \<noteq> Inr (Some n))"
proof -
  from assms obtain protected c where p: "protected_disks anc sources [] = Inr protected"
      and d: "disks = List.map_filter (disk_record_of protected c) devices"
    by (auto simp: runtime_disks_from_snapshots_def parse_disks_def split: option.splits)
  have prot: "n \<in> set protected \<longleftrightarrow> (\<exists>s \<in> set sources. parent_disk_in_snapshot anc s = Inr (Some n))"
    using protected_disks_set [OF p] by simp
  show ?thesis
  proof
    assume "n \<in> dr_name ` set disks"
    then obtain dv r where "dv \<in> set devices" "disk_record_of protected c dv = Some r" "n = dr_name r"
      by (auto simp: d set_map_filter)
    with disk_record_of_Some [of protected c dv r] prot show "(\<exists>d \<in> set devices. is_disk d n \<and>
        unwrap_or 0 (ld_size (dev d)) > 0 \<and> \<not> unwrap_or False (ld_ro (dev d)))
      \<and> (\<forall>s \<in> set sources. parent_disk_in_snapshot anc s \<noteq> Inr (Some n))"
      by metis
  next
    assume "(\<exists>d \<in> set devices. is_disk d n \<and> unwrap_or 0 (ld_size (dev d)) > 0 \<and>
        \<not> unwrap_or False (ld_ro (dev d))) \<and> (\<forall>s \<in> set sources. parent_disk_in_snapshot anc s \<noteq> Inr (Some n))"
    then obtain dv where dv: "dv \<in> set devices" "is_disk dv n" "unwrap_or 0 (ld_size (dev dv)) > 0"
        "\<not> unwrap_or False (ld_ro (dev dv))" "n \<notin> set protected"
      using prot by blast
    from disk_record_of_offered [OF dv(2-5)] obtain r where
      "disk_record_of protected c dv = Some r" "dr_name r = n" by blast
    with dv(1) show "n \<in> dr_name ` set disks" by (force simp: d set_map_filter)
  qed
qed


section \<open>The replace gate\<close>

text \<open>A device and everything below it, in the order the walks visit them.\<close>

fun subdevices :: "lsblk_device \<Rightarrow> lsblk_device list" where
  "subdevices (LsblkDevice f cs) = LsblkDevice f cs # concat (map subdevices cs)"

definition part_named :: "string \<Rightarrow> lsblk_device \<Rightarrow> bool" where
  "part_named w d \<longleftrightarrow> ld_device_type (dev d) = Some ''part'' \<and> device_name d = Some w"

lemma subdevices_self: "d \<in> set (subdevices d)"
  by (cases d) simp

lemma partition_walk_subdevices:
  "set (partition_walk root) = {r. \<exists>d \<in> set (subdevices root). partition_record_of d = Some r}"
proof (induction root)
  case (LsblkDevice f cs)
  then show ?case by (auto split: option.splits)
qed

lemma find_partition_Some:
  "find_partition w root = Some p \<Longrightarrow> \<exists>d \<in> set (subdevices root). part_named w d \<and> probe_of d = Some p"
proof (induction root)
  case (LsblkDevice f cs)
  show ?case
  proof (cases "part_named w (LsblkDevice f cs)")
    case True
    with LsblkDevice.prems show ?thesis by (auto simp: part_named_def)
  next
    case False
    with LsblkDevice.prems have "find_map (find_partition w) cs = Some p"
      by (auto simp: part_named_def split: if_splits)
    then obtain c where "c \<in> set cs" "find_partition w c = Some p" using find_map_Some by metis
    with LsblkDevice.IH show ?thesis by fastforce
  qed
qed

lemma find_map_unique:
  "x \<in> set xs \<Longrightarrow> f x = Some y \<Longrightarrow> (\<And>z q. z \<in> set xs \<Longrightarrow> f z = Some q \<Longrightarrow> q = y) \<Longrightarrow> find_map f xs = Some y"
proof (induction xs)
  case (Cons a xs)
  show ?case
  proof (cases "f a")
    case None
    with Cons.prems(1,2) have x: "x \<in> set xs" by auto
    have "find_map f xs = Some y"
    proof (rule Cons.IH [OF x Cons.prems(2)])
      fix z q assume "z \<in> set xs" "f z = Some q"
      then show "q = y" by (intro Cons.prems(3) [of z q]) simp_all
    qed
    with None show ?thesis by simp
  next
    case (Some q)
    with Cons.prems(3) [of a q] show ?thesis by simp
  qed
qed simp

lemma find_partition_unique:
  assumes "probe_of d = Some p"
  shows "d \<in> set (subdevices root) \<Longrightarrow> part_named w d \<Longrightarrow>
    (\<And>e. e \<in> set (subdevices root) \<Longrightarrow> part_named w e \<Longrightarrow> e = d) \<Longrightarrow> find_partition w root = Some p"
proof (induction root)
  case (LsblkDevice f cs)
  show ?case
  proof (cases "part_named w (LsblkDevice f cs)")
    case True
    then have "LsblkDevice f cs = d" using LsblkDevice.prems(3) by simp
    with True assms show ?thesis by (auto simp: part_named_def)
  next
    case False
    with LsblkDevice.prems(2) have "d \<noteq> LsblkDevice f cs" by blast
    with LsblkDevice.prems(1) obtain c where c: "c \<in> set cs" "d \<in> set (subdevices c)" by auto
    have "find_partition w c = Some p"
      using LsblkDevice.IH [OF c(1) c(2) LsblkDevice.prems(2)] LsblkDevice.prems(3) c(1) by auto
    moreover have "q = p" if z: "z \<in> set cs" "find_partition w z = Some q" for z q
    proof -
      from find_partition_Some [OF z(2)] obtain e where
        e: "e \<in> set (subdevices z)" "part_named w e" "probe_of e = Some q" by blast
      with z(1) have "e = d" by (intro LsblkDevice.prems(3)) auto
      with e(3) assms show ?thesis by simp
    qed
    ultimately have "find_map (find_partition w) cs = Some p" by (intro find_map_unique [OF c(1)])
    with False show ?thesis by (auto simp: part_named_def)
  qed
qed

lemma efi_guid_lower: "to_ascii_lowercase EFI_PART_GUID = EFI_PART_GUID"
  by (simp add: EFI_PART_GUID_def str_simps)

lemma foreign_data_reason_role: "foreign_data_reason fs lab r = None \<longleftrightarrow> foreign_data_reason fs lab r' = None"
  by (simp add: foreign_data_reason_def Let_def)

lemma descendants_none: "dev_children d = [] \<Longrightarrow> descendant_mountpoints d = []"
  by (cases d) simp

text \<open>The record the interface shows and the probe the gate reads agree on what matters.\<close>

lemma efi_parttype:
  "to_ascii_lowercase (unwrap_or [] pt) = EFI_PART_GUID \<longleftrightarrow>
     (case pt of None \<Rightarrow> False | Some t \<Rightarrow> eq_ignore_ascii_case t EFI_PART_GUID)"
proof (cases pt)
  case None
  then show ?thesis by (simp add: to_ascii_lowercase_def EFI_PART_GUID_def)
next
  case (Some t)
  then show ?thesis by (simp add: eq_ignore_ascii_case_def efi_guid_lower)
qed

lemma record_probe_agree:
  assumes "partition_record_of d = Some r" and "probe_of d = Some p"
  shows "pr_name r = pp_name p" and "pr_size_bytes r = pp_size_bytes p" and "pr_fstype r = pp_fstype p"
    and "pr_label r = pp_label p" and "pr_in_use r = pp_in_use p" and "pr_read_only r = pp_read_only p"
    and "\<not> pp_in_use p \<Longrightarrow> pr_current r = pp_current p" and "\<not> pp_in_use p \<Longrightarrow> pr_efi r = pp_efi p"
    and "pr_alongside_candidate r \<longleftrightarrow> pr_size_bytes r \<ge> MIN_KYTHOS_BYTES \<and> \<not> pr_efi r \<and> \<not> pr_current r \<and>
       \<not> pr_in_use r \<and> \<not> pr_read_only r \<and> foreign_data_reason (pr_fstype r) (pr_label r) [] = None"
proof -
  from assms obtain nm n where nm: "device_name d = Some nm" and n: "ld_partn (dev d) = Some n"
      and t: "ld_device_type (dev d) = Some ''part''"
    by (auto simp: partition_record_of_def probe_of_def split: if_splits option.splits)
  note r = assms(1) [unfolded partition_record_of_def Let_def nm t option.case, simplified, symmetric]
  note p = assms(2) [unfolded probe_of_def Let_def nm n option.case, simplified, symmetric]
  show "pr_name r = pp_name p" "pr_size_bytes r = pp_size_bytes p" "pr_fstype r = pp_fstype p"
    "pr_label r = pp_label p" "pr_in_use r = pp_in_use p" "pr_read_only r = pp_read_only p"
    unfolding r p by simp_all
  show "\<not> pp_in_use p \<Longrightarrow> pr_current r = pp_current p"
    unfolding r p by (simp add: descendants_none)
  show "\<not> pp_in_use p \<Longrightarrow> pr_efi r = pp_efi p"
    unfolding r p by (simp add: descendants_none efi_parttype)
  show "pr_alongside_candidate r \<longleftrightarrow> pr_size_bytes r \<ge> MIN_KYTHOS_BYTES \<and> \<not> pr_efi r \<and> \<not> pr_current r \<and>
       \<not> pr_in_use r \<and> \<not> pr_read_only r \<and> foreign_data_reason (pr_fstype r) (pr_label r) [] = None"
    unfolding r by simp
qed

text \<open>C33: for a partition that the snapshot lists once under the selected disk, the replace gate that
  the commit runs accepts it if and only if the interface marked it as a candidate: the user is
  shown exactly what can be installed over.\<close>

theorem replace_gate_matches_candidate:
  assumes "valid_sector_size ss = Inr ()" and "storage_normalize disk = Some dk"
    and "storage_normalize part = Some w" and "parse_snapshot input = Inr devices"
    and "List.find (\<lambda>d. is_disk d dk) devices = Some root"
    and "d \<in> set (subdevices root)" and "part_named w d" and "ld_partn (dev d) = Some n"
    and unique: "\<And>e. e \<in> set (subdevices root) \<Longrightarrow> part_named w e \<Longrightarrow> e = d"
    and r: "partition_record_of d = Some r"
  shows "is_ok (validate_replace_target input disk part role ss) \<longleftrightarrow> pr_alongside_candidate r"
proof -
  from assms(7,8) obtain p where p: "probe_of d = Some p"
    by (cases "probe_of d") (auto simp: probe_of_def part_named_def Let_def)
  have "find_partition w root = Some p" by (rule find_partition_unique [OF p assms(6,7) unique])
  with assms(1-5) have "partition_probe_from_snapshot input disk part ss = Inr p"
    by (simp add: partition_probe_from_snapshot_def)
  then have v: "is_ok (validate_replace_target input disk part role ss) \<longleftrightarrow> \<not> pp_efi p \<and>
      \<not> pp_current p \<and> \<not> pp_in_use p \<and> \<not> pp_read_only p \<and> MIN_KYTHOS_BYTES \<le> pp_size_bytes p \<and>
      foreign_data_reason (pp_fstype p) (pp_label p) role = None"
    by (auto simp: validate_replace_target_def not_less split: option.split)
  show ?thesis
    unfolding v record_probe_agree(9) [OF r p]
    using record_probe_agree(2-8) [OF r p] foreign_data_reason_role [of _ _ role "[]"] by auto
qed

section \<open>Disk identity\<close>

lemma nonempty_Some: "nonempty v = Some s \<Longrightarrow> s \<noteq> [] \<and> s = trim (unwrap_or [] v) \<and> trim s = s"
  by (auto simp: nonempty_def split: option.splits if_splits)

lemma identity_device_cong:
  "identity_device input disk = Inr d \<Longrightarrow> storage_normalize raw = Some disk \<Longrightarrow>
   verify_disk_identity_in_snapshot input disk expected = Inr () \<longleftrightarrow>
     (\<forall>s. id_serial expected = Some s \<longrightarrow> trim (unwrap_or [] (ld_serial (dev d))) \<noteq> [] \<and>
            eq_ignore_ascii_case (trim (unwrap_or [] (ld_serial (dev d)))) (trim s)) \<and>
     (\<forall>m. id_model expected = Some m \<longrightarrow> trim (unwrap_or [] (ld_model (dev d))) \<noteq> [] \<and>
            trim (unwrap_or [] (ld_model (dev d))) = trim m) \<and>
     (\<forall>n. id_size_bytes expected = Some n \<longrightarrow> unwrap_or 0 (ld_size (dev d)) = n)"
  using storage_device.norm_idem [of raw disk]
  by (simp add: verify_disk_identity_in_snapshot_def Let_def split: option.split)

text \<open>an identity read from a disk is accepted when the disk is probed again unchanged, and when
  a later probe is accepted the disk it saw reports the same serial (letter case aside), the same
  model and the same size wherever the identity recorded one: a disk exchanged under the same
  device name is refused.\<close>

theorem disk_identity_roundtrip:
  assumes "read_disk_identity probe raw = Inr ident"
  shows "verify_disk_identity probe raw ident = Inr () \<and>
    (verify_disk_identity probe' raw ident = Inr () \<longrightarrow>
     (\<exists>now. read_disk_identity probe' raw = Inr now \<and>
        (\<forall>s. id_serial ident = Some s \<longrightarrow> (\<exists>s'. id_serial now = Some s' \<and> eq_ignore_ascii_case s' s)) \<and>
        (\<forall>m. id_model ident = Some m \<longrightarrow> id_model now = Some m) \<and>
        (\<forall>n. id_size_bytes ident = Some n \<longrightarrow> unwrap_or 0 (id_size_bytes now) = n)))"
proof -
  from assms obtain disk snap d where n: "storage_normalize raw = Some disk"
      and pr: "probe disk = Inr snap" and d: "identity_device snap disk = Inr d"
      and i: "ident = \<lparr>id_serial = nonempty (ld_serial (dev d)),
          id_model = nonempty (ld_model (dev d)), id_size_bytes = ld_size (dev d)\<rparr>"
    by (auto simp: read_disk_identity_def)
  have same: "verify_disk_identity probe raw ident = Inr ()"
    using n pr identity_device_cong [OF d n, of ident] nonempty_Some
    by (simp add: verify_disk_identity_def i)
  show ?thesis
  proof (intro conjI impI same)
    assume v: "verify_disk_identity probe' raw ident = Inr ()"
    then obtain snap' where pr': "probe' disk = Inr snap'"
        and vs: "verify_disk_identity_in_snapshot snap' disk ident = Inr ()"
      by (auto simp: verify_disk_identity_def n)
    from vs obtain d' where d': "identity_device snap' disk = Inr d'"
      by (auto simp: verify_disk_identity_in_snapshot_def storage_device.norm_idem [OF n])
    let ?now = "\<lparr>id_serial = nonempty (ld_serial (dev d')), id_model = nonempty (ld_model (dev d')),
      id_size_bytes = ld_size (dev d')\<rparr>"
    have now: "read_disk_identity probe' raw = Inr ?now"
      using n pr' d' by (simp add: read_disk_identity_def)
    have ne: "trim (unwrap_or [] v) \<noteq> [] \<Longrightarrow> nonempty v = Some (trim (unwrap_or [] v))" for v
      by (cases v) (auto simp: nonempty_def trim_graphic)
    note agree = identity_device_cong [OF d' n, of ident, THEN iffD1, OF vs]
    have serial: "\<exists>s'. id_serial ?now = Some s' \<and> eq_ignore_ascii_case s' s" if "id_serial ident = Some s" for s
    proof -
      from that have "trim s = s" using nonempty_Some [of "ld_serial (dev d)" s] by (simp add: i)
      with agree that ne show ?thesis by auto
    qed
    have model: "id_model ?now = Some m" if "id_model ident = Some m" for m
    proof -
      from that have "trim m = m" using nonempty_Some [of "ld_model (dev d)" m] by (simp add: i)
      with agree that ne [of "ld_model (dev d')"] show ?thesis by auto
    qed
    have size: "unwrap_or 0 (id_size_bytes ?now) = k" if "id_size_bytes ident = Some k" for k
      using agree that by auto
    from now serial model size show "\<exists>now. read_disk_identity probe' raw = Inr now \<and>
        (\<forall>s. id_serial ident = Some s \<longrightarrow> (\<exists>s'. id_serial now = Some s' \<and> eq_ignore_ascii_case s' s)) \<and>
        (\<forall>m. id_model ident = Some m \<longrightarrow> id_model now = Some m) \<and>
        (\<forall>n. id_size_bytes ident = Some n \<longrightarrow> unwrap_or 0 (id_size_bytes now) = n)"
      by blast
  qed
qed

section \<open>The preflight\<close>

lemma efi_candidates_filter:
  "efi_candidates disk (filter (\<lambda>p. on_selected_disk (pr_name p) disk) parts) = efi_candidates disk parts"
  by (simp add: efi_candidates_def conj_commute conj_left_commute)

text \<open>a preflight accepted for an install that keeps the partition table names the ESP that the
  commit later selects, and no partition of the selected disk is BitLocker-encrypted or an NTFS
  volume in use.\<close>

theorem preflight_accepts_iff:
  assumes "storage_preflight_from_snapshot input raw ss = Inr pf" and "mode \<noteq> ''wipe''"
    and "parse_partitions input ss = Inr parts"
  shows "validate_storage_preflight pf mode = Inr () \<longleftrightarrow>
    (\<exists>e. efi_partition_from_snapshot input raw ss = Inr (Some e) \<and> efi_name e = esp_name pf) \<and>
    (\<forall>p \<in> set parts. on_selected_disk (pr_name p) (sp_disk pf) \<longrightarrow>
       pr_fstype p \<noteq> ''bitlocker'' \<and> \<not> (is_ntfs (pr_fstype p) \<and> pr_in_use p))"
proof -
  from assms obtain disk esp where n: "storage_normalize raw = Some disk"
      and esp: "resolve_esp (efi_candidates disk parts) = Inr esp"
      and pf: "sp_disk pf = disk" "esp_present pf = (esp \<noteq> None)"
        "esp_name pf = (case esp of None \<Rightarrow> [] | Some e \<Rightarrow> efi_name e)"
        "bitlocker_locked pf = list_ex bitlocker_indicator (filter (\<lambda>p. on_selected_disk (pr_name p) disk) parts)"
    by (auto simp: storage_preflight_from_snapshot_def Let_def efi_candidates_filter)
  have "efi_partition_from_snapshot input raw ss = Inr esp"
    using n esp assms(3) by (simp add: efi_partition_from_snapshot_def)
  then show ?thesis
    using assms(2) pf
    by (cases esp) (auto simp: validate_storage_preflight_def list_ex_iff bitlocker_indicator_def)
qed

text \<open>The partition-to-disk test is a test on names.  It accepts a partition of the disk, but also one
  of a disk whose own name continues with the letter p.\<close>

lemma on_selected_disk_names:
  "on_selected_disk n disk \<longleftrightarrow> (\<exists>k. list_all is_ascii_digit k \<and> (n = disk @ k \<and> k \<noteq> [] \<or> n = disk @ ''p'' @ k))"
proof (cases "strip_prefix n disk")
  case None
  have "n \<noteq> disk @ r" for r using None by (metis option.distinct(1) strip_prefix_append)
  with None show ?thesis by (simp add: on_selected_disk_def)
next
  case (Some suffix)
  then have n: "n = disk @ suffix" by simp
  show ?thesis
  proof (cases "strip_prefix suffix ''p''")
    case None
    have "suffix \<noteq> ''p'' @ r" for r using None by (metis option.distinct(1) strip_prefix_append)
    with None n show ?thesis by (auto simp: on_selected_disk_def)
  next
    case (Some r)
    then have "suffix = ''p'' @ r" by simp
    moreover have "\<not> is_ascii_digit CHR ''p''" by (simp add: is_ascii_digit_def)
    ultimately show ?thesis using n by (auto simp: on_selected_disk_def strip_prefix_def)
  qed
qed

text \<open>the first partition of the disk \<open>sdap\<close> is taken for a partition of the disk \<open>sda\<close>: the name
  test does not separate the two disks.\<close>

theorem on_selected_disk_confuses_disks:
  "on_selected_disk ''/dev/sdap1'' ''/dev/sda'' \<and> on_selected_disk ''/dev/sdap1'' ''/dev/sdap'' \<and>
   on_selected_disk ''/dev/sdap'' ''/dev/sda''"
  by (simp add: on_selected_disk_def str_simps)

section \<open>Concrete snapshots\<close>

definition candidate_part :: lsblk_device where
  "candidate_part = LsblkDevice
     (blank_fields\<lparr>ld_name := Some ''/dev/sda2'', ld_partn := Some 2, ld_size := Some 42949672960,
        ld_device_type := Some ''part'', ld_start := Some 20973568, ld_pkname := Some ''sda''\<rparr>) []"

definition candidate_disk :: lsblk_device where
  "candidate_disk = LsblkDevice
     (blank_fields\<lparr>ld_name := Some ''/dev/sda'', ld_size := Some 107374182400,
        ld_device_type := Some ''disk'', ld_pttype := Some ''gpt'', ld_model := Some ''Disk'',
        ld_serial := Some ''S1''\<rparr>) [sample_part, candidate_part]"

definition candidate_snapshot :: lsblk_text where
  "candidate_snapshot = Inr [candidate_disk]"

lemma normalize_sda2: "storage_normalize ''/dev/sda2'' = Some ''/dev/sda2''"
    "storage_normalize ''sda'' = Some ''/dev/sda''"
  by (simp_all add: storage_normalize_def Let_def path_char_def str_simps)

lemmas candidate_simps = candidate_snapshot_def candidate_disk_def candidate_part_def sample_part_def
  blank_fields_def device_name_def normalize_samples normalize_sda2 is_disk_def parse_snapshot_def

lemma candidate_parent:
  "parent_disk_in_snapshot candidate_snapshot ''/dev/sda2'' = Inr (Some ''/dev/sda'')"
  by (simp add: candidate_simps parent_disk_in_snapshot_def device_ancestry_def ancestry_entry_def)


theorem replace_gate_matches_candidate_witness:
  "is_ok (validate_replace_target candidate_snapshot ''/dev/sda'' ''/dev/sda2'' ''root'' 512)"
proof -
  have "partition_record_of candidate_part = Some (the (partition_record_of candidate_part))"
    and cand: "pr_alongside_candidate (the (partition_record_of candidate_part))"
    by (simp_all add: candidate_simps partition_record_of_def mountpoints_def MIN_KYTHOS_BYTES_def
        foreign_data_reason_def FOREIGN_DATA_FSTYPES_def EFI_PART_GUID_def str_simps)
  then have "is_ok (validate_replace_target candidate_snapshot ''/dev/sda'' ''/dev/sda2'' ''root'' 512)
      \<longleftrightarrow> pr_alongside_candidate (the (partition_record_of candidate_part))"
    by (intro replace_gate_matches_candidate [where d = candidate_part and root = candidate_disk
          and devices = "[candidate_disk]" and dk = "''/dev/sda''" and w = "''/dev/sda2''" and n = 2])
      (auto simp: candidate_simps part_named_def valid_512)
  with cand show ?thesis by simp
qed

theorem disk_identity_roundtrip_witness:
  "verify_disk_identity (\<lambda>_. Inr candidate_snapshot) ''sda''
     \<lparr>id_serial = Some ''S1'', id_model = Some ''Disk'', id_size_bytes = Some 107374182400\<rparr> = Inr ()"
proof -
  have "read_disk_identity (\<lambda>_. Inr candidate_snapshot) ''sda'' =
      Inr \<lparr>id_serial = Some ''S1'', id_model = Some ''Disk'', id_size_bytes = Some 107374182400\<rparr>"
    by (simp add: read_disk_identity_def identity_device_def candidate_simps nonempty_def str_simps)
  from disk_identity_roundtrip [OF this, of "\<lambda>_. Inr candidate_snapshot"] show ?thesis by simp
qed

theorem preflight_accepts_iff_witness:
  "validate_storage_preflight (projr (storage_preflight_from_snapshot sample_snapshot ''/dev/sda'' 512))
     ''alongside'' = Inr ()"
proof -
  have pf: "storage_preflight_from_snapshot sample_snapshot ''/dev/sda'' 512 =
      Inr (projr (storage_preflight_from_snapshot sample_snapshot ''/dev/sda'' 512))"
    by (simp add: storage_preflight_from_snapshot_def normalize_samples sample_partitions
        efi_candidates_def sample_on_disk resolve_esp_def)
  have esp: "efi_partition_from_snapshot sample_snapshot ''/dev/sda'' 512 =
      Inr (Some \<lparr>efi_name = ''/dev/sda1'', mounted_at = None\<rparr>)"
    and nm: "esp_name (projr (storage_preflight_from_snapshot sample_snapshot ''/dev/sda'' 512)) = ''/dev/sda1''"
    by (simp_all add: efi_partition_from_snapshot_def storage_preflight_from_snapshot_def
        normalize_samples sample_partitions efi_candidates_def sample_on_disk resolve_esp_def
        first_safe_mountpoint_def)
  show ?thesis
    unfolding preflight_accepts_iff [OF pf _ sample_partitions, of "''alongside''", simplified]
    using esp nm by (simp add: is_ntfs_def)
qed

end
