(* ===== verification/Installer_Guard.thy ===== *)
theory Installer_Guard
  imports Storage_Safety
begin

text \<open>
  The last-moment guards, \<open>installer_guard.rs\<close>: the disk operation lease and the re-probe of the
  selected disk immediately before a mutation.  What the operating system answers (open, stat,
  mkdir, flock, the output of \<open>lsblk\<close> and \<open>findmnt\<close>) is an argument: a record of the answers the
  code consults, in the order it consults them.
\<close>

section \<open>Data\<close>

datatype guard_error =
    UnsafeDevicePath
  | LockOpenFailed
  | LockIdentifyFailed
  | LeaseDirCreateFailed
  | LeaseDirInspectFailed
  | LeaseDirNotPrivate
  | LeaseOpenFailed
  | LeaseInspectFailed
  | LeaseNotPrivate
  | DiskBusy
  | CommandFailed string
  | GuardStorage storage_error
  | DiskUnavailable string
  | DiskIsLive string

text \<open>\<open>std::fs::Metadata\<close>, as far as it is read here.\<close>

record file_meta =
  is_block_device :: bool
  is_dir :: bool
  is_file :: bool
  fm_rdev :: nat
  fm_dev :: nat
  fm_ino :: nat
  fm_uid :: nat
  fm_nlink :: nat
  fm_mode :: nat

datatype mkdir_outcome = MkdirOk | MkdirExists | MkdirError

text \<open>The answers one lock acquisition sees.  \<open>os_open_lease\<close> and the two locks depend on the file
  asked for: the lease file by its name, the device by its path.\<close>

record lock_answers =
  os_open_device :: "string \<Rightarrow> bool"
  os_device_meta :: "string \<Rightarrow> file_meta option"
  os_mkdir :: mkdir_outcome
  os_lock_dir :: "file_meta option"
  os_open_lease :: "string \<Rightarrow> bool"
  os_lease_meta :: "string \<Rightarrow> file_meta option"
  os_euid :: nat
  os_flock_lease :: "string \<Rightarrow> bool"
  os_flock_device :: "string \<Rightarrow> bool"
  os_bypass :: bool

datatype lock_file = DeviceFile string | LeaseFile string

record disk_lock =
  lock_device :: lock_file
  lock_lease :: lock_file

section \<open>The operation lease\<close>

definition normalized :: "string \<Rightarrow> (guard_error, string) res" where
  "normalized disk = ok_or UnsafeDevicePath (normalize_device_path disk)"

text \<open>\<open>mode & 0o022\<close>: the group and other write bits.\<close>

definition others_write :: "nat \<Rightarrow> bool" where
  "others_write mode \<longleftrightarrow> odd (mode div 16) \<or> odd (mode div 2)"

definition lease_key :: "file_meta \<Rightarrow> string" where
  "lease_key m =
     (if is_block_device m then ''block-'' @ nat_to_string (fm_rdev m) @ ''.lock''
      else ''file-'' @ nat_to_string (fm_dev m) @ ''-'' @ nat_to_string (fm_ino m) @ ''.lock'')"

definition acquire_lock_pair_in ::
    "lock_answers \<Rightarrow> string \<Rightarrow> (guard_error, lock_file \<times> lock_file) res" where
  "acquire_lock_pair_in os disk =
     and_then (guard (os_open_device os disk) LockOpenFailed) (\<lambda>_.
     and_then (ok_or LockIdentifyFailed (os_device_meta os disk)) (\<lambda>metadata.
     let key = lease_key metadata in
     and_then (guard (os_mkdir os \<noteq> MkdirError) LeaseDirCreateFailed) (\<lambda>_.
     and_then (ok_or LeaseDirInspectFailed (os_lock_dir os)) (\<lambda>directory.
     if \<not> is_dir directory \<or> fm_uid directory \<noteq> os_euid os \<or> others_write (fm_mode directory)
     then Inl LeaseDirNotPrivate
     else
     and_then (guard (os_open_lease os key) LeaseOpenFailed) (\<lambda>_.
     and_then (ok_or LeaseInspectFailed (os_lease_meta os key)) (\<lambda>lease_metadata.
     if \<not> is_file lease_metadata \<or> fm_uid lease_metadata \<noteq> os_euid os
        \<or> fm_nlink lease_metadata \<noteq> 1 \<or> others_write (fm_mode lease_metadata)
     then Inl LeaseNotPrivate
     else
       let lock_failed = \<not> os_flock_lease os key; bypass_allowed = os_bypass os in
       if lock_failed \<and> \<not> bypass_allowed then Inl DiskBusy
       else
         let device_lock_failed = \<not> os_flock_device os disk in
         if device_lock_failed \<and> \<not> bypass_allowed then Inl DiskBusy
         else Inr (LeaseFile key, DeviceFile disk)))))))"

definition acquire_mutation_lock_in :: "lock_answers \<Rightarrow> string \<Rightarrow> (guard_error, disk_lock) res" where
  "acquire_mutation_lock_in os disk =
     and_then (acquire_lock_pair_in os disk) (\<lambda>(lease, device).
     Inr \<lparr>lock_device = device, lock_lease = lease\<rparr>)"

definition acquire_disk_lock_in :: "lock_answers \<Rightarrow> string \<Rightarrow> (guard_error, lock_file) res" where
  "acquire_disk_lock_in os disk =
     and_then (acquire_lock_pair_in os disk) (\<lambda>(lease, device). Inr lease)"

definition acquire_disk_lock :: "lock_answers \<Rightarrow> string \<Rightarrow> (guard_error, disk_lock) res" where
  "acquire_disk_lock os disk = and_then (normalized disk) (acquire_mutation_lock_in os)"

definition acquire_bootc_disk_lock :: "lock_answers \<Rightarrow> string \<Rightarrow> (guard_error, lock_file) res" where
  "acquire_bootc_disk_lock os disk = and_then (normalized disk) (acquire_disk_lock_in os)"

section \<open>The target guard\<close>

definition validate_target_snapshots ::
    "lsblk_text \<Rightarrow> lsblk_text \<Rightarrow> string list \<Rightarrow> string option \<Rightarrow> string \<Rightarrow> (guard_error, unit) res" where
  "validate_target_snapshots disk_snapshot ancestry_snapshot sources current raw_disk =
     and_then (normalized raw_disk) (\<lambda>disk.
     and_then (map_err GuardStorage
       (runtime_disks_from_snapshots disk_snapshot ancestry_snapshot sources current)) (\<lambda>records.
     case List.find (\<lambda>record. dr_name record = disk) records of
       None \<Rightarrow> Inl (DiskUnavailable disk)
     | Some record \<Rightarrow> if dr_current record then Inl (DiskIsLive disk) else Inr ()))"

text \<open>The answers of the three commands the guard runs, and of the identity probe.\<close>

record guard_probes =
  probe_disks :: "(guard_error, lsblk_text) res"
  probe_ancestry :: "(guard_error, lsblk_text) res"
  probe_mounts :: "(guard_error, findmnt_text) res"
  probe_identity :: "string \<Rightarrow> (storage_error, lsblk_text) res"

definition validate_target_disk_inner ::
    "guard_probes \<Rightarrow> string \<Rightarrow> disk_identity option \<Rightarrow> (guard_error, unit) res" where
  "validate_target_disk_inner probes raw_disk expected =
     and_then (normalized raw_disk) (\<lambda>disk.
     and_then (case expected of None \<Rightarrow> Inr ()
       | Some e \<Rightarrow> map_err GuardStorage (verify_disk_identity (probe_identity probes) disk e)) (\<lambda>_.
     and_then (probe_disks probes) (\<lambda>disk_snapshot.
     and_then (probe_ancestry probes) (\<lambda>ancestry_snapshot.
     and_then (probe_mounts probes) (\<lambda>output.
     and_then (map_err GuardStorage (mount_table_parse output)) (\<lambda>mounts.
     validate_target_snapshots disk_snapshot ancestry_snapshot (protected_sources mounts)
       (current_source mounts) disk))))))"

definition validate_target_disk :: "guard_probes \<Rightarrow> string \<Rightarrow> (guard_error, unit) res" where
  "validate_target_disk probes disk = validate_target_disk_inner probes disk None"

definition validate_target_disk_with_identity ::
    "guard_probes \<Rightarrow> string \<Rightarrow> disk_identity \<Rightarrow> (guard_error, unit) res" where
  "validate_target_disk_with_identity probes disk expected =
     validate_target_disk_inner probes disk (Some expected)"

section \<open>The lease protects the device\<close>

lemma char_digit_ne: "list_all is_ascii_digit s \<Longrightarrow> \<not> is_ascii_digit c \<Longrightarrow> c \<notin> set s"
  by (auto simp: list_all_iff)

lemma lease_key_block:
  assumes "is_block_device m" and "is_block_device m'"
  shows "lease_key m = lease_key m' \<longleftrightarrow> fm_rdev m = fm_rdev m'"
  using assms by (auto simp: lease_key_def)

lemma lease_key_kind: "lease_key m = lease_key m' \<Longrightarrow> is_block_device m = is_block_device m'"
  by (auto simp: lease_key_def split: if_splits)

text \<open>C32: In a release build a disk lock is granted only when both exclusive locks were obtained on a
  private lease, and two block devices share a lease file exactly when they are the same device
  number, so aliases of one disk exclude each other and different disks do not.\<close>

theorem disk_lock_exclusive:
  assumes "acquire_disk_lock os raw = Inr lock" and "\<not> os_bypass os"
    and "\<And>d. os_device_meta os d = Some (meta d) \<and> is_block_device (meta d)"
  shows "\<exists>disk key lm. normalize_device_path raw = Some disk \<and> key = lease_key (meta disk) \<and>
      lock = \<lparr>lock_device = DeviceFile disk, lock_lease = LeaseFile key\<rparr> \<and>
      os_flock_lease os key \<and> os_flock_device os disk \<and>
      os_lease_meta os key = Some lm \<and> is_file lm \<and> fm_uid lm = os_euid os \<and>
      fm_nlink lm = 1 \<and> \<not> others_write (fm_mode lm) \<and>
      (\<forall>other. lease_key (meta other) = key \<longleftrightarrow> fm_rdev (meta other) = fm_rdev (meta disk))"
  using assms
  by (auto simp: acquire_disk_lock_def normalized_def acquire_mutation_lock_in_def
      acquire_lock_pair_in_def Let_def lease_key_block split: if_splits)

text \<open>The lock kept for bootc is the lease of the full lock: it excludes the same competitors.\<close>

lemma bootc_lock_is_lease:
  "acquire_bootc_disk_lock os raw = Inr lease \<longleftrightarrow>
     (\<exists>lock. acquire_disk_lock os raw = Inr lock \<and> lock_lease lock = lease)"
  by (auto simp: acquire_bootc_disk_lock_def acquire_disk_lock_def acquire_disk_lock_in_def
      acquire_mutation_lock_in_def)

section \<open>The guard never passes a disk in use\<close>

lemma collect_sources_set:
  "set (collect_sources P es acc) = set acc \<union> {s. \<exists>t. (t, s) \<in> set es \<and> P t}"
proof (induction P es acc rule: collect_sources.induct)
  case (2 P t s es acc)
  then show ?case by (cases "P t \<and> s \<notin> set acc") auto
qed simp

lemma protected_sources_set:
  "set (protected_sources table) = {s. \<exists>t. (t, s) \<in> set (entries table) \<and>
     (t \<in> set PROTECTED_MOUNT_TARGETS \<or>
      (\<exists>p \<in> set PROTECTED_MOUNT_SUBTREES. t = p \<or> starts_with t (p @ ''/'')))}"
  by (auto simp: protected_sources_def sources_at_def sources_under_def sources_matching_def
      collect_sources_set)

text \<open>A mount entry of the tree, at any depth.\<close>

fun mounted_in :: "findmnt_entry \<Rightarrow> (string \<times> string) set" where
  "mounted_in (FindmntEntry t s cs) = insert (t, s) (\<Union>c \<in> set cs. mounted_in c)"

lemma collect_mounts_set: "set (collect_mounts e) = {(t, s) \<in> mounted_in e. starts_with s dev_prefix}"
proof (induction e)
  case (FindmntEntry t s cs)
  then show ?case by auto
qed

definition protected_target :: "string \<Rightarrow> bool" where
  "protected_target t \<longleftrightarrow> t \<in> set PROTECTED_MOUNT_TARGETS \<or>
     (\<exists>p \<in> set PROTECTED_MOUNT_SUBTREES. t = p \<or> starts_with t (p @ ''/''))"


section \<open>Concrete runs\<close>

definition live_disk :: lsblk_device where
  "live_disk = LsblkDevice
     (blank_fields\<lparr>ld_name := Some ''/dev/sdb'', ld_size := Some 8000000000,
        ld_device_type := Some ''disk''\<rparr>) []"

definition guard_sample :: guard_probes where
  "guard_sample = \<lparr>probe_disks = Inr (Inr [candidate_disk, live_disk]),
     probe_ancestry = Inr (Inr [candidate_disk, live_disk]),
     probe_mounts = Inr (Inr [FindmntEntry ''/'' ''overlay''
        [FindmntEntry ''/run/initramfs/live'' ''/dev/sdb'' []]]),
     probe_identity = (\<lambda>_. Inr candidate_snapshot)\<rparr>"

lemma normalize_sdb: "storage_normalize ''/dev/sdb'' = Some ''/dev/sdb''"
  by (simp add: storage_normalize_def Let_def path_char_def str_simps)

lemma normalize_plan_sda: "normalize_device_path ''/dev/sda'' = Some ''/dev/sda''"
  by (simp add: normalize_device_path_def Let_def path_char_def str_simps)

lemma guard_sample_parent:
  "parent_disk_in_snapshot (Inr [candidate_disk, live_disk]) ''/dev/sdb'' = Inr (Some ''/dev/sdb'')"
  by (simp add: candidate_simps live_disk_def parent_disk_in_snapshot_def device_ancestry_def
      ancestry_entry_def normalize_sdb)

lemma guard_sample_passes: "validate_target_disk_inner guard_sample ''/dev/sda'' None = Inr ()"
proof -
  have "protected_sources \<lparr>entries = [(''/run/initramfs/live'', ''/dev/sdb'')]\<rparr> = [''/dev/sdb'', ''/dev/sdb'']"
    and "current_source \<lparr>entries = [(''/run/initramfs/live'', ''/dev/sdb'')]\<rparr> = None"
    by (simp_all add: protected_sources_def sources_at_def sources_under_def sources_matching_def
        current_source_def PROTECTED_MOUNT_TARGETS_def PROTECTED_MOUNT_SUBTREES_def)
  moreover have "parse_disks (Inr [candidate_disk, live_disk]) [''/dev/sdb''] None =
      Inr (map the [disk_record_of [''/dev/sdb''] None candidate_disk])"
    and "dr_name (the (disk_record_of [''/dev/sdb''] None candidate_disk)) = ''/dev/sda''"
    and "\<not> dr_current (the (disk_record_of [''/dev/sdb''] None candidate_disk))"
    by (simp_all add: parse_disks_def parse_snapshot_def disk_record_of_def candidate_disk_def
        live_disk_def blank_fields_def device_name_def normalize_sdb normalize_samples List.map_filter_def)
  ultimately show ?thesis
    by (simp add: validate_target_disk_inner_def guard_sample_def normalized_def normalize_plan_sda
        mount_table_parse_def validate_target_snapshots_def runtime_disks_from_snapshots_def
        guard_sample_parent set_insert_def)
qed


definition lock_sample :: lock_answers where
  "lock_sample = (let m = \<lparr>is_block_device = True, is_dir = True, is_file = True, fm_rdev = 2048,
       fm_dev = 5, fm_ino = 7, fm_uid = 0, fm_nlink = 1, fm_mode = 384\<rparr>
     in \<lparr>os_open_device = (\<lambda>_. True), os_device_meta = (\<lambda>_. Some m), os_mkdir = MkdirExists,
         os_lock_dir = Some m, os_open_lease = (\<lambda>_. True), os_lease_meta = (\<lambda>_. Some m), os_euid = 0,
         os_flock_lease = (\<lambda>_. True), os_flock_device = (\<lambda>_. True), os_bypass = False\<rparr>)"

lemma lock_sample_taken: "is_ok (acquire_disk_lock lock_sample ''/dev/sda'')"
  by (simp add: acquire_disk_lock_def normalized_def normalize_plan_sda acquire_mutation_lock_in_def
      acquire_lock_pair_in_def lock_sample_def others_write_def Let_def)

theorem disk_lock_exclusive_witness:
  "\<exists>key. acquire_disk_lock lock_sample ''/dev/sda'' =
     Inr \<lparr>lock_device = DeviceFile ''/dev/sda'', lock_lease = LeaseFile key\<rparr> \<and> os_flock_lease lock_sample key"
proof -
  have ok: "acquire_disk_lock lock_sample ''/dev/sda'' =
      Inr (projr (acquire_disk_lock lock_sample ''/dev/sda''))"
    by (simp add: acquire_disk_lock_def normalized_def normalize_plan_sda acquire_mutation_lock_in_def
        acquire_lock_pair_in_def lock_sample_def others_write_def Let_def)
  have "\<not> os_bypass lock_sample" and "os_device_meta lock_sample d = Some (the (os_device_meta lock_sample [])) \<and>
      is_block_device (the (os_device_meta lock_sample []))" for d
    by (simp_all add: lock_sample_def Let_def)
  from disk_lock_exclusive [OF ok this] obtain disk key where "normalize_device_path ''/dev/sda'' = Some disk"
      "projr (acquire_disk_lock lock_sample ''/dev/sda'') =
         \<lparr>lock_device = DeviceFile disk, lock_lease = LeaseFile key\<rparr>" "os_flock_lease lock_sample key"
    by blast
  with ok normalize_plan_sda show ?thesis by (metis option.inject)
qed

end
