(* ===== verification/Installer_Disk.thy ===== *)
theory Installer_Disk
  imports Installer_Guard
begin

text \<open>
  Typed disk operations, \<open>installer_disk.rs\<close>: every request is one constructor of
  \<open>disk_operation_input\<close> and maps to one fixed executable and argv shape, after the validators and
  the fresh read-only probes have accepted it.  The probes are the trait \<open>DiskProbes\<close>: a record of
  functions; \<open>os_disk_probes\<close> is its production instance over the output of the probe commands.
\<close>

section \<open>Data\<close>

datatype disk_operation_input =
    BackupTable string string
  | RestoreTable string string
  | CreateLabel string string
  | CreatePartition string nat nat string string nat
  | CreateUnformattedPartition string nat nat string nat
  | DeletePartition string nat string
  | ResizePartition string nat nat nat nat string
  | FilesystemCheck string
  | FilesystemResize string string nat string
  | MountFilesystem string string "string list" bool
  | UnmountFilesystem string bool bool
  | SetPartitionFlag string nat string bool string
  | FormatFilesystem string string string string
  | BtrfsSubvolumeCreate string string
  | BtrfsSubvolumeSetDefault string string
  | EnsureDirectory string

fun input_backup_path :: "disk_operation_input \<Rightarrow> string option" where
  "input_backup_path (BackupTable disk backup_path) = Some backup_path"
| "input_backup_path _ = None"

record disk_plan =
  argv :: "string list"
  timeout_seconds :: nat
  needs_confirmation :: bool

datatype disk_error =
    UnsupportedTableType string
  | SfdiskMissing
  | UnsafeDevice string
  | UnsafePath string
  | UnsupportedSubvolume
  | TooManyMountOptions
  | UnsafeMountOption
  | UnsafeLabel
  | ProbeNotRun string
  | StateProbeFailed
  | ProbeNotUtf8
  | SectorProbeInvalid
  | SectorProbeUnsupported
  | PartuuidInvalid
  | IdentityChanged
  | UnrecognizedTable
  | GeometrySectorSize
  | GeometryInvalid
  | GeometryUnaligned
  | GeometryOverflow
  | NotOnKnownDisk
  | NotOnSelectedDisk
  | UnsupportedFilesystem string
  | ResizeZero
  | UnsupportedResize string string
  | PartNumZero
  | UnsupportedFlag string
  | DiskStorage storage_error

text \<open>What running a probe command gives: it did not start, it failed, its output was not UTF-8, or
  its output.\<close>

datatype cmd_result = NotStarted string | ExitFailure | NotUtf8 | Output string

record disk_probes =
  dp_lsblk :: "string option \<Rightarrow> string \<Rightarrow> (disk_error, lsblk_text) res"
  dp_sector_size :: "string \<Rightarrow> (disk_error, nat) res"
  dp_table_type :: "string \<Rightarrow> (disk_error, string) res"
  dp_sfdisk :: "string \<Rightarrow> bool"

definition MAX_LABEL_BYTES :: nat where
  "MAX_LABEL_BYTES = 128"

definition MAX_PATH_BYTES :: nat where
  "MAX_PATH_BYTES = 4096"

definition DEFAULT_SECTOR_SIZE :: nat where
  "DEFAULT_SECTOR_SIZE = 512"

definition PARTITION_ALIGN_BYTES :: nat where
  "PARTITION_ALIGN_BYTES = 1024 * 1024"

section \<open>Validators\<close>

text \<open>\<open>char::is_control\<close> over UTF-8: U+0000 to U+001F, U+007F, and U+0080 to U+009F, which are the
  byte 0xC2 followed by 0x80 to 0x9F.\<close>

fun has_control :: "string \<Rightarrow> bool" where
  "has_control [] = False"
| "has_control (c # cs) =
     (byte c < 32 \<or> byte c = 127
      \<or> byte c = 194 \<and> (case cs of [] \<Rightarrow> False | d # _ \<Rightarrow> 128 \<le> byte d \<and> byte d \<le> 159)
      \<or> has_control cs)"

definition disk_required_device :: "string \<Rightarrow> string \<Rightarrow> (disk_error, string) res" where
  "disk_required_device raw lab =
     ok_or (UnsafeDevice lab)
       (case normalize_device_path raw of
          None \<Rightarrow> None
        | Some v \<Rightarrow> if length v > length dev_prefix \<and> \<not> str_contains v ''//'' then Some v else None)"

definition safe_absolute_path :: "string \<Rightarrow> string \<Rightarrow> (disk_error, string) res" where
  "safe_absolute_path raw lab =
     (let v = trim raw in
      if v = [] \<or> length v > MAX_PATH_BYTES \<or> \<not> starts_with v ''/'' \<or> str_contains v ''..''
         \<or> str_contains v ''//'' \<or> \<not> list_all path_char v
      then Inl (UnsafePath lab) else Inr v)"

definition safe_mountpoint :: "string \<Rightarrow> (disk_error, string) res" where
  "safe_mountpoint raw = safe_absolute_path raw ''mount point''"

definition safe_btrfs_subvolume_name :: "string \<Rightarrow> (disk_error, string) res" where
  "safe_btrfs_subvolume_name raw =
     (let name = trim raw in
      if name \<noteq> ''@'' \<and> name \<noteq> ''@home'' then Inl UnsupportedSubvolume else Inr name)"

definition mount_option_char :: "char \<Rightarrow> bool" where
  "mount_option_char c \<longleftrightarrow> is_ascii_alphanumeric c \<or> c \<in> set ''=:._+@-''"

fun check_mount_options :: "string list \<Rightarrow> (disk_error, string list) res" where
  "check_mount_options [] = Inr []"
| "check_mount_options (opt # opts) =
     (if opt = [] \<or> length opt > 128 \<or> \<not> list_all mount_option_char opt
      then Inl UnsafeMountOption
      else and_then (check_mount_options opts) (\<lambda>rest. Inr (opt # rest)))"

definition safe_mount_options :: "string list \<Rightarrow> (disk_error, string list) res" where
  "safe_mount_options options =
     (if length options > 8 then Inl TooManyMountOptions else check_mount_options options)"

definition safe_label :: "string \<Rightarrow> (disk_error, string) res" where
  "safe_label raw =
     (if length raw > MAX_LABEL_BYTES \<or> has_control raw then Inl UnsafeLabel else Inr raw)"

definition normalized_name :: "string \<Rightarrow> string" where
  "normalized_name raw = to_ascii_lowercase (trim raw)"

definition safe_partuuid :: "string \<Rightarrow> (disk_error, string) res" where
  "safe_partuuid raw =
     (let v = trim raw in
      if v = [] \<or> length v > 128 \<or> \<not> list_all (\<lambda>c. is_ascii_hexdigit c \<or> c = CHR ''-'') v
      then Inl PartuuidInvalid else Inr v)"

section \<open>Probes\<close>

definition lsblk_snapshot ::
    "(string list \<Rightarrow> cmd_result) \<Rightarrow> (string \<Rightarrow> lsblk_text) \<Rightarrow> string option \<Rightarrow> string
       \<Rightarrow> (disk_error, lsblk_text) res" where
  "lsblk_snapshot run decode disk columns =
     (case run ([''/usr/bin/lsblk'', ''--json'', ''--bytes'', ''--paths'', ''--output'', columns]
                @ (case disk of None \<Rightarrow> [] | Some d \<Rightarrow> [d])) of
        NotStarted e \<Rightarrow> Inl (ProbeNotRun e)
      | ExitFailure \<Rightarrow> Inl StateProbeFailed
      | NotUtf8 \<Rightarrow> Inl ProbeNotUtf8
      | Output out \<Rightarrow> Inr (decode out))"

definition logical_sector_size ::
    "(string list \<Rightarrow> cmd_result) \<Rightarrow> string \<Rightarrow> (disk_error, nat) res" where
  "logical_sector_size run disk =
     (case run [''/usr/bin/blockdev'', ''--getss'', disk] of
        NotStarted e \<Rightarrow> Inl (ProbeNotRun e)
      | ExitFailure \<Rightarrow> Inl StateProbeFailed
      | NotUtf8 \<Rightarrow> Inl ProbeNotUtf8
      | Output out \<Rightarrow>
          and_then (ok_or SectorProbeInvalid (parse_u64 (trim out))) (\<lambda>size_bytes.
          if \<not> is_power_of_two size_bytes \<or> \<not> (512 \<le> size_bytes \<and> size_bytes \<le> 4096)
          then Inl SectorProbeUnsupported else Inr size_bytes))"

definition probe_partition_table_type ::
    "(string list \<Rightarrow> cmd_result) \<Rightarrow> string \<Rightarrow> (disk_error, string) res" where
  "probe_partition_table_type run raw_disk =
     and_then (disk_required_device raw_disk ''disk'') (\<lambda>disk.
     case run [''/usr/bin/lsblk'', ''--nodeps'', ''--noheadings'', ''--output'', ''PTTYPE'', disk] of
       NotStarted e \<Rightarrow> Inl (ProbeNotRun e)
     | ExitFailure \<Rightarrow> Inl StateProbeFailed
     | NotUtf8 \<Rightarrow> Inl ProbeNotUtf8
     | Output out \<Rightarrow>
         let table_type = to_ascii_lowercase (trim out) in
         if table_type = ''gpt'' \<or> table_type = ''dos'' then Inr table_type
         else Inl UnrecognizedTable)"

definition sfdisk_binary :: "(string \<Rightarrow> bool) \<Rightarrow> (disk_error, string) res" where
  "sfdisk_binary path_exists =
     ok_or SfdiskMissing (List.find path_exists [''/usr/sbin/sfdisk'', ''/usr/bin/sfdisk''])"

definition os_disk_probes ::
    "(string list \<Rightarrow> cmd_result) \<Rightarrow> (string \<Rightarrow> lsblk_text) \<Rightarrow> (string \<Rightarrow> bool) \<Rightarrow> disk_probes" where
  "os_disk_probes run decode path_exists =
     \<lparr>dp_lsblk = lsblk_snapshot run decode, dp_sector_size = logical_sector_size run,
      dp_table_type = probe_partition_table_type run, dp_sfdisk = path_exists\<rparr>"

definition assert_partition_identity ::
    "disk_probes \<Rightarrow> string \<Rightarrow> nat \<Rightarrow> string \<Rightarrow> (disk_error, unit) res" where
  "assert_partition_identity probes raw_disk part_num expected_partuuid =
     and_then (safe_partuuid expected_partuuid) (\<lambda>expected.
     and_then (disk_required_device raw_disk ''disk'') (\<lambda>disk.
     and_then (dp_lsblk probes (Some disk) ''NAME,PARTN,PARTUUID,TYPE'') (\<lambda>snapshot.
     and_then (map_err DiskStorage (partuuid_for_partition_number snapshot disk part_num)) (\<lambda>actual.
     if \<not> eq_ignore_ascii_case actual expected then Inl IdentityChanged else Inr ()))))"

section \<open>Plan builders\<close>

definition table_backup_plan ::
    "string \<Rightarrow> string \<Rightarrow> string \<Rightarrow> string option \<Rightarrow> (disk_error, disk_plan) res" where
  "table_backup_plan disk backup_path table_type sfdisk =
     (if table_type = ''gpt'' then
        and_then (safe_absolute_path backup_path ''backup path'') (\<lambda>path.
        and_then (disk_required_device disk ''disk'') (\<lambda>device.
        Inr \<lparr>argv = [''/usr/sbin/sgdisk'', ''--backup'', path, device],
             timeout_seconds = 30, needs_confirmation = False\<rparr>))
      else if table_type = ''dos'' then
        and_then (ok_or SfdiskMissing sfdisk) (\<lambda>sfdisk.
        and_then (disk_required_device disk ''disk'') (\<lambda>device.
        and_then (safe_absolute_path backup_path ''backup path'') (\<lambda>path.
        Inr \<lparr>argv = [''/bin/sh'', ''-c'', ''exec '' @ sfdisk @ '' --dump \"$1\" > \"$2\"'',
                     ''kyth-sfdisk-dump'', device, path],
             timeout_seconds = 30, needs_confirmation = False\<rparr>)))
      else Inl (UnsupportedTableType table_type))"

definition table_restore_plan ::
    "string \<Rightarrow> string \<Rightarrow> string \<Rightarrow> string option \<Rightarrow> (disk_error, disk_plan) res" where
  "table_restore_plan disk backup_path table_type sfdisk =
     (if table_type = ''gpt'' then
        and_then (safe_absolute_path backup_path ''backup path'') (\<lambda>path.
        and_then (disk_required_device disk ''disk'') (\<lambda>device.
        Inr \<lparr>argv = [''/usr/sbin/sgdisk'', ''--load-backup'', path, device],
             timeout_seconds = 60, needs_confirmation = False\<rparr>))
      else if table_type = ''dos'' then
        and_then (ok_or SfdiskMissing sfdisk) (\<lambda>sfdisk.
        and_then (disk_required_device disk ''disk'') (\<lambda>device.
        and_then (safe_absolute_path backup_path ''backup path'') (\<lambda>path.
        Inr \<lparr>argv = [''/bin/sh'', ''-c'', ''exec '' @ sfdisk @ '' --force \"$1\" < \"$2\"'',
                     ''kyth-sfdisk-load'', device, path],
             timeout_seconds = 60, needs_confirmation = False\<rparr>)))
      else Inl (UnsupportedTableType table_type))"

definition partition_end :: "nat \<Rightarrow> nat \<Rightarrow> nat \<Rightarrow> (disk_error, nat) res" where
  "partition_end start size_bytes sector_size =
     (if sector_size = 0 \<or> \<not> is_power_of_two sector_size \<or> \<not> (512 \<le> sector_size \<and> sector_size \<le> 4096)
      then Inl GeometrySectorSize
      else
        let align = max sector_size PARTITION_ALIGN_BYTES in
        if start = 0 \<or> size_bytes < align then Inl GeometryInvalid
        else if start mod align \<noteq> 0 \<or> size_bytes mod align \<noteq> 0 then Inl GeometryUnaligned
        else ok_or GeometryOverflow (checked_add start (size_bytes - sector_size)))"

definition parted_device :: "string \<Rightarrow> string list \<Rightarrow> nat \<Rightarrow> (disk_error, disk_plan) res" where
  "parted_device disk args timeout =
     and_then (disk_required_device disk ''disk'') (\<lambda>device.
     Inr \<lparr>argv = [''/usr/sbin/parted'', ''-s'', device] @ args,
          timeout_seconds = timeout, needs_confirmation = False\<rparr>)"

definition interactive_parted_device ::
    "string \<Rightarrow> string list \<Rightarrow> nat \<Rightarrow> (disk_error, disk_plan) res" where
  "interactive_parted_device disk args timeout =
     and_then (disk_required_device disk ''disk'') (\<lambda>device.
     Inr \<lparr>argv = [''/usr/sbin/parted'', ''---pretend-input-tty'', device] @ args,
          timeout_seconds = timeout, needs_confirmation = True\<rparr>)"

definition mkfs_binary :: "string \<Rightarrow> (string \<times> string list) option" where
  "mkfs_binary fs =
     map_of [(''btrfs'', (''/usr/sbin/mkfs.btrfs'', [''-f''])),
             (''ext4'', (''/usr/sbin/mkfs.ext4'', [''-F''])),
             (''xfs'', (''/usr/sbin/mkfs.xfs'', [''-f''])),
             (''fat32'', (''/usr/sbin/mkfs.fat'', [''-F32''])),
             (''linux-swap'', (''/usr/sbin/mkswap'', []))] fs"

definition build_mkfs_plan :: "string \<Rightarrow> string \<Rightarrow> string \<Rightarrow> (disk_error, disk_plan) res" where
  "build_mkfs_plan raw_device raw_fs raw_label =
     and_then (disk_required_device raw_device ''filesystem device'') (\<lambda>device.
     let fs = normalized_name raw_fs in
     and_then (safe_label raw_label) (\<lambda>lab.
     and_then (ok_or (UnsupportedFilesystem fs) (mkfs_binary fs)) (\<lambda>(binary, args).
     Inr \<lparr>argv = [binary] @ args
            @ (if lab \<noteq> [] then [if fs = ''fat32'' then ''-n'' else ''-L'', lab] else [])
            @ [device],
          timeout_seconds = (if fs = ''btrfs'' then 300 else 120), needs_confirmation = False\<rparr>)))"

definition MKFS_COLUMNS :: string where
  "MKFS_COLUMNS =
     ''NAME,SIZE,TYPE,FSTYPE,PARTTYPE,PARTN,LABEL,MOUNTPOINT,MOUNTPOINTS,START,RO,PKNAME''"

definition build_mkfs ::
    "disk_probes \<Rightarrow> string \<Rightarrow> string \<Rightarrow> string \<Rightarrow> string \<Rightarrow> (disk_error, disk_plan) res" where
  "build_mkfs probes raw_device fs lab raw_expected =
     and_then (disk_required_device raw_device ''filesystem device'') (\<lambda>device.
     and_then (disk_required_device raw_expected ''expected disk'') (\<lambda>expected_disk.
     and_then (dp_lsblk probes None MKFS_COLUMNS) (\<lambda>snapshot.
     and_then (map_err DiskStorage (parent_disk_in_snapshot snapshot device)) (\<lambda>parent.
     and_then (ok_or NotOnKnownDisk parent) (\<lambda>disk.
     if disk \<noteq> expected_disk then Inl NotOnSelectedDisk
     else
       and_then (dp_sector_size probes disk) (\<lambda>sector_size.
       and_then (map_err DiskStorage (validate_format_target snapshot disk device sector_size)) (\<lambda>_.
       build_mkfs_plan device fs lab)))))))"

definition build_filesystem_resize ::
    "string \<Rightarrow> string \<Rightarrow> nat \<Rightarrow> string \<Rightarrow> (disk_error, disk_plan) res" where
  "build_filesystem_resize raw_device raw_fs new_size_bytes raw_stage =
     and_then (disk_required_device raw_device ''filesystem device'') (\<lambda>device.
     if new_size_bytes = 0 then Inl ResizeZero
     else
       let fs = normalized_name raw_fs; stage = normalized_name raw_stage;
           ntfs = (fs = ''ntfs'' \<or> fs = ''ntfs3'');
           ext = (fs = ''ext2'' \<or> fs = ''ext3'' \<or> fs = ''ext4'')
       in
       if ntfs \<and> stage = ''check'' then
         Inr \<lparr>argv = [''/usr/sbin/ntfsresize'', ''--check'', device],
              timeout_seconds = 240, needs_confirmation = False\<rparr>
       else if ntfs \<and> stage = ''info'' then
         Inr \<lparr>argv = [''/usr/sbin/ntfsresize'', ''--info'', device],
              timeout_seconds = 120, needs_confirmation = False\<rparr>
       else if ntfs \<and> stage = ''dry_run'' then
         Inr \<lparr>argv = [''/usr/sbin/ntfsresize'', ''--no-action'', ''--size'',
                      nat_to_string new_size_bytes, device],
              timeout_seconds = 240, needs_confirmation = False\<rparr>
       else if ntfs \<and> stage = ''resize'' then
         Inr \<lparr>argv = [''/usr/sbin/ntfsresize'', ''--size'', nat_to_string new_size_bytes, device],
              timeout_seconds = 1800, needs_confirmation = True\<rparr>
       else if ext \<and> stage = ''resize'' then
         (let size_kib = max 1 (new_size_bytes div 1024) in
          Inr \<lparr>argv = [''/usr/sbin/resize2fs'', device, nat_to_string size_kib @ ''K''],
               timeout_seconds = 1800, needs_confirmation = False\<rparr>)
       else if fs = ''btrfs'' \<and> stage = ''resize'' then
         Inr \<lparr>argv = [''/usr/sbin/btrfs'', ''filesystem'', ''resize'',
                      nat_to_string new_size_bytes, device],
              timeout_seconds = 1800, needs_confirmation = False\<rparr>
       else Inl (UnsupportedResize fs stage))"

definition build_delete_partition :: "string \<Rightarrow> nat \<Rightarrow> (disk_error, disk_plan) res" where
  "build_delete_partition disk part_num =
     (if part_num = 0 then Inl PartNumZero
      else parted_device disk [''rm'', nat_to_string part_num] 60)"

definition build_resize_partition ::
    "string \<Rightarrow> nat \<Rightarrow> nat \<Rightarrow> nat \<Rightarrow> nat \<Rightarrow> (disk_error, disk_plan) res" where
  "build_resize_partition disk part_num start new_size sector_size =
     (if part_num = 0 then Inl PartNumZero
      else and_then (partition_end start new_size sector_size) (\<lambda>e.
           interactive_parted_device disk
             [''unit'', ''B'', ''resizepart'', nat_to_string part_num, nat_to_string e @ ''B''] 120))"

definition build_set_partition_flag ::
    "string \<Rightarrow> nat \<Rightarrow> string \<Rightarrow> bool \<Rightarrow> (disk_error, disk_plan) res" where
  "build_set_partition_flag disk part_num raw_flag enabled =
     (if part_num = 0 then Inl PartNumZero
      else
        let flag = normalized_name raw_flag in
        if flag \<noteq> ''bios_grub'' \<and> flag \<noteq> ''esp'' then Inl (UnsupportedFlag flag)
        else parted_device disk
               [''set'', nat_to_string part_num, flag, if enabled then ''on'' else ''off''] 60)"

fun join_with :: "string \<Rightarrow> string list \<Rightarrow> string" where
  "join_with sep [] = []"
| "join_with sep [x] = x"
| "join_with sep (x # y # ys) = x @ sep @ join_with sep (y # ys)"

definition table_tool ::
    "disk_probes \<Rightarrow> string \<Rightarrow> (disk_error, string option) res" where
  "table_tool probes table_type =
     (if table_type = ''dos''
      then and_then (sfdisk_binary (dp_sfdisk probes)) (\<lambda>b. Inr (Some b)) else Inr None)"

fun build_plan_with_probes ::
    "disk_probes \<Rightarrow> disk_operation_input \<Rightarrow> (disk_error, disk_plan) res" where
  "build_plan_with_probes probes (BackupTable disk backup_path) =
     and_then (dp_table_type probes disk) (\<lambda>table_type.
     and_then (table_tool probes table_type) (\<lambda>sfdisk.
     table_backup_plan disk backup_path table_type sfdisk))"
| "build_plan_with_probes probes (RestoreTable disk backup_path) =
     and_then (dp_table_type probes disk) (\<lambda>table_type.
     and_then (table_tool probes table_type) (\<lambda>sfdisk.
     table_restore_plan disk backup_path table_type sfdisk))"
| "build_plan_with_probes probes (CreateLabel disk raw_type) =
     (let table_type = normalized_name raw_type in
      if table_type \<noteq> ''gpt'' \<and> table_type \<noteq> ''msdos'' then Inl (UnsupportedTableType table_type)
      else parted_device disk [''mklabel'', table_type] 30)"
| "build_plan_with_probes probes (CreatePartition disk start size_bytes raw_fs raw_label sector_size) =
     (let fs = normalized_name raw_fs in
      if fs \<notin> set [''btrfs'', ''ext4'', ''xfs'', ''fat32'', ''linux-swap''] then Inl (UnsupportedFilesystem fs)
      else and_then (safe_label raw_label) (\<lambda>lab.
        and_then (partition_end start size_bytes sector_size) (\<lambda>e.
        parted_device disk
          [''unit'', ''B'', ''mkpart'', if lab = [] then ''partition'' else lab, fs,
           nat_to_string start @ ''B'', nat_to_string e @ ''B''] 120)))"
| "build_plan_with_probes probes (CreateUnformattedPartition disk start size_bytes raw_label sector_size) =
     and_then (partition_end start size_bytes sector_size) (\<lambda>e.
     and_then (safe_label raw_label) (\<lambda>lab.
     parted_device disk
       [''unit'', ''B'', ''mkpart'', lab, nat_to_string start @ ''B'', nat_to_string e @ ''B''] 120))"
| "build_plan_with_probes probes (DeletePartition disk part_num expected_partuuid) =
     and_then (assert_partition_identity probes disk part_num expected_partuuid) (\<lambda>_.
     build_delete_partition disk part_num)"
| "build_plan_with_probes probes (ResizePartition disk part_num start new_size sector_size expected_partuuid) =
     and_then (assert_partition_identity probes disk part_num expected_partuuid) (\<lambda>_.
     build_resize_partition disk part_num start new_size sector_size)"
| "build_plan_with_probes probes (FilesystemCheck raw_device) =
     and_then (disk_required_device raw_device ''filesystem device'') (\<lambda>device.
     Inr \<lparr>argv = [''/usr/sbin/e2fsck'', ''-f'', ''-y'', device],
          timeout_seconds = 600, needs_confirmation = False\<rparr>)"
| "build_plan_with_probes probes (FilesystemResize device fs new_size_bytes stage) =
     build_filesystem_resize device fs new_size_bytes stage"
| "build_plan_with_probes probes (MountFilesystem raw_device raw_mountpoint raw_options bind) =
     and_then (if bind then safe_absolute_path raw_device ''mount source''
               else disk_required_device raw_device ''filesystem device'') (\<lambda>device.
     and_then (safe_mountpoint raw_mountpoint) (\<lambda>mountpoint.
     and_then (safe_mount_options raw_options) (\<lambda>options.
     Inr \<lparr>argv = [''/usr/sbin/mount'']
            @ (if bind then [''--bind'']
               else if options \<noteq> [] then [''-o'', join_with '','' options] else [])
            @ [device, mountpoint],
          timeout_seconds = 30, needs_confirmation = False\<rparr>)))"
| "build_plan_with_probes probes (UnmountFilesystem raw_mountpoint recursive lazy) =
     and_then (safe_mountpoint raw_mountpoint) (\<lambda>mountpoint.
     Inr \<lparr>argv = [''/usr/sbin/umount''] @ (if recursive then [''-R''] else [])
            @ (if lazy then [''-l''] else []) @ [mountpoint],
          timeout_seconds = 30, needs_confirmation = False\<rparr>)"
| "build_plan_with_probes probes (SetPartitionFlag disk part_num flag enabled expected_partuuid) =
     and_then (assert_partition_identity probes disk part_num expected_partuuid) (\<lambda>_.
     build_set_partition_flag disk part_num flag enabled)"
| "build_plan_with_probes probes (FormatFilesystem device fs lab expected_disk) =
     build_mkfs probes device fs lab expected_disk"
| "build_plan_with_probes probes (BtrfsSubvolumeCreate raw_mountpoint raw_name) =
     and_then (safe_mountpoint raw_mountpoint) (\<lambda>mountpoint.
     and_then (safe_btrfs_subvolume_name raw_name) (\<lambda>name.
     Inr \<lparr>argv = [''/usr/sbin/btrfs'', ''subvolume'', ''create'', mountpoint @ ''/'' @ name],
          timeout_seconds = 60, needs_confirmation = False\<rparr>))"
| "build_plan_with_probes probes (BtrfsSubvolumeSetDefault raw_mountpoint raw_name) =
     and_then (safe_mountpoint raw_mountpoint) (\<lambda>mountpoint.
     and_then (safe_btrfs_subvolume_name raw_name) (\<lambda>name.
     Inr \<lparr>argv = [''/usr/sbin/btrfs'', ''subvolume'', ''set-default'', mountpoint @ ''/'' @ name],
          timeout_seconds = 60, needs_confirmation = False\<rparr>))"
| "build_plan_with_probes probes (EnsureDirectory path) =
     and_then (safe_absolute_path path ''directory path'') (\<lambda>dir.
     Inr \<lparr>argv = [''/usr/bin/mkdir'', ''-p'', dir],
          timeout_seconds = 30, needs_confirmation = False\<rparr>)"

definition build_disk_plan ::
    "(string list \<Rightarrow> cmd_result) \<Rightarrow> (string \<Rightarrow> lsblk_text) \<Rightarrow> (string \<Rightarrow> bool) \<Rightarrow> disk_operation_input
       \<Rightarrow> (disk_error, disk_plan) res" where
  "build_disk_plan run decode path_exists input =
     build_plan_with_probes (os_disk_probes run decode path_exists) input"

text \<open>\<open>sync_backup\<close>: the backup file, then its directory, are flushed; each answer is an argument.\<close>

datatype sync_error = BackupOpenFailed | BackupSyncFailed | BackupNoParent | DirOpenFailed | DirSyncFailed

text \<open>\<open>Path::parent\<close>: empty and \<open>.\<close> components do not count, apart from a leading \<open>.\<close>.\<close>

definition drop_trivial :: "string list \<Rightarrow> string list" where
  "drop_trivial cs = rev (dropWhile (\<lambda>c. c = [] \<or> c = ''.'') (rev cs))"

definition parent_path :: "string \<Rightarrow> string option" where
  "parent_path path =
     (case split_on (CHR ''/'') path of
        [] \<Rightarrow> None
      | c # cs \<Rightarrow>
          let body = drop_trivial cs in
          if path = [] then None
          else if c = [] then
            (if body = [] then None
             else Some (''/'' @ join_with ''/'' (drop_trivial (butlast body))))
          else if body = [] then Some []
          else Some (join_with ''/'' (c # drop_trivial (butlast body))))"

definition sync_backup ::
    "(string \<Rightarrow> bool) \<Rightarrow> (string \<Rightarrow> bool) \<Rightarrow> string \<Rightarrow> (sync_error, unit) res" where
  "sync_backup open_ok sync_ok path =
     and_then (guard (open_ok path) BackupOpenFailed) (\<lambda>_.
     and_then (guard (sync_ok path) BackupSyncFailed) (\<lambda>_.
     and_then (ok_or BackupNoParent (parent_path path)) (\<lambda>parent.
     and_then (guard (open_ok parent) DirOpenFailed) (\<lambda>_.
     guard (sync_ok parent) DirSyncFailed))))"

end
