(* ===== verification/Disk_Safety.thy ===== *)
theory Disk_Safety
  imports Installer_Disk
begin

text \<open>
  Correctness of the typed disk operations: what a validator accepts is clean and stays accepted,
  every accepted request runs one of a fixed set of executables with clean arguments, a format plan
  names an unused partition of the selected disk, an identity-checked operation names the partition
  the caller selected, partition geometry is exact, and backup and restore use the same tool.
\<close>

section \<open>Validated arguments\<close>

definition clean_arg :: "string \<Rightarrow> bool" where
  "clean_arg s \<longleftrightarrow> \<not> has_control s"

lemma has_control_graphic: "list_all (\<lambda>c. 32 \<le> byte c \<and> byte c < 127) s \<Longrightarrow> \<not> has_control s"
  by (induction s) auto

lemma clean_graphic: "list_all graphic s \<Longrightarrow> clean_arg s"
  unfolding clean_arg_def by (rule has_control_graphic) (auto simp: graphic_def list_all_iff)

lemma clean_path: "list_all path_char s \<Longrightarrow> clean_arg s"
  by (rule clean_graphic) (auto simp: list_all_iff path_char_graphic)

lemma digit_graphic: "is_ascii_digit c \<Longrightarrow> graphic c"
  by (auto simp: is_ascii_digit_def graphic_def)

lemma clean_number: "clean_arg (nat_to_string n @ t)" if "list_all graphic t"
proof (rule clean_graphic)
  show "list_all graphic (nat_to_string n @ t)"
    using nat_to_string_digits [of n] that by (auto simp: all_digits_def list_all_iff digit_graphic)
qed

text \<open>What the builders rely on of a validator: the value it accepts is clean, and validating an
  accepted value again returns it.\<close>

locale argument_validator =
  fixes validate :: "string \<Rightarrow> ('e, string) res"
  assumes accepted_clean: "validate raw = Inr v \<Longrightarrow> clean_arg v"
    and accepted_stable: "validate raw = Inr v \<Longrightarrow> validate v = Inr v"
begin

lemma validate_twice: "and_then (validate raw) validate = validate raw"
  by (cases "validate raw") (auto dest: accepted_stable)

lemma validate_then: "and_then (validate raw) (\<lambda>v. and_then (validate v) f) = and_then (validate raw) f"
  by (cases "validate raw") (auto dest: accepted_stable)

lemma accepted_unique: "validate raw = Inr v \<Longrightarrow> validate v = Inr w \<longleftrightarrow> w = v"
  using accepted_stable by fastforce

end

lemma disk_required_device_Inr:
  "disk_required_device raw lab = Inr d \<longleftrightarrow> normalize_device_path raw = Some d"
proof
  assume "normalize_device_path raw = Some d"
  moreover from this obtain b where b: "d = dev_prefix @ b" "b \<noteq> []" "CHR ''/'' \<notin> set b"
    by (auto simp: normalize_device_path_Some)
  moreover have "\<not> str_contains d ''//''"
  proof -
    have "\<not> str_contains b ''//''" "\<not> starts_with b ''/''"
      using b(3) by (auto simp: str_contains_iff starts_with_iff)
    then show ?thesis by (simp add: b(1))
  qed
  ultimately show "disk_required_device raw lab = Inr d"
    using plan_device.norm_length by (simp add: disk_required_device_def)
qed (auto simp: disk_required_device_def split: option.splits if_splits)


interpretation required_device: argument_validator "\<lambda>raw. disk_required_device raw lab" for lab
proof
  fix raw v
  assume "disk_required_device raw lab = Inr v"
  then have n: "normalize_device_path raw = Some v" by (simp add: disk_required_device_Inr)
  then show "clean_arg v" by (intro clean_path plan_device.norm_safe)
  from n show "disk_required_device v lab = Inr v"
    by (simp add: disk_required_device_Inr plan_device.norm_idem)
qed

interpretation absolute_path: argument_validator "\<lambda>raw. safe_absolute_path raw lab" for lab
  by unfold_locales
    (auto simp: safe_absolute_path_def Let_def safe_trim clean_path split: if_splits)

interpretation subvolume_name: argument_validator safe_btrfs_subvolume_name
  by unfold_locales
    (auto simp: safe_btrfs_subvolume_name_def Let_def clean_arg_def str_simps split: if_splits)

interpretation partuuid: argument_validator safe_partuuid
proof
  fix raw v
  assume v: "safe_partuuid raw = Inr v"
  then show "clean_arg v"
    by (intro clean_graphic) (auto simp: safe_partuuid_def Let_def list_all_iff graphic_def
        is_ascii_hexdigit_def split: if_splits)
  from v have "v = trim raw" by (simp add: safe_partuuid_def Let_def split: if_splits)
  with v show "safe_partuuid v = Inr v" by (simp add: safe_partuuid_def Let_def)
qed

interpretation label: argument_validator safe_label
  by unfold_locales (auto simp: safe_label_def clean_arg_def split: if_splits)

lemma check_mount_options_Inr:
  "check_mount_options opts = Inr r \<Longrightarrow> r = opts \<and> (\<forall>x \<in> set opts. list_all mount_option_char x)"
  by (induction opts arbitrary: r) (auto split: if_splits)

lemma mount_option_graphic: "mount_option_char c \<Longrightarrow> graphic c"
  by (auto simp: mount_option_char_def is_ascii_alphanumeric_def graphic_def)

lemma clean_options:
  assumes "safe_mount_options opts = Inr r"
  shows "clean_arg (join_with '','' r)"
proof (rule clean_graphic)
  have "\<forall>x \<in> set r. list_all graphic x"
    using assms check_mount_options_Inr [of opts r]
    by (auto simp: safe_mount_options_def list_all_iff mount_option_graphic split: if_splits)
  then show "list_all graphic (join_with '','' r)"
    by (induction "'',''" r rule: join_with.induct) (auto simp: graphic_def)
qed

section \<open>Fixed executables, clean arguments\<close>

definition EXECUTABLES :: "string list" where
  "EXECUTABLES =
     [''/usr/sbin/sgdisk'', ''/bin/sh'', ''/usr/sbin/parted'', ''/usr/sbin/e2fsck'',
      ''/usr/sbin/ntfsresize'', ''/usr/sbin/resize2fs'', ''/usr/sbin/btrfs'', ''/usr/sbin/mount'',
      ''/usr/sbin/umount'', ''/usr/sbin/mkfs.btrfs'', ''/usr/sbin/mkfs.ext4'', ''/usr/sbin/mkfs.xfs'',
      ''/usr/sbin/mkfs.fat'', ''/usr/sbin/mkswap'', ''/usr/bin/mkdir'']"

definition plan_ok :: "disk_plan \<Rightarrow> bool" where
  "plan_ok plan \<longleftrightarrow> argv plan \<noteq> [] \<and> hd (argv plan) \<in> set EXECUTABLES \<and>
     list_all clean_arg (argv plan) \<and> 0 < timeout_seconds plan"

lemmas plan_ok_intro = plan_ok_def EXECUTABLES_def

lemma clean_append:
  "clean_arg a \<Longrightarrow> list_all graphic b \<Longrightarrow> clean_arg (a @ b)"
proof (induction a)
  case ac: (Cons c cs)
  show ?case
  proof (cases cs)
    case Nil
    have nb: "\<not> has_control b" using clean_graphic [OF ac.prems(2)] by (simp add: clean_arg_def)
    show ?thesis
    proof (cases b)
      case (Cons d ds)
      with ac.prems(2) have "byte d < 127" by (simp add: graphic_def)
      with Cons ac.prems(1) Nil nb show ?thesis by (simp add: clean_arg_def)
    qed (use ac.prems(1) Nil in simp)
  next
    case (Cons d ds)
    with ac.prems ac.IH show ?thesis by (auto simp: clean_arg_def)
  qed
qed (simp add: clean_graphic)

lemma parted_ok:
  "parted_device disk args t = Inr plan \<Longrightarrow> list_all clean_arg args \<Longrightarrow> 0 < t \<Longrightarrow> plan_ok plan"
  "interactive_parted_device disk args t = Inr plan \<Longrightarrow> list_all clean_arg args \<Longrightarrow> 0 < t \<Longrightarrow> plan_ok plan"
  by (auto simp: parted_device_def interactive_parted_device_def plan_ok_intro clean_arg_def
      dest: required_device.accepted_clean)


lemma graphic_units: "graphic CHR ''B'' \<and> graphic CHR ''K'' \<and> graphic CHR ''/'' \<and> graphic CHR ''@''"
  by (simp add: graphic_def)

lemma clean_digits: "clean_arg (nat_to_string n)" "clean_arg (nat_to_string n @ ''B'')"
    "clean_arg (nat_to_string n @ ''K'')"
  using clean_number [of "[]"] clean_number [of "''B''"] clean_number [of "''K''"]
  by (simp_all add: graphic_units)

lemma clean_sfdisk:
  "sfdisk_binary ex = Inr b \<Longrightarrow> clean_arg (''exec '' @ b @ '' --dump \"$1\" > \"$2\"'') \<and>
     clean_arg (''exec '' @ b @ '' --force \"$1\" < \"$2\"'')"
  by (auto simp: sfdisk_binary_def clean_arg_def split: if_splits)

lemmas validator_clean = required_device.accepted_clean absolute_path.accepted_clean
  subvolume_name.accepted_clean label.accepted_clean

lemma table_plans_ok:
  assumes "table_tool probes t = Inr tool"
  shows "table_backup_plan disk path t tool = Inr plan \<Longrightarrow> plan_ok plan"
    and "table_restore_plan disk path t tool = Inr plan \<Longrightarrow> plan_ok plan"
  using assms clean_sfdisk [of "dp_sfdisk probes"]
  by (auto simp: table_backup_plan_def table_restore_plan_def table_tool_def plan_ok_intro clean_arg_def
      dest!: validator_clean [unfolded clean_arg_def] split: if_splits)

lemma mkfs_plan_ok: "build_mkfs_plan device fs lab = Inr plan \<Longrightarrow> plan_ok plan"
  by (auto simp: build_mkfs_plan_def Let_def mkfs_binary_def plan_ok_intro clean_arg_def
      dest!: validator_clean [unfolded clean_arg_def] split: if_splits)

lemma resize_plan_ok: "build_filesystem_resize device fs n stage = Inr plan \<Longrightarrow> plan_ok plan"
  using clean_digits
  by (auto simp: build_filesystem_resize_def Let_def plan_ok_intro clean_arg_def
      dest!: validator_clean [unfolded clean_arg_def] split: if_splits)

lemma subvolume_path_ok:
  assumes "safe_mountpoint m = Inr mp" and "safe_btrfs_subvolume_name n = Inr nm"
  shows "clean_arg (mp @ ''/'' @ nm)"
proof (rule clean_append)
  show "clean_arg mp" using assms(1) absolute_path.accepted_clean by (auto simp: safe_mountpoint_def)
  show "list_all graphic (''/'' @ nm)"
    using assms(2) by (auto simp: safe_btrfs_subvolume_name_def Let_def graphic_def split: if_splits)
qed

text \<open>C19: Whatever request is accepted, the plan runs one of a fixed set of absolute executables, has a
  positive timeout, and no argument contains a control character (so no NUL and no line break).\<close>

theorem accepted_plan_ok:
  assumes "build_plan_with_probes probes input = Inr plan"
  shows "plan_ok plan"
proof (cases input)
  case (BackupTable disk path)
  with assms table_plans_ok(1) show ?thesis by auto
next
  case (RestoreTable disk path)
  with assms table_plans_ok(2) show ?thesis by auto
next
  case (CreateLabel disk t)
  with assms parted_ok(1) show ?thesis by (auto simp: Let_def clean_arg_def split: if_splits)
next
  case (CreatePartition disk start n fs lab ss)
  with assms clean_digits show ?thesis
    by (auto simp: Let_def clean_arg_def dest!: parted_ok(1) label.accepted_clean split: if_splits)
next
  case (CreateUnformattedPartition disk start n lab ss)
  with assms clean_digits show ?thesis
    by (auto simp: clean_arg_def dest!: parted_ok(1) label.accepted_clean)
next
  case (DeletePartition disk n uuid)
  with assms clean_digits show ?thesis
    by (auto simp: build_delete_partition_def clean_arg_def dest!: parted_ok(1) split: if_splits)
next
  case (ResizePartition disk n start sz ss uuid)
  with assms clean_digits show ?thesis
    by (auto simp: build_resize_partition_def clean_arg_def dest!: parted_ok(2) split: if_splits)
next
  case (FilesystemCheck device)
  with assms show ?thesis
    by (auto simp: plan_ok_intro clean_arg_def dest!: validator_clean [unfolded clean_arg_def])
next
  case (FilesystemResize device fs n stage)
  with assms resize_plan_ok show ?thesis by simp
next
  case (MountFilesystem device mp opts bind)
  with assms show ?thesis
    by (auto simp: safe_mountpoint_def plan_ok_intro clean_arg_def
        dest!: clean_options [unfolded clean_arg_def] validator_clean [unfolded clean_arg_def] split: if_splits)
next
  case (UnmountFilesystem mp rec lazy)
  with assms show ?thesis
    by (auto simp: safe_mountpoint_def plan_ok_intro clean_arg_def
        dest!: validator_clean [unfolded clean_arg_def])
next
  case (SetPartitionFlag disk n flag en uuid)
  with assms clean_digits show ?thesis
    by (auto simp: build_set_partition_flag_def Let_def clean_arg_def dest!: parted_ok(1) split: if_splits)
next
  case (FormatFilesystem device fs lab disk)
  with assms mkfs_plan_ok show ?thesis by (auto simp: build_mkfs_def split: if_splits)
next
  case (BtrfsSubvolumeCreate mp name)
  with assms subvolume_path_ok [of mp _ name] show ?thesis by (auto simp: plan_ok_intro clean_arg_def)
next
  case (BtrfsSubvolumeSetDefault mp name)
  with assms subvolume_path_ok [of mp _ name] show ?thesis by (auto simp: plan_ok_intro clean_arg_def)
next
  case (EnsureDirectory path)
  with assms show ?thesis
    by (auto simp: plan_ok_intro clean_arg_def dest!: validator_clean [unfolded clean_arg_def])
qed


section \<open>Formatting\<close>

lemma plan_normalize_storage:
  assumes "normalize_device_path raw = Some d"
  shows "storage_normalize d = Some d"
proof -
  from assms obtain b where b: "d = dev_prefix @ b" "b \<noteq> []" "CHR ''/'' \<notin> set b"
      "\<not> str_contains d ''..''" "list_all path_char d"
    by (auto simp: normalize_device_path_Some)
  then have "valid_basename b" by (simp add: valid_basename_def)
  with b show ?thesis by (auto simp: storage_normalize_Some safe_trim)
qed

text \<open>What the format gate has established about the device it accepts.\<close>

definition unused_partition :: "lsblk_device \<Rightarrow> bool" where
  "unused_partition d \<longleftrightarrow> mountpoints d = [] \<and> dev_children d = [] \<and>
     \<not> unwrap_or False (ld_ro (dev d)) \<and>
     (\<forall>t. ld_parttype (dev d) = Some t \<longrightarrow> \<not> eq_ignore_ascii_case t EFI_PART_GUID)"

lemma validate_format_target_Inr:
  assumes "validate_format_target input disk part ss = Inr p"
    and "storage_normalize disk = Some dk" and "storage_normalize part = Some w"
  shows "\<exists>devices root d. input = Inr devices \<and> root \<in> set devices \<and> is_disk root dk \<and>
    d \<in> set (subdevices root) \<and> part_named w d \<and> unused_partition d"
proof -
  from assms obtain devices root where r: "input = Inr devices"
      "List.find (\<lambda>d. is_disk d dk) devices = Some root" "find_partition w root = Some p"
      and ok: "\<not> pp_efi p" "\<not> pp_current p" "\<not> pp_in_use p" "\<not> pp_read_only p"
    by (auto simp: validate_format_target_def partition_probe_from_snapshot_def parse_snapshot_def
        split: if_splits)
  from find_partition_Some [OF r(3)] obtain d where
    d: "d \<in> set (subdevices root)" "part_named w d" "probe_of d = Some p" by blast
  from d(3) ok have "unused_partition d"
    by (auto simp: probe_of_def unused_partition_def Let_def split: option.splits)
  with r d show ?thesis by (auto simp: find_Some_iff dest!: nth_mem)
qed

text \<open>C18: An accepted format request names a partition that, in the fresh probe, has the plan's disk as
  its physical disk, is listed below that disk, is neither mounted nor stacked on, is writable and
  is no EFI system partition; the plan's last argument is that partition.\<close>

theorem format_plan_safe:
  assumes "build_plan_with_probes probes (FormatFilesystem raw fs lab raw_disk) = Inr plan"
  shows "\<exists>device disk devices root d. normalize_device_path raw = Some device \<and>
    normalize_device_path raw_disk = Some disk \<and>
    dp_lsblk probes None MKFS_COLUMNS = Inr (Inr devices) \<and>
    parent_disk_in_snapshot (Inr devices) device = Inr (Some disk) \<and>
    root \<in> set devices \<and> is_disk root disk \<and> d \<in> set (subdevices root) \<and> part_named device d \<and>
    unused_partition d \<and> last (argv plan) = device"
proof -
  from assms obtain device disk snap ss p where n: "normalize_device_path raw = Some device"
      "normalize_device_path raw_disk = Some disk"
      and probe: "dp_lsblk probes None MKFS_COLUMNS = Inr snap"
      and parent: "parent_disk_in_snapshot snap device = Inr (Some disk)"
      and gate: "validate_format_target snap disk device ss = Inr p"
      and plan: "build_mkfs_plan device fs lab = Inr plan"
    by (auto simp: build_mkfs_def disk_required_device_Inr split: if_splits)
  from validate_format_target_Inr [OF gate] n(1,2) [THEN plan_normalize_storage] obtain devices root d
    where "snap = Inr devices" "root \<in> set devices" "is_disk root disk" "d \<in> set (subdevices root)"
      "part_named device d" "unused_partition d" by blast
  moreover have "last (argv plan) = device"
    using plan n(1) plan_device.norm_idem
    by (auto simp: build_mkfs_plan_def disk_required_device_Inr Let_def)
  ultimately show ?thesis using n probe parent by blast
qed

section \<open>Identity-checked operations\<close>

lemma partuuid_step_Some:
  "partuuid_step disk n d found = Some u \<Longrightarrow> found = Some u \<or>
     (ld_device_type (dev d) = Some ''part'' \<and> ld_partn (dev d) = Some n \<and>
      (\<exists>nm. device_name d = Some nm \<and> on_selected_disk nm disk) \<and> nonempty (ld_partuuid (dev d)) = Some u)"
  by (auto simp: partuuid_step_def split: if_splits option.splits)

definition numbered_part :: "string \<Rightarrow> nat \<Rightarrow> string \<Rightarrow> lsblk_device \<Rightarrow> bool" where
  "numbered_part disk n u d \<longleftrightarrow> ld_device_type (dev d) = Some ''part'' \<and> ld_partn (dev d) = Some n \<and>
     (\<exists>nm. device_name d = Some nm \<and> on_selected_disk nm disk) \<and> nonempty (ld_partuuid (dev d)) = Some u"

lemma fold_found:
  assumes "\<And>c found. c \<in> set cs \<Longrightarrow> f c found = Some u \<Longrightarrow> found = Some u \<or> P c"
    and "fold f cs found = Some u"
  shows "found = Some u \<or> (\<exists>c \<in> set cs. P c)"
  using assms
proof (induction cs arbitrary: found)
  case (Cons c cs)
  then have "f c found = Some u \<or> (\<exists>c \<in> set cs. P c)" by simp
  with Cons.prems(1) [of c found] show ?case by auto
qed simp

lemma partuuid_walk_Some:
  "partuuid_walk disk n d found = Some u \<Longrightarrow>
   found = Some u \<or> (\<exists>e \<in> set (subdevices d). numbered_part disk n u e)"
proof (induction d arbitrary: found)
  case (LsblkDevice f cs)
  have "partuuid_step disk n (LsblkDevice f cs) found = Some u \<or>
      (\<exists>c \<in> set cs. \<exists>e \<in> set (subdevices c). numbered_part disk n u e)"
  proof (rule fold_found [where f = "partuuid_walk disk n"
        and P = "\<lambda>c. \<exists>e \<in> set (subdevices c). numbered_part disk n u e"])
    show "fold (partuuid_walk disk n) cs (partuuid_step disk n (LsblkDevice f cs) found) = Some u"
      using LsblkDevice.prems by simp
  qed (rule LsblkDevice.IH)
  with partuuid_step_Some [of disk n "LsblkDevice f cs" found u] show ?case
    unfolding numbered_part_def by auto
qed

lemma partuuid_for_partition_number_Inr:
  assumes "partuuid_for_partition_number input raw n = Inr u"
  shows "\<exists>disk devices root d. storage_normalize raw = Some disk \<and> input = Inr devices \<and> n \<noteq> 0 \<and>
    root \<in> set devices \<and> d \<in> set (subdevices root) \<and> numbered_part disk n u d"
proof -
  from assms obtain disk devices where *: "storage_normalize raw = Some disk" "input = Inr devices"
      "n \<noteq> 0" "fold (partuuid_walk disk n) devices None = Some u"
    by (auto simp: partuuid_for_partition_number_def parse_snapshot_def split: if_splits)
  from fold_found [where P = "\<lambda>c. \<exists>e \<in> set (subdevices c). numbered_part disk n u e",
      OF partuuid_walk_Some *(4)] * show ?thesis by auto
qed

text \<open>The requests that carry the UUID of the partition the user selected, with its number.\<close>

fun selected_partition :: "disk_operation_input \<Rightarrow> (string \<times> nat \<times> string) option" where
  "selected_partition (DeletePartition disk n uuid) = Some (disk, n, uuid)"
| "selected_partition (ResizePartition disk n start sz ss uuid) = Some (disk, n, uuid)"
| "selected_partition (SetPartitionFlag disk n flag en uuid) = Some (disk, n, uuid)"
| "selected_partition _ = None"

text \<open>A delete, resize or flag request is accepted only if, in a fresh probe of the disk, a partition
  with the requested number has the UUID recorded when the user selected it; the plan acts on that
  disk and that number, so a renumbered partition is never touched.\<close>

theorem selected_partition_identity:
  assumes "build_plan_with_probes probes input = Inr plan"
    and "selected_partition input = Some (raw_disk, n, uuid)"
  shows "\<exists>disk devices root d u. normalize_device_path raw_disk = Some disk \<and>
    dp_lsblk probes (Some disk) ''NAME,PARTN,PARTUUID,TYPE'' = Inr (Inr devices) \<and>
    root \<in> set devices \<and> d \<in> set (subdevices root) \<and> numbered_part disk n u d \<and>
    eq_ignore_ascii_case u (trim uuid) \<and> n \<noteq> 0 \<and>
    argv plan ! 2 = disk \<and> nat_to_string n \<in> set (argv plan)"
proof -
  have "assert_partition_identity probes raw_disk n uuid = Inr ()"
    using assms by (cases input) auto
  then obtain disk snap u where d: "normalize_device_path raw_disk = Some disk"
      "dp_lsblk probes (Some disk) ''NAME,PARTN,PARTUUID,TYPE'' = Inr snap"
      "partuuid_for_partition_number snap disk n = Inr u" "eq_ignore_ascii_case u (trim uuid)"
    by (auto simp: assert_partition_identity_def disk_required_device_Inr safe_partuuid_def Let_def
        split: if_splits)
  have "argv plan ! 2 = disk \<and> nat_to_string n \<in> set (argv plan)"
    using assms d(1)
    by (cases input) (auto simp: build_delete_partition_def build_resize_partition_def
        build_set_partition_flag_def parted_device_def interactive_parted_device_def
        disk_required_device_Inr Let_def split: if_splits)
  with d partuuid_for_partition_number_Inr [OF d(3)] plan_normalize_storage [OF d(1)]
  show ?thesis by fastforce
qed

section \<open>Geometry\<close>

lemma partition_end_Inr:
  "partition_end start n ss = Inr e \<longleftrightarrow> ss \<in> {512, 1024, 2048, 4096} \<and> 0 < start \<and> 1024 * 1024 \<le> n \<and>
     1024 * 1024 dvd start \<and> 1024 * 1024 dvd n \<and> e = start + n - ss \<and> e \<le> u64_max"
proof (cases "ss \<in> {512, 1024, 2048, 4096}")
  case True
  then have "is_power_of_two ss \<and> 512 \<le> ss \<and> ss \<le> 4096" by (simp only: sector_power_of_two)
  moreover from this have "max ss PARTITION_ALIGN_BYTES = 1024 * 1024"
    by (simp add: PARTITION_ALIGN_BYTES_def)
  ultimately show ?thesis
    using True
    by (auto simp: partition_end_def Let_def checked_add_def dvd_eq_mod_eq_0 split: if_splits)
next
  case False
  then have "\<not> (is_power_of_two ss \<and> 512 \<le> ss \<and> ss \<le> 4096)" by (simp only: sector_power_of_two) simp
  with False show ?thesis by (auto simp: partition_end_def)
qed

text \<open>An accepted create request spells the exact geometry: the two numbers of the command line
  parse back to the requested start and to the last sector of the requested extent, nothing wrapped
  around, and both ends lie on 1 MiB boundaries.\<close>

theorem create_geometry_exact:
  assumes "build_plan_with_probes probes (CreatePartition disk start n fs lab ss) = Inr plan"
  shows "\<exists>a b. argv plan ! 8 = a @ ''B'' \<and> argv plan ! 9 = b @ ''B'' \<and> length (argv plan) = 10 \<and>
    parse_u64 a = Some start \<and> parse_u64 b = Some (start + n - ss) \<and>
    0 < start \<and> start < start + n - ss \<and> 1024 * 1024 dvd start \<and> 1024 * 1024 dvd (start + n) \<and>
    ss \<in> {512, 1024, 2048, 4096}"
proof -
  from assms obtain e device fs' lab' where e: "partition_end start n ss = Inr e" and
      plan: "argv plan = [''/usr/sbin/parted'', ''-s'', device, ''unit'', ''B'', ''mkpart'', lab', fs',
        nat_to_string start @ ''B'', nat_to_string e @ ''B'']"
    by (auto simp: Let_def parted_device_def split: if_splits)
  from e have *: "ss \<in> {512, 1024, 2048, 4096}" "0 < start" "1024 * 1024 \<le> n" "1024 * 1024 dvd start"
      "1024 * 1024 dvd n" "e = start + n - ss" "e \<le> u64_max"
    by (auto simp: partition_end_Inr)
  then have "start < start + n - ss" by auto
  with * have "parse_u64 (nat_to_string start) = Some start" "parse_u64 (nat_to_string e) = Some e"
    by (auto intro: parse_u64_nat_to_string)
  with * \<open>start < start + n - ss\<close> plan show ?thesis by (auto intro: dvd_add)
qed

text \<open>An accepted table backup has an accepted restore for the same disk and file, which runs the
  same tool on the same two arguments, as long as the probed table type is unchanged.\<close>

theorem backup_restore_match:
  assumes "build_plan_with_probes probes (BackupTable disk path) = Inr b"
  shows "\<exists>r device file. build_plan_with_probes probes (RestoreTable disk path) = Inr r \<and>
    normalize_device_path disk = Some device \<and> safe_absolute_path path ''backup path'' = Inr file \<and>
    hd (argv b) = hd (argv r) \<and>
    drop (length (argv b) - 2) (argv b) = drop (length (argv r) - 2) (argv r) \<and>
    set (drop (length (argv b) - 2) (argv b)) = {device, file}"
  using assms
  by (auto simp: table_backup_plan_def table_restore_plan_def disk_required_device_Inr split: if_splits)

section \<open>Concrete requests\<close>

definition disk_probe_sample :: disk_probes where
  "disk_probe_sample = \<lparr>dp_lsblk = (\<lambda>_ _. Inr candidate_snapshot), dp_sector_size = (\<lambda>_. Inr 512),
     dp_table_type = (\<lambda>_. Inr ''dos''), dp_sfdisk = (\<lambda>p. p = ''/usr/sbin/sfdisk'')\<rparr>"

lemma normalize_plan_sda2: "normalize_device_path ''/dev/sda2'' = Some ''/dev/sda2''"
  by (simp add: normalize_device_path_def Let_def path_char_def str_simps)

lemma safe_backup_sample: "safe_absolute_path ''/run/t.bak'' lab = Inr ''/run/t.bak''"
  by (simp add: safe_absolute_path_def Let_def MAX_PATH_BYTES_def path_char_def str_simps)

lemma backup_sample:
  "build_plan_with_probes disk_probe_sample (BackupTable ''/dev/sda'' ''/run/t.bak'') =
     Inr \<lparr>argv = [''/bin/sh'', ''-c'', ''exec /usr/sbin/sfdisk --dump \"$1\" > \"$2\"'',
                 ''kyth-sfdisk-dump'', ''/dev/sda'', ''/run/t.bak''],
          timeout_seconds = 30, needs_confirmation = False\<rparr>"
  by (simp add: disk_probe_sample_def table_tool_def sfdisk_binary_def table_backup_plan_def
      disk_required_device_def normalize_plan_sda safe_backup_sample)

theorem accepted_plan_ok_witness:
  "plan_ok (projr (build_plan_with_probes disk_probe_sample (BackupTable ''/dev/sda'' ''/run/t.bak'')))"
  unfolding backup_sample sum.sel by (rule accepted_plan_ok [OF backup_sample])

theorem backup_restore_match_witness:
  "\<exists>r. build_plan_with_probes disk_probe_sample (RestoreTable ''/dev/sda'' ''/run/t.bak'') = Inr r \<and>
     hd (argv r) = ''/bin/sh''"
  using backup_restore_match [OF backup_sample] by force

lemma candidate_find: "find_partition ''/dev/sda2'' candidate_disk = probe_of candidate_part"
  by (simp add: candidate_simps probe_of_def mountpoints_def)

theorem format_plan_safe_witness:
  "\<exists>plan. build_plan_with_probes disk_probe_sample
     (FormatFilesystem ''/dev/sda2'' ''btrfs'' ''kythos'' ''/dev/sda'') = Inr plan \<and> last (argv plan) = ''/dev/sda2''"
proof -
  obtain p where p: "probe_of candidate_part = Some p" "\<not> pp_efi p" "\<not> pp_current p" "\<not> pp_in_use p"
      "\<not> pp_read_only p"
    by (simp add: candidate_simps probe_of_def mountpoints_def to_ascii_lowercase_def)
  have disk: "is_disk candidate_disk ''/dev/sda''" by (simp add: candidate_simps)
  have "validate_format_target candidate_snapshot ''/dev/sda'' ''/dev/sda2'' 512 = Inr p"
    using p by (simp add: validate_format_target_def partition_probe_from_snapshot_def valid_512 disk
        normalize_samples normalize_sda2 parse_snapshot_def candidate_snapshot_def candidate_find)
  then have ok: "build_plan_with_probes disk_probe_sample
      (FormatFilesystem ''/dev/sda2'' ''btrfs'' ''kythos'' ''/dev/sda'') =
      Inr (projr (build_mkfs_plan ''/dev/sda2'' ''btrfs'' ''kythos''))"
    by (simp add: build_mkfs_def disk_required_device_def normalize_plan_sda normalize_plan_sda2
        candidate_parent disk_probe_sample_def build_mkfs_plan_def normalized_name_def safe_label_def
        MAX_LABEL_BYTES_def mkfs_binary_def str_simps)
  from format_plan_safe [OF ok] ok normalize_plan_sda2 show ?thesis by auto
qed

definition uuid_probe_sample :: disk_probes where
  "uuid_probe_sample = disk_probe_sample\<lparr>dp_lsblk := (\<lambda>_ _. Inr sample_snapshot)\<rparr>"

theorem selected_partition_identity_witness:
  "\<exists>plan. build_plan_with_probes uuid_probe_sample (DeletePartition ''/dev/sda'' 1 ''ab-01'') = Inr plan \<and>
     argv plan ! 2 = ''/dev/sda''"
proof -
  have "partuuid_for_partition_number sample_snapshot ''/dev/sda'' 1 = Inr ''ab-01''"
    by (simp add: partuuid_for_partition_number_def sample_snapshot_def sample_part_def blank_fields_def
        normalize_samples parse_snapshot_def partuuid_step_def device_name_def sample_on_disk nonempty_def
        str_simps)
  then have ok: "build_plan_with_probes uuid_probe_sample (DeletePartition ''/dev/sda'' 1 ''ab-01'') =
      Inr (projr (parted_device ''/dev/sda'' [''rm'', nat_to_string 1] 60))"
    by (simp add: uuid_probe_sample_def disk_probe_sample_def assert_partition_identity_def safe_partuuid_def
        disk_required_device_def normalize_plan_sda build_delete_partition_def parted_device_def str_simps)
  from selected_partition_identity [OF ok, of "''/dev/sda''" 1 "''ab-01''"] ok normalize_plan_sda
  show ?thesis by auto
qed

theorem create_geometry_exact_witness:
  "\<exists>plan b. build_plan_with_probes disk_probe_sample
     (CreatePartition ''/dev/sda'' 1048576 2097152 ''ext4'' [] 512) = Inr plan \<and>
     argv plan ! 9 = b @ ''B'' \<and> parse_u64 b = Some 3145216"
proof -
  have "partition_end 1048576 2097152 512 = Inr 3145216"
    by (simp add: partition_end_Inr u64_max_def)
  then have ok: "build_plan_with_probes disk_probe_sample
      (CreatePartition ''/dev/sda'' 1048576 2097152 ''ext4'' [] 512) =
      Inr (projr (parted_device ''/dev/sda'' [''unit'', ''B'', ''mkpart'', ''partition'', ''ext4'',
        nat_to_string 1048576 @ ''B'', nat_to_string 3145216 @ ''B''] 120))"
    by (simp add: parted_device_def disk_required_device_def normalize_plan_sda safe_label_def
        MAX_LABEL_BYTES_def normalized_name_def str_simps)
  from create_geometry_exact [OF ok] ok show ?thesis by auto
qed

end
