(* ===== verification/Installer_Manual.thy ===== *)
theory Installer_Manual
  imports Disk_Safety
begin

text \<open>
  The manual mount matrix, \<open>installer_manual.rs\<close>, with the fstab writer of
  \<open>installer_configuration.rs\<close> and the UUID probe of \<open>installer_probe.rs\<close> that it calls.  The whole
  table is validated against a fresh probe before anything is mounted or written; then each row is
  mounted and its line appended, and a failing row unmounts what this run mounted.  The commands run
  and the contents of the fstab file are the state; every answer of the operating system is a
  function of the state it is asked in.
\<close>

section \<open>Data\<close>

record manual_mount_input =
  mm_partition :: string
  mm_mountpoint :: string
  mm_fstype :: string
  mm_uuid :: string

record manual_mounts_input =
  mi_config_root :: string
  mi_fstab_path :: string
  mi_disk :: string
  mi_mounts :: "manual_mount_input list"

record manual_mounts_result =
  mr_configured :: nat
  mr_skipped :: nat

datatype fstab_error =
    UnsafeRoot
  | UnsupportedRootCharacters
  | NotInstalledFstab
  | FstabUnbounded
  | FstabControl
  | FstabShape
  | FstabValues
  | FstabSymlink
  | FstabOpen
  | FstabInspect
  | FstabEnding
  | FstabSeparate
  | FstabAppend
  | FstabSync

datatype manual_error =
    ManualPath string
  | ManualDevice
  | ManualUuid
  | ManualUuidMismatch
  | ManualFilesystem
  | SwapMountpoint
  | SwapFilesystem
  | ReservedMountpoint
  | MountpointAssignedTwice string
  | PartitionAssignedTwice string
  | RootInspect
  | RootNotDirectory
  | FstabPathWrong
  | DiskProbeFailed
  | SectorSizeFailed disk_error
  | ReprobeFailed string storage_error
  | PartitionMounted string
  | PartitionStacked string
  | PartitionReadOnly string
  | UuidProbeDevice
  | UuidProbeFailed
  | UuidProbeInvalid
  | MountpointSymlink
  | MountpointCreate
  | MountProbeNotRun
  | MountProbeUnclear
  | UmountNotRun
  | UmountFailed
  | MountNotRun
  | MountFailed string
  | ManualFstab fstab_error

section \<open>Validators\<close>

definition safe_path :: "string \<Rightarrow> string \<Rightarrow> (manual_error, string) res" where
  "safe_path raw lab =
     (let v = trim raw in
      if v = [] \<or> \<not> starts_with v ''/'' \<or> str_contains v ''..'' \<or> str_contains v ''//''
         \<or> ''.'' \<in> set (split_on (CHR ''/'') v) \<or> \<not> list_all path_char v
      then Inl (ManualPath lab) else Inr v)"

definition device_char :: "char \<Rightarrow> bool" where
  "device_char c \<longleftrightarrow> is_ascii_alphanumeric c \<or> c \<in> set ''/._-''"

definition safe_device :: "string \<Rightarrow> (manual_error, string) res" where
  "safe_device raw =
     (let v = trim raw;
          basename = (case strip_prefix v dev_prefix of Some b \<Rightarrow> b | None \<Rightarrow> []);
          valid_name = (basename \<noteq> [] \<and>
            (CHR ''/'' \<notin> set basename \<or>
             (case strip_prefix basename ''mapper/'' of
                None \<Rightarrow> False
              | Some m \<Rightarrow> m \<noteq> [] \<and> CHR ''/'' \<notin> set m)))
      in if \<not> starts_with v dev_prefix \<or> \<not> valid_name \<or> str_contains v ''..'' \<or> str_contains v ''//''
            \<or> \<not> list_all device_char v
         then Inl ManualDevice else Inr v)"

definition uuid_char :: "char \<Rightarrow> bool" where
  "uuid_char c \<longleftrightarrow> is_ascii_hexdigit c \<or> c = CHR ''-''"

definition safe_uuid :: "string \<Rightarrow> (manual_error, string) res" where
  "safe_uuid raw =
     (let v = trim raw in if v = [] \<or> \<not> list_all uuid_char v then Inl ManualUuid else Inr v)"

definition uuid_matches :: "string \<Rightarrow> string \<Rightarrow> bool" where
  "uuid_matches detected supplied =
     (case safe_uuid detected of Inl _ \<Rightarrow> False | Inr d \<Rightarrow> eq_ignore_ascii_case d supplied)"

definition verified_uuid :: "string \<Rightarrow> string \<Rightarrow> string \<Rightarrow> (manual_error, string) res" where
  "verified_uuid raw detected_uuid detected_partuuid =
     and_then (safe_uuid raw) (\<lambda>supplied.
     let matches_uuid = uuid_matches detected_uuid supplied;
         matches_partuuid = (trim detected_partuuid \<noteq> [] \<and> uuid_matches detected_partuuid supplied)
     in if \<not> matches_uuid \<and> \<not> matches_partuuid then Inl ManualUuidMismatch else Inr supplied)"

definition normalized_fs :: "string \<Rightarrow> (manual_error, string) res" where
  "normalized_fs raw =
     (let v = to_ascii_lowercase (trim raw) in
      if v = ''btrfs'' then Inr ''btrfs''
      else if v = ''ext4'' then Inr ''ext4''
      else if v = ''xfs'' then Inr ''xfs''
      else if v = ''linux-swap'' \<or> v = ''swap'' then Inr ''linux-swap''
      else Inl ManualFilesystem)"

definition normalize_mountpoint :: "string \<Rightarrow> string \<Rightarrow> bool \<Rightarrow> (manual_error, string) res" where
  "normalize_mountpoint raw fs allow_reserved =
     and_then
       (if fs = ''linux-swap'' then
          (if trim raw \<noteq> ''swap'' then Inl SwapMountpoint else Inr ''swap'')
        else if trim raw = ''swap'' then Inl SwapFilesystem
        else safe_path raw ''manual mount point'') (\<lambda>m.
     let mountpoint = (if length m > 1 then trim_end_matches (CHR ''/'') m else m) in
     if \<not> allow_reserved \<and> fs \<noteq> ''linux-swap''
        \<and> (mountpoint = ''/'' \<or> mountpoint = ''/boot'' \<or> mountpoint = ''/boot/efi'')
     then Inl ReservedMountpoint
     else Inr mountpoint)"

definition normalized_mountpoint :: "string \<Rightarrow> string \<Rightarrow> (manual_error, string) res" where
  "normalized_mountpoint raw fs = normalize_mountpoint raw fs False"

text \<open>The two sets, updated; the first set keeps the new mount point when the second check fails.\<close>

definition claim_assignment ::
    "string \<Rightarrow> string \<Rightarrow> string list \<Rightarrow> string list \<Rightarrow> (manual_error, string list \<times> string list) res" where
  "claim_assignment mountpoint device seen_mountpoints seen_partitions =
     (let (mps, fresh_mp) = set_insert mountpoint seen_mountpoints;
          (parts, fresh_part) = set_insert device seen_partitions
      in if \<not> fresh_mp then Inl (MountpointAssignedTwice mountpoint)
         else if \<not> fresh_part then Inl (PartitionAssignedTwice device)
         else Inr (mps, parts))"

definition mount_target :: "string \<Rightarrow> string \<Rightarrow> string" where
  "mount_target root fstab_mountpoint =
     (if fstab_mountpoint = ''/var'' \<or> starts_with fstab_mountpoint ''/var/''
      then root @ ''/ostree/deploy/default/var'' @ drop (length ''/var'') fstab_mountpoint
      else root @ fstab_mountpoint)"

section \<open>The UUID probe\<close>

definition probe_device_path :: "string \<Rightarrow> (manual_error, string) res" where
  "probe_device_path raw =
     (let v = trim raw in
      if \<not> starts_with v dev_prefix \<or> length v \<le> 5 \<or> str_contains v ''..'' \<or> str_contains v ''//''
         \<or> \<not> list_all device_char v
      then Inl UuidProbeDevice else Inr v)"

definition uuid_argv :: "string \<Rightarrow> (manual_error, string list) res" where
  "uuid_argv device =
     and_then (probe_device_path device) (\<lambda>d.
     Inr [''/usr/bin/blkid'', ''-s'', ''UUID'', ''-o'', ''value'', d])"

text \<open>\<open>run\<close> is the bounded command runner: the output, or none when it fails or times out.\<close>

definition lookup_uuid :: "(string list \<Rightarrow> string option) \<Rightarrow> string \<Rightarrow> (manual_error, string) res" where
  "lookup_uuid run device =
     and_then (uuid_argv device) (\<lambda>args.
     and_then (ok_or UuidProbeFailed (run args)) (\<lambda>out.
     let uuid = trim out in
     if uuid = [] \<or> length uuid > 128 \<or> \<not> list_all uuid_char uuid then Inl UuidProbeInvalid
     else Inr uuid))"

section \<open>fstab text\<close>

fun take_word :: "string \<Rightarrow> string \<times> string" where
  "take_word [] = ([], [])"
| "take_word (c # cs) =
     (if match_len ws_encodings (c # cs) > 0 then ([], c # cs)
      else (c # fst (take_word cs), snd (take_word cs)))"

lemma take_word_length: "length (snd (take_word s)) \<le> length s"
  by (induction s) auto

lemma strip_leading_length: "length (strip_leading ps s) \<le> length s"
proof -
  obtain u where "s = u @ strip_leading ps s" using strip_leading_suffix by blast
  then have "length s = length u + length (strip_leading ps s)" by (metis length_append)
  then show ?thesis by simp
qed

text \<open>\<open>str::split_whitespace\<close>.\<close>

function split_words :: "string \<Rightarrow> string list" where
  "split_words s =
     (let t = strip_leading ws_encodings s in
      if t = [] then [] else fst (take_word t) # split_words (snd (take_word t)))"
  by pat_completeness auto
termination
proof (relation "measure length")
  fix s x :: string
  assume x: "x = strip_leading ws_encodings s" and ne: "x \<noteq> []"
  then have "match_len ws_encodings x = 0" using strip_leading_fix [of ws_encodings s] by simp
  with ne have "length (snd (take_word x)) < length x"
    using take_word_length by (cases x) (auto simp: less_Suc_eq_le)
  with x show "(snd (take_word x), s) \<in> measure length"
    using strip_leading_length [of ws_encodings s] by simp
qed simp

declare split_words.simps [simp del]

text \<open>\<open>str::lines\<close>: a final line break does not open another line; a carriage return before a line
  break is dropped.\<close>

definition strip_cr :: "string \<Rightarrow> string" where
  "strip_cr l = (if l \<noteq> [] \<and> last l = char_of (13 :: nat) then butlast l else l)"

definition newline :: char where
  "newline = char_of (10 :: nat)"

definition str_lines :: "string \<Rightarrow> string list" where
  "str_lines s =
     (let ls = split_on newline s;
          ended = map strip_cr (butlast ls)
      in if last ls = [] then ended else ended @ [last ls])"

definition first_word :: "string \<Rightarrow> string option" where
  "first_word s = (case split_words s of [] \<Rightarrow> None | w # _ \<Rightarrow> Some w)"

definition ends_with :: "string \<Rightarrow> string \<Rightarrow> bool" where
  "ends_with s suffix = starts_with (rev s) (rev suffix)"

definition MAX_FSTAB_LINE_BYTES :: nat where
  "MAX_FSTAB_LINE_BYTES = 4096"

definition fstab_type_char :: "char \<Rightarrow> bool" where
  "fstab_type_char c \<longleftrightarrow> is_ascii_alphanumeric c \<or> c \<in> set ''._-''"

definition fstab_option_char :: "char \<Rightarrow> bool" where
  "fstab_option_char c \<longleftrightarrow> is_ascii_alphanumeric c \<or> c \<in> set ''=,:._+@-''"

definition validate_fstab_line :: "string \<Rightarrow> (fstab_error, unit) res" where
  "validate_fstab_line line =
     (if line = [] \<or> length line > MAX_FSTAB_LINE_BYTES \<or> \<not> ends_with line [newline]
      then Inl FstabUnbounded
      else if list_ex (\<lambda>c. byte c < 32 \<or> byte c = 127) (butlast line) then Inl FstabControl
      else case split_words line of
        [f0, f1, f2, f3, f4, f5] \<Rightarrow>
          if \<not> starts_with f0 ''UUID='' then Inl FstabShape
          else if length f0 \<le> length ''UUID='' \<or> \<not> list_all uuid_char (drop (length ''UUID='') f0)
             \<or> f1 \<noteq> ''none'' \<and> \<not> is_ok (safe_absolute_path f1 ''fstab mount point'')
             \<or> \<not> list_all fstab_type_char f2 \<or> \<not> list_all fstab_option_char f3
             \<or> f4 \<noteq> ''0'' \<or> f5 \<noteq> ''0'' \<and> f5 \<noteq> ''2''
          then Inl FstabValues else Inr ()
      | _ \<Rightarrow> Inl FstabShape)"

definition safe_root :: "string \<Rightarrow> (fstab_error, string) res" where
  "safe_root raw =
     (let v = trim raw in
      if \<not> starts_with v ''/'' \<or> str_contains v ''..'' \<or> length v > 4096 then Inl UnsafeRoot
      else if \<not> list_all path_char v then Inl UnsupportedRootCharacters else Inr v)"

definition safe_fstab_path :: "string \<Rightarrow> (fstab_error, string) res" where
  "safe_fstab_path raw =
     and_then (safe_root raw) (\<lambda>path.
     if \<not> ends_with path ''/etc/fstab'' then Inl NotInstalledFstab else Inr path)"

section \<open>State and the operating system\<close>

datatype mount_command =
    MountCmd string string string
  | UmountCmd string
  | MkdirCmd string

datatype write_answer = WriteOk | WriteFailed nat

datatype file_kind = Symlink | Directory | RegularFile

record mount_state =
  ms_log :: "mount_command list"
  ms_fstab :: "string option"

datatype exit_answer = CouldNotRun | Exited int | Signalled

record mount_os =
  mo_kind :: "mount_state \<Rightarrow> string \<Rightarrow> file_kind option"
  mo_mkdir :: "mount_state \<Rightarrow> string \<Rightarrow> bool"
  mo_findmnt :: "mount_state \<Rightarrow> string \<Rightarrow> exit_answer"
  mo_umount :: "mount_state \<Rightarrow> string \<Rightarrow> exit_answer"
  mo_mount :: "mount_state \<Rightarrow> string \<Rightarrow> string \<Rightarrow> string \<Rightarrow> exit_answer"
  mo_fstab_readable :: "mount_state \<Rightarrow> bool"
  mo_fstab_open :: "mount_state \<Rightarrow> bool"
  mo_fstab_stat :: "mount_state \<Rightarrow> bool"
  mo_fstab_ending :: "mount_state \<Rightarrow> bool"
  mo_write :: "mount_state \<Rightarrow> string \<Rightarrow> write_answer"
  mo_fstab_sync :: "mount_state \<Rightarrow> bool"
  mo_blkid :: "string list \<Rightarrow> string option"
  mo_lsblk :: "string \<Rightarrow> lsblk_text option"
  mo_command :: "string list \<Rightarrow> cmd_result"

definition log_command :: "mount_command \<Rightarrow> mount_state \<Rightarrow> mount_state" where
  "log_command c st = st\<lparr>ms_log := ms_log st @ [c]\<rparr>"

definition fstab_write :: "mount_os \<Rightarrow> string \<Rightarrow> mount_state \<Rightarrow> bool \<times> mount_state" where
  "fstab_write os bytes st =
     (let old = unwrap_or [] (ms_fstab st) in
      case mo_write os st bytes of
        WriteOk \<Rightarrow> (True, st\<lparr>ms_fstab := Some (old @ bytes)\<rparr>)
      | WriteFailed n \<Rightarrow> (False, st\<lparr>ms_fstab := Some (old @ take n bytes)\<rparr>))"

definition append_fstab ::
    "mount_os \<Rightarrow> string \<Rightarrow> string \<Rightarrow> mount_state \<Rightarrow> (fstab_error, unit) res \<times> mount_state" where
  "append_fstab os raw_path line st =
     (case and_then (safe_fstab_path raw_path) (\<lambda>path.
           and_then (validate_fstab_line line) (\<lambda>_. Inr path)) of
        Inl e \<Rightarrow> (Inl e, st)
      | Inr path \<Rightarrow>
          let new_uuid = unwrap_or [] (first_word line) in
          if mo_kind os st path = Some Symlink then (Inl FstabSymlink, st)
          else if mo_fstab_readable os st \<and> ms_fstab st \<noteq> None
                  \<and> list_ex (\<lambda>l. first_word l = Some new_uuid) (str_lines (the (ms_fstab st)))
          then (Inr (), st)
          else if \<not> mo_fstab_open os st then (Inl FstabOpen, st)
          else
            let st0 = st\<lparr>ms_fstab := Some (unwrap_or [] (ms_fstab st))\<rparr>;
                text_now = the (ms_fstab st0)
            in
            if \<not> mo_fstab_stat os st0 then (Inl FstabInspect, st0)
            else if text_now \<noteq> [] \<and> \<not> mo_fstab_ending os st0 then (Inl FstabEnding, st0)
            else
              let (separated, st1) =
                (if text_now \<noteq> [] \<and> last text_now \<noteq> newline then fstab_write os [newline] st0
                 else (True, st0))
              in
              if \<not> separated then (Inl FstabSeparate, st1)
              else
                let (written, st2) = fstab_write os line st1 in
                if \<not> written then (Inl FstabAppend, st2)
                else if \<not> mo_fstab_sync os st2 then (Inl FstabSync, st2)
                else (Inr (), st2))"

section \<open>Applying the matrix\<close>

fun rollback_mounts :: "string list \<Rightarrow> mount_state \<Rightarrow> mount_state" where
  "rollback_mounts targets st = fold (\<lambda>t. log_command (UmountCmd t)) (rev targets) st"

definition finish_row ::
    "mount_os \<Rightarrow> string \<Rightarrow> string \<Rightarrow> string list \<Rightarrow> mount_state
       \<Rightarrow> (manual_error, unit) res \<times> string list \<times> mount_state" where
  "finish_row os fstab line mounted st =
     (let (r, st') = append_fstab os fstab line st in (map_err ManualFstab r, mounted, st'))"

definition clear_existing ::
    "mount_os \<Rightarrow> string \<Rightarrow> mount_state \<Rightarrow> (manual_error, unit) res \<times> mount_state" where
  "clear_existing os target st =
     (case mo_findmnt os st target of
        CouldNotRun \<Rightarrow> (Inl MountProbeNotRun, st)
      | Signalled \<Rightarrow> (Inl MountProbeUnclear, st)
      | Exited code \<Rightarrow>
          if code \<noteq> 0 \<and> code \<noteq> 1 then (Inl MountProbeUnclear, st)
          else if code = 0 then
            (case mo_umount os st target of
               CouldNotRun \<Rightarrow> (Inl UmountNotRun, st)
             | Exited c \<Rightarrow>
                 if c = 0 then (Inr (), log_command (UmountCmd target) st)
                 else (Inl UmountFailed, log_command (UmountCmd target) st)
             | Signalled \<Rightarrow> (Inl UmountFailed, log_command (UmountCmd target) st))
          else (Inr (), st))"

definition apply_mount_row ::
    "mount_os \<Rightarrow> string \<Rightarrow> string \<Rightarrow> string \<Rightarrow> string \<Rightarrow> string \<Rightarrow> string \<Rightarrow> string list \<Rightarrow> mount_state
       \<Rightarrow> (manual_error, unit) res \<times> string list \<times> mount_state" where
  "apply_mount_row os root fstab device fs fstab_mountpoint line mounted st =
     (if fs \<noteq> ''linux-swap'' then
        let target = mount_target root fstab_mountpoint in
        if mo_kind os st target = Some Symlink then (Inl MountpointSymlink, mounted, st)
        else if \<not> mo_mkdir os st target then (Inl MountpointCreate, mounted, st)
        else
          let (cleared, st1) = clear_existing os target (log_command (MkdirCmd target) st) in
          (case cleared of
             Inl e \<Rightarrow> (Inl e, mounted, st1)
           | Inr _ \<Rightarrow>
               (case mo_mount os st1 fs device target of
                  CouldNotRun \<Rightarrow> (Inl MountNotRun, mounted, st1)
                | Exited code \<Rightarrow>
                    if code \<noteq> 0 then (Inl (MountFailed fstab_mountpoint), mounted, st1)
                    else finish_row os fstab line (mounted @ [target])
                           (log_command (MountCmd fs device target) st1)
                | Signalled \<Rightarrow> (Inl (MountFailed fstab_mountpoint), mounted, st1)))
      else finish_row os fstab line mounted st)"

type_synonym prepared_row = "string \<times> string \<times> string \<times> string"

definition fstab_line :: "string \<Rightarrow> string \<Rightarrow> string \<Rightarrow> string" where
  "fstab_line uuid fs fstab_mountpoint =
     (let pass = (if fs = ''linux-swap'' then ''0'' else if fs = ''btrfs'' then ''0'' else ''2'') in
      if fs = ''linux-swap'' then ''UUID='' @ uuid @ '' none swap defaults 0 '' @ pass @ [newline]
      else
        let options = (if fs = ''btrfs'' then ''defaults,compress=zstd:1'' else ''defaults'') in
        ''UUID='' @ uuid @ '' '' @ fstab_mountpoint @ '' '' @ fs @ '' '' @ options @ '' 0 '' @ pass @ [newline])"

text \<open>One row of the validation loop: the accumulators are the prepared rows, the three sets and the
  number of skipped rows.\<close>

record prepare_state =
  ps_rows :: "prepared_row list"
  ps_mountpoints :: "string list"
  ps_partitions :: "string list"
  ps_uuids :: "string list"
  ps_skipped :: nat

definition check_probe ::
    "lsblk_text \<Rightarrow> string \<Rightarrow> nat \<Rightarrow> string \<Rightarrow> (manual_error, partition_probe) res" where
  "check_probe snapshot disk sector_size device =
     and_then (map_err (ReprobeFailed device)
       (partition_probe_from_snapshot snapshot disk device sector_size)) (\<lambda>probe.
     if pp_current probe then Inl (PartitionMounted device)
     else if pp_in_use probe then Inl (PartitionStacked device)
     else if pp_read_only probe then Inl (PartitionReadOnly device)
     else Inr probe)"

definition prepare_row ::
    "mount_os \<Rightarrow> lsblk_text \<Rightarrow> string \<Rightarrow> nat \<Rightarrow> manual_mount_input \<Rightarrow> prepare_state
       \<Rightarrow> (manual_error, prepare_state) res" where
  "prepare_row os snapshot disk sector_size mount ps =
     and_then (safe_device (mm_partition mount)) (\<lambda>device.
     and_then (check_probe snapshot disk sector_size device) (\<lambda>probe.
     and_then (lookup_uuid (mo_blkid os) device) (\<lambda>detected_uuid.
     and_then (verified_uuid (mm_uuid mount) detected_uuid (pp_partuuid probe)) (\<lambda>uuid.
     let (uuids, fresh) = set_insert uuid (ps_uuids ps) in
     if \<not> fresh then Inr (ps\<lparr>ps_skipped := ps_skipped ps + 1\<rparr>)
     else
       and_then (normalized_fs (mm_fstype mount)) (\<lambda>fs.
       and_then (normalized_mountpoint (mm_mountpoint mount) fs) (\<lambda>mountpoint.
       let fstab_mountpoint = (if mountpoint = ''/home'' then ''/var/home'' else mountpoint) in
       and_then (claim_assignment fstab_mountpoint device (ps_mountpoints ps) (ps_partitions ps))
         (\<lambda>(mps, parts).
       Inr (ps\<lparr>ps_rows := ps_rows ps @ [(device, fs, fstab_mountpoint, fstab_line uuid fs fstab_mountpoint)],
               ps_mountpoints := mps, ps_partitions := parts, ps_uuids := uuids\<rparr>))))))))"

fun prepare_rows ::
    "mount_os \<Rightarrow> lsblk_text \<Rightarrow> string \<Rightarrow> nat \<Rightarrow> manual_mount_input list \<Rightarrow> prepare_state
       \<Rightarrow> (manual_error, prepare_state) res" where
  "prepare_rows os snapshot disk sector_size [] ps = Inr ps"
| "prepare_rows os snapshot disk sector_size (m # ms) ps =
     and_then (prepare_row os snapshot disk sector_size m ps)
       (prepare_rows os snapshot disk sector_size ms)"

fun apply_rows ::
    "mount_os \<Rightarrow> string \<Rightarrow> string \<Rightarrow> prepared_row list \<Rightarrow> nat \<Rightarrow> string list \<Rightarrow> mount_state
       \<Rightarrow> (manual_error, nat) res \<times> mount_state" where
  "apply_rows os root fstab [] configured mounted st = (Inr configured, st)"
| "apply_rows os root fstab ((device, fs, mp, line) # rows) configured mounted st =
     (let (r, mounted', st') = apply_mount_row os root fstab device fs mp line mounted st in
      case r of
        Inl e \<Rightarrow> (Inl e, rollback_mounts mounted' st')
      | Inr _ \<Rightarrow> apply_rows os root fstab rows (configured + 1) mounted' st')"

text \<open>The component checks on the fstab path: \<open>Path::file_name\<close> and that of the parent.  On a path
  \<open>safe_path\<close> accepted there are no empty inner, \<open>.\<close> or \<open>..\<close> components.\<close>

definition path_file_name :: "string \<Rightarrow> string option" where
  "path_file_name path =
     (let cs = drop_trivial (split_on (CHR ''/'') path) in if cs = [] then None else Some (last cs))"

definition fstab_path_ok :: "string \<Rightarrow> bool" where
  "fstab_path_ok path \<longleftrightarrow> path_file_name path = Some ''fstab'' \<and>
     Option.bind (parent_path path) path_file_name = Some ''etc''"

definition manual_checks ::
    "mount_os \<Rightarrow> manual_mounts_input \<Rightarrow> mount_state
       \<Rightarrow> (manual_error, string \<times> string \<times> prepare_state) res" where
  "manual_checks os input st =
     and_then (safe_path (mi_config_root input) ''config root'') (\<lambda>root.
     and_then (ok_or RootInspect (mo_kind os st root)) (\<lambda>kind.
     and_then (guard (kind = Directory) RootNotDirectory) (\<lambda>_.
     and_then (safe_path (mi_fstab_path input) ''fstab path'') (\<lambda>fstab.
     and_then (guard (fstab_path_ok fstab) FstabPathWrong) (\<lambda>_.
     and_then (safe_device (mi_disk input)) (\<lambda>disk.
     and_then (ok_or DiskProbeFailed (mo_lsblk os disk)) (\<lambda>snapshot.
     and_then (map_err SectorSizeFailed (logical_sector_size (mo_command os) disk)) (\<lambda>sector_size.
     and_then (prepare_rows os snapshot disk sector_size (mi_mounts input)
       \<lparr>ps_rows = [], ps_mountpoints = [], ps_partitions = [], ps_uuids = [], ps_skipped = 0\<rparr>) (\<lambda>ps.
     Inr (root, fstab, ps))))))))))"

definition apply_manual ::
    "mount_os \<Rightarrow> manual_mounts_input \<Rightarrow> mount_state
       \<Rightarrow> (manual_error, manual_mounts_result) res \<times> mount_state" where
  "apply_manual os input st =
     (case manual_checks os input st of
        Inl e \<Rightarrow> (Inl e, st)
      | Inr (root, fstab, ps) \<Rightarrow>
          let (r, st') = apply_rows os root fstab (ps_rows ps) 0 [] st in
          (and_then r (\<lambda>configured. Inr \<lparr>mr_configured = configured, mr_skipped = ps_skipped ps\<rparr>), st'))"

end
