(* ===== verification/Manual_Safety.thy ===== *)
theory Manual_Safety
  imports Installer_Manual
begin

text \<open>
  Correctness of the manual mount matrix: every prepared row names a free partition of the selected
  disk, a safe unreserved mount point and a distinct device; every line it writes passes the fstab
  validator; a failing row leaves no mount of this run behind.
\<close>

section \<open>Validators\<close>

lemma safe_path_Inr:
  "safe_path raw lab = Inr v \<Longrightarrow> v = trim raw \<and> v \<noteq> [] \<and> starts_with v ''/'' \<and> \<not> str_contains v ''..'' \<and>
     \<not> str_contains v ''//'' \<and> list_all path_char v"
  by (auto simp: safe_path_def Let_def split: if_splits)

interpretation manual_path: argument_validator "\<lambda>raw. safe_path raw lab" for lab
  by unfold_locales (auto simp: safe_path_def Let_def safe_trim clean_path split: if_splits)

lemma device_char_path: "device_char c \<Longrightarrow> path_char c"
  by (auto simp: device_char_def path_char_def)

interpretation manual_device: argument_validator safe_device
proof
  fix raw v
  assume v: "safe_device raw = Inr v"
  then have t: "v = trim raw" and "list_all device_char v"
    by (auto simp: safe_device_def Let_def split: if_splits)
  then show "clean_arg v" by (intro clean_path) (auto simp: list_all_iff device_char_path)
  from v show "safe_device v = Inr v" by (simp add: t safe_device_def)
qed

interpretation manual_uuid: argument_validator safe_uuid
proof
  fix raw v
  assume v: "safe_uuid raw = Inr v"
  then show "clean_arg v"
    by (intro clean_graphic) (auto simp: safe_uuid_def Let_def list_all_iff uuid_char_def graphic_def
        is_ascii_hexdigit_def split: if_splits)
  from v have "v = trim raw" by (simp add: safe_uuid_def Let_def split: if_splits)
  with v show "safe_uuid v = Inr v" by (simp add: safe_uuid_def)
qed

lemma safe_device_storage:
  assumes "safe_device raw = Inr d"
  shows "storage_normalize d = Some d"
proof -
  from assms have d: "d = trim raw" "starts_with d dev_prefix" "\<not> str_contains d ''..''" "list_all device_char d"
    by (auto simp: safe_device_def Let_def split: if_splits)
  then obtain b where b: "d = dev_prefix @ b" by (auto simp: starts_with_iff)
  have sp: "strip_prefix d dev_prefix = Some b" unfolding b by (rule strip_prefix_append)
  have "valid_basename b"
  proof (rule ccontr)
    assume "\<not> valid_basename b"
    then have "safe_device raw = Inl ManualDevice"
      unfolding safe_device_def Let_def valid_basename_def d(1) [symmetric] sp option.case mapper_suffix
      by (simp only: simp_thms if_True)
    with assms show False by simp
  qed
  moreover have "list_all path_char d" using d(4) by (auto simp: list_all_iff device_char_path)
  ultimately show ?thesis using b d(3) by (auto simp: storage_normalize_Some safe_trim)
qed

section \<open>Prepared rows\<close>

text \<open>A mount point the matrix may use: swap for swap, otherwise a safe path that is not the root, the
  boot directory or the ESP.\<close>

definition mountpoint_ok :: "string \<Rightarrow> string \<Rightarrow> bool" where
  "mountpoint_ok fs mp \<longleftrightarrow> fs \<in> {''btrfs'', ''ext4'', ''xfs'', ''linux-swap''} \<and>
     (if fs = ''linux-swap'' then mp = ''swap''
      else starts_with mp ''/'' \<and> mp \<notin> {''/'', ''/boot'', ''/boot/efi''} \<and> list_all path_char mp \<and>
           \<not> str_contains mp ''..'' \<and> \<not> str_contains mp ''//'')"

lemma trim_end_matches_prefix: "\<exists>r. s = trim_end_matches c s @ r"
proof -
  have "rev s = takeWhile (\<lambda>d. d = c) (rev s) @ dropWhile (\<lambda>d. d = c) (rev s)" by simp
  then have "s = trim_end_matches c s @ rev (takeWhile (\<lambda>d. d = c) (rev s))"
    by (metis rev_append rev_rev_ident trim_end_matches_def)
  then show ?thesis by blast
qed

lemma str_contains_prefix: "str_contains a p \<Longrightarrow> str_contains (a @ r) p"
  unfolding str_contains_iff by (metis append.assoc)

lemma trim_slash_starts:
  assumes "starts_with s ''/''" and "\<not> str_contains s ''//''" and "length s > 1"
  shows "starts_with (trim_end_matches (CHR ''/'') s) ''/''"
proof -
  from assms(1,3) obtain c r where s: "s = CHR ''/'' # c # r"
    by (cases s; cases "tl s") (auto simp: starts_with_iff)
  have "c \<noteq> CHR ''/''" using assms(2) by (auto simp: s)
  obtain q where q: "s = trim_end_matches (CHR ''/'') s @ q" using trim_end_matches_prefix by blast
  show ?thesis
  proof (cases "trim_end_matches (CHR ''/'') s")
    case Nil
    then have "dropWhile (\<lambda>d. d = CHR ''/'') (rev s) = []" by (simp add: trim_end_matches_def)
    then have "\<forall>x \<in> set s. x = CHR ''/''" by (simp add: dropWhile_eq_Nil_conv)
    then have "c = CHR ''/''" unfolding s by (metis list.set_intros(1,2))
    with \<open>c \<noteq> CHR ''/''\<close> show ?thesis by blast
  next
    case (Cons a as)
    from q [unfolded Cons] have "s = a # as @ q" by simp
    with s have "a = CHR ''/''" by (metis list.inject)
    with Cons show ?thesis by simp
  qed
qed

lemma normalized_mountpoint_ok:
  assumes "normalized_fs raw_fs = Inr fs" and "normalized_mountpoint raw fs = Inr mp"
  shows "mountpoint_ok fs (if mp = ''/home'' then ''/var/home'' else mp)"
proof -
  have fs: "fs \<in> {''btrfs'', ''ext4'', ''xfs'', ''linux-swap''}"
    using assms(1) by (auto simp: normalized_fs_def Let_def split: if_splits)
  show ?thesis
  proof (cases "fs = ''linux-swap''")
    case True
    with assms(2) have "mp = ''swap''"
      by (auto simp: normalized_mountpoint_def normalize_mountpoint_def trim_end_matches_def split: if_splits)
    with True show ?thesis by (simp add: mountpoint_ok_def)
  next
    case False
    define t where "t m = (if length m > 1 then trim_end_matches (CHR ''/'') m else m)" for m
    from assms(2) obtain m where
        m1: "(if fs = ''linux-swap'' then (if trim raw \<noteq> ''swap'' then Inl SwapMountpoint else Inr ''swap'')
              else if trim raw = ''swap'' then Inl SwapFilesystem
              else safe_path raw ''manual mount point'') = Inr m" and
        m2: "(if \<not> False \<and> fs \<noteq> ''linux-swap'' \<and> (t m = ''/'' \<or> t m = ''/boot'' \<or> t m = ''/boot/efi'')
              then Inl ReservedMountpoint else Inr (t m)) = Inr mp"
      unfolding normalized_mountpoint_def normalize_mountpoint_def Let_def and_then_Inr t_def by blast
    from m1 False have m_safe: "safe_path raw ''manual mount point'' = Inr m" by (simp split: if_splits)
    from m2 False have "mp = t m" "mp \<notin> {''/'', ''/boot'', ''/boot/efi''}"
      by (simp_all split: if_splits)
    with m_safe have m: "safe_path raw ''manual mount point'' = Inr m"
        "mp = (if length m > 1 then trim_end_matches (CHR ''/'') m else m)"
        "mp \<notin> {''/'', ''/boot'', ''/boot/efi''}" by (simp_all add: t_def)
    note sm = safe_path_Inr [OF m(1)]
    obtain r where r: "m = mp @ r" using m(2) trim_end_matches_prefix [of m] by (auto split: if_splits)
    have "starts_with mp ''/''" using m(2) sm trim_slash_starts [of m] by (auto split: if_splits)
    moreover have "list_all path_char mp" "\<not> str_contains mp ''..''" "\<not> str_contains mp ''//''"
      using sm r str_contains_prefix by auto
    moreover have "list_all path_char ''/var/home''" by (simp add: path_char_def str_simps)
    ultimately show ?thesis using False fs m(3) by (simp add: mountpoint_ok_def)
  qed
qed

definition row_ok :: "lsblk_text \<Rightarrow> string \<Rightarrow> nat \<Rightarrow> prepared_row \<Rightarrow> bool" where
  "row_ok snapshot disk ss row \<longleftrightarrow> (case row of (device, fs, mp, line) \<Rightarrow>
     mountpoint_ok fs mp \<and>
     (\<exists>probe. partition_probe_from_snapshot snapshot disk device ss = Inr probe \<and>
        \<not> pp_current probe \<and> \<not> pp_in_use probe \<and> \<not> pp_read_only probe) \<and>
     (\<exists>uuid. uuid \<noteq> [] \<and> list_all uuid_char uuid \<and> line = fstab_line uuid fs mp))"

definition prepare_inv :: "lsblk_text \<Rightarrow> string \<Rightarrow> nat \<Rightarrow> prepare_state \<Rightarrow> bool" where
  "prepare_inv snapshot disk ss ps \<longleftrightarrow>
     map fst (ps_rows ps) = ps_partitions ps \<and> map (fst \<circ> snd \<circ> snd) (ps_rows ps) = ps_mountpoints ps \<and>
     distinct (ps_partitions ps) \<and> distinct (ps_mountpoints ps) \<and> distinct (ps_uuids ps) \<and>
     length (ps_uuids ps) = length (ps_rows ps) \<and> list_all (row_ok snapshot disk ss) (ps_rows ps)"

lemma claim_assignment_Inr:
  "claim_assignment mp d mps parts = Inr (mps', parts') \<longleftrightarrow>
     mp \<notin> set mps \<and> d \<notin> set parts \<and> mps' = mps @ [mp] \<and> parts' = parts @ [d]"
  by (auto simp: claim_assignment_def set_insert_def Let_def split: if_splits prod.splits)

lemma verified_uuid_Inr:
  "verified_uuid raw u pu = Inr v \<Longrightarrow> v \<noteq> [] \<and> list_all uuid_char v"
  by (auto simp: verified_uuid_def Let_def safe_uuid_def split: if_splits)

lemma prepare_row_inv:
  assumes inv: "prepare_inv snapshot disk ss ps" and r: "prepare_row os snapshot disk ss m ps = Inr ps'"
  shows "prepare_inv snapshot disk ss ps' \<and>
    length (ps_rows ps') + ps_skipped ps' = Suc (length (ps_rows ps) + ps_skipped ps)"
proof -
  from r obtain device probe uuid where
      probe: "check_probe snapshot disk ss device = Inr probe" and uuid: "uuid \<noteq> []" "list_all uuid_char uuid" and
      rest: "(let (uuids, fresh) = set_insert uuid (ps_uuids ps) in
     if \<not> fresh then Inr (ps\<lparr>ps_skipped := ps_skipped ps + 1\<rparr>)
     else
       and_then (normalized_fs (mm_fstype m)) (\<lambda>fs.
       and_then (normalized_mountpoint (mm_mountpoint m) fs) (\<lambda>mountpoint.
       let fstab_mountpoint = (if mountpoint = ''/home'' then ''/var/home'' else mountpoint) in
       and_then (claim_assignment fstab_mountpoint device (ps_mountpoints ps) (ps_partitions ps))
         (\<lambda>(mps, parts).
       Inr (ps\<lparr>ps_rows := ps_rows ps @ [(device, fs, fstab_mountpoint, fstab_line uuid fs fstab_mountpoint)],
               ps_mountpoints := mps, ps_partitions := parts, ps_uuids := uuids\<rparr>))))) = Inr ps'"
    unfolding prepare_row_def and_then_Inr using verified_uuid_Inr by blast
  show ?thesis
  proof (cases "uuid \<in> set (ps_uuids ps)")
    case True
    with rest have "ps' = ps\<lparr>ps_skipped := ps_skipped ps + 1\<rparr>" by (simp add: set_insert_def)
    with inv show ?thesis by (simp add: prepare_inv_def)
  next
    case False
    with rest obtain fs mp where fs: "normalized_fs (mm_fstype m) = Inr fs"
        "normalized_mountpoint (mm_mountpoint m) fs = Inr mp"
        and fresh: "(if mp = ''/home'' then ''/var/home'' else mp) \<notin> set (ps_mountpoints ps)"
          "device \<notin> set (ps_partitions ps)"
        and ps': "ps' = ps\<lparr>ps_rows := ps_rows ps @ [(device, fs, if mp = ''/home'' then ''/var/home'' else mp,
              fstab_line uuid fs (if mp = ''/home'' then ''/var/home'' else mp))],
            ps_mountpoints := ps_mountpoints ps @ [if mp = ''/home'' then ''/var/home'' else mp],
            ps_partitions := ps_partitions ps @ [device], ps_uuids := ps_uuids ps @ [uuid]\<rparr>"
      by (auto simp: set_insert_def claim_assignment_Inr Let_def simp del: if_split_asm)
    have "row_ok snapshot disk ss (device, fs, if mp = ''/home'' then ''/var/home'' else mp,
        fstab_line uuid fs (if mp = ''/home'' then ''/var/home'' else mp))"
      using normalized_mountpoint_ok [OF fs] probe uuid
      unfolding row_ok_def check_probe_def by (auto split: if_splits)
    with inv fresh False show ?thesis unfolding ps' by (simp add: prepare_inv_def)
  qed
qed


lemma prepare_rows_inv:
  "prepare_inv snapshot disk ss ps \<Longrightarrow> prepare_rows os snapshot disk ss ms ps = Inr ps' \<Longrightarrow>
   prepare_inv snapshot disk ss ps' \<and>
     length (ps_rows ps') + ps_skipped ps' = length ms + (length (ps_rows ps) + ps_skipped ps)"
proof (induction ms arbitrary: ps)
  case (Cons m ms)
  from Cons.prems(2) obtain ps1 where 1: "prepare_row os snapshot disk ss m ps = Inr ps1"
      "prepare_rows os snapshot disk ss ms ps1 = Inr ps'" by auto
  with prepare_row_inv [OF Cons.prems(1) 1(1)] Cons.IH [of ps1] show ?case by simp
qed simp

lemma manual_checks_inv:
  assumes "manual_checks os input st = Inr (root, fstab, ps)"
  shows "\<exists>disk snapshot ss. safe_device (mi_disk input) = Inr disk \<and> mo_lsblk os disk = Some snapshot \<and>
    prepare_inv snapshot disk ss ps \<and> length (ps_rows ps) + ps_skipped ps = length (mi_mounts input)"
proof -
  from assms obtain disk snapshot ss where d: "safe_device (mi_disk input) = Inr disk"
      "mo_lsblk os disk = Some snapshot"
      "prepare_rows os snapshot disk ss (mi_mounts input)
         \<lparr>ps_rows = [], ps_mountpoints = [], ps_partitions = [], ps_uuids = [], ps_skipped = 0\<rparr> = Inr ps"
    by (auto simp: manual_checks_def)
  have "prepare_inv snapshot disk ss
      \<lparr>ps_rows = [], ps_mountpoints = [], ps_partitions = [], ps_uuids = [], ps_skipped = 0\<rparr>"
    by (simp add: prepare_inv_def)
  from prepare_rows_inv [OF this d(3)] d show ?thesis by auto
qed

section \<open>Effects\<close>

definition mount_targets :: "mount_command list \<Rightarrow> string list" where
  "mount_targets cmds = List.map_filter (\<lambda>c. case c of MountCmd fs d t \<Rightarrow> Some t | _ \<Rightarrow> None) cmds"

lemma mount_targets_simps [simp]:
  "mount_targets [] = []" "mount_targets (a @ b) = mount_targets a @ mount_targets b"
  "mount_targets (MountCmd fs d t # cs) = t # mount_targets cs"
  "mount_targets (UmountCmd t # cs) = mount_targets cs" "mount_targets (MkdirCmd t # cs) = mount_targets cs"
  by (simp_all add: mount_targets_def List.map_filter_def)

lemma log_command_log [simp]: "ms_log (log_command c st) = ms_log st @ [c]"
  "ms_fstab (log_command c st) = ms_fstab st"
  by (simp_all add: log_command_def)

lemma fold_log_log: "ms_log (fold (\<lambda>t. log_command (f t)) ts st) = ms_log st @ map f ts"
  by (induction ts arbitrary: st) auto

lemma rollback_log [simp]: "ms_log (rollback_mounts ts st) = ms_log st @ map UmountCmd (rev ts)"
  by (simp add: fold_log_log)

declare rollback_mounts.simps [simp del]

lemma fstab_write_log: "fstab_write os b st = (ok, st') \<Longrightarrow> ms_log st' = ms_log st"
  by (auto simp: fstab_write_def Let_def split: write_answer.splits)

lemma append_fstab_log: "append_fstab os p line st = (r, st') \<Longrightarrow> ms_log st' = ms_log st"
  by (auto simp: append_fstab_def Let_def dest!: fstab_write_log split: sum.splits if_splits prod.splits)

lemma clear_existing_log:
  "clear_existing os target st = (r, st') \<Longrightarrow> \<exists>cmds. ms_log st' = ms_log st @ cmds \<and> mount_targets cmds = []"
  by (fastforce simp: clear_existing_def split: exit_answer.splits if_splits)

text \<open>One row: it appends to the log, and the list of mounted targets grows by exactly the mounts it
  logged, on every exit.\<close>

lemma apply_mount_row_log:
  assumes "apply_mount_row os root fstab device fs mp line mounted st = (r, mounted', st')"
  shows "\<exists>cmds. ms_log st' = ms_log st @ cmds \<and> mounted' = mounted @ mount_targets cmds \<and>
    (r = Inr () \<longrightarrow> mount_targets cmds = (if fs = ''linux-swap'' then [] else [mount_target root mp]))"
proof (cases "fs = ''linux-swap''")
  case True
  with assms show ?thesis
    by (auto simp: apply_mount_row_def finish_row_def dest!: append_fstab_log split: prod.splits)
next
  case False
  define target where "target = mount_target root mp"
  obtain cl st1 where c: "clear_existing os target (log_command (MkdirCmd target) st) = (cl, st1)" by force
  from clear_existing_log [OF c] obtain cmds where
    cmds: "ms_log st1 = ms_log st @ (MkdirCmd target # cmds)" "mount_targets cmds = []"
    by auto
  from assms False consider "mounted' = mounted" "st' = st" "r \<noteq> Inr ()"
    | "mounted' = mounted" "st' = st1" "r \<noteq> Inr ()"
    | "finish_row os fstab line (mounted @ [target]) (log_command (MountCmd fs device target) st1) =
         (r, mounted', st')"
    by (auto simp: apply_mount_row_def target_def [symmetric] Let_def c
        split: if_splits sum.splits exit_answer.splits)
  then show ?thesis
  proof cases
    case 3
    then have "mounted' = mounted @ [target]" "ms_log st' = ms_log st1 @ [MountCmd fs device target]"
      by (auto simp: finish_row_def dest!: append_fstab_log split: prod.splits)
    with cmds False show ?thesis
      by (intro exI [of _ "(MkdirCmd target # cmds) @ [MountCmd fs device target]"])
        (simp add: target_def [symmetric])
  qed (use cmds in \<open>force intro: exI [of _ "[]"]\<close>)+
qed

text \<open>The targets a list of prepared rows asks for: one per filesystem that is not swap.\<close>

fun row_targets :: "string \<Rightarrow> prepared_row list \<Rightarrow> string list" where
  "row_targets root [] = []"
| "row_targets root ((device, fs, mp, line) # rows) =
     (if fs = ''linux-swap'' then [] else [mount_target root mp]) @ row_targets root rows"

lemma apply_rows_log:
  "apply_rows os root fstab rows n mounted st = (r, st') \<Longrightarrow>
   \<exists>cmds. (case r of
      Inl e \<Rightarrow> ms_log st' = ms_log st @ cmds @ map UmountCmd (rev (mounted @ mount_targets cmds))
    | Inr k \<Rightarrow> ms_log st' = ms_log st @ cmds \<and> k = n + length rows \<and>
        mount_targets cmds = row_targets root rows)"
proof (induction rows arbitrary: n mounted st)
  case Nil
  then show ?case by (auto intro: exI [of _ "[]"])
next
  case (Cons row rows)
  obtain device fs mp line where row: "row = (device, fs, mp, line)" by (cases row)
  obtain r1 m1 st1 where a: "apply_mount_row os root fstab device fs mp line mounted st = (r1, m1, st1)"
    by (metis prod_cases3)
  from apply_mount_row_log [OF a] obtain c1 where c1: "ms_log st1 = ms_log st @ c1"
      "m1 = mounted @ mount_targets c1"
      "r1 = Inr () \<longrightarrow> mount_targets c1 = (if fs = ''linux-swap'' then [] else [mount_target root mp])"
    by blast
  show ?case
  proof (cases r1)
    case (Inl e)
    with Cons.prems a row have "r = Inl e" "st' = rollback_mounts m1 st1" by auto
    with c1 show ?thesis by (intro exI [of _ c1]) simp
  next
    case (Inr u)
    with Cons.prems a row have "apply_rows os root fstab rows (n + 1) m1 st1 = (r, st')" by simp
    from Cons.IH [OF this] obtain c2 where c2: "case r of
        Inl e \<Rightarrow> ms_log st' = ms_log st1 @ c2 @ map UmountCmd (rev (m1 @ mount_targets c2))
      | Inr k \<Rightarrow> ms_log st' = ms_log st1 @ c2 \<and> k = n + 1 + length rows \<and>
          mount_targets c2 = row_targets root rows" by blast
    with c1 Inr row show ?thesis by (intro exI [of _ "c1 @ c2"]) (auto split: sum.splits)
  qed
qed


text \<open>C20: The matrix is all or nothing with respect to mounts.  When \<open>apply\<close> fails, every mount this run
  made is unmounted again, in reverse order; when it fails a check, neither a command has run nor
  the fstab changed.  When it succeeds, the mounts made are exactly those of the accepted rows, in
  order, and every requested row is either configured or counted as skipped.\<close>

theorem apply_manual_mounts:
  assumes "apply_manual os input st = (r, st')"
  shows "(\<exists>e. manual_checks os input st = Inl e \<and> r = Inl e \<and> st' = st) \<or>
    (\<exists>root fstab ps cmds. manual_checks os input st = Inr (root, fstab, ps) \<and>
      (case r of
         Inl e \<Rightarrow> ms_log st' = ms_log st @ cmds @ map UmountCmd (rev (mount_targets cmds))
       | Inr res \<Rightarrow> ms_log st' = ms_log st @ cmds \<and> mount_targets cmds = row_targets root (ps_rows ps) \<and>
           mr_configured res = length (ps_rows ps) \<and>
           mr_configured res + mr_skipped res = length (mi_mounts input)))"
proof (cases "manual_checks os input st")
  case (Inl e)
  with assms show ?thesis by (simp add: apply_manual_def)
next
  case (Inr x)
  then obtain root fstab ps where x: "manual_checks os input st = Inr (root, fstab, ps)" by (cases x) auto
  obtain r1 st1 where a: "apply_rows os root fstab (ps_rows ps) 0 [] st = (r1, st1)" by force
  from assms x a have r: "r = and_then r1 (\<lambda>c. Inr \<lparr>mr_configured = c, mr_skipped = ps_skipped ps\<rparr>)" "st' = st1"
    by (auto simp: apply_manual_def)
  from manual_checks_inv [OF x] have len: "length (ps_rows ps) + ps_skipped ps = length (mi_mounts input)"
    by blast
  from apply_rows_log [OF a] x r len show ?thesis by (cases r1) fastforce+
qed

text \<open>C21: Everything the matrix is about to do has been checked: each row that will be mounted names a
  partition that the fresh probe of the selected disk lists as neither mounted, stacked on nor
  read-only; its mount point is safe and not reserved; no two rows share a partition or a mount
  point; and its fstab line carries a well-formed UUID.\<close>

theorem manual_rows_checked:
  assumes "manual_checks os input st = Inr (root, fstab, ps)"
  shows "\<exists>disk snapshot ss. safe_device (mi_disk input) = Inr disk \<and> mo_lsblk os disk = Some snapshot \<and>
    list_all (row_ok snapshot disk ss) (ps_rows ps) \<and> distinct (map fst (ps_rows ps)) \<and>
    distinct (map (fst \<circ> snd \<circ> snd) (ps_rows ps))"
  using manual_checks_inv [OF assms] by (auto simp: prepare_inv_def)


section \<open>fstab lines\<close>

lemma match_len_graphic: "graphic c \<Longrightarrow> match_len ws_encodings (c # s) = 0"
  using ws_hd_not_graphic(1) by (intro match_len_0) (auto simp: list_all_iff)

lemma eq_char_of: "(c = char_of (n :: nat)) = (byte c = n mod 256)"
  by (metis char_of_char of_char_of)

lemma match_len_blank:
  "match_len ws_encodings (CHR '' '' # s) = 1" "match_len ws_encodings (newline # s) = 1"
  by (simp_all add: ws_encodings_def newline_def eq_char_of of_char_of)

lemma take_word_graphic:
  "list_all graphic w \<Longrightarrow> match_len ws_encodings s > 0 \<Longrightarrow> take_word (w @ s) = (w, s)"
proof (induction w)
  case Nil
  then show ?case by (cases s) auto
qed (simp add: match_len_graphic)

lemma split_words_blank:
  assumes "match_len ws_encodings (c # s) = 1"
  shows "split_words (c # s) = split_words s"
proof -
  have "strip_leading ws_encodings (c # s) = strip_leading ws_encodings s"
    by (subst strip_leading.simps) (simp add: assms)
  then show ?thesis by (subst (1 2) split_words.simps) simp
qed

lemma split_words_Nil: "split_words [] = []"
  by (simp add: split_words.simps strip_leading.simps)

lemma split_words_word:
  assumes "list_all graphic w" and "w \<noteq> []" and "match_len ws_encodings (c # s) = 1"
  shows "split_words (w @ c # s) = w # split_words s"
proof -
  obtain a as where w: "w = a # as" using assms(2) by (cases w) auto
  with assms(1) have "match_len ws_encodings (w @ c # s) = 0" by (simp add: match_len_graphic)
  then have "strip_leading ws_encodings (w @ c # s) = w @ c # s" by (simp add: strip_leading_done)
  then have "split_words (w @ c # s) = fst (take_word (w @ c # s)) # split_words (snd (take_word (w @ c # s)))"
    using w by (subst split_words.simps) simp
  with assms show ?thesis by (simp add: take_word_graphic split_words_blank)
qed

lemma uuid_char_graphic: "uuid_char c \<Longrightarrow> graphic c"
  by (auto simp: uuid_char_def is_ascii_hexdigit_def graphic_def)

text \<open>The six fields of a line, joined by blanks.\<close>

definition six_fields :: "string \<Rightarrow> string \<Rightarrow> string \<Rightarrow> string \<Rightarrow> string \<Rightarrow> string \<Rightarrow> string" where
  "six_fields a b c d e f = a @ CHR '' '' # b @ CHR '' '' # c @ CHR '' '' # d @ CHR '' '' # e @ CHR '' '' # f @ [newline]"

lemma split_six_fields:
  assumes "\<forall>w \<in> {a, b, c, d, e, f}. list_all graphic w \<and> w \<noteq> []"
  shows "split_words (six_fields a b c d e f) = [a, b, c, d, e, f]"
  using assms by (simp add: six_fields_def split_words_word match_len_blank split_words_Nil)

lemma six_fields_clean:
  assumes "\<forall>w \<in> {a, b, c, d, e, f}. list_all graphic w \<and> w \<noteq> []"
  shows "\<not> list_ex (\<lambda>x. byte x < 32 \<or> byte x = 127) (butlast (six_fields a b c d e f))"
proof -
  have g: "\<not> list_ex (\<lambda>x. byte x < 32 \<or> byte x = 127) w" if "list_all graphic w" for w
    using that by (fastforce simp: list_ex_iff list_all_iff graphic_def)
  have "butlast (six_fields a b c d e f) =
      a @ CHR '' '' # b @ CHR '' '' # c @ CHR '' '' # d @ CHR '' '' # e @ CHR '' '' # f"
    by (simp add: six_fields_def butlast_append)
  with assms g show ?thesis by simp
qed

lemma validate_six_fields:
  assumes g: "\<forall>w \<in> {''UUID='' @ u, b, c, d, e, f}. list_all graphic w \<and> w \<noteq> []"
    and len: "length (six_fields (''UUID='' @ u) b c d e f) \<le> MAX_FSTAB_LINE_BYTES"
    and u: "u \<noteq> []" "list_all uuid_char u"
    and b: "b = ''none'' \<or> is_ok (safe_absolute_path b ''fstab mount point'')"
    and c: "list_all fstab_type_char c" and d: "list_all fstab_option_char d"
    and e: "e = ''0''" and f: "f = ''0'' \<or> f = ''2''"
  shows "validate_fstab_line (six_fields (''UUID='' @ u) b c d e f) = Inr ()"
proof -
  have "ends_with (six_fields (''UUID='' @ u) b c d e f) [newline]"
    by (simp add: six_fields_def ends_with_def)
  moreover have "six_fields (''UUID='' @ u) b c d e f \<noteq> []" by (simp add: six_fields_def)
  ultimately show ?thesis
    unfolding validate_fstab_line_def split_six_fields [OF g]
    using len six_fields_clean [OF g] u b c d e f by auto
qed

text \<open>Every line the matrix writes is accepted by the fstab writer's own validator (as long as it
  fits the line bound), so no accepted row is refused after its filesystem has been mounted.\<close>

theorem fstab_line_accepted:
  assumes "mountpoint_ok fs mp" and "uuid \<noteq> []" and "list_all uuid_char uuid"
    and "length (fstab_line uuid fs mp) \<le> MAX_FSTAB_LINE_BYTES"
  shows "validate_fstab_line (fstab_line uuid fs mp) = Inr ()"
proof -
  have ug: "list_all graphic (''UUID='' @ uuid)"
    using assms(3) uuid_char_graphic by (auto simp: list_all_iff) (simp_all add: graphic_def)
  show ?thesis
  proof (cases "fs = ''linux-swap''")
    case True
    have line: "fstab_line uuid fs mp = six_fields (''UUID='' @ uuid) ''none'' ''swap'' ''defaults'' ''0'' ''0''"
      by (simp add: True fstab_line_def six_fields_def)
    show ?thesis
      unfolding line
      by (rule validate_six_fields [OF _ assms(4) [unfolded line]])
        (use assms(2,3) ug in \<open>simp_all add: graphic_def fstab_type_char_def fstab_option_char_def
          is_ascii_alphanumeric_def\<close>)
  next
    case False
    define opts where "opts = (if fs = ''btrfs'' then ''defaults,compress=zstd:1'' else ''defaults'')"
    define pass where "pass = (if fs = ''btrfs'' then ''0'' else ''2'')"
    have line: "fstab_line uuid fs mp = six_fields (''UUID='' @ uuid) mp fs opts ''0'' pass"
      by (simp add: False fstab_line_def six_fields_def opts_def pass_def Let_def)
    from assms(1) False have mp: "starts_with mp ''/''" "list_all path_char mp" "\<not> str_contains mp ''..''"
        "\<not> str_contains mp ''//''" and fs: "fs \<in> {''btrfs'', ''ext4'', ''xfs''}"
      by (auto simp: mountpoint_ok_def)
    have ne: "mp \<noteq> []" using mp(1) by auto
    have mg: "list_all graphic mp" using mp(2) by (auto simp: list_all_iff path_char_graphic)
    have "length mp \<le> 4096"
      using assms(4) by (simp add: line six_fields_def MAX_FSTAB_LINE_BYTES_def)
    with mp ne have sp: "safe_absolute_path mp ''fstab mount point'' = Inr mp"
      by (simp add: safe_absolute_path_def Let_def safe_trim MAX_PATH_BYTES_def)
    have fg: "list_all graphic fs \<and> fs \<noteq> [] \<and> list_all fstab_type_char fs"
      and og: "list_all graphic opts \<and> opts \<noteq> [] \<and> list_all fstab_option_char opts"
      and pg: "list_all graphic pass \<and> (pass = ''0'' \<or> pass = ''2'')"
      using fs by (auto simp: opts_def pass_def graphic_def fstab_type_char_def fstab_option_char_def
          is_ascii_alphanumeric_def)
    show ?thesis
      unfolding line
    proof (rule validate_six_fields)
      show "\<forall>w \<in> {''UUID='' @ uuid, mp, fs, opts, ''0'', pass}. list_all graphic w \<and> w \<noteq> []"
        using ug mg ne fg og pg by (auto simp: graphic_def)
      show "length (six_fields (''UUID='' @ uuid) mp fs opts ''0'' pass) \<le> MAX_FSTAB_LINE_BYTES"
        using assms(4) by (simp add: line)
    qed (use assms(2,3) sp fg og pg in simp_all)
  qed
qed

text \<open>A supplied identifier that matches only the partition's PARTUUID is accepted, and is then
  written to the fstab as a filesystem UUID, although the filesystem has another one.\<close>

theorem partuuid_written_as_uuid:
  "verified_uuid ''ab-01'' ''1234-5678'' ''ab-01'' = Inr ''ab-01'' \<and>
   fstab_line ''ab-01'' ''ext4'' ''/srv'' = ''UUID=ab-01 /srv ext4 defaults 0 2'' @ [newline] \<and>
   \<not> eq_ignore_ascii_case ''ab-01'' ''1234-5678''"
  by (simp add: verified_uuid_def safe_uuid_def uuid_matches_def uuid_char_def fstab_line_def str_simps)


section \<open>A concrete run\<close>

definition manual_os_sample :: mount_os where
  "manual_os_sample = \<lparr>
     mo_kind = (\<lambda>_ p. if p = ''/t'' then Some Directory else None),
     mo_mkdir = (\<lambda>_ _. True), mo_findmnt = (\<lambda>_ _. Exited 1), mo_umount = (\<lambda>_ _. Exited 0),
     mo_mount = (\<lambda>_ _ _ _. Exited 32), mo_fstab_readable = (\<lambda>_. True), mo_fstab_open = (\<lambda>_. True),
     mo_fstab_stat = (\<lambda>_. True), mo_fstab_ending = (\<lambda>_. True), mo_write = (\<lambda>_ _. WriteOk),
     mo_fstab_sync = (\<lambda>_. True), mo_blkid = (\<lambda>_. Some ''ab-01''),
     mo_lsblk = (\<lambda>_. Some candidate_snapshot), mo_command = (\<lambda>_. Output ''512'')\<rparr>"

definition manual_input_sample :: manual_mounts_input where
  "manual_input_sample = \<lparr>mi_config_root = ''/t'', mi_fstab_path = ''/t/etc/fstab'', mi_disk = ''/dev/sda'',
     mi_mounts = [\<lparr>mm_partition = ''/dev/sda2'', mm_mountpoint = ''/home'', mm_fstype = ''ext4'',
       mm_uuid = ''ab-01''\<rparr>]\<rparr>"

lemma manual_sample_paths:
  "safe_path ''/t'' lab = Inr ''/t''" "safe_path ''/t/etc/fstab'' lab = Inr ''/t/etc/fstab''"
  "safe_path ''/home'' lab = Inr ''/home''"
  "safe_device ''/dev/sda'' = Inr ''/dev/sda''" "safe_device ''/dev/sda2'' = Inr ''/dev/sda2''"
  "fstab_path_ok ''/t/etc/fstab''"
  by (simp_all add: safe_path_def safe_device_def path_char_def device_char_def fstab_path_ok_def
      path_file_name_def parent_path_def drop_trivial_def Let_def str_simps)

lemma manual_sample_probe:
  "\<exists>p. check_probe candidate_snapshot ''/dev/sda'' 512 ''/dev/sda2'' = Inr p"
proof -
  obtain p where p: "probe_of candidate_part = Some p" "\<not> pp_efi p" "\<not> pp_current p" "\<not> pp_in_use p"
      "\<not> pp_read_only p"
    by (simp add: candidate_simps probe_of_def mountpoints_def to_ascii_lowercase_def)
  have disk: "is_disk candidate_disk ''/dev/sda''" by (simp add: candidate_simps)
  have "partition_probe_from_snapshot candidate_snapshot ''/dev/sda'' ''/dev/sda2'' 512 = Inr p"
    using p by (simp add: partition_probe_from_snapshot_def valid_512 disk normalize_samples normalize_sda2
        parse_snapshot_def candidate_snapshot_def candidate_find)
  with p show ?thesis by (simp add: check_probe_def)
qed

lemma manual_sample_checks:
  "manual_checks manual_os_sample manual_input_sample \<lparr>ms_log = [], ms_fstab = None\<rparr> =
     Inr (''/t'', ''/t/etc/fstab'',
       \<lparr>ps_rows = [(''/dev/sda2'', ''ext4'', ''/var/home'', fstab_line ''ab-01'' ''ext4'' ''/var/home'')],
        ps_mountpoints = [''/var/home''], ps_partitions = [''/dev/sda2''], ps_uuids = [''ab-01''],
        ps_skipped = 0\<rparr>)"
proof -
  obtain p where p: "check_probe candidate_snapshot ''/dev/sda'' 512 ''/dev/sda2'' = Inr p"
    using manual_sample_probe by blast
  have ss: "logical_sector_size (mo_command manual_os_sample) ''/dev/sda'' = Inr 512"
    by (simp add: logical_sector_size_def manual_os_sample_def parse_u64_def parse_unsigned_def all_digits_def
        digits_value_def u64_max_def is_power_of_two.simps str_simps)
  have u: "lookup_uuid (mo_blkid manual_os_sample) ''/dev/sda2'' = Inr ''ab-01''"
    "verified_uuid ''ab-01'' ''ab-01'' x = Inr ''ab-01''" for x
    by (simp_all add: lookup_uuid_def uuid_argv_def probe_device_path_def device_char_def Let_def
        manual_os_sample_def uuid_char_def verified_uuid_def safe_uuid_def uuid_matches_def str_simps)
  have m: "normalized_fs ''ext4'' = Inr ''ext4''" "normalized_mountpoint ''/home'' ''ext4'' = Inr ''/home''"
    by (simp_all add: normalized_fs_def normalized_mountpoint_def normalize_mountpoint_def
        manual_sample_paths str_simps)
  have os: "mo_kind manual_os_sample st ''/t'' = Some Directory"
    "mo_lsblk manual_os_sample d = Some candidate_snapshot" for st d
    by (simp_all add: manual_os_sample_def)
  show ?thesis
    by (simp add: manual_checks_def manual_input_sample_def manual_sample_paths os ss prepare_row_def p u m
        set_insert_def claim_assignment_def Let_def)
qed

theorem manual_rows_checked_witness:
  "\<exists>snapshot disk ss. row_ok snapshot disk ss
     (''/dev/sda2'', ''ext4'', ''/var/home'', fstab_line ''ab-01'' ''ext4'' ''/var/home'')"
  using manual_rows_checked [OF manual_sample_checks] by auto

theorem apply_manual_mounts_witness:
  "\<exists>e cmds. fst (apply_manual manual_os_sample manual_input_sample \<lparr>ms_log = [], ms_fstab = None\<rparr>) = Inl e \<and>
     ms_log (snd (apply_manual manual_os_sample manual_input_sample \<lparr>ms_log = [], ms_fstab = None\<rparr>)) =
       cmds @ map UmountCmd (rev (mount_targets cmds))"
proof -
  let ?s = "\<lparr>ms_log = [], ms_fstab = None\<rparr>"
  have "mo_kind manual_os_sample st t \<noteq> Some Symlink" for st t by (simp add: manual_os_sample_def)
  then have "\<exists>e. fst (apply_manual manual_os_sample manual_input_sample ?s) = Inl e"
    by (simp add: apply_manual_def manual_sample_checks apply_mount_row_def clear_existing_def Let_def)
      (simp add: manual_os_sample_def)
  then obtain e where e: "fst (apply_manual manual_os_sample manual_input_sample ?s) = Inl e" by blast
  from apply_manual_mounts [OF prod.collapse [symmetric], of manual_os_sample manual_input_sample ?s] e
  show ?thesis by (auto simp: manual_sample_checks)
qed

theorem fstab_line_accepted_witness:
  "validate_fstab_line (fstab_line ''ab-01'' ''ext4'' ''/srv'') = Inr ()"
  by (rule fstab_line_accepted)
    (simp_all add: mountpoint_ok_def path_char_def uuid_char_def fstab_line_def MAX_FSTAB_LINE_BYTES_def str_simps)

end
