(* ===== verification/Installer_Journal.thy ===== *)
theory Installer_Journal
  imports Manual_Safety
begin

text \<open>
  The staged partition journal, \<open>installer_journal.rs\<close> up to the execution boundary: the journal and
  its editing operations, the projection of manual mounts and of the root partition, and the
  validation of the staged operations against a snapshot of the disk.  Operation parameters are a
  JSON value, as in the source.  The validation messages are constructors of \<open>journal_issue\<close>.
\<close>

section \<open>Data\<close>

record partition_operation =
  op_kind :: string
  op_params :: json
  op_index :: nat

record partition_journal =
  pj_disk :: string
  pj_ops :: "partition_operation list"
  pj_committed :: bool
  pj_root_partition :: "string option"
  pj_irreversible_completed :: bool
  pj_disk_model :: "string option"
  pj_disk_serial :: "string option"
  pj_disk_size_bytes :: "nat option"

record manual_mount =
  jm_partition :: string
  jm_mountpoint :: string
  jm_fstype :: string

datatype journal_error =
    InvalidJournalDisk
  | InvalidJournalRoot
  | AlreadyCommitted
  | NoTargetDisk
  | MalformedOperations
  | TargetDisappeared string
  | JournalMountpointTwice string

datatype mount_issue = MountManual manual_error | EfiNeedsFat32 | UnmountableFilesystem string

datatype shrink_issue = BackupPathMissing | BackupPathNotExternal string | NtfsNotVerified | NotOnAcPower

datatype journal_issue =
    NoOperations
  | UnsupportedTable string
  | CreateMountIssue mount_issue
  | CreateInvalidGeometry
  | CreateUnaligned
  | CreatePastEnd
  | CreateOverlap string
  | TooManyPrimaries
  | RootNotBtrfs
  | EspNotFat32
  | MountAssignedTwice string
  | NotOnJournalDisk string
  | NotPresent string string
  | ShrinkIssue shrink_issue
  | ResizeInvalidSize
  | ResizeUnaligned
  | ResizeGrow
  | ResizePastEnd string
  | ResizeOverlap string string
  | SetMountIssue mount_issue
  | UnsupportedOperation string
  | NoRoot
  | ManyRoots
  | ModifiesInUse string
  | RootInUse string

section \<open>Editing\<close>

definition journal_new ::
    "(string \<Rightarrow> (storage_error, lsblk_text) res) \<Rightarrow> string \<Rightarrow> (journal_error, partition_journal) res" where
  "journal_new probe raw_disk =
     and_then (ok_or InvalidJournalDisk (normalize_device_path raw_disk)) (\<lambda>disk.
     let identity = (case read_disk_identity probe disk of Inl _ \<Rightarrow> None | Inr i \<Rightarrow> Some i) in
     Inr \<lparr>pj_disk = disk, pj_ops = [], pj_committed = False, pj_root_partition = None,
          pj_irreversible_completed = False,
          pj_disk_model = Option.bind identity id_model,
          pj_disk_serial = Option.bind identity id_serial,
          pj_disk_size_bytes = Option.bind identity id_size_bytes\<rparr>)"

definition next_index :: "partition_operation list \<Rightarrow> nat" where
  "next_index ops =
     (case ops of [] \<Rightarrow> 0 | _ \<Rightarrow> saturating_add (Max (op_index ` set ops)) 1)"

definition add_op :: "string \<Rightarrow> json \<Rightarrow> partition_journal \<Rightarrow> nat \<times> partition_journal" where
  "add_op kind params j =
     (let index = next_index (pj_ops j) in
      (index, j\<lparr>pj_ops := pj_ops j @ [\<lparr>op_kind = kind, op_params = params, op_index = index\<rparr>]\<rparr>))"

fun remove_first :: "nat \<Rightarrow> partition_operation list \<Rightarrow> partition_operation list \<times> bool" where
  "remove_first index [] = ([], False)"
| "remove_first index (x # xs) =
     (if op_index x = index then (xs, True)
      else (x # fst (remove_first index xs), snd (remove_first index xs)))"

definition remove_op :: "nat \<Rightarrow> partition_journal \<Rightarrow> bool \<times> partition_journal" where
  "remove_op index j =
     (snd (remove_first index (pj_ops j)), j\<lparr>pj_ops := fst (remove_first index (pj_ops j))\<rparr>)"

definition journal_clear :: "partition_journal \<Rightarrow> partition_journal" where
  "journal_clear j = j\<lparr>pj_ops := []\<rparr>"

definition pending :: "partition_journal \<Rightarrow> partition_operation list" where
  "pending j = pj_ops j"

definition mark_committed ::
    "string option \<Rightarrow> partition_journal \<Rightarrow> (journal_error, unit) res \<times> partition_journal" where
  "mark_committed root j =
     (case root of
        None \<Rightarrow> (Inr (), j\<lparr>pj_root_partition := None, pj_committed := True\<rparr>)
      | Some v \<Rightarrow>
          (case normalize_device_path v of
             None \<Rightarrow> (Inl InvalidJournalRoot, j)
           | Some r \<Rightarrow> (Inr (), j\<lparr>pj_root_partition := Some r, pj_committed := True\<rparr>)))"

definition rollback_metadata :: "partition_journal \<Rightarrow> (journal_error, unit) res \<times> partition_journal" where
  "rollback_metadata j =
     (if pj_committed j then (Inl AlreadyCommitted, j)
      else (Inr (), (journal_clear j)\<lparr>pj_root_partition := None, pj_irreversible_completed := False\<rparr>))"

section \<open>Parameters\<close>

definition value_string :: "json \<Rightarrow> string \<Rightarrow> string" where
  "value_string params key =
     trim (unwrap_or [] (Option.bind (json_get params key) json_as_str))"

definition value_i64 :: "json \<Rightarrow> string \<Rightarrow> int \<Rightarrow> int" where
  "value_i64 params key fallback =
     (case json_get params key of
        Some (JNumber n) \<Rightarrow> unwrap_or fallback (number_as_i64 n)
      | Some (JString s) \<Rightarrow> unwrap_or fallback (parse_i64 s)
      | _ \<Rightarrow> fallback)"

definition value_u64 :: "json \<Rightarrow> string \<Rightarrow> nat \<Rightarrow> nat" where
  "value_u64 params key fallback =
     (case json_get params key of
        Some (JNumber n) \<Rightarrow> unwrap_or fallback (number_as_u64 n)
      | Some (JString s) \<Rightarrow> unwrap_or fallback (parse_u64 s)
      | _ \<Rightarrow> fallback)"

definition is_efi_mountpoint :: "string \<Rightarrow> bool" where
  "is_efi_mountpoint mountpoint \<longleftrightarrow> trim_end_matches (CHR ''/'') (trim mountpoint) = ''/boot/efi''"

definition mount_fs_name :: "string \<Rightarrow> string" where
  "mount_fs_name filesystem =
     (let fs = to_ascii_lowercase filesystem in
      if fs = ''swap'' then ''linux-swap''
      else if fs = ''fat'' \<or> fs = ''vfat'' then ''fat32''
      else fs)"

definition validated_mountpoint :: "string \<Rightarrow> string \<Rightarrow> (mount_issue, string) res" where
  "validated_mountpoint raw filesystem =
     (if raw = [] then Inr []
      else
        let fs = mount_fs_name filesystem in
        and_then (map_err MountManual (normalize_mountpoint raw fs True)) (\<lambda>mountpoint.
        if is_efi_mountpoint mountpoint then
          (if fs \<noteq> ''fat32'' then Inl EfiNeedsFat32 else Inr mountpoint)
        else if fs \<notin> {''btrfs'', ''ext4'', ''xfs'', ''linux-swap''} then Inl (UnmountableFilesystem fs)
        else Inr mountpoint))"

section \<open>External backups and the shrink gate\<close>

definition path_on_external_media :: "string \<Rightarrow> bool" where
  "path_on_external_media raw =
     (let path = trim raw in
      if \<not> starts_with path ''/'' \<or> str_contains path ''..'' then False
      else starts_with path ''/run/media/'' \<or> starts_with path ''/mnt/'')"

text \<open>\<open>collect\<close> of \<open>block_device_names\<close>; the order of a \<open>HashSet\<close> does not matter to its users.\<close>

fun block_device_collect :: "json \<Rightarrow> string list" where
  "block_device_collect (JObject members) =
     concat (map (\<lambda>(k, v). case v of
        JArray xs \<Rightarrow> if k = ''blockdevices'' \<and> map_of members k = Some v then concat (map block_device_collect xs) else []
      | _ \<Rightarrow> []) members)
     @ (case Option.bind (map_of members ''name'') json_as_str of
          None \<Rightarrow> []
        | Some n \<Rightarrow> (case normalize_device_path n of None \<Rightarrow> [] | Some d \<Rightarrow> [d]))
     @ concat (map (\<lambda>(k, v). case v of
        JArray xs \<Rightarrow> if k = ''children'' \<and> map_of members k = Some v then concat (map block_device_collect xs) else []
      | _ \<Rightarrow> []) members)"
| "block_device_collect _ = []"

definition block_device_names :: "json \<Rightarrow> string list" where
  "block_device_names v = remdups (block_device_collect v)"

definition shares_block_device :: "string list \<Rightarrow> string list \<Rightarrow> bool" where
  "shares_block_device source target \<longleftrightarrow> list_ex (\<lambda>d. d \<in> set target) source"

fun collect_backup_paths :: "partition_operation list \<Rightarrow> string list \<Rightarrow> string list" where
  "collect_backup_paths [] seen = []"
| "collect_backup_paths (x # xs) seen =
     (if op_kind x \<noteq> ''resize'' then collect_backup_paths xs seen
      else case Option.bind (json_get (op_params x) ''gpt_backup_path'') json_as_str of
        None \<Rightarrow> collect_backup_paths xs seen
      | Some raw \<Rightarrow>
          let path = trim raw in
          if path = [] \<or> path \<in> set seen then collect_backup_paths xs seen
          else path # collect_backup_paths xs (path # seen))"

definition external_backup_paths :: "partition_journal \<Rightarrow> string list" where
  "external_backup_paths j = collect_backup_paths (pj_ops j) []"

definition param_true :: "json \<Rightarrow> string \<Rightarrow> bool" where
  "param_true params key \<longleftrightarrow> json_get params key = Some (JBool True)"

definition validate_shrink_preconditions :: "string \<Rightarrow> json \<Rightarrow> shrink_issue list" where
  "validate_shrink_preconditions fs params =
     (let backup = value_string params ''gpt_backup_path'' in
      (if backup = [] then [BackupPathMissing]
       else if \<not> path_on_external_media backup then [BackupPathNotExternal backup] else [])
      @ (if (fs = ''ntfs'' \<or> fs = ''ntfs3'') \<and> \<not> param_true params ''ntfs_verified_clean''
         then [NtfsNotVerified] else [])
      @ (if \<not> param_true params ''on_ac_power'' then [NotOnAcPower] else []))"

section \<open>Projections of the journal\<close>

fun last_mountpoints ::
    "partition_operation list \<Rightarrow> (string \<times> nat) list \<Rightarrow> (string \<times> nat) list" where
  "last_mountpoints [] m = m"
| "last_mountpoints (x # xs) m =
     last_mountpoints xs
       (if op_kind x = ''set_mountpoint'' \<and> value_string (op_params x) ''partition'' \<noteq> []
        then map_insert (value_string (op_params x) ''partition'') (op_index x) m else m)"

definition last_mountpoint_indices :: "partition_journal \<Rightarrow> (string \<times> nat) list" where
  "last_mountpoint_indices j = last_mountpoints (pj_ops j) []"

record mount_projection =
  mp_created :: "string list"
  mp_assignments :: "(string \<times> string) list"
  mp_formats :: "(string \<times> string) list"

definition set_assignment ::
    "string \<Rightarrow> string \<Rightarrow> (string \<times> string) list \<Rightarrow> (string \<times> string) list" where
  "set_assignment part mountpoint m =
     (if mountpoint = [] then map_remove part m else map_insert part mountpoint m)"

definition project_op ::
    "partition_operation \<Rightarrow> mount_projection \<Rightarrow> (journal_error, mount_projection) res" where
  "project_op x mp =
     (if \<not> json_is_object (op_params x) \<and> op_kind x \<in> {''create'', ''set_mountpoint'', ''delete'', ''format''}
      then Inl MalformedOperations
      else
        let part = value_string (op_params x) ''partition'';
            mountpoint = value_string (op_params x) ''mountpoint'';
            fs = value_string (op_params x) ''fs_type''
        in
        if op_kind x = ''new_table'' then Inr \<lparr>mp_created = [], mp_assignments = [], mp_formats = []\<rparr>
        else if op_kind x = ''create'' then
          (if part = [] then Inr mp
           else Inr (mp\<lparr>mp_created := fst (set_insert part (mp_created mp)),
                        mp_assignments := set_assignment part mountpoint (mp_assignments mp),
                        mp_formats := (if fs \<noteq> [] then map_insert part fs (mp_formats mp)
                                       else mp_formats mp)\<rparr>))
        else if op_kind x = ''set_mountpoint'' then
          (if part = [] then Inr mp
           else Inr (mp\<lparr>mp_assignments := set_assignment part mountpoint (mp_assignments mp)\<rparr>))
        else if op_kind x = ''delete'' then
          Inr (mp\<lparr>mp_assignments := map_remove part (mp_assignments mp),
                  mp_formats := map_remove part (mp_formats mp),
                  mp_created := filter (\<lambda>c. c \<noteq> part) (mp_created mp)\<rparr>)
        else if op_kind x = ''format'' then
          (if part \<noteq> [] \<and> fs \<noteq> [] then Inr (mp\<lparr>mp_formats := map_insert part fs (mp_formats mp)\<rparr>)
           else Inr mp)
        else Inr mp)"

fun project_ops ::
    "partition_operation list \<Rightarrow> mount_projection \<Rightarrow> (journal_error, mount_projection) res" where
  "project_ops [] mp = Inr mp"
| "project_ops (x # xs) mp = and_then (project_op x mp) (project_ops xs)"

text \<open>\<open>assignments\<close> is a \<open>BTreeMap\<close>: it is iterated in the byte order of the partition names.\<close>

fun str_le :: "string \<Rightarrow> string \<Rightarrow> bool" where
  "str_le [] t = True"
| "str_le (c # cs) [] = False"
| "str_le (c # cs) (d # ds) = (byte c < byte d \<or> byte c = byte d \<and> str_le cs ds)"

fun insert_by_name :: "(string \<times> 'v) \<Rightarrow> (string \<times> 'v) list \<Rightarrow> (string \<times> 'v) list" where
  "insert_by_name e [] = [e]"
| "insert_by_name e (x # xs) = (if str_le (fst e) (fst x) then e # x # xs else x # insert_by_name e xs)"

definition by_name :: "(string \<times> 'v) list \<Rightarrow> (string \<times> 'v) list" where
  "by_name m = foldr insert_by_name m []"

definition mount_fstype ::
    "(string \<times> string) list \<Rightarrow> (string \<times> partition_record) list \<Rightarrow> string \<Rightarrow> string" where
  "mount_fstype formats discovered part =
     (case (case map_of formats part of Some f \<Rightarrow> Some f
              | None \<Rightarrow> map_option pr_fstype (map_of discovered part)) of
        Some f \<Rightarrow> if f \<noteq> [] then f else ''btrfs''
      | None \<Rightarrow> ''btrfs'')"

fun collect_manual_mounts ::
    "mount_projection \<Rightarrow> (string \<times> partition_record) list \<Rightarrow> (string \<times> string) list \<Rightarrow> string list
       \<Rightarrow> (journal_error, manual_mount list) res" where
  "collect_manual_mounts mp discovered [] assigned = Inr []"
| "collect_manual_mounts mp discovered ((part, mountpoint) # rest) assigned =
     (if mountpoint = [] \<or> mountpoint = ''/'' \<or> mountpoint = ''/boot/efi''
      then collect_manual_mounts mp discovered rest assigned
      else if map_of discovered part = None \<and> part \<notin> set (mp_created mp)
      then Inl (TargetDisappeared part)
      else if mountpoint \<in> set assigned then Inl (JournalMountpointTwice mountpoint)
      else and_then (collect_manual_mounts mp discovered rest (mountpoint # assigned)) (\<lambda>mounts.
           Inr (\<lparr>jm_partition = part, jm_mountpoint = mountpoint,
                 jm_fstype = mount_fstype (mp_formats mp) discovered part\<rparr> # mounts)))"

definition discovered_map :: "partition_record list \<Rightarrow> (string \<times> partition_record) list" where
  "discovered_map parts = fold (\<lambda>p. map_insert (pr_name p) p) parts []"

definition manual_mounts ::
    "partition_journal \<Rightarrow> partition_record list \<Rightarrow> (journal_error, manual_mount list) res" where
  "manual_mounts j current_parts =
     (if \<not> pj_committed j then Inr []
      else if trim (pj_disk j) = [] then Inl NoTargetDisk
      else
        and_then (project_ops (pj_ops j) \<lparr>mp_created = [], mp_assignments = [], mp_formats = []\<rparr>) (\<lambda>mp.
        collect_manual_mounts mp (discovered_map current_parts) (by_name (mp_assignments mp)) []))"

definition root_step :: "partition_operation \<Rightarrow> (string \<times> string) list \<Rightarrow> (string \<times> string) list" where
  "root_step x assignments =
     (if op_kind x = ''new_table'' then []
      else if op_kind x = ''create'' \<or> op_kind x = ''set_mountpoint'' then
        (let key = (case normalize_device_path (value_string (op_params x) ''partition'') of
                      Some p \<Rightarrow> p | None \<Rightarrow> ''new:'' @ nat_to_string (op_index x))
         in set_assignment key (value_string (op_params x) ''mountpoint'') assignments)
      else if op_kind x = ''delete'' then
        (case normalize_device_path (value_string (op_params x) ''partition'') of
           Some p \<Rightarrow> map_remove p assignments | None \<Rightarrow> assignments)
      else assignments)"

definition root_partition :: "partition_journal \<Rightarrow> string option" where
  "root_partition j =
     (case List.map_filter normalize_device_path
             (map fst (filter (\<lambda>(p, m). m = ''/'') (fold root_step (pj_ops j) []))) of
        [r] \<Rightarrow> Some r
      | _ \<Rightarrow> None)"

section \<open>Validation\<close>

type_synonym region = "int \<times> int \<times> string"

record validation =
  va_errors :: "journal_issue list"
  va_mounts :: "(string \<times> string) list"
  va_allocated :: "(string \<times> region) list"
  va_table :: string
  va_primaries :: nat

abbreviation fail :: "journal_issue \<Rightarrow> validation \<Rightarrow> validation" where
  "fail e v \<equiv> v\<lparr>va_errors := va_errors v @ [e]\<rparr>"

definition fail_if :: "bool \<Rightarrow> journal_issue \<Rightarrow> validation \<Rightarrow> validation" where
  "fail_if b e v = (if b then v\<lparr>va_errors := va_errors v @ [e]\<rparr> else v)"

definition table_name :: "string \<Rightarrow> string" where
  "table_name t = (if t = ''dos'' then ''msdos'' else t)"

definition known_table :: "string \<Rightarrow> bool" where
  "known_table t \<longleftrightarrow> t = ''gpt'' \<or> t = ''msdos'' \<or> t = ''dos''"

text \<open>The key under which \<open>validate\<close> reserves the automatic BIOS boot partition, and its extent.\<close>

definition bios_region :: "string \<times> region" where
  "bios_region = (''automatic BIOS boot partition'', (1024 * 1024, 2 * 1024 * 1024, ''bios_grub''))"

definition overlaps :: "int \<Rightarrow> int \<Rightarrow> string \<times> region \<Rightarrow> bool" where
  "overlaps s e entry =
     (case entry of (_, (os, oe, _)) \<Rightarrow> os \<ge> 0 \<and> oe > os \<and> s < oe \<and> e > os)"

definition find_overlap :: "int \<Rightarrow> int \<Rightarrow> (string \<times> region) list \<Rightarrow> string option" where
  "find_overlap s e allocated = map_option fst (List.find (overlaps s e) allocated)"

definition validate_new_table :: "json \<Rightarrow> validation \<Rightarrow> validation" where
  "validate_new_table params v =
     (let raw = value_string params ''table_type'';
          table = table_name (if raw = [] then ''gpt'' else to_ascii_lowercase raw)
      in (fail_if (\<not> known_table table) (UnsupportedTable table) v)
           \<lparr>va_table := table, va_primaries := 0, va_mounts := [],
            va_allocated := (if table = ''gpt'' then [bios_region] else [])\<rparr>)"

definition check_overlap :: "bool \<Rightarrow> int \<Rightarrow> int \<Rightarrow> validation \<Rightarrow> validation" where
  "check_overlap active s e v =
     (if active then
        (case find_overlap s e (va_allocated v) of Some name \<Rightarrow> fail (CreateOverlap name) v | None \<Rightarrow> v)
      else v)"

definition validate_create :: "nat \<Rightarrow> nat \<Rightarrow> json \<Rightarrow> validation \<Rightarrow> validation" where
  "validate_create disk_size index params v =
     (let start = value_i64 params ''start_bytes'' (- 1);
          size_bytes = value_i64 params ''size_bytes'' (- 1);
          fs = to_ascii_lowercase (value_string params ''fs_type'');
          raw_mount = value_string params ''mountpoint'';
          (mount, v) = (case validated_mountpoint raw_mount fs of
             Inr m \<Rightarrow> (m, v) | Inl e \<Rightarrow> ([], fail (CreateMountIssue e) v));
          v = fail_if (start \<le> 0 \<or> size_bytes \<le> 0) CreateInvalidGeometry v;
          e = saturating_add_i64 start size_bytes;
          positive = (start > 0 \<and> size_bytes > 0);
          v = fail_if (positive \<and> (rem_i64 start 512 \<noteq> 0 \<or> rem_i64 size_bytes 512 \<noteq> 0)) CreateUnaligned v;
          v = fail_if (positive \<and> disk_size > 0 \<and> as_u64 e > disk_size) CreatePastEnd v;
          v = check_overlap (start \<ge> 0 \<and> size_bytes \<ge> 0) start e v;
          v = fail_if (va_table v = ''msdos'' \<and> va_primaries v \<ge> 4) TooManyPrimaries v;
          v = fail_if (mount = ''/'' \<and> fs \<noteq> ''btrfs'') RootNotBtrfs v;
          v = fail_if (mount = ''/boot/efi'' \<and> fs \<noteq> ''fat32'') EspNotFat32 v;
          v = fail_if (mount \<noteq> [] \<and> mount \<in> set (map_values (va_mounts v))) (MountAssignedTwice mount) v;
          key = ''new:'' @ nat_to_string index;
          v = v\<lparr>va_allocated := map_insert key (start, e, fs) (va_allocated v)\<rparr>;
          v = v\<lparr>va_primaries := (if va_table v = ''msdos'' then va_primaries v + 1 else va_primaries v)\<rparr>
      in v\<lparr>va_mounts := (if mount \<noteq> [] then map_insert key mount (va_mounts v) else va_mounts v)\<rparr>)"

text \<open>The three branches over an existing partition \<open>part\<close> with region \<open>(s, e, fs)\<close>; each returns
  whether the operation is \<open>valid\<close>.\<close>

definition validate_resize ::
    "nat \<Rightarrow> json \<Rightarrow> string \<Rightarrow> region \<Rightarrow> validation \<Rightarrow> bool \<times> validation" where
  "validate_resize disk_size params part region v =
     (case region of (s, e, fs) \<Rightarrow>
      let new_size = value_i64 params ''new_size_bytes'' (- 1);
          current_size = saturating_sub_i64 e s;
          v = (if new_size > 0 \<and> (current_size \<le> 0 \<or> new_size < current_size)
               then v\<lparr>va_errors := va_errors v @ map ShrinkIssue (validate_shrink_preconditions fs params)\<rparr>
               else v)
      in
      if new_size \<le> 0 then (False, fail ResizeInvalidSize v)
      else
        let unaligned = (rem_i64 new_size 512 \<noteq> 0);
            v = fail_if unaligned ResizeUnaligned v;
            grow = (current_size > 0 \<and> new_size > current_size);
            v = fail_if grow ResizeGrow v;
            new_end = saturating_add_i64 s new_size;
            past = (disk_size > 0 \<and> as_u64 new_end > disk_size);
            v = fail_if past (ResizePastEnd part) v
        in
        case find_overlap s new_end (filter (\<lambda>entry. fst entry \<noteq> part) (va_allocated v)) of
          Some name \<Rightarrow> (False, fail (ResizeOverlap part name) v)
        | None \<Rightarrow> (\<not> unaligned \<and> \<not> grow \<and> \<not> past, v))"

definition validate_set_mountpoint ::
    "json \<Rightarrow> string \<Rightarrow> region \<Rightarrow> validation \<Rightarrow> bool \<times> validation" where
  "validate_set_mountpoint params part region v =
     (case region of (s, e, fs) \<Rightarrow>
      let raw_mount = value_string params ''mountpoint'';
          (mount, ok, v) = (case validated_mountpoint raw_mount fs of
             Inr m \<Rightarrow> (m, True, v) | Inl err \<Rightarrow> ([], False, fail (SetMountIssue err) v));
          bad_root = (mount = ''/'' \<and> fs \<noteq> ''btrfs'');
          v = fail_if bad_root RootNotBtrfs v;
          bad_esp = (mount = ''/boot/efi'' \<and> fs \<notin> {''fat'', ''fat32'', ''vfat''});
          v = fail_if bad_esp EspNotFat32 v;
          twice = (mount \<noteq> [] \<and> list_ex (\<lambda>(p, m). p \<noteq> part \<and> m = mount) (va_mounts v));
          v = fail_if twice (MountAssignedTwice mount) v;
          ok = (ok \<and> \<not> bad_root \<and> \<not> bad_esp \<and> \<not> twice)
      in (ok, if ok then v\<lparr>va_mounts := set_assignment part mount (va_mounts v)\<rparr> else v))"

definition apply_valid :: "string \<Rightarrow> json \<Rightarrow> string \<Rightarrow> region \<Rightarrow> validation \<Rightarrow> validation" where
  "apply_valid kind params part region v =
     (case region of (s, e, fs) \<Rightarrow>
      if kind = ''delete'' then
        v\<lparr>va_allocated := map_remove part (va_allocated v), va_mounts := map_remove part (va_mounts v),
          va_primaries := (if va_table v = ''msdos'' then saturating_sub (va_primaries v) 1 else va_primaries v)\<rparr>
      else if kind = ''resize'' then
        v\<lparr>va_allocated := map_insert part
            (s, saturating_add_i64 s (value_i64 params ''new_size_bytes'' (- 1)), fs) (va_allocated v)\<rparr>
      else if kind = ''format'' then
        v\<lparr>va_allocated := map_insert part
            (s, e, to_ascii_lowercase (value_string params ''fs_type'')) (va_allocated v)\<rparr>
      else v)"

definition validate_existing :: "nat \<Rightarrow> string \<Rightarrow> json \<Rightarrow> validation \<Rightarrow> validation" where
  "validate_existing disk_size kind params v =
     (case normalize_device_path (value_string params ''partition'') of
        None \<Rightarrow> fail (NotOnJournalDisk kind) v
      | Some part \<Rightarrow>
          (case map_of (va_allocated v) part of
             None \<Rightarrow> fail (NotPresent kind part) v
           | Some region \<Rightarrow>
               let (valid, v) =
                 (if kind = ''resize'' then validate_resize disk_size params part region v
                  else if kind = ''set_mountpoint'' then validate_set_mountpoint params part region v
                  else (True, v))
               in if valid then apply_valid kind params part region v else v))"

definition superseded :: "(string \<times> nat) list \<Rightarrow> partition_operation \<Rightarrow> bool" where
  "superseded last_mps x \<longleftrightarrow> op_kind x = ''set_mountpoint'' \<and>
     value_string (op_params x) ''partition'' \<noteq> [] \<and>
     map_of last_mps (value_string (op_params x) ''partition'') \<noteq> Some (op_index x)"

definition validate_op ::
    "nat \<Rightarrow> (string \<times> nat) list \<Rightarrow> partition_operation \<Rightarrow> validation \<Rightarrow> validation" where
  "validate_op disk_size last_mps x v =
     (if superseded last_mps x then v
      else if op_kind x = ''new_table'' then validate_new_table (op_params x) v
      else if op_kind x = ''create'' then validate_create disk_size (op_index x) (op_params x) v
      else if op_kind x \<in> {''delete'', ''format'', ''resize'', ''set_mountpoint''}
      then validate_existing disk_size (op_kind x) (op_params x) v
      else fail (UnsupportedOperation (op_kind x)) v)"

definition initial_allocated :: "partition_record list \<Rightarrow> (string \<times> region) list" where
  "initial_allocated parts =
     fold (\<lambda>p. map_insert (pr_name p)
       (as_i64 (pr_start_bytes p), as_i64 (saturating_add (pr_start_bytes p) (pr_size_bytes p)), pr_fstype p))
       parts []"

definition initial_validation :: "partition_record list \<Rightarrow> string \<Rightarrow> validation" where
  "initial_validation parts table_type =
     (let table = table_name (to_ascii_lowercase table_type) in
      \<lparr>va_errors = (if \<not> known_table table then [UnsupportedTable table] else []),
       va_mounts = [], va_allocated = initial_allocated parts, va_table = table,
       va_primaries = (if table = ''msdos'' then length parts else 0)\<rparr>)"

text \<open>The final sweep over the partitions in use: the first offending operation of each is reported.\<close>

fun in_use_issue ::
    "(string \<times> nat) list \<Rightarrow> string \<Rightarrow> partition_operation list \<Rightarrow> journal_issue list" where
  "in_use_issue last_mps name [] = []"
| "in_use_issue last_mps name (x # xs) =
     (if normalize_device_path (value_string (op_params x) ''partition'') \<noteq> Some name
      then in_use_issue last_mps name xs
      else if op_kind x \<in> {''delete'', ''format'', ''resize''} then [ModifiesInUse name]
      else if op_kind x = ''set_mountpoint'' \<and> value_string (op_params x) ''mountpoint'' = ''/''
              \<and> map_of last_mps (value_string (op_params x) ''partition'') = Some (op_index x)
      then [RootInUse name]
      else in_use_issue last_mps name xs)"

definition root_issue :: "validation \<Rightarrow> journal_issue list" where
  "root_issue v =
     (let root_count = length (filter (\<lambda>m. m = ''/'') (map_values (va_mounts v))) in
      if root_count = 0 then [NoRoot] else if root_count > 1 then [ManyRoots] else [])"

definition validate ::
    "partition_journal \<Rightarrow> partition_record list \<Rightarrow> string \<Rightarrow> nat \<Rightarrow> journal_issue list" where
  "validate j current_parts table_type disk_size =
     (if pj_ops j = [] then [NoOperations]
      else
        let last_mps = last_mountpoint_indices j;
            v = fold (validate_op disk_size last_mps) (pj_ops j) (initial_validation current_parts table_type)
        in va_errors v @ root_issue v
           @ concat (map (\<lambda>p. in_use_issue last_mps (pr_name p) (pj_ops j))
               (filter (\<lambda>p. pr_current p \<or> pr_in_use p) current_parts)))"

text \<open>\<open>validate_request\<close>: the answer given to the interface.\<close>

definition validate_request ::
    "partition_journal \<Rightarrow> partition_record list \<Rightarrow> string \<Rightarrow> nat \<Rightarrow> bool \<times> journal_issue list" where
  "validate_request j current_parts table_type disk_size =
     (let errors = validate j current_parts table_type disk_size in (errors = [], errors))"

end
