(* ===== verification/Journal_Safety.thy ===== *)
theory Journal_Safety
  imports Installer_Journal
begin

text \<open>
  Correctness of the staged journal: editing keeps operation identities distinct, and a journal that
  validation accepts describes a layout whose regions are pairwise disjoint, that has exactly one
  root and no mount point twice, that touches no partition in use and shrinks nothing without the
  attestations.  The last section proves what validation does not establish.
\<close>

section \<open>Editing\<close>

lemma next_index_bound:
  assumes "\<forall>x \<in> set ops. op_index x < n" and "n \<le> u64_max"
  shows "next_index ops \<le> n" and "\<forall>x \<in> set ops. op_index x < next_index ops"
proof -
  have mx: "Max (op_index ` set ops) < n" if "ops \<noteq> []"
  proof -
    have "Max (op_index ` set ops) \<in> op_index ` set ops" using that by (intro Max_in) auto
    with assms(1) show ?thesis by auto
  qed
  then show "next_index ops \<le> n"
    by (cases ops) (simp_all add: next_index_def saturating_add_def min_le_iff_disj Suc_le_eq)
  show "\<forall>x \<in> set ops. op_index x < next_index ops"
  proof
    fix x assume x: "x \<in> set ops"
    then obtain y ys where ops: "ops = y # ys" by (cases ops) auto
    have "op_index x \<le> Max (op_index ` set ops)" using x by (intro Max_ge) auto
    moreover have "op_index x < u64_max" using assms x by fastforce
    ultimately show "op_index x < next_index ops"
      by (simp add: next_index_def ops saturating_add_def)
  qed
qed

lemma remove_first_props:
  "set (fst (remove_first i ops)) \<subseteq> set ops"
  "distinct (map op_index ops) \<Longrightarrow> distinct (map op_index (fst (remove_first i ops))) \<and>
     i \<notin> op_index ` set (fst (remove_first i ops))"
  "snd (remove_first i ops) \<longleftrightarrow> i \<in> op_index ` set ops"
  by (induction ops) auto

text \<open>Journals reachable from a new one by the editing operations; the counter is the number of
  operations added so far.\<close>

inductive journal_reach :: "nat \<Rightarrow> partition_journal \<Rightarrow> bool" where
  new: "journal_new probe raw = Inr j \<Longrightarrow> journal_reach 0 j"
| add: "journal_reach n j \<Longrightarrow> add_op kind params j = (i, j') \<Longrightarrow> journal_reach (Suc n) j'"
| remove: "journal_reach n j \<Longrightarrow> remove_op i j = (found, j') \<Longrightarrow> journal_reach n j'"
| clear: "journal_reach n j \<Longrightarrow> journal_reach n (journal_clear j)"
| commit: "journal_reach n j \<Longrightarrow> mark_committed root j = (r, j') \<Longrightarrow> journal_reach n j'"
| rollback: "journal_reach n j \<Longrightarrow> rollback_metadata j = (r, j') \<Longrightarrow> journal_reach n j'"

definition journal_inv :: "nat \<Rightarrow> partition_journal \<Rightarrow> bool" where
  "journal_inv n j \<longleftrightarrow> distinct (map op_index (pj_ops j)) \<and> (\<forall>x \<in> set (pj_ops j). op_index x < n) \<and>
     normalize_device_path (pj_disk j) = Some (pj_disk j) \<and>
     (\<forall>r. pj_root_partition j = Some r \<longrightarrow> pj_committed j \<and> normalize_device_path r = Some r)"

lemma journal_inv_add:
  assumes "journal_inv n j" and "n \<le> u64_max" and "add_op kind params j = (i, j')"
  shows "journal_inv (Suc n) j' \<and> i \<notin> op_index ` set (pj_ops j)"
proof -
  from assms(1) have b: "\<forall>x \<in> set (pj_ops j). op_index x < n" by (simp add: journal_inv_def)
  note nb = next_index_bound [OF b assms(2)]
  from assms(3) have "i = next_index (pj_ops j)" and
    j': "j' = j\<lparr>pj_ops := pj_ops j @ [\<lparr>op_kind = kind, op_params = params, op_index = i\<rparr>]\<rparr>"
    by (auto simp: add_op_def Let_def)
  with nb b assms(1) show ?thesis by (force simp: journal_inv_def less_Suc_eq)
qed

lemma journal_reach_inv: "journal_reach n j \<Longrightarrow> n \<le> u64_max \<Longrightarrow> journal_inv n j"
proof (induction rule: journal_reach.induct)
  case (new probe raw j)
  then show ?case
    by (auto simp: journal_new_def journal_inv_def Let_def plan_device.norm_idem)
next
  case (add n j kind params i j')
  then show ?case using journal_inv_add by auto
next
  case (remove n j i found j')
  then show ?case using remove_first_props [where i = i and ops = "pj_ops j"]
    by (auto simp: remove_op_def journal_inv_def)
next
  case (commit n j root r j')
  then show ?case
    by (auto simp: mark_committed_def journal_inv_def plan_device.norm_idem split: option.splits)
next
  case (rollback n j r j')
  then show ?case by (auto simp: rollback_metadata_def journal_clear_def journal_inv_def split: if_splits)
qed (auto simp: journal_clear_def journal_inv_def)

text \<open>In a journal edited from a new one, operation identities stay distinct, also across removals
  (until the identity counter is exhausted); a newly added operation gets an identity no remaining
  operation has, and removing an identity removes exactly that operation.\<close>

theorem journal_identities:
  assumes "journal_reach n j" and "n \<le> u64_max"
  shows "distinct (map op_index (pj_ops j)) \<and>
    (\<forall>kind params. fst (add_op kind params j) \<notin> op_index ` set (pj_ops j)) \<and>
    (\<forall>i. fst (remove_op i j) = (i \<in> op_index ` set (pj_ops j)) \<and>
         op_index ` set (pj_ops (snd (remove_op i j))) = op_index ` set (pj_ops j) - {i})"
proof -
  have inv: "journal_inv n j" by (rule journal_reach_inv [OF assms])
  then have d: "distinct (map op_index (pj_ops j))" by (simp add: journal_inv_def)
  have "op_index ` set (fst (remove_first i ops)) = op_index ` set ops - {i}"
    if "distinct (map op_index ops)" for i ops
    using that
  proof (induction ops)
    case (Cons a ops)
    then show ?case by (cases "op_index a = i") (auto simp del: image_eqI intro: rev_image_eqI)
  qed simp
  with d inv journal_inv_add [OF inv assms(2) prod.collapse [symmetric]] show ?thesis
    by (auto simp: remove_op_def remove_first_props(3))
qed

text \<open>Metadata rollback never forgets a committed journal: it is refused and changes nothing once the
  journal is committed, and otherwise leaves an empty, uncommitted journal for the same disk.\<close>

theorem rollback_metadata_iff:
  "rollback_metadata j = (r, j') \<longleftrightarrow>
     (if pj_committed j then r = Inl AlreadyCommitted \<and> j' = j
      else r = Inr () \<and> pj_ops j' = [] \<and> pj_root_partition j' = None \<and> \<not> pj_irreversible_completed j' \<and>
        \<not> pj_committed j' \<and> pj_disk j' = pj_disk j \<and> pj_disk_model j' = pj_disk_model j \<and>
        pj_disk_serial j' = pj_disk_serial j \<and> pj_disk_size_bytes j' = pj_disk_size_bytes j)"
  by (cases j; cases j') (auto simp: rollback_metadata_def journal_clear_def)

theorem journal_identities_witness:
  "\<exists>j. pj_disk j = ''/dev/sda'' \<and> distinct (map op_index (pj_ops j)) \<and> length (pj_ops j) = 2 \<and>
     fst (add_op ''delete'' JNull j) \<notin> op_index ` set (pj_ops j)"
proof -
  obtain j0 where n: "journal_new (\<lambda>_. Inl DiskNotPresent) ''/dev/sda'' = Inr j0" "pj_disk j0 = ''/dev/sda''"
      "pj_ops j0 = []"
    by (simp add: journal_new_def normalize_plan_sda Let_def)
  define j2 where "j2 = snd (add_op ''create'' JNull (snd (add_op ''new_table'' JNull j0)))"
  have "journal_reach 2 j2"
    using journal_reach.add [OF journal_reach.add [OF journal_reach.new [OF n(1)] prod.collapse [symmetric]]
        prod.collapse [symmetric]] by (simp add: j2_def numeral_2_eq_2)
  moreover have "pj_disk j2 = ''/dev/sda''" "length (pj_ops j2) = 2"
    by (simp_all add: j2_def add_op_def Let_def n)
  ultimately show ?thesis using journal_identities [of 2 j2] by (auto simp: u64_max_def)
qed

section \<open>Errors only accumulate\<close>

lemma fail_if_simps [simp]:
  "va_errors (fail_if b e v) = va_errors v @ (if b then [e] else [])"
  "va_mounts (fail_if b e v) = va_mounts v" "va_allocated (fail_if b e v) = va_allocated v"
  "va_table (fail_if b e v) = va_table v" "va_primaries (fail_if b e v) = va_primaries v"
  by (simp_all add: fail_if_def)

lemma check_overlap_simps [simp]:
  "va_mounts (check_overlap b s e v) = va_mounts v" "va_allocated (check_overlap b s e v) = va_allocated v"
  "va_table (check_overlap b s e v) = va_table v" "va_primaries (check_overlap b s e v) = va_primaries v"
  "va_errors (check_overlap b s e v) = [] \<longleftrightarrow>
     va_errors v = [] \<and> (b \<longrightarrow> find_overlap s e (va_allocated v) = None)"
  by (simp_all add: check_overlap_def split: option.split)

definition final_validation ::
    "partition_journal \<Rightarrow> partition_record list \<Rightarrow> string \<Rightarrow> nat \<Rightarrow> validation" where
  "final_validation j parts table_type disk_size =
     fold (validate_op disk_size (last_mountpoint_indices j)) (pj_ops j) (initial_validation parts table_type)"

lemma validate_Nil:
  "validate j parts t n = [] \<longleftrightarrow> pj_ops j \<noteq> [] \<and> va_errors (final_validation j parts t n) = [] \<and>
     root_issue (final_validation j parts t n) = [] \<and>
     (\<forall>p \<in> set parts. pr_current p \<or> pr_in_use p \<longrightarrow>
        in_use_issue (last_mountpoint_indices j) (pr_name p) (pj_ops j) = [])"
  by (auto simp: validate_def final_validation_def Let_def)

section \<open>The layout invariant\<close>

text \<open>Regions are non-empty, within the signed range and the disk, and pairwise disjoint; mount points
  are assigned to one partition each.\<close>

definition region_ok :: "nat \<Rightarrow> region \<Rightarrow> bool" where
  "region_ok n r \<longleftrightarrow> (case r of (s, e, fs) \<Rightarrow> 0 \<le> s \<and> s < e \<and> e \<le> i64_max \<and> (n > 0 \<longrightarrow> e \<le> int n))"

definition regions_disjoint :: "region \<Rightarrow> region \<Rightarrow> bool" where
  "regions_disjoint a b \<longleftrightarrow> (case (a, b) of ((s, e, _), (s', e', _)) \<Rightarrow> e \<le> s' \<or> e' \<le> s)"

definition layout_ok :: "nat \<Rightarrow> (string \<rightharpoonup> region) \<Rightarrow> bool" where
  "layout_ok n m \<longleftrightarrow> (\<forall>k r. m k = Some r \<longrightarrow> region_ok n r) \<and>
     (\<forall>k k' r r'. m k = Some r \<longrightarrow> m k' = Some r' \<longrightarrow> k \<noteq> k' \<longrightarrow> regions_disjoint r r')"

definition mounts_ok :: "(string \<times> string) list \<Rightarrow> bool" where
  "mounts_ok m \<longleftrightarrow> distinct (map_keys m) \<and> alist.one_to_one m"

definition validation_inv :: "nat \<Rightarrow> validation \<Rightarrow> bool" where
  "validation_inv n v \<longleftrightarrow> layout_ok n (map_of (va_allocated v)) \<and> mounts_ok (va_mounts v) \<and>
     distinct (map_keys (va_allocated v))"

lemma regions_disjoint_sym: "regions_disjoint a b \<Longrightarrow> regions_disjoint b a"
  by (auto simp: regions_disjoint_def split: prod.splits)

lemma layout_region: "layout_ok n m \<Longrightarrow> m k = Some r \<Longrightarrow> region_ok n r"
  unfolding layout_ok_def by blast

lemma layout_disjoint:
  "layout_ok n m \<Longrightarrow> m k = Some r \<Longrightarrow> m k' = Some r' \<Longrightarrow> k \<noteq> k' \<Longrightarrow> regions_disjoint r r'"
  unfolding layout_ok_def by blast

lemma layout_ok_update:
  assumes "layout_ok n m" and "region_ok n r"
    and "\<And>k' r'. k' \<noteq> k \<Longrightarrow> m k' = Some r' \<Longrightarrow> regions_disjoint r r'"
  shows "layout_ok n (m(k \<mapsto> r))"
  using assms regions_disjoint_sym unfolding layout_ok_def by (auto split: if_splits)

lemma layout_ok_remove: "layout_ok n m \<Longrightarrow> layout_ok n (m(k := None))"
  by (auto simp: layout_ok_def split: if_splits)

lemma mounts_ok_set:
  assumes "mounts_ok m" and "\<forall>(p, x) \<in> set m. p \<noteq> k \<longrightarrow> x \<noteq> mount"
  shows "mounts_ok (set_assignment k mount m)"
proof (cases "mount = []")
  case True
  with assms show ?thesis
    by (simp add: mounts_ok_def set_assignment_def distinct_map_remove alist.one_to_one_rem)
next
  case False
  have "alist.one_to_one (map_insert k mount m)"
    using assms by (intro alist.one_to_one_ins) (auto simp: mounts_ok_def dest!: map_of_SomeD)
  with False assms show ?thesis by (simp add: mounts_ok_def set_assignment_def distinct_map_insert)
qed

lemma mounts_ok_remove: "mounts_ok m \<Longrightarrow> mounts_ok (map_remove k m)"
  by (simp add: mounts_ok_def distinct_map_remove alist.one_to_one_rem)

lemma find_overlap_None:
  assumes "find_overlap s e m = None" and "distinct (map_keys m)" and "map_of m k = Some r" and "region_ok n r"
  shows "regions_disjoint (s, e, fs) r"
proof -
  obtain s' e' fs' where r: "r = (s', e', fs')" by (cases r)
  have "(k, r) \<in> set m" by (rule map_of_SomeD [OF assms(3)])
  with assms(1) have "\<not> overlaps s e (k, r)"
    unfolding find_overlap_def by (simp only: option.map_disc_iff find_None_iff) blast
  with assms(4) r show ?thesis by (auto simp: overlaps_def region_ok_def regions_disjoint_def)
qed

lemma number_as_i64_le: "number_as_i64 x = Some i \<Longrightarrow> i \<le> i64_max"
  by (cases x) (auto simp: i64_max_def split: if_splits)

lemma parse_i64_le: "parse_i64 x = Some i \<Longrightarrow> i \<le> i64_max"
  by (auto simp: parse_i64_def parse_unsigned_def i64_max_def Let_def split: list.splits if_splits)

lemma value_i64_le: "value_i64 params key (- 1) \<le> i64_max"
proof -
  have "(- 1 :: int) \<le> i64_max" by (simp add: i64_max_def)
  then show ?thesis
    by (auto simp: value_i64_def dest: number_as_i64_le parse_i64_le split: option.split json.split)
qed

lemma saturating_region:
  assumes "0 \<le> s" and "s < i64_max" and "0 < k"
  shows "s < saturating_add_i64 s k \<and> saturating_add_i64 s k \<le> i64_max \<and>
    as_u64 (saturating_add_i64 s k) = nat (saturating_add_i64 s k)"
  using assms by (auto simp: saturating_add_i64_def i64_saturate_def i64_min_def as_u64_def i64_max_def)


lemma validation_inv_cong:
  "va_allocated v' = va_allocated v \<Longrightarrow> va_mounts v' = va_mounts v \<Longrightarrow> validation_inv n v' = validation_inv n v"
  by (simp add: validation_inv_def)

text \<open>Each step either reports an error or keeps the invariant; errors reported earlier stay.\<close>

definition step_keeps :: "nat \<Rightarrow> validation \<Rightarrow> validation \<Rightarrow> bool" where
  "step_keeps n v v' \<longleftrightarrow> (va_errors v' = [] \<longrightarrow> va_errors v = [] \<and> (validation_inv n v \<longrightarrow> validation_inv n v'))"

lemma step_keepsI:
  assumes "va_errors v' = [] \<Longrightarrow> va_errors v = []"
    and "va_errors v' = [] \<Longrightarrow> validation_inv n v \<Longrightarrow> validation_inv n v'"
  shows "step_keeps n v v'"
  using assms by (simp add: step_keeps_def)

lemma step_keeps_error: "va_errors v' \<noteq> [] \<Longrightarrow> step_keeps n v v'"
  by (simp add: step_keeps_def)

lemma step_keeps_refl: "step_keeps n v v"
  by (simp add: step_keeps_def)

lemma step_keeps_fold:
  "(\<And>x v. x \<in> set xs \<Longrightarrow> step_keeps n v (f x v)) \<Longrightarrow> step_keeps n v (fold f xs v)"
proof (induction xs arbitrary: v)
  case (Cons x xs)
  then have "step_keeps n v (f x v)" "step_keeps n (f x v) (fold f xs (f x v))" by simp_all
  then show ?case by (auto simp: step_keeps_def)
qed (simp add: step_keeps_refl)

lemma mounts_ok_Nil: "mounts_ok []"
  by (simp add: mounts_ok_def alist.one_to_one_def)

lemma new_table_keeps:
  assumes "n = 0 \<or> 2 * 1024 * 1024 \<le> n"
  shows "step_keeps n v (validate_new_table params v)"
proof (rule step_keepsI)
  have "layout_ok n (map_of [bios_region])"
    using assms by (auto simp: layout_ok_def bios_region_def region_ok_def i64_max_def split: if_splits)
  moreover have "layout_ok n (map_of [])" by (simp add: layout_ok_def)
  moreover have "va_allocated (validate_new_table params v) \<in> {[], [bios_region]}"
    and "va_mounts (validate_new_table params v) = []"
    by (simp_all add: validate_new_table_def Let_def)
  ultimately show "validation_inv n (validate_new_table params v)"
    unfolding validation_inv_def using mounts_ok_Nil by auto
qed (simp add: validate_new_table_def Let_def)

lemma create_keeps: "step_keeps n v (validate_create n index params v)"
proof (rule step_keepsI)
  define start where "start = value_i64 params ''start_bytes'' (- 1)"
  define sz where "sz = value_i64 params ''size_bytes'' (- 1)"
  define e where "e = saturating_add_i64 start sz"
  define fs where "fs = to_ascii_lowercase (value_string params ''fs_type'')"
  define key where "key = ''new:'' @ nat_to_string index"
  assume ok: "va_errors (validate_create n index params v) = []"
  obtain mount where m: "validated_mountpoint (value_string params ''mountpoint'') fs = Inr mount"
    using ok unfolding fs_def
    by (cases "validated_mountpoint (value_string params ''mountpoint'') (to_ascii_lowercase (value_string params ''fs_type''))")
      (simp_all add: validate_create_def Let_def)
  note unfolded = validate_create_def Let_def start_def [symmetric] sz_def [symmetric] e_def [symmetric]
    fs_def [symmetric] key_def [symmetric] m sum.case prod.case
  have errs: "va_errors v = [] \<and> \<not> (start \<le> 0 \<or> sz \<le> 0) \<and>
      (start > 0 \<and> sz > 0 \<longrightarrow> rem_i64 start 512 = 0 \<and> rem_i64 sz 512 = 0 \<and> \<not> (n > 0 \<and> as_u64 e > n)) \<and>
      (start \<ge> 0 \<and> sz \<ge> 0 \<longrightarrow> find_overlap start e (va_allocated v) = None) \<and>
      (mount = [] \<or> mount \<notin> set (map_values (va_mounts v)))"
    using ok unfolding unfolded by (simp split: if_splits)
  then show "va_errors v = []" by simp
  from errs have facts: "\<not> (start \<le> 0 \<or> sz \<le> 0)" "\<not> (rem_i64 start 512 \<noteq> 0 \<or> rem_i64 sz 512 \<noteq> 0)"
      "\<not> (n > 0 \<and> as_u64 e > n)" "find_overlap start e (va_allocated v) = None"
      "mount = [] \<or> mount \<notin> set (map_values (va_mounts v))"
    by auto
  have alloc: "va_allocated (validate_create n index params v) = map_insert key (start, e, fs) (va_allocated v)"
    and mounts: "va_mounts (validate_create n index params v) =
      (if mount \<noteq> [] then map_insert key mount (va_mounts v) else va_mounts v)"
    unfolding unfolded by simp_all
  assume inv: "validation_inv n v"
  have "512 dvd start" using facts(2) by (simp add: rem_i64_0)
  then have "start \<noteq> i64_max" by (auto simp: i64_max_def)
  moreover have "start \<le> i64_max" unfolding start_def by (rule value_i64_le)
  ultimately have sat: "start < e \<and> e \<le> i64_max \<and> as_u64 e = nat e"
    using facts(1) saturating_region [of start sz] by (simp add: e_def)
  with facts(1,3) have r: "region_ok n (start, e, fs)" by (auto simp: region_ok_def)
  have "layout_ok n ((map_of (va_allocated v))(key \<mapsto> (start, e, fs)))"
  proof (rule layout_ok_update [OF _ r])
    show "layout_ok n (map_of (va_allocated v))" using inv by (simp add: validation_inv_def)
    fix k' r' assume "map_of (va_allocated v) k' = Some r'"
    with inv facts(4) layout_region show "regions_disjoint (start, e, fs) r'"
      unfolding validation_inv_def by (intro find_overlap_None [of start e "va_allocated v" k' r' n]) blast+
  qed
  moreover have "mounts_ok (va_mounts (validate_create n index params v))"
  proof (cases "mount = []")
    case True
    with inv mounts show ?thesis by (simp add: validation_inv_def)
  next
    case False
    have "mounts_ok (set_assignment key mount (va_mounts v))"
      using inv facts(5) False by (intro mounts_ok_set) (force simp: validation_inv_def)+
    with False mounts show ?thesis by (simp add: set_assignment_def)
  qed
  ultimately show "validation_inv n (validate_create n index params v)"
    using inv by (simp add: validation_inv_def alloc map_of_map_insert distinct_map_insert)
qed

lemma validate_resize_ok:
  assumes "validate_resize n params part (s, e, fs) v = (ok, v')"
  shows "va_allocated v' = va_allocated v \<and> va_mounts v' = va_mounts v \<and> va_table v' = va_table v \<and>
    (va_errors v' = [] \<longrightarrow> va_errors v = [] \<and> ok \<and>
      (let k = value_i64 params ''new_size_bytes'' (- 1); new_end = saturating_add_i64 s k in
       0 < k \<and> (n > 0 \<longrightarrow> as_u64 new_end \<le> n) \<and> (saturating_sub_i64 e s > 0 \<longrightarrow> k \<le> saturating_sub_i64 e s) \<and>
       (saturating_sub_i64 e s \<le> 0 \<or> k < saturating_sub_i64 e s \<longrightarrow> validate_shrink_preconditions fs params = []) \<and>
       find_overlap s new_end (filter (\<lambda>entry. fst entry \<noteq> part) (va_allocated v)) = None))"
proof -
  define k where "k = value_i64 params ''new_size_bytes'' (- 1)"
  define cur where "cur = saturating_sub_i64 e s"
  define w where "w = (if k > 0 \<and> (cur \<le> 0 \<or> k < cur)
    then v\<lparr>va_errors := va_errors v @ map ShrinkIssue (validate_shrink_preconditions fs params)\<rparr> else v)"
  have w: "va_allocated w = va_allocated v" "va_mounts w = va_mounts v" "va_table w = va_table v"
    "va_errors w = [] \<longleftrightarrow> va_errors v = [] \<and> (k > 0 \<and> (cur \<le> 0 \<or> k < cur) \<longrightarrow> validate_shrink_preconditions fs params = [])"
    by (auto simp: w_def)
  show ?thesis
  proof (cases "k \<le> 0")
    case True
    with assms have "v' = w\<lparr>va_errors := va_errors w @ [ResizeInvalidSize]\<rparr>"
      by (simp add: validate_resize_def Let_def k_def [symmetric] cur_def [symmetric] w_def)
    then show ?thesis by (simp add: w)
  next
    case False
    define new_end where "new_end = saturating_add_i64 s k"
    define u where "u = fail_if (n > 0 \<and> as_u64 new_end > n) (ResizePastEnd part)
      (fail_if (cur > 0 \<and> k > cur) ResizeGrow (fail_if (rem_i64 k 512 \<noteq> 0) ResizeUnaligned w))"
    have r: "(case find_overlap s new_end (filter (\<lambda>entry. fst entry \<noteq> part) (va_allocated u)) of
          Some name \<Rightarrow> (False, u\<lparr>va_errors := va_errors u @ [ResizeOverlap part name]\<rparr>)
        | None \<Rightarrow> (\<not> rem_i64 k 512 \<noteq> 0 \<and> \<not> (cur > 0 \<and> k > cur) \<and> \<not> (n > 0 \<and> as_u64 new_end > n), u)) = (ok, v')"
      using assms False
      unfolding validate_resize_def Let_def prod.case k_def [symmetric] cur_def [symmetric] w_def [symmetric]
        new_end_def [symmetric] u_def [symmetric] by simp
    have u: "va_allocated u = va_allocated v" "va_mounts u = va_mounts v" "va_table u = va_table v"
      "va_errors u = [] \<longleftrightarrow> va_errors w = [] \<and> \<not> rem_i64 k 512 \<noteq> 0 \<and> \<not> (cur > 0 \<and> k > cur) \<and>
         \<not> (n > 0 \<and> as_u64 new_end > n)"
      by (simp_all add: u_def w)
    show ?thesis
    proof (cases "find_overlap s new_end (filter (\<lambda>entry. fst entry \<noteq> part) (va_allocated u))")
      case None
      with r have v': "v' = u" and ok: "ok = (\<not> rem_i64 k 512 \<noteq> 0 \<and> \<not> (cur > 0 \<and> k > cur) \<and> \<not> (n > 0 \<and> as_u64 new_end > n))"
        by simp_all
      from None u(1) have "find_overlap s new_end (filter (\<lambda>entry. fst entry \<noteq> part) (va_allocated v)) = None" by simp
      then show ?thesis
        unfolding v' ok Let_def k_def [symmetric] cur_def [symmetric] new_end_def [symmetric]
        using False by (simp add: u w) (auto simp: not_less)
    next
      case (Some name)
      with r have "v' = u\<lparr>va_errors := va_errors u @ [ResizeOverlap part name]\<rparr>" by simp
      then show ?thesis by (simp add: u)
    qed
  qed
qed

lemma validate_set_mountpoint_ok:
  assumes "validate_set_mountpoint params part (s, e, fs) v = (ok, v')"
  shows "va_allocated v' = va_allocated v \<and> va_table v' = va_table v \<and>
    (va_errors v' = [] \<longrightarrow> va_errors v = [] \<and> ok \<and>
      (\<exists>mount. validated_mountpoint (value_string params ''mountpoint'') fs = Inr mount \<and>
         (mount = ''/'' \<longrightarrow> fs = ''btrfs'') \<and>
         (mount = [] \<or> (\<forall>(p, x) \<in> set (va_mounts v). p \<noteq> part \<longrightarrow> x \<noteq> mount)) \<and>
         va_mounts v' = set_assignment part mount (va_mounts v)))"
  using assms
  by (auto simp: validate_set_mountpoint_def Let_def list_ex_iff split: sum.splits prod.splits if_splits)

lemma apply_valid_errors: "va_errors (apply_valid kind params part region v) = va_errors v"
  by (simp add: apply_valid_def split: prod.split)

lemma existing_keeps: "step_keeps n v (validate_existing n kind params v)"
proof (cases "normalize_device_path (value_string params ''partition'')")
  case None
  then show ?thesis by (simp add: validate_existing_def step_keeps_error)
next
  case (Some part)
  show ?thesis
  proof (cases "map_of (va_allocated v) part")
    case None
    with Some show ?thesis by (simp add: validate_existing_def step_keeps_error)
  next
    case region: (Some region)
    obtain s e fs where reg: "region = (s, e, fs)" by (cases region)
    define chk where "chk = (if kind = ''resize'' then validate_resize n params part region v
       else if kind = ''set_mountpoint'' then validate_set_mountpoint params part region v else (True, v))"
    obtain ok w where chk: "chk = (ok, w)" by force
    have res: "validate_existing n kind params v = (if ok then apply_valid kind params part region w else w)"
      using Some region chk by (simp add: validate_existing_def chk_def)
    have same: "va_allocated w = va_allocated v"
      and ok: "va_errors w = [] \<Longrightarrow> va_errors v = [] \<and> ok"
      using chk validate_resize_ok [of n params part s e fs v ok w]
        validate_set_mountpoint_ok [of params part s e fs v ok w]
      unfolding chk_def reg by (auto split: if_splits)
    show ?thesis
    proof (rule step_keepsI)
      assume none: "va_errors (validate_existing n kind params v) = []"
      then have wn: "va_errors w = []" unfolding res by (simp add: apply_valid_errors split: if_splits)
      from ok [OF wn] show "va_errors v = []" by simp
      from ok [OF wn] have res': "validate_existing n kind params v = apply_valid kind params part region w"
        by (simp add: res)
      assume inv: "validation_inv n v"
      have lay: "layout_ok n (map_of (va_allocated w))" "distinct (map_keys (va_allocated w))"
        using inv by (simp_all add: validation_inv_def same)
      have mnt: "mounts_ok (va_mounts w)"
      proof (cases "kind = ''set_mountpoint''")
        case True
        with chk have "validate_set_mountpoint params part (s, e, fs) v = (ok, w)" by (simp add: chk_def reg)
        from validate_set_mountpoint_ok [OF this] wn obtain mount where
          "mount = [] \<or> (\<forall>(p, x) \<in> set (va_mounts v). p \<noteq> part \<longrightarrow> x \<noteq> mount)"
          "va_mounts w = set_assignment part mount (va_mounts v)" by blast
        moreover have "mounts_ok (va_mounts v)" using inv by (simp add: validation_inv_def)
        ultimately show ?thesis
          using mounts_ok_set [of "va_mounts v" part mount] mounts_ok_remove [of "va_mounts v" part]
          by (auto simp: set_assignment_def)
      next
        case False
        with chk have "va_mounts w = va_mounts v"
          using validate_resize_ok [of n params part s e fs v ok w] by (auto simp: chk_def reg split: if_splits)
        with inv show ?thesis by (simp add: validation_inv_def)
      qed
      have r: "region_ok n region" using layout_region [of n "map_of (va_allocated v)" part region] region inv
        unfolding validation_inv_def by blast
      have disj: "k' \<noteq> part \<Longrightarrow> map_of (va_allocated w) k' = Some r' \<Longrightarrow> regions_disjoint region r'" for k' r'
        using layout_disjoint [OF lay(1), of part region k' r'] region same by simp
      show "validation_inv n (validate_existing n kind params v)"
      proof (cases "kind = ''resize''")
        case True
        define new_end where "new_end = saturating_add_i64 s (value_i64 params ''new_size_bytes'' (- 1))"
        from True chk have vr: "validate_resize n params part (s, e, fs) v = (ok, w)" by (simp add: chk_def reg)
        from validate_resize_ok [OF vr] wn have k: "0 < value_i64 params ''new_size_bytes'' (- 1)"
            "n > 0 \<longrightarrow> as_u64 new_end \<le> n"
            "find_overlap s new_end (filter (\<lambda>entry. fst entry \<noteq> part) (va_allocated v)) = None"
          unfolding new_end_def Let_def by blast+
        from r reg have s: "0 \<le> s" "s < i64_max" by (auto simp: region_ok_def)
        have nr: "region_ok n (s, new_end, fs)"
          using saturating_region [OF s k(1)] k(2) s unfolding region_ok_def new_end_def by auto
        have "layout_ok n ((map_of (va_allocated w))(part \<mapsto> (s, new_end, fs)))"
        proof (rule layout_ok_update [OF lay(1) nr])
          fix k' r' assume "k' \<noteq> part" "map_of (va_allocated w) k' = Some r'"
          moreover from this have "map_of (filter (\<lambda>entry. fst entry \<noteq> part) (va_allocated v)) k' = Some r'"
            using map_of_map_remove [of part "va_allocated v"] by (simp add: map_remove_def same)
          ultimately show "regions_disjoint (s, new_end, fs) r'"
            using k(3) lay layout_region [OF lay(1)] same
            by (intro find_overlap_None [of s new_end "filter (\<lambda>entry. fst entry \<noteq> part) (va_allocated v)" k' r' n])
              (auto simp: distinct_map_filter)
        qed
        with True mnt lay show ?thesis
          unfolding res' validation_inv_def
          by (simp add: apply_valid_def reg new_end_def map_of_map_insert distinct_map_insert)
      next
        case False
        have "layout_ok n ((map_of (va_allocated w))(part \<mapsto> (s, e, f)))" for f
          using r reg disj by (intro layout_ok_update [OF lay(1)])
            (auto simp: region_ok_def regions_disjoint_def split: prod.splits)
        with False mnt lay mounts_ok_remove [OF mnt] layout_ok_remove [OF lay(1)] show ?thesis
          unfolding res' validation_inv_def
          by (simp add: apply_valid_def reg map_of_map_insert distinct_map_insert map_of_map_remove
              distinct_map_remove)
      qed
    qed
  qed
qed

lemma validate_op_keeps:
  assumes "n = 0 \<or> 2 * 1024 * 1024 \<le> n"
  shows "step_keeps n v (validate_op n last_mps x v)"
  using new_table_keeps [OF assms] create_keeps existing_keeps
  by (simp add: validate_op_def step_keeps_refl step_keeps_error)

section \<open>What an accepted journal guarantees\<close>

text \<open>A partition snapshot as the kernel reports it: non-empty partitions inside the disk, pairwise
  disjoint.\<close>

definition parts_ok :: "nat \<Rightarrow> partition_record list \<Rightarrow> bool" where
  "parts_ok n parts \<longleftrightarrow>
     (\<forall>p \<in> set parts. 0 < pr_size_bytes p \<and> int (pr_start_bytes p + pr_size_bytes p) \<le> i64_max \<and>
        (n > 0 \<longrightarrow> pr_start_bytes p + pr_size_bytes p \<le> n)) \<and>
     (\<forall>p \<in> set parts. \<forall>q \<in> set parts. pr_name p \<noteq> pr_name q \<longrightarrow>
        pr_start_bytes p + pr_size_bytes p \<le> pr_start_bytes q \<or>
        pr_start_bytes q + pr_size_bytes q \<le> pr_start_bytes p)"

lemma map_of_fold_insert:
  "map_of (fold (\<lambda>p. map_insert (f p) (g p)) ps m) k = Some r \<Longrightarrow>
   (\<exists>p \<in> set ps. f p = k \<and> g p = r) \<or> map_of m k = Some r"
proof (induction ps arbitrary: m)
  case (Cons p ps)
  then show ?case by (force simp: map_of_map_insert split: if_splits)
qed simp

lemma distinct_fold_insert:
  "distinct (map_keys m) \<Longrightarrow> distinct (map_keys (fold (\<lambda>p. map_insert (f p) (g p)) ps m))"
  by (induction ps arbitrary: m) (simp_all add: distinct_map_insert)

lemma initial_allocated_entry:
  assumes "parts_ok n parts" and "map_of (initial_allocated parts) k = Some r"
  shows "\<exists>p \<in> set parts. pr_name p = k \<and>
    r = (int (pr_start_bytes p), int (pr_start_bytes p + pr_size_bytes p), pr_fstype p)"
proof -
  from map_of_fold_insert [OF assms(2) [unfolded initial_allocated_def]] obtain p where
    p: "p \<in> set parts" "pr_name p = k"
      "r = (as_i64 (pr_start_bytes p), as_i64 (saturating_add (pr_start_bytes p) (pr_size_bytes p)), pr_fstype p)"
    by auto
  have b: "int (pr_start_bytes p + pr_size_bytes p) \<le> i64_max" using assms(1) p(1) by (simp add: parts_ok_def)
  then have "saturating_add (pr_start_bytes p) (pr_size_bytes p) = pr_start_bytes p + pr_size_bytes p"
    by (simp add: saturating_add_def i64_max_def u64_max_def)
  with p b show ?thesis by (auto simp: as_i64_small)
qed

lemma initial_inv:
  assumes "parts_ok n parts"
  shows "validation_inv n (initial_validation parts t)"
proof -
  have "layout_ok n (map_of (initial_allocated parts))"
    unfolding layout_ok_def
  proof (intro conjI allI impI)
    fix k r assume "map_of (initial_allocated parts) k = Some r"
    from initial_allocated_entry [OF assms this] assms show "region_ok n r"
      by (auto simp: region_ok_def parts_ok_def)
  next
    fix k k' r r'
    assume e: "map_of (initial_allocated parts) k = Some r" "map_of (initial_allocated parts) k' = Some r'" "k \<noteq> k'"
    from initial_allocated_entry [OF assms e(1)] obtain p where p: "p \<in> set parts" "pr_name p = k"
      "r = (int (pr_start_bytes p), int (pr_start_bytes p + pr_size_bytes p), pr_fstype p)" by blast
    from initial_allocated_entry [OF assms e(2)] obtain q where q: "q \<in> set parts" "pr_name q = k'"
      "r' = (int (pr_start_bytes q), int (pr_start_bytes q + pr_size_bytes q), pr_fstype q)" by blast
    from assms p(1,2) q(1,2) e(3) have "pr_start_bytes p + pr_size_bytes p \<le> pr_start_bytes q \<or>
        pr_start_bytes q + pr_size_bytes q \<le> pr_start_bytes p" unfolding parts_ok_def by blast
    with p(3) q(3) show "regions_disjoint r r'" unfolding regions_disjoint_def by auto
  qed
  moreover have "distinct (map_keys (initial_allocated parts))"
    unfolding initial_allocated_def by (rule distinct_fold_insert) simp
  ultimately show ?thesis by (simp add: validation_inv_def initial_validation_def Let_def mounts_ok_Nil)
qed

lemma final_validation_inv:
  assumes "parts_ok n parts" and "n = 0 \<or> 2 * 1024 * 1024 \<le> n" and "va_errors (final_validation j parts t n) = []"
  shows "validation_inv n (final_validation j parts t n)"
  using step_keeps_fold [where f = "validate_op n (last_mountpoint_indices j)" and xs = "pj_ops j"
      and v = "initial_validation parts t", OF validate_op_keeps [OF assms(2)]] initial_inv [OF assms(1), of t] assms(3)
  by (simp add: step_keeps_def final_validation_def)

text \<open>C4: An accepted journal describes a possible layout: after all its operations the
  regions of the disk are non-empty, inside the disk and pairwise disjoint, every mount point belongs
  to one partition, and exactly one partition is the root.\<close>

theorem validated_layout:
  assumes "validate j parts t n = []" and "parts_ok n parts" and "n = 0 \<or> 2 * 1024 * 1024 \<le> n"
  defines "v \<equiv> final_validation j parts t n"
  shows "(\<forall>k s e fs. map_of (va_allocated v) k = Some (s, e, fs) \<longrightarrow> 0 \<le> s \<and> s < e \<and> (n > 0 \<longrightarrow> e \<le> int n)) \<and>
    (\<forall>k k' s e fs s' e' fs'. map_of (va_allocated v) k = Some (s, e, fs) \<and>
       map_of (va_allocated v) k' = Some (s', e', fs') \<and> k \<noteq> k' \<longrightarrow> e \<le> s' \<or> e' \<le> s) \<and>
    (\<forall>p q m. map_of (va_mounts v) p = Some m \<and> map_of (va_mounts v) q = Some m \<longrightarrow> p = q) \<and>
    (\<exists>!p. map_of (va_mounts v) p = Some ''/'')"
proof -
  have inv: "validation_inv n v" using assms final_validation_inv by (simp add: validate_Nil v_def)
  then have lay: "layout_ok n (map_of (va_allocated v))" and one: "alist.one_to_one (va_mounts v)"
      and dist: "distinct (map_keys (va_mounts v))"
    by (simp_all add: validation_inv_def mounts_ok_def)
  have "root_issue v = []" using assms(1) by (simp add: validate_Nil v_def)
  have "''/'' \<in> set (map_values (va_mounts v))"
  proof (rule ccontr)
    assume "''/'' \<notin> set (map_values (va_mounts v))"
    then have "filter (\<lambda>m. m = ''/'') (map_values (va_mounts v)) = []"
      by (intro filter_False) blast
    then have "root_issue v = [NoRoot]" unfolding root_issue_def Let_def by (simp only: list.size) simp
    with \<open>root_issue v = []\<close> show False by simp
  qed
  then obtain p where p: "map_of (va_mounts v) p = Some ''/''"
    using map_values_ran [OF dist] by (auto simp: ran_def)
  have "\<exists>!p. map_of (va_mounts v) p = Some ''/''"
    using p one unfolding alist.one_to_one_def by blast
  moreover have "\<forall>k s e fs. map_of (va_allocated v) k = Some (s, e, fs) \<longrightarrow> 0 \<le> s \<and> s < e \<and> (n > 0 \<longrightarrow> e \<le> int n)"
    using layout_region [OF lay] by (fastforce simp: region_ok_def)
  moreover have "\<forall>k k' s e fs s' e' fs'. map_of (va_allocated v) k = Some (s, e, fs) \<and>
       map_of (va_allocated v) k' = Some (s', e', fs') \<and> k \<noteq> k' \<longrightarrow> e \<le> s' \<or> e' \<le> s"
    using layout_disjoint [OF lay] by (fastforce simp: regions_disjoint_def)
  ultimately show ?thesis using one unfolding alist.one_to_one_def by blast
qed

lemma in_use_issue_Nil:
  "in_use_issue last_mps name ops = [] \<Longrightarrow> x \<in> set ops \<Longrightarrow>
   normalize_device_path (value_string (op_params x) ''partition'') = Some name \<Longrightarrow>
   op_kind x \<notin> {''delete'', ''format'', ''resize''}"
  by (induction ops) (auto split: if_splits)


lemma fold_errors_prefix:
  assumes "\<And>x v. step_keeps n v (f x v)" and "va_errors (fold f (pre @ x # post) v) = []"
  shows "va_errors (f x (fold f pre v)) = []"
  using step_keeps_fold [of post n f "f x (fold f pre v)"] assms by (simp add: step_keeps_def)

text \<open>C23: An accepted journal resizes a partition only down (or to its current size), to a
  positive size; and it shrinks one only with a backup path on external media, mains power confirmed
  and, for NTFS, the volume verified clean.\<close>

theorem validated_shrinks_attested:
  assumes "validate j parts t n = []" and "n = 0 \<or> 2 * 1024 * 1024 \<le> n"
    and "pj_ops j = pre @ x # post" and "op_kind x = ''resize''"
  defines "v \<equiv> fold (validate_op n (last_mountpoint_indices j)) pre (initial_validation parts t)"
  shows "\<exists>part s e fs k. normalize_device_path (value_string (op_params x) ''partition'') = Some part \<and>
    map_of (va_allocated v) part = Some (s, e, fs) \<and> k = value_i64 (op_params x) ''new_size_bytes'' (- 1) \<and> 0 < k \<and>
    (saturating_sub_i64 e s > 0 \<longrightarrow> k \<le> saturating_sub_i64 e s) \<and>
    (k < saturating_sub_i64 e s \<longrightarrow>
       path_on_external_media (value_string (op_params x) ''gpt_backup_path'') \<and>
       param_true (op_params x) ''on_ac_power'' \<and>
       (fs \<in> {''ntfs'', ''ntfs3''} \<longrightarrow> param_true (op_params x) ''ntfs_verified_clean''))"
proof -
  have "va_errors (validate_op n (last_mountpoint_indices j) x v) = []"
    unfolding v_def using assms(1,3)
    by (intro fold_errors_prefix [where post = post, OF validate_op_keeps [OF assms(2)]])
      (simp add: validate_Nil final_validation_def)
  then have e0: "va_errors (validate_existing n ''resize'' (op_params x) v) = []"
    using assms(4) by (simp add: validate_op_def superseded_def)
  then obtain part region where part: "normalize_device_path (value_string (op_params x) ''partition'') = Some part"
      "map_of (va_allocated v) part = Some region"
    by (auto simp: validate_existing_def split: option.splits)
  obtain s e fs where reg: "region = (s, e, fs)" by (cases region)
  obtain ok w where w: "validate_resize n (op_params x) part (s, e, fs) v = (ok, w)" by force
  with e0 part reg have "va_errors w = []"
    by (simp add: validate_existing_def apply_valid_errors split: if_splits)
  with validate_resize_ok [OF w] have k: "0 < value_i64 (op_params x) ''new_size_bytes'' (- 1)"
      "saturating_sub_i64 e s > 0 \<longrightarrow> value_i64 (op_params x) ''new_size_bytes'' (- 1) \<le> saturating_sub_i64 e s"
      "value_i64 (op_params x) ''new_size_bytes'' (- 1) < saturating_sub_i64 e s \<longrightarrow>
         validate_shrink_preconditions fs (op_params x) = []"
    unfolding Let_def by blast+
  from k(3) have "value_i64 (op_params x) ''new_size_bytes'' (- 1) < saturating_sub_i64 e s \<longrightarrow>
       path_on_external_media (value_string (op_params x) ''gpt_backup_path'') \<and>
       param_true (op_params x) ''on_ac_power'' \<and>
       (fs \<in> {''ntfs'', ''ntfs3''} \<longrightarrow> param_true (op_params x) ''ntfs_verified_clean'')"
    by (auto simp: validate_shrink_preconditions_def Let_def split: if_splits)
  with k part reg show ?thesis by blast
qed

section \<open>Concrete journals\<close>

definition journal_of :: "partition_operation list \<Rightarrow> partition_journal" where
  "journal_of ops = \<lparr>pj_disk = ''/dev/sda'', pj_ops = ops, pj_committed = False, pj_root_partition = None,
     pj_irreversible_completed = False, pj_disk_model = Some ''Disk'', pj_disk_serial = Some ''S1'',
     pj_disk_size_bytes = Some 107374182400\<rparr>"

definition table_op :: partition_operation where
  "table_op = \<lparr>op_kind = ''new_table'', op_params = JObject [(''table_type'', JString ''gpt'')], op_index = 0\<rparr>"

definition create_root_op :: "nat \<Rightarrow> nat \<Rightarrow> nat \<Rightarrow> partition_operation" where
  "create_root_op index start sz = \<lparr>op_kind = ''create'', op_params = JObject
     [(''start_bytes'', JNumber (PosInt start)), (''size_bytes'', JNumber (PosInt sz)),
      (''fs_type'', JString ''btrfs''), (''mountpoint'', JString ''/'')], op_index = index\<rparr>"

definition part_op :: "string \<Rightarrow> nat \<Rightarrow> string \<Rightarrow> (string \<times> json) list \<Rightarrow> partition_operation" where
  "part_op kind index part params = \<lparr>op_kind = kind,
     op_params = JObject ((''partition'', JString part) # params), op_index = index\<rparr>"

definition btrfs_part :: "string \<Rightarrow> nat \<Rightarrow> bool \<Rightarrow> partition_record" where
  "btrfs_part nm start used = \<lparr>pr_name = nm, pr_size_bytes = 1073741824, pr_start_bytes = start,
     pr_fstype = ''btrfs'', pr_label = [], pr_parttype = [], pr_mountpoints = [], pr_efi = False,
     pr_current = used, pr_in_use = False, pr_read_only = False, pr_alongside_candidate = False,
     pr_ntfs_resize_candidate = False\<rparr>"

lemma root_mount_sample: "validated_mountpoint ''/'' ''btrfs'' = Inr ''/''"
  by (simp add: validated_mountpoint_def mount_fs_name_def normalize_mountpoint_def safe_path_def
      is_efi_mountpoint_def path_char_def str_simps)

lemma empty_mount_sample: "validated_mountpoint [] fs = Inr []"
  by (simp add: validated_mountpoint_def)

lemmas journal_simps = validate_def journal_of_def last_mountpoint_indices_def
  initial_validation_def initial_allocated_def table_name_def known_table_def validate_op_def superseded_def
  value_string_def value_i64_def value_u64_def i64_max_def i64_min_def saturating_add_def u64_max_def as_i64_def as_u64_def
  saturating_add_i64_def saturating_sub_i64_def i64_saturate_def rem_i64_def find_overlap_def overlaps_def fail_if_def
  check_overlap_def root_issue_def Let_def set_assignment_def

lemma new_table_sample:
  "validate_new_table (op_params table_op) v =
     v\<lparr>va_table := ''gpt'', va_primaries := 0, va_mounts := [], va_allocated := [bios_region]\<rparr>"
  by (simp add: validate_new_table_def table_op_def journal_simps str_simps)

text \<open>A journal that writes a new table and creates the root right behind the region reserved for the
  BIOS boot partition.\<close>

lemma validate_table_root:
  assumes "2097152 \<le> start" and "512 dvd start" and "512 dvd sz" and "0 < sz" and "start + sz \<le> n" and "int n \<le> i64_max"
  shows "validate (journal_of [table_op, create_root_op 1 start sz]) parts ''gpt'' n = []"
proof -
  define v where "v = (initial_validation parts ''gpt'')\<lparr>va_table := ''gpt'', va_primaries := 0, va_mounts := [],
    va_allocated := [bios_region]\<rparr>"
  have t: "trim [] = []" "trim ''/'' = ''/''" "trim ''btrfs'' = ''btrfs''" by (simp_all add: str_simps)
  have ev: "va_errors v = []" by (simp add: v_def initial_validation_def table_name_def known_table_def str_simps)
  have le: "int start \<le> i64_max" "int sz \<le> i64_max" "int start + int sz \<le> i64_max" using assms by linarith+
  have s: "value_i64 (op_params (create_root_op 1 start sz)) ''start_bytes'' (- 1) = int start"
    "value_i64 (op_params (create_root_op 1 start sz)) ''size_bytes'' (- 1) = int sz"
    "value_string (op_params (create_root_op 1 start sz)) ''fs_type'' = ''btrfs''"
    "value_string (op_params (create_root_op 1 start sz)) ''mountpoint'' = ''/''"
    using le by (simp_all add: create_root_op_def value_i64_def value_string_def t)
  have e: "saturating_add_i64 (int start) (int sz) = int (start + sz)"
    using le by (simp add: saturating_add_i64_def i64_saturate_def i64_min_def)
  have u: "as_u64 (int (start + sz)) = start + sz" using le by (subst as_u64_small) simp_all
  have a: "rem_i64 (int start) 512 = 0" "rem_i64 (int sz) 512 = 0"
    using assms(2,3) by (simp_all add: rem_i64_0) (simp_all only: int_dvd_int_iff [symmetric] of_nat_numeral)
  have o: "find_overlap (int start) (int (start + sz)) [bios_region] = None"
    using assms(1) by (simp add: find_overlap_def overlaps_def bios_region_def)
  have low: "to_ascii_lowercase ''btrfs'' = ''btrfs''" by (simp add: str_simps)
  have "validate_create n 1 (op_params (create_root_op 1 start sz)) v =
      v\<lparr>va_allocated := map_insert (''new:'' @ nat_to_string 1) (int start, int (start + sz), ''btrfs'') [bios_region],
        va_mounts := [(''new:'' @ nat_to_string 1, ''/'')]\<rparr>"
    unfolding validate_create_def s low Let_def root_mount_sample sum.case prod.case e u
    using assms o a by (simp add: fail_if_def check_overlap_def v_def)
  then have fin: "final_validation (journal_of [table_op, create_root_op 1 start sz]) parts ''gpt'' n =
      v\<lparr>va_allocated := map_insert (''new:'' @ nat_to_string 1) (int start, int (start + sz), ''btrfs'') [bios_region],
        va_mounts := [(''new:'' @ nat_to_string 1, ''/'')]\<rparr>"
    by (simp add: final_validation_def journal_of_def validate_op_def superseded_def new_table_sample v_def)
      (simp add: table_op_def create_root_op_def)
  have "in_use_issue m nm [table_op, create_root_op 1 start sz] = []" for m nm
    by (simp add: table_op_def create_root_op_def value_string_def t normalize_device_path_def)
  with fin ev show ?thesis by (simp add: validate_Nil root_issue_def journal_of_def)
qed

theorem validated_layout_witness:
  "\<exists>!p. map_of (va_mounts (final_validation (journal_of [table_op, create_root_op 1 2097152 42949672960])
     [] ''gpt'' 107374182400)) p = Some ''/''"
  using validated_layout [OF validate_table_root, of 2097152 42949672960 107374182400 "[]"]
  by (simp add: parts_ok_def i64_max_def)

definition shrink_op :: partition_operation where
  "shrink_op = part_op ''resize'' 0 ''/dev/sda3''
     [(''new_size_bytes'', JNumber (PosInt 536870912)), (''gpt_backup_path'', JString ''/mnt/usb/gpt.bak''),
      (''on_ac_power'', JBool True)]"

definition set_root_op :: "string \<Rightarrow> partition_operation" where
  "set_root_op part = part_op ''set_mountpoint'' 1 part [(''mountpoint'', JString ''/'')]"

definition two_parts :: "partition_record list" where
  "two_parts = [btrfs_part ''/dev/sda2'' 1048576 True, btrfs_part ''/dev/sda3'' 2147483648 False]"

lemma normalize_sda3: "normalize_device_path ''/dev/sda3'' = Some ''/dev/sda3''"
  by (simp add: normalize_device_path_def Let_def path_char_def str_simps)

lemma sample_trims:
  "trim [] = []" "trim ''/'' = ''/''" "trim ''/dev/sda2'' = ''/dev/sda2''" "trim ''/dev/sda3'' = ''/dev/sda3''"
  "trim ''/mnt/usb/gpt.bak'' = ''/mnt/usb/gpt.bak''" "trim ''ext4'' = ''ext4''"
  "to_ascii_lowercase ''gpt'' = ''gpt''" "to_ascii_lowercase ''ext4'' = ''ext4''"
  by (simp_all add: str_simps)

lemma shrink_sample:
  "validate (journal_of [shrink_op, set_root_op ''/dev/sda3'']) two_parts ''gpt'' 107374182400 = []"
  by (simp add: journal_simps shrink_op_def set_root_op_def part_op_def two_parts_def btrfs_part_def sample_trims
      normalize_sda3 validate_existing_def validate_resize_def validate_shrink_preconditions_def
      path_on_external_media_def param_true_def apply_valid_def validate_set_mountpoint_def root_mount_sample)


theorem validated_shrinks_attested_witness:
  "\<exists>part s e fs. map_of (va_allocated (initial_validation two_parts ''gpt'')) part = Some (s, e, fs) \<and>
     normalize_device_path (value_string (op_params shrink_op) ''partition'') = Some part \<and>
     0 < value_i64 (op_params shrink_op) ''new_size_bytes'' (- 1)"
  using validated_shrinks_attested [OF shrink_sample, of "[]" shrink_op "[set_root_op ''/dev/sda3'']"]
  by (auto simp: journal_of_def shrink_op_def part_op_def)

section \<open>What validation does not establish\<close>

text \<open>The root filesystem is checked when the mount point is assigned and not again: assigning
  the root to a Btrfs partition and then formatting that partition as ext4 is accepted, although the
  root must be Btrfs.\<close>

theorem root_reformat_accepted:
  "let j = journal_of [part_op ''set_mountpoint'' 0 ''/dev/sda3'' [(''mountpoint'', JString ''/'')],
                       part_op ''format'' 1 ''/dev/sda3'' [(''fs_type'', JString ''ext4'')]];
       v = final_validation j two_parts ''gpt'' 107374182400
   in validate j two_parts ''gpt'' 107374182400 = [] \<and> map_of (va_mounts v) ''/dev/sda3'' = Some ''/'' \<and>
      (\<exists>s e. map_of (va_allocated v) ''/dev/sda3'' = Some (s, e, ''ext4''))"
  by (simp add: final_validation_def journal_simps part_op_def two_parts_def btrfs_part_def sample_trims
      normalize_sda3 validate_existing_def apply_valid_def validate_set_mountpoint_def root_mount_sample)

text \<open>The check that nothing in use is modified looks at the partition an operation names, and
  a new partition table names none: a journal that replaces the table of a disk with a mounted
  partition is accepted.\<close>

theorem new_table_ignores_in_use:
  "(\<exists>p \<in> set two_parts. pr_current p) \<and>
   validate (journal_of [table_op, create_root_op 1 2097152 42949672960]) two_parts ''gpt'' 107374182400 = []"
  using validate_table_root [of 2097152 42949672960 107374182400 two_parts]
  by (simp add: two_parts_def btrfs_part_def i64_max_def)

text \<open>Validation normalises a mount point before judging it, but the projection of the manual mounts
  compares the text as entered: an ESP assigned at /boot/efi/ is accepted as the ESP, and yet handed
  to the mount matrix as an ordinary mount, which refuses it.\<close>

theorem esp_trailing_slash_projected:
  "validated_mountpoint ''/boot/efi/'' ''fat32'' = Inr ''/boot/efi'' \<and>
   manual_mounts ((journal_of [part_op ''set_mountpoint'' 0 ''/dev/sda3'' [(''mountpoint'', JString ''/boot/efi/'')]])
     \<lparr>pj_committed := True\<rparr>) two_parts =
     Inr [\<lparr>jm_partition = ''/dev/sda3'', jm_mountpoint = ''/boot/efi/'', jm_fstype = ''btrfs''\<rparr>] \<and>
   normalized_mountpoint ''/boot/efi/'' ''btrfs'' = Inl ReservedMountpoint"
  by (simp add: validated_mountpoint_def mount_fs_name_def normalize_mountpoint_def normalized_mountpoint_def
      safe_path_def is_efi_mountpoint_def path_char_def manual_mounts_def journal_of_def part_op_def project_op_def
      value_string_def set_assignment_def by_name_def discovered_map_def two_parts_def btrfs_part_def
      mount_fstype_def Let_def str_simps)

end
