(* ===== verification/Kyth_Comp.thy ===== *)
theory Kyth_Comp
  imports Kyth_Prelude
begin

text \<open>
  Stateful code: a computation takes the state and returns a result and the new state, as
  \<open>Result\<close>-returning Rust code with the \<open>?\<close> operator does, and relations between the states before and
  after that every part of a computation keeps.
\<close>

section \<open>Computations\<close>

type_synonym ('s, 'e, 'a) comp = "'s \<Rightarrow> ('e, 'a) res \<times> 's"

definition return_ok :: "'a \<Rightarrow> ('s, 'e, 'a) comp" where
  "return_ok x s = (Inr x, s)"

definition return_err :: "'e \<Rightarrow> ('s, 'e, 'a) comp" where
  "return_err e s = (Inl e, s)"

text \<open>Sequencing with the \<open>?\<close> operator: the rest runs only after a success.\<close>

definition then_do :: "('s, 'e, 'a) comp \<Rightarrow> ('a \<Rightarrow> ('s, 'e, 'b) comp) \<Rightarrow> ('s, 'e, 'b) comp" where
  "then_do m f s = (case m s of (Inl e, s') \<Rightarrow> (Inl e, s') | (Inr x, s') \<Rightarrow> f x s')"

definition lift_res :: "('e, 'a) res \<Rightarrow> ('s, 'e, 'a) comp" where
  "lift_res r s = (r, s)"

fun for_each :: "('x \<Rightarrow> ('s, 'e, unit) comp) \<Rightarrow> 'x list \<Rightarrow> ('s, 'e, unit) comp" where
  "for_each f [] = return_ok ()"
| "for_each f (x # xs) = then_do (f x) (\<lambda>_. for_each f xs)"

lemma return_simps [simp]: "return_ok x s = (Inr x, s)" "return_err e s = (Inl e, s)" "lift_res r s = (r, s)"
  by (simp_all add: return_ok_def return_err_def lift_res_def)

lemma then_do_cases:
  obtains (err) e s' where "m s = (Inl e, s')" and "then_do m f s = (Inl e, s')"
  | (ok) x s' where "m s = (Inr x, s')" and "then_do m f s = f x s'"
proof (cases "m s")
  case (Pair r s')
  then show thesis using that by (cases r) (auto simp: then_do_def)
qed

lemma then_do_err: "m s = (Inl e, s') \<Longrightarrow> then_do m f s = (Inl e, s')"
  by (simp add: then_do_def)

lemma then_do_ok: "m s = (Inr x, s') \<Longrightarrow> then_do m f s = f x s'"
  by (simp add: then_do_def)

lemma then_do_Inr [simp]:
  "then_do m f s = (Inr y, t) \<longleftrightarrow> (\<exists>x u. m s = (Inr x, u) \<and> f x u = (Inr y, t))"
  by (auto simp: then_do_def split: prod.splits sum.splits)

lemma then_do_Inl:
  "then_do m f s = (Inl e, t) \<longleftrightarrow> m s = (Inl e, t) \<or> (\<exists>x u. m s = (Inr x, u) \<and> f x u = (Inl e, t))"
  by (auto simp: then_do_def split: prod.splits sum.splits)

section \<open>Relations every computation keeps\<close>

text \<open>A relation between the states before and after that is reflexive and transitive is respected
  by a computation as soon as its parts respect it.\<close>

locale effect_relation =
  fixes R :: "'s \<Rightarrow> 's \<Rightarrow> bool"
  assumes R_refl: "R s s"
    and R_trans: "R s t \<Longrightarrow> R t u \<Longrightarrow> R s u"
begin

definition keeps :: "('s, 'e, 'a) comp \<Rightarrow> bool" where
  "keeps m \<longleftrightarrow> (\<forall>s. R s (snd (m s)))"

lemma keeps_pure: "keeps (return_ok x)" "keeps (return_err e)" "keeps (lift_res r)"
  by (simp_all add: keeps_def R_refl)

lemma keeps_then: "keeps m \<Longrightarrow> (\<And>x. keeps (f x)) \<Longrightarrow> keeps (then_do m f)"
  unfolding keeps_def
proof
  fix s assume m: "\<forall>s. R s (snd (m s))" and f: "\<And>x. \<forall>s. R s (snd (f x s))"
  show "R s (snd (then_do m f s))"
  proof (cases rule: then_do_cases [of m s f])
    case (err e s')
    with m show ?thesis by (metis snd_conv)
  next
    case (ok x s')
    with m f [of x] R_trans show ?thesis by (metis snd_conv)
  qed
qed

lemma keeps_for_each: "(\<And>x. x \<in> set xs \<Longrightarrow> keeps (f x)) \<Longrightarrow> keeps (for_each f xs)"
  by (induction xs) (auto intro!: keeps_then keeps_pure)

lemma keeps_if: "(b \<Longrightarrow> keeps m) \<Longrightarrow> (\<not> b \<Longrightarrow> keeps n) \<Longrightarrow> keeps (if b then m else n)"
  by simp

lemma keeps_option: "(\<And>x. keeps (f x)) \<Longrightarrow> keeps m \<Longrightarrow> keeps (case v of None \<Rightarrow> m | Some x \<Rightarrow> f x)"
  by (cases v) auto

lemma keeps_sum: "(\<And>e. keeps (f e)) \<Longrightarrow> (\<And>x. keeps (g x)) \<Longrightarrow> keeps (case v of Inl e \<Rightarrow> f e | Inr x \<Rightarrow> g x)"
  by (cases v) auto

lemma keeps_lift: "(\<And>x. r = Inr x \<Longrightarrow> keeps (f x)) \<Longrightarrow> keeps (then_do (lift_res r) f)"
  by (cases r) (simp_all add: keeps_def then_do_def R_refl)

lemma keepsD: "keeps m \<Longrightarrow> m s = (r, t) \<Longrightarrow> R s t"
  unfolding keeps_def by (metis snd_conv)

lemmas keeps_intros = keeps_pure keeps_then keeps_if keeps_option keeps_sum

end

end
