(* ===== verification/Installer_Effects.thy ===== *)
theory Installer_Effects
  imports Journal_Safety Kyth_Comp
begin

text \<open>
  The machine the installer runs on.  The world is an abstract type: every
  call of the operating system is a function of the world that returns an answer and the world
  after it, so that nothing is assumed about what happens on the machine between two calls.  What
  the program itself does to the machine is recorded in a trace.  The theory ends with the
  supervision of one disk command, \<open>run_disk_operation\<close> of \<open>installer_journal.rs\<close>.
\<close>

section \<open>The operating system\<close>

datatype poll = StillRunning | PollFailed | Exited "int option"

text \<open>A spawned disk command: whether it started, whether its confirmation could be written, the
  answer of the i-th \<open>try_wait\<close> and how many milliseconds beyond the sleeps had passed by then.\<close>

record process =
  proc_started :: bool
  proc_confirmed :: bool
  proc_poll :: "nat \<Rightarrow> poll"
  proc_delay :: "nat \<Rightarrow> nat"

datatype emit_outcome = Emitted | EmitPanicked | FlushFailed

record 'w machine =
  mc_cmd :: "string list \<Rightarrow> 'w \<Rightarrow> cmd_result \<times> 'w"
  mc_plan_probe :: "string list \<Rightarrow> 'w \<Rightarrow> cmd_result"
  mc_exists :: "string \<Rightarrow> 'w \<Rightarrow> bool"
  mc_exec :: "disk_plan \<Rightarrow> 'w \<Rightarrow> process \<times> 'w"
  mc_open :: "string \<Rightarrow> 'w \<Rightarrow> bool"
  mc_sync :: "string \<Rightarrow> 'w \<Rightarrow> bool"
  mc_rename :: "string \<Rightarrow> string \<Rightarrow> 'w \<Rightarrow> bool \<times> 'w"
  mc_canonicalize :: "string \<Rightarrow> 'w \<Rightarrow> string option \<times> 'w"
  mc_is_dir :: "string \<Rightarrow> 'w \<Rightarrow> bool"
  mc_tempdir :: "string option \<Rightarrow> string \<Rightarrow> 'w \<Rightarrow> string option \<times> 'w"
  mc_emit :: "json \<Rightarrow> 'w \<Rightarrow> emit_outcome \<times> 'w"
  mc_now :: "'w \<Rightarrow> nat"
  mc_guard :: "'w \<Rightarrow> guard_probes \<times> 'w"
  mc_lock :: "'w \<Rightarrow> lock_answers \<times> 'w"
  mc_json :: "string \<Rightarrow> json option"
  mc_decode :: "string \<Rightarrow> lsblk_text"
  mc_value :: "json \<Rightarrow> lsblk_text"

datatype commit_error =
    UnsafeDisk
  | UnsafePartition
  | CommandNotRun string
  | CommandRefused
  | OutputUnreadable
  | PlanRefused disk_error
  | StorageRefused storage_error
  | GuardRefused guard_error
  | SyncRefused sync_error
  | NotConfirmed
  | PollError
  | TimedOut nat
  | ExitedWith "int option"
  | Panicked
  | EventNotFlushed
  | DiskNotListed
  | NewPartitionNotFound
  | PartitionNotFound string
  | FilesystemUnknown string
  | ShrinkUnsupported string
  | ResizeTargetMissing string
  | GeometryUnknown string
  | OperationUnsupported string
  | NoStagingIdentity
  | BackupTargetNotExternal
  | BackupTargetUnnamed
  | BackupDirectoryUnavailable
  | BackupDirectoryNotExternal
  | BackupNotOnBlockDevice
  | BackupDeviceUnsafe
  | BackupDeviceUnknown
  | BackupOnTargetDisk
  | BackupDirectoryNotCreated
  | BackupNotPublished

text \<open>The detail of a rollback marker: the operation, its target and the error, and what became of
  the rollback.\<close>

datatype marker_detail =
    RollbackStarted string string commit_error
  | RollbackRestored string string commit_error
  | RollbackFailed string string commit_error commit_error

text \<open>What the program does to the machine, in order.\<close>

datatype effect =
    Spawned disk_operation_input disk_plan
  | Finished disk_operation_input
  | Event json
  | Marker string string marker_detail
  | Published string string
  | DroppedDir string

text \<open>The state: the world, the trace, the snapshot cache, and what the code passes to
  \<open>execute_operation\<close> by mutable reference (the parameters of the operation and the flag
  \<open>irreversible\<close>).\<close>

record 'w state =
  st_world :: 'w
  st_trace :: "effect list"
  st_cache :: "(string \<times> (nat \<times> json)) list"
  st_params :: json
  st_irreversible :: bool

text \<open>Access to the state: an operating-system call that moves the world, a look at the world, and an
  entry of the trace.\<close>

definition os_call :: "('w \<Rightarrow> 'a \<times> 'w) \<Rightarrow> ('w state, 'e, 'a) comp" where
  "os_call f s = (let (x, w) = f (st_world s) in (Inr x, s\<lparr>st_world := w\<rparr>))"

definition os_ask :: "('w \<Rightarrow> 'a) \<Rightarrow> ('w state, 'e, 'a) comp" where
  "os_ask f s = (Inr (f (st_world s)), s)"

definition record_effect :: "effect \<Rightarrow> ('w state, 'e, unit) comp" where
  "record_effect e s = (Inr (), s\<lparr>st_trace := st_trace s @ [e]\<rparr>)"

lemma os_simps [simp]:
  "os_ask g s = (Inr (g (st_world s)), s)"
  "record_effect e s = (Inr (), s\<lparr>st_trace := st_trace s @ [e]\<rparr>)"
  "os_call f s = (Inr (fst (f (st_world s))), s\<lparr>st_world := snd (f (st_world s))\<rparr>)"
  by (simp_all add: os_ask_def record_effect_def os_call_def split_beta)

section \<open>Waiting for a disk command\<close>

datatype wait_outcome = WaitExited "int option" | WaitPollError | WaitTimedOut

text \<open>The polling loop of \<open>run_disk_operation\<close>.  Each round sleeps 100 ms after polling, so by the
  i-th poll at least \<open>100 * i\<close> ms have elapsed.\<close>

function wait_loop :: "(nat \<Rightarrow> poll) \<Rightarrow> (nat \<Rightarrow> nat) \<Rightarrow> nat \<Rightarrow> nat \<Rightarrow> wait_outcome \<times> nat" where
  "wait_loop poll delay timeout i =
     (case poll i of
        Exited code \<Rightarrow> (WaitExited code, i)
      | PollFailed \<Rightarrow> (WaitPollError, i)
      | StillRunning \<Rightarrow>
          if 100 * i + delay i \<ge> 1000 * timeout then (WaitTimedOut, i)
          else wait_loop poll delay timeout (i + 1))"
  by pat_completeness auto
termination
  by (relation "measure (\<lambda>(poll, delay, timeout, i). 1000 * timeout - 100 * i)") auto

declare wait_loop.simps [simp del]

definition planning_probes :: "'w machine \<Rightarrow> 'w \<Rightarrow> disk_probes" where
  "planning_probes mc w =
     os_disk_probes (\<lambda>args. mc_plan_probe mc args w) (mc_decode mc) (\<lambda>p. mc_exists mc p w)"

definition sync_backup_at :: "'w machine \<Rightarrow> string \<Rightarrow> ('w state, commit_error, unit) comp" where
  "sync_backup_at mc path =
     then_do (os_ask (\<lambda>w. map_err SyncRefused
       (sync_backup (\<lambda>p. mc_open mc p w) (\<lambda>p. mc_sync mc p w) path))) lift_res"

definition run_disk_operation ::
    "'w machine \<Rightarrow> disk_operation_input \<Rightarrow> ('w state, commit_error, unit) comp" where
  "run_disk_operation mc operation =
     (let backup_path = input_backup_path operation in
      then_do (os_ask (\<lambda>w. map_err PlanRefused
        (build_plan_with_probes (planning_probes mc w) operation))) (\<lambda>planned.
      then_do (lift_res planned) (\<lambda>plan.
      then_do (os_call (mc_exec mc plan)) (\<lambda>child.
      if \<not> proc_started child then return_err (CommandNotRun (hd (argv plan)))
      else then_do (record_effect (Spawned operation plan)) (\<lambda>_.
      if needs_confirmation plan \<and> \<not> proc_confirmed child then return_err NotConfirmed
      else
        case fst (wait_loop (proc_poll child) (proc_delay child) (timeout_seconds plan) 0) of
          WaitPollError \<Rightarrow> return_err PollError
        | WaitTimedOut \<Rightarrow> return_err (TimedOut (timeout_seconds plan))
        | WaitExited code \<Rightarrow>
            if code \<noteq> Some 0 then return_err (ExitedWith code)
            else then_do (record_effect (Finished operation)) (\<lambda>_.
              case backup_path of
                None \<Rightarrow> return_ok ()
              | Some path \<Rightarrow> sync_backup_at mc path))))))"

end
