(* ===== verification/Installer_Commit.thy ===== *)
theory Installer_Commit
  imports Installer_Effects
begin

text \<open>
  The execution boundary of the partition journal, \<open>installer_journal.rs\<close> from \<open>emit_event\<close> to
  \<open>commit_request\<close>: the snapshot cache and the probes, the execution of each staged operation, the
  external and the temporary backup of the partition table, and the commit with its rollback.
  \<open>mc\<close> is the machine the code runs on; \<open>serde_json\<close> decoding is part of it.
\<close>

section \<open>Constants and small steps\<close>

definition BIOS_BOOT_BYTES :: nat where
  "BIOS_BOOT_BYTES = 2 * 1024 * 1024"

text \<open>In milliseconds.\<close>

definition PARTITION_SNAPSHOT_TTL :: nat where
  "PARTITION_SNAPSHOT_TTL = 5 * 1000"

definition emit_event :: "'w machine \<Rightarrow> json \<Rightarrow> ('w state, commit_error, unit) comp" where
  "emit_event mc event =
     then_do (os_call (mc_emit mc event)) (\<lambda>outcome.
     case outcome of
       EmitPanicked \<Rightarrow> return_err Panicked
     | Emitted \<Rightarrow> record_effect (Event event)
     | FlushFailed \<Rightarrow> return_err EventNotFlushed)"

text \<open>Run a probe command and parse its output as JSON.\<close>

definition probe_json :: "'w machine \<Rightarrow> string list \<Rightarrow> ('w state, commit_error, json) comp" where
  "probe_json mc args =
     then_do (os_call (mc_cmd mc args)) (\<lambda>result.
     case result of
       NotStarted e \<Rightarrow> return_err (CommandNotRun e)
     | ExitFailure \<Rightarrow> return_err CommandRefused
     | NotUtf8 \<Rightarrow> return_err OutputUnreadable
     | Output out \<Rightarrow> lift_res (ok_or OutputUnreadable (mc_json mc out)))"

definition safe_disk :: "string \<Rightarrow> (commit_error, string) res" where
  "safe_disk disk = ok_or UnsafeDisk (normalize_device_path disk)"

section \<open>Snapshots of the disk\<close>

definition RUNTIME_COLUMNS :: string where
  "RUNTIME_COLUMNS = ''NAME,SIZE,TYPE,FSTYPE,PARTTYPE,LABEL,MOUNTPOINT,MOUNTPOINTS,START,RO,PTTYPE''"

definition runtime_lsblk :: "'w machine \<Rightarrow> string \<Rightarrow> ('w state, commit_error, json) comp" where
  "runtime_lsblk mc raw_disk =
     then_do (lift_res (safe_disk raw_disk)) (\<lambda>disk.
     probe_json mc [''/usr/bin/lsblk'', ''--json'', ''--bytes'', ''--paths'', ''--output'', RUNTIME_COLUMNS, disk])"

definition cache_get :: "string \<Rightarrow> ('w state, 'e, (nat \<times> json) option) comp" where
  "cache_get disk s = (Inr (map_of (st_cache s) disk), s)"

definition cache_put :: "string \<Rightarrow> nat \<times> json \<Rightarrow> ('w state, 'e, unit) comp" where
  "cache_put disk entry s = (Inr (), s\<lparr>st_cache := map_insert disk entry (st_cache s)\<rparr>)"

definition invalidate_partition_snapshot_cache :: "('w state, 'e, unit) comp" where
  "invalidate_partition_snapshot_cache s = (Inr (), s\<lparr>st_cache := []\<rparr>)"

definition fresh_entry :: "nat \<Rightarrow> (nat \<times> json) option \<Rightarrow> json option" where
  "fresh_entry now entry =
     (case entry of None \<Rightarrow> None
      | Some (at, v) \<Rightarrow> if now - at < PARTITION_SNAPSHOT_TTL then Some v else None)"

definition cached_runtime_lsblk :: "'w machine \<Rightarrow> string \<Rightarrow> ('w state, commit_error, json) comp" where
  "cached_runtime_lsblk mc raw_disk =
     then_do (lift_res (safe_disk raw_disk)) (\<lambda>disk.
     then_do (cache_get disk) (\<lambda>entry.
     then_do (os_ask (mc_now mc)) (\<lambda>now.
     case fresh_entry now entry of
       Some v \<Rightarrow> return_ok v
     | None \<Rightarrow>
         then_do (runtime_lsblk mc disk) (\<lambda>v.
         then_do (os_ask (mc_now mc)) (\<lambda>at.
         then_do (cache_put disk (at, v)) (\<lambda>_. return_ok v))))))"

definition probe_sector_size :: "'w machine \<Rightarrow> string \<Rightarrow> ('w state, commit_error, nat) comp" where
  "probe_sector_size mc disk =
     then_do (os_call (mc_cmd mc [''/usr/bin/blockdev'', ''--getss'', disk])) (\<lambda>result.
     case result of
       NotStarted e \<Rightarrow> return_err (CommandNotRun e)
     | ExitFailure \<Rightarrow> return_err CommandRefused
     | NotUtf8 \<Rightarrow> return_err OutputUnreadable
     | Output out \<Rightarrow> lift_res (ok_or OutputUnreadable (parse_u64 (trim out))))"

definition runtime_partition_records ::
    "'w machine \<Rightarrow> string \<Rightarrow> ('w state, commit_error, partition_record list) comp" where
  "runtime_partition_records mc raw_disk =
     then_do (lift_res (safe_disk raw_disk)) (\<lambda>disk.
     then_do (probe_sector_size mc disk) (\<lambda>sector_size.
     then_do (cached_runtime_lsblk mc disk) (\<lambda>snapshot.
     lift_res (map_err StorageRefused (parse_partitions (mc_value mc snapshot) sector_size)))))"

definition json_entries :: "string \<Rightarrow> json \<Rightarrow> json list" where
  "json_entries key v = unwrap_or [] (Option.bind (json_get v key) json_as_array)"

definition json_text :: "string \<Rightarrow> json \<Rightarrow> string option" where
  "json_text key v = Option.bind (json_get v key) json_as_str"

definition json_nat :: "string \<Rightarrow> json \<Rightarrow> nat option" where
  "json_nat key v = Option.bind (json_get v key) json_as_u64"

definition disk_metadata_entry :: "string \<Rightarrow> json \<Rightarrow> (string \<times> nat) option" where
  "disk_metadata_entry disk entry =
     (case Option.bind (json_text ''name'' entry) normalize_device_path of
        None \<Rightarrow> None
      | Some name \<Rightarrow>
          if name \<noteq> disk \<or> json_text ''type'' entry \<noteq> Some ''disk'' then None
          else Some (to_ascii_lowercase (unwrap_or [] (json_text ''pttype'' entry)),
                     unwrap_or 0 (json_nat ''size'' entry)))"

definition runtime_disk_metadata :: "'w machine \<Rightarrow> string \<Rightarrow> ('w state, commit_error, string \<times> nat) comp" where
  "runtime_disk_metadata mc raw_disk =
     then_do (lift_res (safe_disk raw_disk)) (\<lambda>disk.
     then_do (cached_runtime_lsblk mc disk) (\<lambda>snapshot.
     lift_res (ok_or DiskNotListed
       (find_map (disk_metadata_entry disk) (json_entries ''blockdevices'' snapshot)))))"

section \<open>Partitions by name and number\<close>

lemma size_map_of: "map_of members k = Some v \<Longrightarrow> size v < size (JObject members)"
  by (induction members) (auto split: if_splits)

lemma size_json_entries: "x \<in> set (json_entries key v) \<Longrightarrow> size x < size v"
proof -
  assume x: "x \<in> set (json_entries key v)"
  obtain xs where "json_get v key = Some (JArray xs)" "x \<in> set xs"
  proof (cases "json_get v key")
    case (Some u)
    with x that show thesis by (cases u) (auto simp: json_entries_def)
  qed (use x in \<open>simp add: json_entries_def\<close>)
  then show ?thesis
    using size_map_of [of _ key "JArray xs"] size_list_estimation' [of x xs "size x" size]
    by (cases v) (auto intro: le_less_trans less_SucI)
qed

definition numbered_partition :: "json \<Rightarrow> (string \<times> nat) list" where
  "numbered_partition v =
     (if json_text ''type'' v \<noteq> Some ''part'' then []
      else case (json_text ''name'' v, json_nat ''partn'' v) of
        (Some raw, Some n) \<Rightarrow>
          (case normalize_device_path raw of
             Some name \<Rightarrow> if n \<le> u32_max then [(name, n)] else []
           | None \<Rightarrow> [])
      | _ \<Rightarrow> [])"

text \<open>\<open>walk\<close> of \<open>runtime_partitions\<close>: an object with a \<open>blockdevices\<close> array is only descended into.\<close>

function numbers_walk :: "json \<Rightarrow> (string \<times> nat) list" where
  "numbers_walk v =
     (case Option.bind (json_get v ''blockdevices'') json_as_array of
        Some _ \<Rightarrow> concat (map numbers_walk (json_entries ''blockdevices'' v))
      | None \<Rightarrow> numbered_partition v @ concat (map numbers_walk (json_entries ''children'' v)))"
  by pat_completeness auto
termination
  by (relation "measure size") (auto dest: size_json_entries)

declare numbers_walk.simps [simp del]

definition runtime_partitions :: "'w machine \<Rightarrow> ('w state, commit_error, (string \<times> nat) list) comp" where
  "runtime_partitions mc =
     then_do (probe_json mc [''/usr/bin/lsblk'', ''--json'', ''--bytes'', ''--output'', ''NAME,TYPE,PARTN,START,SIZE''])
       (\<lambda>v. return_ok (fold (\<lambda>(name, n). map_insert name n) (numbers_walk v) []))"

definition partuuid_of :: "'w machine \<Rightarrow> string \<Rightarrow> nat \<Rightarrow> ('w state, commit_error, string) comp" where
  "partuuid_of mc disk number =
     then_do (os_call (mc_cmd mc [''/usr/bin/lsblk'', ''--json'', ''--bytes'', ''--paths'', ''--output'',
       ''NAME,TYPE,PARTN,PARTUUID'', disk])) (\<lambda>result.
     case result of
       NotStarted e \<Rightarrow> return_err (CommandNotRun e)
     | ExitFailure \<Rightarrow> return_err CommandRefused
     | NotUtf8 \<Rightarrow> return_err OutputUnreadable
     | Output out \<Rightarrow> lift_res (map_err StorageRefused
         (partuuid_for_partition_number (mc_decode mc out) disk number)))"

definition candidate_partition :: "(string \<times> nat) list \<Rightarrow> nat \<Rightarrow> nat \<Rightarrow> json \<Rightarrow> string list" where
  "candidate_partition before start size_bytes v =
     (if json_text ''type'' v \<noteq> Some ''part'' then []
      else case Option.bind (json_text ''name'' v) normalize_device_path of
        None \<Rightarrow> []
      | Some name \<Rightarrow>
          if map_of before name = None
             \<and> saturating_mul (unwrap_or 0 (json_nat ''start'' v)) 512 = start
             \<and> unwrap_or 0 (json_nat ''size'' v) = size_bytes
          then [name] else [])"

text \<open>\<open>walk\<close> of \<open>find_new_partition\<close>.\<close>

function candidates_walk :: "(string \<times> nat) list \<Rightarrow> nat \<Rightarrow> nat \<Rightarrow> json \<Rightarrow> string list" where
  "candidates_walk before start size_bytes v =
     candidate_partition before start size_bytes v
     @ concat (map (candidates_walk before start size_bytes) (json_entries ''children'' v))"
  by pat_completeness auto
termination
  by (relation "measure (\<lambda>(before, start, size_bytes, v). size v)") (auto dest: size_json_entries)

declare candidates_walk.simps [simp del]

definition find_new_partition ::
    "'w machine \<Rightarrow> string \<Rightarrow> (string \<times> nat) list \<Rightarrow> nat \<Rightarrow> nat \<Rightarrow> ('w state, commit_error, string) comp" where
  "find_new_partition mc raw_disk before start size_bytes =
     then_do (lift_res (safe_disk raw_disk)) (\<lambda>disk.
     then_do (probe_json mc [''/usr/bin/lsblk'', ''--json'', ''--bytes'', ''--paths'', ''--output'',
       ''NAME,TYPE,START,SIZE'', disk]) (\<lambda>v.
     case candidates_walk before start size_bytes v of
       [] \<Rightarrow> return_err NewPartitionNotFound
     | name # _ \<Rightarrow> return_ok name))"

definition part_num :: "string \<Rightarrow> (string \<times> nat) list \<Rightarrow> (commit_error, nat) res" where
  "part_num raw parts =
     and_then (ok_or UnsafePartition (normalize_device_path raw)) (\<lambda>partition.
     ok_or (PartitionNotFound partition) (map_of parts partition))"

definition current_fs :: "string \<Rightarrow> partition_record list \<Rightarrow> (commit_error, string) res" where
  "current_fs raw current_parts =
     and_then (ok_or UnsafePartition (normalize_device_path raw)) (\<lambda>partition.
     case List.find (\<lambda>p. pr_name p = partition) current_parts of
       None \<Rightarrow> Inl (FilesystemUnknown partition)
     | Some p \<Rightarrow>
         let fstype = to_ascii_lowercase (pr_fstype p) in
         if fstype = [] then Inl (FilesystemUnknown partition) else Inr fstype)"

section \<open>Executing one operation\<close>

text \<open>\<open>params[key] = value\<close> through \<open>IndexMut\<close>: a null becomes an object, any other non-object panics.\<close>

definition json_assign :: "string \<Rightarrow> json \<Rightarrow> json \<Rightarrow> (commit_error, json) res" where
  "json_assign key x v =
     (case v of
        JObject members \<Rightarrow> Inr (JObject (map_insert key x members))
      | JNull \<Rightarrow> Inr (JObject [(key, x)])
      | _ \<Rightarrow> Inl Panicked)"

definition get_params :: "('w state, 'e, json) comp" where
  "get_params s = (Inr (st_params s), s)"

definition put_params :: "json \<Rightarrow> ('w state, 'e, unit) comp" where
  "put_params v s = (Inr (), s\<lparr>st_params := v\<rparr>)"

definition set_irreversible :: "bool \<Rightarrow> ('w state, 'e, unit) comp" where
  "set_irreversible b s = (Inr (), s\<lparr>st_irreversible := b\<rparr>)"

definition get_irreversible :: "('w state, 'e, bool) comp" where
  "get_irreversible s = (Inr (st_irreversible s), s)"

definition shrink_filesystem ::
    "'w machine \<Rightarrow> string \<Rightarrow> string \<Rightarrow> nat \<Rightarrow> ('w state, commit_error, unit) comp" where
  "shrink_filesystem mc device fs new_size =
     (if fs = ''ntfs'' \<or> fs = ''ntfs3'' then
        for_each (\<lambda>stage. run_disk_operation mc (FilesystemResize device ''ntfs'' new_size stage))
          [''check'', ''info'', ''dry_run'', ''resize'']
      else if fs = ''ext2'' \<or> fs = ''ext3'' \<or> fs = ''ext4'' then
        then_do (run_disk_operation mc (FilesystemCheck device)) (\<lambda>_.
        run_disk_operation mc (FilesystemResize device ''ext4'' new_size ''resize''))
      else return_err (ShrinkUnsupported fs))"

text \<open>The partition number and PARTUUID of a partition, as three branches look them up.\<close>

definition partition_identity ::
    "'w machine \<Rightarrow> string \<Rightarrow> string \<Rightarrow> (string \<times> nat) list \<Rightarrow> ('w state, commit_error, nat \<times> string) comp" where
  "partition_identity mc disk device parts =
     then_do (lift_res (part_num device parts)) (\<lambda>number.
     then_do (partuuid_of mc disk number) (\<lambda>expected_partuuid.
     return_ok (number, expected_partuuid)))"

definition flag_partition ::
    "'w machine \<Rightarrow> string \<Rightarrow> string \<Rightarrow> string \<Rightarrow> ('w state, commit_error, unit) comp" where
  "flag_partition mc disk device flag =
     then_do (runtime_partitions mc) (\<lambda>parts.
     then_do (partition_identity mc disk device parts) (\<lambda>(number, expected_partuuid).
     run_disk_operation mc (SetPartitionFlag disk number flag True expected_partuuid)))"

definition exec_new_table ::
    "'w machine \<Rightarrow> partition_journal \<Rightarrow> json \<Rightarrow> nat \<Rightarrow> ('w state, commit_error, string) comp" where
  "exec_new_table mc j params sector_size =
     (let table_type = value_string params ''table_type'' in
      then_do (run_disk_operation mc (CreateLabel (pj_disk j) (if table_type = [] then ''gpt'' else table_type))) (\<lambda>_.
      if table_type = [] \<or> eq_ignore_ascii_case table_type ''gpt'' then
        then_do (runtime_partitions mc) (\<lambda>before_bios.
        then_do (run_disk_operation mc
          (CreateUnformattedPartition (pj_disk j) (1024 * 1024) BIOS_BOOT_BYTES ''biosboot'' sector_size)) (\<lambda>_.
        then_do (find_new_partition mc (pj_disk j) before_bios (1024 * 1024) BIOS_BOOT_BYTES) (\<lambda>bios.
        then_do (flag_partition mc (pj_disk j) bios ''bios_grub'') (\<lambda>_.
        return_ok (pj_disk j)))))
      else return_ok (pj_disk j)))"

definition exec_create ::
    "'w machine \<Rightarrow> partition_journal \<Rightarrow> json \<Rightarrow> (string \<times> nat) list \<Rightarrow> nat \<Rightarrow> ('w state, commit_error, string) comp" where
  "exec_create mc j params before sector_size =
     (let start = value_u64 params ''start_bytes'' 0;
          size_bytes = value_u64 params ''size_bytes'' 0;
          fs = value_string params ''fs_type'';
          lab = value_string params ''label'' in
      then_do (run_disk_operation mc (CreatePartition (pj_disk j) start size_bytes fs lab sector_size)) (\<lambda>_.
      then_do (find_new_partition mc (pj_disk j) before start size_bytes) (\<lambda>created.
      then_do (lift_res (json_assign ''partition'' (JString created) params)) (\<lambda>params.
      then_do (put_params params) (\<lambda>_.
      then_do (lift_res (json_assign ''_created_this_journal'' (JBool True) params)) (\<lambda>params.
      then_do (put_params params) (\<lambda>_.
      then_do (if value_string params ''fs_type'' \<noteq> ''linux-swap''
               then run_disk_operation mc (FormatFilesystem created (value_string params ''fs_type'')
                      (value_string params ''label'') (pj_disk j))
               else return_ok ()) (\<lambda>_.
      then_do (if is_efi_mountpoint (value_string params ''mountpoint'')
               then flag_partition mc (pj_disk j) created ''esp''
               else return_ok ()) (\<lambda>_.
      return_ok created)))))))))"

definition exec_delete ::
    "'w machine \<Rightarrow> partition_journal \<Rightarrow> string \<Rightarrow> (string \<times> nat) list \<Rightarrow> ('w state, commit_error, string) comp" where
  "exec_delete mc j target before =
     then_do (partition_identity mc (pj_disk j) target before) (\<lambda>(number, expected_partuuid).
     then_do (run_disk_operation mc (DeletePartition (pj_disk j) number expected_partuuid)) (\<lambda>_.
     return_ok target))"

definition exec_resize ::
    "'w machine \<Rightarrow> partition_journal \<Rightarrow> json \<Rightarrow> string \<Rightarrow> nat \<Rightarrow> ('w state, commit_error, string) comp" where
  "exec_resize mc j params target sector_size =
     (let new_size = value_u64 params ''new_size_bytes'' 0 in
      if new_size = 0 then return_err (ResizeTargetMissing target)
      else
        then_do (runtime_partition_records mc (pj_disk j)) (\<lambda>live_parts.
        then_do (lift_res (current_fs target live_parts)) (\<lambda>fs.
        then_do (lift_res (ok_or (GeometryUnknown target) (map_option pr_start_bytes
          (List.find (\<lambda>p. pr_name p = unwrap_or [] (normalize_device_path target)) live_parts)))) (\<lambda>start.
        then_do (shrink_filesystem mc target fs new_size) (\<lambda>_.
        then_do (set_irreversible True) (\<lambda>_.
        then_do (runtime_partitions mc) (\<lambda>parts.
        then_do (partition_identity mc (pj_disk j) target parts) (\<lambda>(number, expected_partuuid).
        then_do (run_disk_operation mc
          (ResizePartition (pj_disk j) number start new_size sector_size expected_partuuid)) (\<lambda>_.
        return_ok target)))))))))"

definition created_here :: "partition_journal \<Rightarrow> string \<Rightarrow> bool" where
  "created_here j target \<longleftrightarrow>
     list_ex (\<lambda>x. op_kind x = ''create''
       \<and> Option.bind (json_get (op_params x) ''_created_this_journal'') json_as_bool = Some True
       \<and> value_string (op_params x) ''partition'' = target) (pj_ops j)"

definition exec_format ::
    "'w machine \<Rightarrow> partition_journal \<Rightarrow> json \<Rightarrow> string \<Rightarrow> ('w state, commit_error, string) comp" where
  "exec_format mc j params target =
     then_do (if \<not> created_here j target then set_irreversible True else return_ok ()) (\<lambda>_.
     then_do (run_disk_operation mc (FormatFilesystem target (value_string params ''fs_type'')
       (value_string params ''label'') (pj_disk j))) (\<lambda>_.
     return_ok target))"

definition esp_flag_operation ::
    "string \<Rightarrow> string \<Rightarrow> string \<Rightarrow> (string \<times> nat) list \<Rightarrow> string
       \<Rightarrow> (commit_error, disk_operation_input option) res" where
  "esp_flag_operation mountpoint target disk partitions expected_partuuid =
     (if \<not> is_efi_mountpoint mountpoint then Inr None
      else and_then (part_num target partitions) (\<lambda>number.
           Inr (Some (SetPartitionFlag disk number ''esp'' True expected_partuuid))))"

definition exec_set_mountpoint ::
    "'w machine \<Rightarrow> partition_journal \<Rightarrow> json \<Rightarrow> string \<Rightarrow> (string \<times> nat) list \<Rightarrow> ('w state, commit_error, string) comp" where
  "exec_set_mountpoint mc j params target before =
     then_do (partition_identity mc (pj_disk j) target before) (\<lambda>(number, expected_partuuid).
     then_do (lift_res (esp_flag_operation (value_string params ''mountpoint'') target (pj_disk j) before
       expected_partuuid)) (\<lambda>esp_flag.
     then_do (case esp_flag of None \<Rightarrow> return_ok () | Some op \<Rightarrow> run_disk_operation mc op) (\<lambda>_.
     return_ok target)))"

definition execute_operation ::
    "'w machine \<Rightarrow> string \<Rightarrow> partition_journal \<Rightarrow> nat \<Rightarrow> ('w state, commit_error, string) comp" where
  "execute_operation mc kind j sector_size =
     then_do get_params (\<lambda>params.
     let target = value_string params ''partition'' in
     then_do (runtime_partitions mc) (\<lambda>before.
     if kind = ''new_table'' then exec_new_table mc j params sector_size
     else if kind = ''create'' then exec_create mc j params before sector_size
     else if kind = ''delete'' then exec_delete mc j target before
     else if kind = ''resize'' then exec_resize mc j params target sector_size
     else if kind = ''format'' then exec_format mc j params target
     else if kind = ''set_mountpoint'' then exec_set_mountpoint mc j params target before
     else return_err (OperationUnsupported kind)))"

section \<open>The external backup\<close>

definition block_device_ancestry :: "'w machine \<Rightarrow> string \<Rightarrow> ('w state, commit_error, string list) comp" where
  "block_device_ancestry mc raw_device =
     then_do (lift_res (ok_or BackupDeviceUnsafe (normalize_device_path raw_device))) (\<lambda>device.
     then_do (probe_json mc [''/usr/bin/lsblk'', ''--json'', ''--paths'', ''--inverse'', ''--output'', ''NAME'', device]) (\<lambda>v.
     let devices = block_device_names v in
     if devices = [] then return_err BackupDeviceUnknown else return_ok devices))"

definition path_join :: "string \<Rightarrow> string \<Rightarrow> string" where
  "path_join parent name = (if parent \<noteq> [] \<and> last parent = CHR ''/'' then parent @ name else parent @ ''/'' @ name)"

definition publish_external_backup :: "'w machine \<Rightarrow> string \<Rightarrow> string \<Rightarrow> ('w state, commit_error, unit) comp" where
  "publish_external_backup mc staged target =
     then_do (os_call (mc_rename mc staged target)) (\<lambda>renamed.
     if \<not> renamed then return_err BackupNotPublished
     else then_do (record_effect (Published staged target)) (\<lambda>_. sync_backup_at mc target))"

text \<open>The \<open>source\<close> of the first filesystem \<open>findmnt\<close> reports, up to a bracketed subvolume.\<close>

definition mount_source :: "json \<Rightarrow> string" where
  "mount_source v =
     (case json_entries ''filesystems'' v of
        [] \<Rightarrow> []
      | entry # _ \<Rightarrow>
          (case split_on (CHR ''['') (unwrap_or [] (json_text ''source'' entry)) of [] \<Rightarrow> [] | s # _ \<Rightarrow> s))"

text \<open>A temporary directory is removed when its scope ends, whatever the result, unless \<open>kept\<close>.\<close>

definition scoped_dir ::
    "('a \<Rightarrow> bool) \<Rightarrow> string \<Rightarrow> ('w state, 'e, 'a) comp \<Rightarrow> ('w state, 'e, 'a) comp" where
  "scoped_dir kept dir m s =
     (case m s of (r, t) \<Rightarrow>
        if (case r of Inr x \<Rightarrow> kept x | Inl _ \<Rightarrow> False) then (r, t)
        else (r, t\<lparr>st_trace := st_trace t @ [DroppedDir dir]\<rparr>))"

definition persist_external_backup :: "'w machine \<Rightarrow> string \<Rightarrow> string \<Rightarrow> ('w state, commit_error, unit) comp" where
  "persist_external_backup mc path disk =
     (if \<not> path_on_external_media path then return_err BackupTargetNotExternal
      else
        then_do (lift_res (ok_or BackupTargetUnnamed (path_file_name path))) (\<lambda>name.
        then_do (lift_res (ok_or BackupDirectoryUnavailable (parent_path path))) (\<lambda>raw_parent.
        then_do (os_call (mc_canonicalize mc raw_parent)) (\<lambda>canonical.
        then_do (lift_res (ok_or BackupDirectoryUnavailable canonical)) (\<lambda>parent.
        then_do (os_ask (mc_is_dir mc parent)) (\<lambda>is_directory.
        if \<not> is_directory \<or> \<not> path_on_external_media parent then return_err BackupDirectoryNotExternal
        else
          let target = path_join parent name in
          then_do (probe_json mc [''/usr/bin/findmnt'', ''--json'', ''--evaluate'', ''--target'', parent,
            ''--output'', ''SOURCE'']) (\<lambda>mount.
          let source = mount_source mount in
          if \<not> starts_with source dev_prefix then return_err BackupNotOnBlockDevice
          else
            then_do (block_device_ancestry mc source) (\<lambda>source_tree.
            then_do (block_device_ancestry mc disk) (\<lambda>target_tree.
            if shares_block_device source_tree target_tree then return_err BackupOnTargetDisk
            else
              then_do (os_call (mc_tempdir mc (Some parent) ''.kyth-gpt-backup-'')) (\<lambda>created.
              then_do (lift_res (ok_or BackupDirectoryNotCreated created)) (\<lambda>directory.
              scoped_dir (\<lambda>_. False) directory
                (let staged = path_join directory ''partition-table.backup'' in
                 then_do (run_disk_operation mc (BackupTable disk staged)) (\<lambda>_.
                 publish_external_backup mc staged target)))))))))))))"

section \<open>Rollback markers\<close>

definition marker_path :: "string \<Rightarrow> string \<Rightarrow> string option" where
  "marker_path backup_dir stage =
     (case (parent_path backup_dir, path_file_name backup_dir) of
        (Some parent, Some base) \<Rightarrow> Some (path_join parent (base @ ''.rollback-'' @ stage))
      | _ \<Rightarrow> None)"

definition write_rollback_marker ::
    "string \<Rightarrow> string \<Rightarrow> string \<Rightarrow> marker_detail \<Rightarrow> ('w state, commit_error, unit) comp" where
  "write_rollback_marker backup_dir disk stage detail =
     (case marker_path backup_dir stage of
        None \<Rightarrow> return_ok ()
      | Some marker \<Rightarrow> record_effect (Marker marker disk detail))"

section \<open>The commit\<close>

datatype commit_response =
    Rejected "journal_issue list"
  | Failed bool commit_error partition_journal
  | RecoveryRequired string commit_error commit_error partition_journal
  | Committed "string option" partition_journal

fun keeps_backup :: "commit_response \<Rightarrow> bool" where
  "keeps_backup (RecoveryRequired _ _ _ _) = True"
| "keeps_backup _ = False"

definition step_event :: "string \<Rightarrow> string \<Rightarrow> string \<Rightarrow> json" where
  "step_event kind status target =
     JObject [(''event'', JString ''step''), (''kind'', JString kind), (''status'', JString status),
              (''target'', JString target)]"

text \<open>\<open>match\<close> on a fallible call: the result becomes a value.\<close>

definition attempt :: "('s, 'e, 'a) comp \<Rightarrow> ('s, 'e, ('e, 'a) res) comp" where
  "attempt m s = (case m s of (r, t) \<Rightarrow> (Inr r, t))"

text \<open>The error branch of the commit loop.\<close>

definition commit_failure ::
    "'w machine \<Rightarrow> string \<Rightarrow> string \<Rightarrow> string \<Rightarrow> string \<Rightarrow> commit_error \<Rightarrow> partition_journal
       \<Rightarrow> ('w state, commit_error, commit_response) comp" where
  "commit_failure mc directory backup_path kind target error j =
     then_do invalidate_partition_snapshot_cache (\<lambda>_.
     then_do get_irreversible (\<lambda>irreversible.
     if irreversible then return_ok (Failed True error (j\<lparr>pj_irreversible_completed := True\<rparr>))
     else
       then_do (write_rollback_marker directory (pj_disk j) ''started'' (RollbackStarted kind target error)) (\<lambda>_.
       then_do (attempt (run_disk_operation mc (RestoreTable (pj_disk j) backup_path))) (\<lambda>restored.
       case restored of
         Inl restore_error \<Rightarrow>
           then_do (write_rollback_marker directory (pj_disk j) ''completed''
             (RollbackFailed kind target error restore_error)) (\<lambda>_.
           return_ok (RecoveryRequired directory error restore_error (j\<lparr>pj_irreversible_completed := True\<rparr>)))
       | Inr _ \<Rightarrow>
           then_do (write_rollback_marker directory (pj_disk j) ''completed''
             (RollbackRestored kind target error)) (\<lambda>_.
           return_ok (Failed False error (j\<lparr>pj_irreversible_completed := False\<rparr>)))))))"

text \<open>The loop over the operations; \<open>indices\<close> are those still to run.\<close>

fun commit_loop ::
    "'w machine \<Rightarrow> string \<Rightarrow> string \<Rightarrow> nat \<Rightarrow> nat list \<Rightarrow> partition_journal
       \<Rightarrow> ('w state, commit_error, commit_response) comp" where
  "commit_loop mc directory backup_path sector_size [] j =
     then_do get_irreversible (\<lambda>irreversible.
     let j = j\<lparr>pj_irreversible_completed := irreversible\<rparr>;
         j = j\<lparr>pj_root_partition := root_partition j\<rparr>;
         j = j\<lparr>pj_committed := True\<rparr> in
     then_do invalidate_partition_snapshot_cache (\<lambda>_.
     return_ok (Committed (pj_root_partition j) j)))"
| "commit_loop mc directory backup_path sector_size (index # indices) j =
     (let x = pj_ops j ! index; kind = op_kind x; target = value_string (op_params x) ''partition'' in
      then_do (emit_event mc (step_event kind ''started'' (if target = [] then pj_disk j else target))) (\<lambda>_.
      then_do (put_params (op_params x)) (\<lambda>_.
      then_do (attempt (execute_operation mc kind j sector_size)) (\<lambda>result.
      then_do get_params (\<lambda>params.
      let j' = j\<lparr>pj_ops := (pj_ops j)[index := x\<lparr>op_params := params\<rparr>]\<rparr> in
      case result of
        Inr completed_target \<Rightarrow>
          then_do (emit_event mc (step_event kind ''completed'' completed_target)) (\<lambda>_.
          commit_loop mc directory backup_path sector_size indices j')
      | Inl error \<Rightarrow> commit_failure mc directory backup_path kind target error j')))))"

text \<open>From the temporary directory on: the directory and the backup in it live until the end.\<close>

definition commit_with_backup ::
    "'w machine \<Rightarrow> partition_journal \<Rightarrow> nat \<Rightarrow> string \<Rightarrow> ('w state, commit_error, commit_response) comp" where
  "commit_with_backup mc j sector_size directory =
     (let backup_path = path_join directory ''partition-table.backup'' in
      then_do (run_disk_operation mc (BackupTable (pj_disk j) backup_path)) (\<lambda>_.
      then_do (set_irreversible False) (\<lambda>_.
      commit_loop mc directory backup_path sector_size [0..<length (pj_ops j)] j)))"

text \<open>After the validation.\<close>

definition commit_accepted ::
    "'w machine \<Rightarrow> partition_journal \<Rightarrow> nat \<Rightarrow> ('w state, commit_error, commit_response) comp" where
  "commit_accepted mc j sector_size =
     then_do (for_each (\<lambda>path. persist_external_backup mc path (pj_disk j)) (external_backup_paths j)) (\<lambda>_.
     then_do (os_call (mc_tempdir mc None ''kyth-partition-'')) (\<lambda>created.
     then_do (lift_res (ok_or BackupDirectoryNotCreated created)) (\<lambda>directory.
     scoped_dir keeps_backup directory (commit_with_backup mc j sector_size directory))))"

definition commit_request_with_target_guard ::
    "'w machine \<Rightarrow> partition_journal \<Rightarrow> (string \<Rightarrow> guard_probes \<Rightarrow> (guard_error, unit) res)
       \<Rightarrow> ('w state, commit_error, commit_response) comp" where
  "commit_request_with_target_guard mc j validate_target =
     then_do (os_call (mc_guard mc)) (\<lambda>probes.
     then_do (lift_res (map_err GuardRefused (validate_target (pj_disk j) probes))) (\<lambda>_.
     then_do (os_call (mc_lock mc)) (\<lambda>answers.
     then_do (lift_res (map_err GuardRefused (acquire_disk_lock answers (pj_disk j)))) (\<lambda>lock.
     then_do invalidate_partition_snapshot_cache (\<lambda>_.
     then_do (os_ask (\<lambda>w. map_err PlanRefused
       (logical_sector_size (\<lambda>args. mc_plan_probe mc args w) (pj_disk j)))) (\<lambda>probed.
     then_do (lift_res probed) (\<lambda>sector_size.
     then_do (runtime_partition_records mc (pj_disk j)) (\<lambda>current_parts.
     then_do (runtime_disk_metadata mc (pj_disk j)) (\<lambda>(table_type, disk_size_bytes).
     let errors = validate j current_parts table_type disk_size_bytes in
     if errors \<noteq> [] then return_ok (Rejected errors) else commit_accepted mc j sector_size)))))))))"

definition journal_identity :: "partition_journal \<Rightarrow> disk_identity" where
  "journal_identity j =
     \<lparr>id_serial = pj_disk_serial j, id_model = pj_disk_model j, id_size_bytes = pj_disk_size_bytes j\<rparr>"

definition commit_request :: "'w machine \<Rightarrow> partition_journal \<Rightarrow> ('w state, commit_error, commit_response) comp" where
  "commit_request mc j =
     (let identity = journal_identity j in
      if id_serial identity = None \<and> id_model identity = None \<and> id_size_bytes identity = None
      then return_err NoStagingIdentity
      else commit_request_with_target_guard mc j
        (\<lambda>disk probes. validate_target_disk_with_identity probes disk identity))"

section \<open>The staging check of one partition\<close>

definition partition_name_matches :: "string \<Rightarrow> string \<Rightarrow> bool" where
  "partition_name_matches disk device =
     (let suffix = unwrap_or [] (strip_prefix device disk) in
      if disk \<noteq> [] \<and> is_ascii_digit (last disk) then
        (case strip_prefix suffix ''p'' of None \<Rightarrow> False | Some v \<Rightarrow> v \<noteq> [] \<and> list_all is_ascii_digit v)
      else suffix \<noteq> [] \<and> list_all is_ascii_digit suffix)"

datatype target_issue = UnsafeTarget | NotOnActiveDisk string | NotPresentOnDisk string | TargetProbe commit_error

definition validate_target_request ::
    "'w machine \<Rightarrow> string \<Rightarrow> string \<Rightarrow> ('w state, commit_error, target_issue option) comp" where
  "validate_target_request mc raw_disk raw_partition =
     (case (normalize_device_path raw_disk, normalize_device_path raw_partition) of
        (Some disk, Some device) \<Rightarrow>
          if \<not> partition_name_matches disk device then return_ok (Some (NotOnActiveDisk device))
          else
            then_do (attempt (runtime_partition_records mc disk)) (\<lambda>result.
            return_ok (case result of
              Inr parts \<Rightarrow> if list_ex (\<lambda>p. pr_name p = device) parts then None else Some (NotPresentOnDisk device)
            | Inl e \<Rightarrow> Some (TargetProbe e)))
      | _ \<Rightarrow> return_ok (Some UnsafeTarget))"

end
