(* ===== verification/Commit_Safety.thy ===== *)
theory Commit_Safety
  imports Installer_Commit
begin

text \<open>
  What the commit guarantees: nothing is written before the guard, the lock, the validation and the
  backup; what each phase may do to the disk; how a failed commit ends; when it admits that data is
  gone.  The phases are instances of \<open>effect_relation\<close> on the trace.
\<close>

section \<open>Relations on the trace and the irreversible flag\<close>

text \<open>An effect relation that looks at the trace and at the flag only, and tolerates the effects
  \<open>allowed\<close>, is kept by every probe and by every disk command whose effects are allowed.\<close>

locale trace_relation = effect_relation R
  for R :: "'w state \<Rightarrow> 'w state \<Rightarrow> bool" +
  fixes allowed :: "effect \<Rightarrow> bool"
  assumes R_same: "st_trace t = st_trace s \<Longrightarrow> st_irreversible t = st_irreversible s \<Longrightarrow> R s t"
    and R_effect: "allowed e \<Longrightarrow> R s (s\<lparr>st_trace := st_trace s @ [e]\<rparr>)"
begin

lemma keeps_quiet:
  "keeps (os_call f)" "keeps (os_ask g)" "keeps (cache_get d)" "keeps (cache_put d c)"
  "keeps invalidate_partition_snapshot_cache" "keeps get_params" "keeps (put_params v)" "keeps get_irreversible"
  by (simp_all add: keeps_def R_same cache_get_def cache_put_def get_params_def put_params_def
      invalidate_partition_snapshot_cache_def get_irreversible_def)

lemma keeps_record: "allowed e \<Longrightarrow> keeps (record_effect e)"
  by (simp add: keeps_def R_effect)

lemma keeps_attempt: "keeps m \<Longrightarrow> keeps (attempt m)"
  by (simp add: keeps_def attempt_def split_beta)

lemma keeps_scoped:
  assumes "keeps m" and "allowed (DroppedDir dir)"
  shows "keeps (scoped_dir kept dir m)"
  unfolding keeps_def
proof
  fix s
  obtain r t where m: "m s = (r, t)" by (cases "m s")
  then have "R s t" by (rule keepsD [OF assms(1)])
  with m R_trans [OF _ R_effect [OF assms(2)]] show "R s (snd (scoped_dir kept dir m s))"
    by (auto simp: scoped_dir_def)
qed

lemmas keeps_rules = keeps_intros keeps_quiet keeps_attempt

lemma keeps_cmd_result:
  "(\<And>e. keeps (f e)) \<Longrightarrow> keeps a \<Longrightarrow> keeps b \<Longrightarrow> (\<And>x. keeps (g x)) \<Longrightarrow>
   keeps (case r of NotStarted e \<Rightarrow> f e | ExitFailure \<Rightarrow> a | NotUtf8 \<Rightarrow> b | Output x \<Rightarrow> g x)"
  by (cases r) auto

text \<open>The probes leave no trace.\<close>

lemma keeps_probes:
  "keeps (probe_json mc args)" "keeps (runtime_lsblk mc d)" "keeps (cached_runtime_lsblk mc d)"
  "keeps (probe_sector_size mc d)" "keeps (runtime_partition_records mc d)"
  "keeps (runtime_disk_metadata mc d)" "keeps (runtime_partitions mc)" "keeps (partuuid_of mc d n)"
  "keeps (partition_identity mc d p parts)" "keeps (block_device_ancestry mc d)"
  "keeps (sync_backup_at mc path)"
proof -
  show probe: "keeps (probe_json mc args)" for args
    unfolding probe_json_def by (intro keeps_rules keeps_cmd_result)
  show lsblk: "keeps (runtime_lsblk mc d)" for d
    unfolding runtime_lsblk_def by (intro keeps_rules probe)
  show cached: "keeps (cached_runtime_lsblk mc d)" for d
    unfolding cached_runtime_lsblk_def by (intro keeps_rules lsblk)
  show sector: "keeps (probe_sector_size mc d)" for d
    unfolding probe_sector_size_def by (intro keeps_rules keeps_cmd_result)
  show "keeps (runtime_partition_records mc d)"
    unfolding runtime_partition_records_def by (intro keeps_rules sector cached)
  show "keeps (runtime_disk_metadata mc d)"
    unfolding runtime_disk_metadata_def by (intro keeps_rules cached)
  show "keeps (runtime_partitions mc)"
    unfolding runtime_partitions_def by (intro keeps_rules probe)
  show uuid: "keeps (partuuid_of mc d n)" for d n
    unfolding partuuid_of_def by (intro keeps_rules keeps_cmd_result)
  show "keeps (partition_identity mc d p parts)"
    unfolding partition_identity_def by (intro keeps_rules uuid)
  show "keeps (block_device_ancestry mc d)"
    unfolding block_device_ancestry_def Let_def by (intro keeps_rules probe)
  show "keeps (sync_backup_at mc path)"
    unfolding sync_backup_at_def by (intro keeps_rules)
qed

lemma keeps_find_new: "keeps (find_new_partition mc d before start n)"
  unfolding find_new_partition_def
  by (intro keeps_rules keeps_probes) (auto intro: keeps_rules split: list.split)

lemma keeps_emit: "allowed (Event v) \<Longrightarrow> keeps (emit_event mc v)"
  unfolding emit_event_def
  by (intro keeps_rules) (auto intro: keeps_rules keeps_record split: emit_outcome.split)

lemma keeps_run:
  assumes "\<And>plan. allowed (Spawned operation plan)" and "allowed (Finished operation)"
  shows "keeps (run_disk_operation mc operation)"
  unfolding run_disk_operation_def Let_def
  by (intro keeps_rules keeps_record)
    (auto intro!: keeps_rules keeps_record keeps_probes assms split: wait_outcome.split)

end

text \<open>The trace grows by effects that satisfy \<open>P\<close>.\<close>

definition extends :: "(effect \<Rightarrow> bool) \<Rightarrow> 'w state \<Rightarrow> 'w state \<Rightarrow> bool" where
  "extends P s t \<longleftrightarrow> (\<exists>new. st_trace t = st_trace s @ new \<and> list_all P new)"

interpretation emits: trace_relation "extends P" P for P :: "effect \<Rightarrow> bool"
proof
  show "extends P s s" for s :: "'w state" by (simp add: extends_def)
  show "extends P s u" if "extends P s t" and "extends P t u" for s t u :: "'w state"
    using that by (auto simp: extends_def)
qed (simp_all add: extends_def)

abbreviation keeps_to :: "(effect \<Rightarrow> bool) \<Rightarrow> ('w state, 'e, 'a) comp \<Rightarrow> bool" where
  "keeps_to P m \<equiv> effect_relation.keeps (extends P) m"

lemma set_irreversible_extends: "keeps_to P (set_irreversible b)"
  by (simp add: emits.keeps_def extends_def set_irreversible_def)

section \<open>One disk command\<close>

lemma sync_backup_at_eval:
  "sync_backup_at mc path s =
     (map_err SyncRefused (sync_backup (\<lambda>p. mc_open mc p (st_world s)) (\<lambda>p. mc_sync mc p (st_world s)) path), s)"
  by (simp add: sync_backup_at_def then_do_def)

text \<open>A disk command that reports success was planned on the world it ran in, was started and has
  finished; nothing else happened.\<close>

lemma run_ok:
  assumes "run_disk_operation mc operation s = (Inr u, t)"
  shows "\<exists>plan. build_plan_with_probes (planning_probes mc (st_world s)) operation = Inr plan \<and>
    st_trace t = st_trace s @ [Spawned operation plan, Finished operation] \<and>
    st_irreversible t = st_irreversible s \<and> st_params t = st_params s \<and> st_cache t = st_cache s"
  using assms
  by (auto simp: run_disk_operation_def Let_def sync_backup_at_eval
      split: if_splits wait_outcome.splits option.splits)

lemma run_err:
  assumes "run_disk_operation mc operation s = (Inl e, t)"
  shows "(st_trace t = st_trace s \<or> (\<exists>plan. st_trace t = st_trace s @ [Spawned operation plan]) \<or>
      input_backup_path operation \<noteq> None \<and> (\<exists>plan. st_trace t = st_trace s @ [Spawned operation plan, Finished operation])) \<and>
    st_irreversible t = st_irreversible s \<and> st_params t = st_params s \<and> st_cache t = st_cache s"
  using assms
  by (auto simp: run_disk_operation_def Let_def sync_backup_at_eval then_do_Inl
      split: if_splits wait_outcome.splits option.splits)

section \<open>What each phase may do\<close>

text \<open>The commands an operation of a journal for \<open>disk\<close> may run.\<close>

fun executes :: "string \<Rightarrow> disk_operation_input \<Rightarrow> bool" where
  "executes disk (CreateLabel d _) = (d = disk)"
| "executes disk (CreatePartition d _ _ _ _ _) = (d = disk)"
| "executes disk (CreateUnformattedPartition d _ _ _ _) = (d = disk)"
| "executes disk (DeletePartition d _ _) = (d = disk)"
| "executes disk (ResizePartition d _ _ _ _ _) = (d = disk)"
| "executes disk (SetPartitionFlag d _ _ _ _) = (d = disk)"
| "executes disk (FormatFilesystem _ _ _ d) = (d = disk)"
| "executes disk (FilesystemCheck _) = True"
| "executes disk (FilesystemResize _ _ _ _) = True"
| "executes disk _ = False"

fun exec_effect :: "string \<Rightarrow> effect \<Rightarrow> bool" where
  "exec_effect disk (Spawned operation _) = executes disk operation"
| "exec_effect disk (Finished operation) = executes disk operation"
| "exec_effect disk _ = False"

fun backup_effect :: "string \<Rightarrow> effect \<Rightarrow> bool" where
  "backup_effect disk (Spawned (BackupTable d _) _) = (d = disk)"
| "backup_effect disk (Finished (BackupTable d _)) = (d = disk)"
| "backup_effect disk (Published _ _) = True"
| "backup_effect disk (DroppedDir _) = True"
| "backup_effect disk _ = False"

lemma keeps_flag: "keeps_to (exec_effect d) (flag_partition mc d p f)"
  unfolding flag_partition_def
  by (intro emits.keeps_rules emits.keeps_probes) (auto intro: emits.keeps_run)

lemma keeps_shrink: "keeps_to (exec_effect d) (shrink_filesystem mc p fs n)"
  unfolding shrink_filesystem_def
  by (intro emits.keeps_rules emits.keeps_run emits.keeps_for_each) auto

lemma keeps_esp:
  assumes "esp_flag_operation m target d before uuid = Inr esp_flag"
  shows "keeps_to (exec_effect d) (case esp_flag of None \<Rightarrow> return_ok () | Some op \<Rightarrow> run_disk_operation mc op)"
proof (cases esp_flag)
  case None
  then show ?thesis by (simp add: emits.keeps_pure)
next
  case (Some op)
  with assms have "executes d op" by (auto simp: esp_flag_operation_def split: if_splits)
  with Some show ?thesis by (simp add: emits.keeps_run)
qed

lemma keeps_execute: "keeps_to (exec_effect (pj_disk j)) (execute_operation mc kind j sector_size)"
proof -
  have nt: "keeps_to (exec_effect (pj_disk j)) (exec_new_table mc j params sector_size)" for params
    unfolding exec_new_table_def Let_def
    by (intro emits.keeps_rules emits.keeps_probes emits.keeps_run keeps_flag emits.keeps_find_new) auto
  have cr: "keeps_to (exec_effect (pj_disk j)) (exec_create mc j params before sector_size)" for params before
    unfolding exec_create_def Let_def
    by (intro emits.keeps_rules emits.keeps_probes emits.keeps_run keeps_flag emits.keeps_find_new) auto
  have de: "keeps_to (exec_effect (pj_disk j)) (exec_delete mc j target before)" for target before
    unfolding exec_delete_def split_beta by (intro emits.keeps_rules emits.keeps_probes emits.keeps_run) auto
  have re: "keeps_to (exec_effect (pj_disk j)) (exec_resize mc j params target sector_size)" for params target
    unfolding exec_resize_def Let_def split_beta
    by (intro emits.keeps_rules emits.keeps_probes emits.keeps_run keeps_shrink set_irreversible_extends) auto
  have fo: "keeps_to (exec_effect (pj_disk j)) (exec_format mc j params target)" for params target
    unfolding exec_format_def by (intro emits.keeps_rules emits.keeps_run set_irreversible_extends) auto
  have se: "keeps_to (exec_effect (pj_disk j)) (exec_set_mountpoint mc j params target before)" for params target before
    unfolding exec_set_mountpoint_def split_beta
    by (rule emits.keeps_then [OF emits.keeps_probes(9)], rule emits.keeps_lift, rule emits.keeps_then,
        erule keeps_esp, rule emits.keeps_pure)
  show ?thesis
    unfolding execute_operation_def Let_def
    by (intro emits.keeps_rules emits.keeps_probes nt cr de re fo se)
qed

lemma keeps_persist: "keeps_to (backup_effect disk) (persist_external_backup mc path disk)"
  unfolding persist_external_backup_def Let_def publish_external_backup_def
  by (intro emits.keeps_rules emits.keeps_probes emits.keeps_scoped emits.keeps_run emits.keeps_record) auto

section \<open>How a commit ends\<close>

fun is_marker :: "effect \<Rightarrow> bool" where
  "is_marker (Marker _ _ _) = True"
| "is_marker _ = False"

fun restore_attempt :: "string \<Rightarrow> string \<Rightarrow> effect \<Rightarrow> bool" where
  "restore_attempt disk path (Spawned (RestoreTable d p) _) = (d = disk \<and> p = path)"
| "restore_attempt disk path (Marker _ _ _) = True"
| "restore_attempt disk path _ = False"

text \<open>The partition table was restored: the restore of that backup was started and finished, and only
  rollback markers stand around it.\<close>

definition rolled_back :: "string \<Rightarrow> string \<Rightarrow> effect list \<Rightarrow> bool" where
  "rolled_back disk path effects \<longleftrightarrow> (\<exists>plan before after.
     effects = before @ [Spawned (RestoreTable disk path) plan, Finished (RestoreTable disk path)] @ after \<and>
     list_all is_marker before \<and> list_all is_marker after)"

text \<open>The effects after the last operation, by result.\<close>

definition ending :: "string \<Rightarrow> string \<Rightarrow> (commit_error, commit_response) res \<Rightarrow> effect list \<Rightarrow> bool" where
  "ending disk path r tail =
     (case r of
        Inr (Failed False _ _) \<Rightarrow> rolled_back disk path tail
      | Inr (RecoveryRequired _ _ _ _) \<Rightarrow> list_all (restore_attempt disk path) tail
      | Inr (Rejected _) \<Rightarrow> False
      | _ \<Rightarrow> tail = [])"

lemma marker_trace:
  "write_rollback_marker dir d stage detail s = (r, t) \<Longrightarrow>
     r = Inr () \<and> (\<exists>m. st_trace t = st_trace s @ m \<and> list_all is_marker m) \<and>
     st_irreversible t = st_irreversible s"
  by (auto simp: write_rollback_marker_def split: option.splits)

lemma is_marker_restore: "list_all is_marker m \<Longrightarrow> list_all (restore_attempt d p) m"
  by (induction m) (auto elim!: is_marker.elims)

lemma commit_failure_ends:
  assumes "commit_failure mc dir path kind target error j s = (r, t)"
  shows "\<exists>tail. st_trace t = st_trace s @ tail \<and> ending (pj_disk j) path r tail \<and>
    st_irreversible t = st_irreversible s \<and>
    (\<exists>irr rest. r = Inr (Failed irr error (j\<lparr>pj_irreversible_completed := irr\<rparr>)) \<and> irr = st_irreversible s \<or>
       r = Inr (RecoveryRequired dir error rest (j\<lparr>pj_irreversible_completed := True\<rparr>)))"
proof (cases "st_irreversible s")
  case True
  with assms show ?thesis
    by (auto simp: commit_failure_def then_do_def invalidate_partition_snapshot_cache_def
        get_irreversible_def ending_def)
next
  case False
  define s0 where "s0 = s\<lparr>st_cache := []\<rparr>"
  obtain r1 s1 where m1: "write_rollback_marker dir (pj_disk j) ''started'' (RollbackStarted kind target error) s0 = (r1, s1)"
    by (metis surj_pair)
  then obtain a where a: "r1 = Inr ()" "st_trace s1 = st_trace s @ a" "list_all is_marker a" "st_irreversible s1 = False"
    using marker_trace [OF m1] False by (auto simp: s0_def)
  obtain r2 s2 where run: "run_disk_operation mc (RestoreTable (pj_disk j) path) s1 = (r2, s2)"
    by (metis surj_pair)
  let ?detail = "case r2 of Inl e \<Rightarrow> RollbackFailed kind target error e | Inr _ \<Rightarrow> RollbackRestored kind target error"
  obtain r3 s3 where m3: "write_rollback_marker dir (pj_disk j) ''completed'' ?detail s2 = (r3, s3)"
    by (metis surj_pair)
  then obtain b where b: "r3 = Inr ()" "st_trace s3 = st_trace s2 @ b" "list_all is_marker b"
      "st_irreversible s3 = st_irreversible s2"
    using marker_trace [OF m3] by auto
  have eq: "(r, t) = (case r2 of
      Inl e \<Rightarrow> (Inr (RecoveryRequired dir error e (j\<lparr>pj_irreversible_completed := True\<rparr>)), s3)
    | Inr _ \<Rightarrow> (Inr (Failed False error (j\<lparr>pj_irreversible_completed := False\<rparr>)), s3))"
    using assms False m1 run m3 a(1) b(1)
    by (auto simp: commit_failure_def then_do_def invalidate_partition_snapshot_cache_def
        get_irreversible_def attempt_def s0_def split: sum.splits)
  show ?thesis
  proof (cases r2)
    case (Inl e)
    with run run_err [of mc "RestoreTable (pj_disk j) path" s1 e s2] obtain c where
      "st_trace s2 = st_trace s1 @ c" "list_all (restore_attempt (pj_disk j) path) c" "st_irreversible s2 = False"
      using a(4) by fastforce
    with Inl eq a b False show ?thesis
      by (auto simp: ending_def intro!: is_marker_restore)
  next
    case (Inr u)
    with run run_ok [of mc "RestoreTable (pj_disk j) path" s1 u s2] obtain plan where
      "st_trace s2 = st_trace s1 @ [Spawned (RestoreTable (pj_disk j) path) plan, Finished (RestoreTable (pj_disk j) path)]"
      "st_irreversible s2 = False"
      using a(4) by auto
    with Inr eq a b False show ?thesis
      by (fastforce simp: ending_def rolled_back_def)
  qed
qed

text \<open>The kind of the operation a step event reports as completed.\<close>

fun completed_kind :: "effect \<Rightarrow> string list" where
  "completed_kind (Event v) =
     (if json_text ''status'' v = Some ''completed'' then [unwrap_or [] (json_text ''kind'' v)] else [])"
| "completed_kind _ = []"

definition completed_kinds :: "effect list \<Rightarrow> string list" where
  "completed_kinds effects = concat (map completed_kind effects)"

fun loop_effect :: "string \<Rightarrow> effect \<Rightarrow> bool" where
  "loop_effect disk (Event _) = True"
| "loop_effect disk e = exec_effect disk e"

lemma exec_loop_effect: "exec_effect d e \<Longrightarrow> loop_effect d e \<and> completed_kind e = []"
  by (cases e) auto

lemma exec_loop_effects:
  "list_all (exec_effect d) es \<Longrightarrow> list_all (loop_effect d) es \<and> completed_kinds es = []"
  by (induction es) (auto simp: completed_kinds_def dest: exec_loop_effect)

lemma completed_kinds_append [simp]: "completed_kinds (xs @ ys) = completed_kinds xs @ completed_kinds ys"
  by (simp add: completed_kinds_def)

lemma emit_ok:
  "emit_event mc v s = (Inr u, t) \<Longrightarrow> st_trace t = st_trace s @ [Event v] \<and> st_irreversible t = st_irreversible s"
  by (auto simp: emit_event_def split: emit_outcome.splits)

lemma emit_err: "emit_event mc v s = (Inl e, t) \<Longrightarrow> st_trace t = st_trace s"
  by (auto simp: emit_event_def then_do_Inl split: emit_outcome.splits)

text \<open>What the response says about the journal and the state it was reached in.\<close>

definition reports :: "partition_journal \<Rightarrow> string \<Rightarrow> (commit_error, commit_response) res \<Rightarrow> bool \<Rightarrow> bool" where
  "reports j dir r irreversible =
     (case r of
        Inr (Failed irr _ j') \<Rightarrow> irr = irreversible \<and> pj_irreversible_completed j' = irr \<and>
          pj_disk j' = pj_disk j \<and> pj_committed j' = pj_committed j
      | Inr (RecoveryRequired d _ _ j') \<Rightarrow> d = dir \<and> \<not> irreversible \<and> pj_irreversible_completed j' \<and>
          pj_disk j' = pj_disk j \<and> pj_committed j' = pj_committed j
      | Inr (Committed root j') \<Rightarrow> pj_committed j' \<and> root = pj_root_partition j' \<and>
          pj_irreversible_completed j' = irreversible \<and> pj_disk j' = pj_disk j \<and>
          map op_kind (pj_ops j') = map op_kind (pj_ops j)
      | Inr (Rejected _) \<Rightarrow> False
      | Inl _ \<Rightarrow> True)"

fun is_committed :: "(commit_error, commit_response) res \<Rightarrow> bool" where
  "is_committed (Inr (Committed _ _)) = True"
| "is_committed _ = False"

lemma then_do_steps:
  "then_do (put_params v) f s = f () (s\<lparr>st_params := v\<rparr>)"
  "then_do get_params g s = g (st_params s) s"
  "then_do get_irreversible h s = h (st_irreversible s) s"
  "then_do (set_irreversible b) f s = f () (s\<lparr>st_irreversible := b\<rparr>)"
  "then_do invalidate_partition_snapshot_cache f s = f () (s\<lparr>st_cache := []\<rparr>)"
  by (simp_all add: then_do_def put_params_def get_params_def get_irreversible_def set_irreversible_def
      invalidate_partition_snapshot_cache_def)

text \<open>One round of the loop: the started event could not be written, or the operation failed, or its
  completed event could not be written, or the loop goes on.\<close>

lemma commit_loop_step:
  assumes "commit_loop mc dir path sector_size (i # is) j s = (r, t)"
  defines "x \<equiv> pj_ops j ! i"
  obtains (started) e where "r = Inl e" and "st_trace t = st_trace s"
  | (run) s1 res s2 j' where
      "st_trace s1 = st_trace s @ [Event (step_event (op_kind x) ''started''
         (if value_string (op_params x) ''partition'' = [] then pj_disk j else value_string (op_params x) ''partition''))]"
      and "st_irreversible s1 = st_irreversible s" and "st_params s1 = op_params x"
      and "execute_operation mc (op_kind x) j sector_size s1 = (res, s2)"
      and "j' = j\<lparr>pj_ops := (pj_ops j)[i := x\<lparr>op_params := st_params s2\<rparr>]\<rparr>"
      and "case res of
          Inl e \<Rightarrow> commit_failure mc dir path (op_kind x) (value_string (op_params x) ''partition'') e j' s2 = (r, t)
        | Inr done \<Rightarrow>
            (\<exists>e. r = Inl e \<and> st_trace t = st_trace s2) \<or>
            (\<exists>s3. st_trace s3 = st_trace s2 @ [Event (step_event (op_kind x) ''completed'' done)] \<and>
               st_irreversible s3 = st_irreversible s2 \<and>
               commit_loop mc dir path sector_size is j' s3 = (r, t))"
proof -
  define v where "v = step_event (op_kind x) ''started''
         (if value_string (op_params x) ''partition'' = [] then pj_disk j else value_string (op_params x) ''partition'')"
  let ?k = "\<lambda>result. then_do get_params (\<lambda>params.
      let j' = j\<lparr>pj_ops := (pj_ops j)[i := x\<lparr>op_params := params\<rparr>]\<rparr> in
      case result of
        Inr done \<Rightarrow> then_do (emit_event mc (step_event (op_kind x) ''completed'' done))
          (\<lambda>_. commit_loop mc dir path sector_size is j')
      | Inl e \<Rightarrow> commit_failure mc dir path (op_kind x) (value_string (op_params x) ''partition'') e j')"
  have eq: "then_do (emit_event mc v) (\<lambda>_. then_do (put_params (op_params x)) (\<lambda>_.
      then_do (attempt (execute_operation mc (op_kind x) j sector_size)) ?k)) s = (r, t)"
    using assms(1) unfolding x_def v_def commit_loop.simps Let_def .
  obtain r0 s0 where e0: "emit_event mc v s = (r0, s0)" by (metis surj_pair)
  show thesis
  proof (cases r0)
    case (Inl e)
    have "r = Inl e \<and> t = s0"
      using eq e0 Inl by (simp only: then_do_err prod.inject simp_thms)
    with Inl e0 started show thesis using emit_err by blast
  next
    case (Inr u)
    define s1 where "s1 = s0\<lparr>st_params := op_params x\<rparr>"
    obtain res s2 where ex: "execute_operation mc (op_kind x) j sector_size s1 = (res, s2)" by (metis surj_pair)
    define j' where "j' = j\<lparr>pj_ops := (pj_ops j)[i := x\<lparr>op_params := st_params s2\<rparr>]\<rparr>"
    have "attempt (execute_operation mc (op_kind x) j sector_size) s1 = (Inr res, s2)"
      by (simp add: attempt_def ex)
    moreover have "emit_event mc v s = (Inr u, s0)" using e0 Inr by simp
    ultimately have "?k res s2 = (r, t)"
      using eq by (simp only: then_do_ok then_do_steps s1_def)
    then have rest: "(case res of
        Inr done \<Rightarrow> then_do (emit_event mc (step_event (op_kind x) ''completed'' done))
          (\<lambda>_. commit_loop mc dir path sector_size is j')
      | Inl e \<Rightarrow> commit_failure mc dir path (op_kind x) (value_string (op_params x) ''partition'') e j') s2 = (r, t)"
      by (simp only: then_do_steps Let_def j'_def)
    have s1: "st_trace s1 = st_trace s @ [Event v]" "st_irreversible s1 = st_irreversible s" "st_params s1 = op_params x"
      using emit_ok [OF e0 [unfolded Inr]] by (simp_all add: s1_def)
    have "case res of
          Inl e \<Rightarrow> commit_failure mc dir path (op_kind x) (value_string (op_params x) ''partition'') e j' s2 = (r, t)
        | Inr done \<Rightarrow>
            (\<exists>e. r = Inl e \<and> st_trace t = st_trace s2) \<or>
            (\<exists>s3. st_trace s3 = st_trace s2 @ [Event (step_event (op_kind x) ''completed'' done)] \<and>
               st_irreversible s3 = st_irreversible s2 \<and>
               commit_loop mc dir path sector_size is j' s3 = (r, t))"
    proof (cases res)
      case (Inr tgt)
      let ?e = "emit_event mc (step_event (op_kind x) ''completed'' tgt)"
      let ?k = "\<lambda>_::unit. commit_loop mc dir path sector_size is j'"
      show ?thesis
      proof (cases rule: then_do_cases [of ?e s2 ?k])
        case (err e s3)
        with rest Inr show ?thesis using emit_err [of mc _ s2 e s3] by auto
      next
        case (ok v s3)
        with rest Inr show ?thesis using emit_ok [of mc _ s2 v s3] by auto
      qed
    qed (use rest in simp)
    then show thesis by (rule run [OF s1 [unfolded v_def] ex j'_def])
  qed
qed

lemma completed_step_event [simp]:
  "completed_kinds [Event (step_event kind ''started'' target)] = []"
  "completed_kinds [Event (step_event kind ''completed'' target)] = [kind]"
  by (simp_all add: completed_kinds_def step_event_def json_text_def)

lemma update_keeps_kind:
  "op_kind ((xs[i := (xs ! i)\<lparr>op_params := p\<rparr>]) ! k) = op_kind (xs ! k)"
  "map op_kind (xs[i := (xs ! i)\<lparr>op_params := p\<rparr>]) = map op_kind xs"
proof -
  show kind: "op_kind ((xs[i := (xs ! i)\<lparr>op_params := p\<rparr>]) ! k) = op_kind (xs ! k)" for k
    by (cases "i < length xs"; cases "i = k") (simp_all add: list_update_beyond)
  show "map op_kind (xs[i := (xs ! i)\<lparr>op_params := p\<rparr>]) = map op_kind xs"
    by (rule nth_equalityI) (simp_all add: kind)
qed

lemma reports_step: "reports (j\<lparr>pj_ops := (pj_ops j)[i := (pj_ops j ! i)\<lparr>op_params := p\<rparr>]\<rparr>) dir r b = reports j dir r b"
  by (simp add: reports_def update_keeps_kind split: sum.split commit_response.split)

lemma commit_failure_reports:
  assumes "commit_failure mc dir path kind target error j s = (r, t)"
  shows "reports j dir r (st_irreversible t) \<and> \<not> is_committed r"
proof -
  obtain tail irr rest where "ending (pj_disk j) path r tail" and irr: "st_irreversible t = st_irreversible s"
    and r: "r = Inr (Failed irr error (j\<lparr>pj_irreversible_completed := irr\<rparr>)) \<and> irr = st_irreversible s \<or>
       r = Inr (RecoveryRequired dir error rest (j\<lparr>pj_irreversible_completed := True\<rparr>))"
    using commit_failure_ends [OF assms] by blast
  moreover have "\<not> st_irreversible s" if "r = Inr (RecoveryRequired dir error rest (j\<lparr>pj_irreversible_completed := True\<rparr>))"
    using assms that by (cases "st_irreversible s") (auto simp: commit_failure_def then_do_steps)
  ultimately show ?thesis by (auto simp: reports_def)
qed

lemma execute_trace:
  assumes "execute_operation mc kind j sector_size s = (r, t)"
  shows "\<exists>new. st_trace t = st_trace s @ new \<and> list_all (exec_effect (pj_disk j)) new"
  using emits.keepsD [OF keeps_execute assms] by (simp add: extends_def)

lemma commit_loop_ends:
  assumes "commit_loop mc dir path sector_size is j s = (r, t)"
  shows "\<exists>new tail. st_trace t = st_trace s @ new @ tail \<and> list_all (loop_effect (pj_disk j)) new \<and>
    ending (pj_disk j) path r tail \<and> reports j dir r (st_irreversible t) \<and>
    (is_committed r \<longrightarrow> completed_kinds new = map (\<lambda>i. op_kind (pj_ops j ! i)) is)"
  using assms
proof (induction "is" arbitrary: j s)
  case Nil
  then have "r = Inr (Committed (root_partition (j\<lparr>pj_irreversible_completed := st_irreversible s\<rparr>))
      (j\<lparr>pj_irreversible_completed := st_irreversible s,
         pj_root_partition := root_partition (j\<lparr>pj_irreversible_completed := st_irreversible s\<rparr>), pj_committed := True\<rparr>))
      \<and> t = s\<lparr>st_cache := []\<rparr>"
    by (simp add: then_do_steps Let_def)
  then show ?case by (intro exI [of _ "[]"]) (simp add: ending_def reports_def completed_kinds_def)
next
  case (Cons i "is")
  show ?case
  proof (cases rule: commit_loop_step [OF Cons.prems])
    case (1 e)
    then show ?thesis by (intro exI [of _ "[]"]) (simp add: ending_def reports_def)
  next
    case (2 s1 res s2 j')
    obtain mid where mid: "st_trace s2 = st_trace s1 @ mid" "list_all (loop_effect (pj_disk j)) mid" "completed_kinds mid = []"
      using execute_trace [OF 2(4)] exec_loop_effects by blast
    let ?x = "pj_ops j ! i"
    obtain ev where s1: "st_trace s1 = st_trace s @ [Event ev]" and ev: "completed_kinds [Event ev] = []"
      using 2(1) completed_step_event(1) by blast
    have j': "pj_disk j' = pj_disk j" "reports j' dir r b = reports j dir r b" "op_kind (pj_ops j' ! k) = op_kind (pj_ops j ! k)" for b k
      by (simp_all add: 2(5) reports_step update_keeps_kind)
    show ?thesis
    proof (cases res)
      case (Inl e)
      with 2(6) have fail: "commit_failure mc dir path (op_kind ?x) (value_string (op_params ?x) ''partition'') e j' s2 = (r, t)"
        by simp
      then obtain tail where "st_trace t = st_trace s2 @ tail" "ending (pj_disk j) path r tail"
          "reports j' dir r (st_irreversible t)" "\<not> is_committed r"
        using commit_failure_ends [OF fail] commit_failure_reports [OF fail] by (auto simp: j'(1))
      with s1 mid show ?thesis
        by (intro exI [of _ "[Event ev] @ mid"] exI [of _ tail]) (simp add: j')
    next
      case (Inr tgt)
      with 2(6) consider (stop) e where "r = Inl e" "st_trace t = st_trace s2"
        | (go) s3 where "st_trace s3 = st_trace s2 @ [Event (step_event (op_kind ?x) ''completed'' tgt)]"
            "commit_loop mc dir path sector_size is j' s3 = (r, t)"
        by auto
      then show ?thesis
      proof cases
        case stop
        with s1 mid show ?thesis
          by (intro exI [of _ "[Event ev] @ mid"] exI [of _ "[]"]) (simp add: ending_def reports_def)
      next
        case go
        from Cons.IH [OF go(2)] obtain new tail where
          "st_trace t = st_trace s3 @ new @ tail" "list_all (loop_effect (pj_disk j)) new"
          "ending (pj_disk j) path r tail" "reports j dir r (st_irreversible t)"
          "is_committed r \<longrightarrow> completed_kinds new = map (\<lambda>i. op_kind (pj_ops j ! i)) is"
          by (auto simp: j')
        with s1 mid go(1) show ?thesis
          using ev completed_step_event(2) [of "op_kind ?x" tgt]
          by (intro exI [of _ "[Event ev] @ mid @ [Event (step_event (op_kind ?x) ''completed'' tgt)] @ new"] exI [of _ tail])
            (simp add: completed_kinds_def)
      qed
    qed
  qed
qed

section \<open>The phases of a commit\<close>

lemma then_do_os:
  "then_do (os_call f) g s = g (fst (f (st_world s))) (s\<lparr>st_world := snd (f (st_world s))\<rparr>)"
  "then_do (os_ask h) k s = k (h (st_world s)) s"
  "then_do (lift_res r) l s = (case r of Inl e \<Rightarrow> (Inl e, s) | Inr x \<Rightarrow> l x s)"
  by (simp_all add: then_do_def split: sum.split)

text \<open>A first step without effects either fails, with no trace, or is followed by the rest.\<close>

lemma quiet_then:
  assumes "keeps_to (\<lambda>_. False) m" and "then_do m f s = (r, t)"
  obtains (err) e where "r = Inl e" and "st_trace t = st_trace s"
  | (ok) x u where "m s = (Inr x, u)" and "st_trace u = st_trace s" and "f x u = (r, t)"
proof -
  obtain res u where m: "m s = (res, u)" by (metis surj_pair)
  have "extends (\<lambda>_. False) s u" by (rule emits.keepsD [OF assms(1) m])
  then have "st_trace u = st_trace s" by (auto simp: extends_def list_all_iff)
  with m assms(2) err ok show thesis by (cases res) (auto simp: then_do_def)
qed

text \<open>A commit is refused without an effect, or it passed the guard, took the lock and validated the
  journal against the live disk, and goes on from there.\<close>

definition admitted ::
    "'w machine \<Rightarrow> partition_journal \<Rightarrow> (string \<Rightarrow> guard_probes \<Rightarrow> (guard_error, unit) res) \<Rightarrow> 'w state \<Rightarrow> 'w state \<Rightarrow> bool" where
  "admitted mc j validate_target s v \<longleftrightarrow>
     (let (probes, w1) = mc_guard mc (st_world s); (answers, w2) = mc_lock mc w1 in
      validate_target (pj_disk j) probes = Inr () \<and>
      (\<exists>lock. acquire_disk_lock answers (pj_disk j) = Inr lock) \<and>
      (\<exists>parts u table_type n.
         runtime_partition_records mc (pj_disk j) (s\<lparr>st_world := w2, st_cache := []\<rparr>) = (Inr parts, u) \<and>
         runtime_disk_metadata mc (pj_disk j) u = (Inr (table_type, n), v) \<and>
         validate j parts table_type n = []))"

lemma commit_phases:
  assumes "commit_request_with_target_guard mc j validate_target s = (r, t)"
  obtains (refused) "st_trace t = st_trace s" and "\<And>x. r = Inr x \<Longrightarrow> \<exists>es. x = Rejected es \<and> es \<noteq> []"
  | (accepted) sector_size v where "admitted mc j validate_target s v" and "st_trace v = st_trace s"
      and "commit_accepted mc j sector_size v = (r, t)"
proof -
  obtain probes w1 where g: "mc_guard mc (st_world s) = (probes, w1)" by (metis surj_pair)
  obtain answers w2 where l: "mc_lock mc w1 = (answers, w2)" by (metis surj_pair)
  define s0 where "s0 = s\<lparr>st_world := w2, st_cache := []\<rparr>"
  let ?k = "\<lambda>sector_size current_parts (table_type, n).
     if validate j current_parts table_type n \<noteq> [] then return_ok (Rejected (validate j current_parts table_type n))
     else commit_accepted mc j sector_size"
  let ?m = "\<lambda>sector_size. then_do (runtime_partition_records mc (pj_disk j)) (\<lambda>parts.
      then_do (runtime_disk_metadata mc (pj_disk j)) (?k sector_size parts))"
  show thesis
  proof (cases "validate_target (pj_disk j) probes = Inr () \<and> (\<exists>lock. acquire_disk_lock answers (pj_disk j) = Inr lock) \<and>
      (\<exists>n. logical_sector_size (\<lambda>args. mc_plan_probe mc args w2) (pj_disk j) = Inr n)")
    case False
    with assms g l refused show thesis
      by (auto simp: commit_request_with_target_guard_def then_do_os then_do_steps map_err_def
          split: sum.splits)
  next
    case True
    then obtain lock n where ok: "validate_target (pj_disk j) probes = Inr ()" "acquire_disk_lock answers (pj_disk j) = Inr lock"
      "logical_sector_size (\<lambda>args. mc_plan_probe mc args w2) (pj_disk j) = Inr n" by blast
    then have run: "?m n s0 = (r, t)"
      using assms g l by (simp add: commit_request_with_target_guard_def then_do_os then_do_steps s0_def Let_def)
    have s0: "st_trace s0 = st_trace s" by (simp add: s0_def)
    show thesis
    proof (cases rule: quiet_then [OF emits.keeps_probes(5) run])
      case (1 e)
      with s0 refused show thesis by simp
    next
      case (2 parts u)
      note records = 2(1)
      show thesis
      proof (cases rule: quiet_then [OF emits.keeps_probes(6) 2(3)])
        case (1 e)
        with s0 \<open>st_trace u = _\<close> refused show thesis by simp
      next
        case (2 meta v)
        obtain table_type size_bytes where meta: "meta = (table_type, size_bytes)" by (cases meta)
        have v: "st_trace v = st_trace s" using 2(2) \<open>st_trace u = _\<close> s0 by simp
        show thesis
        proof (cases "validate j parts table_type size_bytes = []")
          case True
          with 2(1) records ok have "admitted mc j validate_target s v"
            by (auto simp: admitted_def g l meta s0_def)
          with True 2(3) v accepted show thesis by (simp add: meta)
        next
          case False
          with 2(3) v refused show thesis by (auto simp: meta)
        qed
      qed
    qed
  qed
qed

lemma kinds_in_order: "map (\<lambda>i. op_kind (xs ! i)) [0..<length xs] = map op_kind xs"
  by (rule nth_equalityI) simp_all

lemma commit_with_backup_ends:
  assumes "commit_with_backup mc j sector_size dir s = (r, t)"
  defines "path \<equiv> path_join dir ''partition-table.backup''"
  shows "(\<exists>e new. r = Inl e \<and> st_trace t = st_trace s @ new \<and> list_all (backup_effect (pj_disk j)) new) \<or>
    (\<exists>plan new tail. st_trace t = st_trace s @ [Spawned (BackupTable (pj_disk j) path) plan, Finished (BackupTable (pj_disk j) path)] @ new @ tail \<and>
       list_all (loop_effect (pj_disk j)) new \<and> ending (pj_disk j) path r tail \<and> reports j dir r (st_irreversible t) \<and>
       (is_committed r \<longrightarrow> completed_kinds new = map op_kind (pj_ops j)))"
proof -
  let ?f = "\<lambda>_::unit. then_do (set_irreversible False) (\<lambda>_. commit_loop mc dir path sector_size [0..<length (pj_ops j)] j)"
  have eq: "then_do (run_disk_operation mc (BackupTable (pj_disk j) path)) ?f s = (r, t)"
    using assms(1) by (simp add: commit_with_backup_def path_def Let_def)
  show ?thesis
  proof (cases rule: then_do_cases [of "run_disk_operation mc (BackupTable (pj_disk j) path)" s ?f])
    case (err e u)
    then show ?thesis using eq run_err [OF err(1)] by auto
  next
    case (ok x u)
    with eq have "commit_loop mc dir path sector_size [0..<length (pj_ops j)] j (u\<lparr>st_irreversible := False\<rparr>) = (r, t)"
      by (simp add: then_do_steps)
    from commit_loop_ends [OF this] obtain new tail where "st_trace t = st_trace u @ new @ tail"
      "list_all (loop_effect (pj_disk j)) new" "ending (pj_disk j) path r tail" "reports j dir r (st_irreversible t)"
      "is_committed r \<longrightarrow> completed_kinds new = map op_kind (pj_ops j)"
      by (auto simp: kinds_in_order)
    moreover from run_ok [OF ok(1)] obtain plan where "st_trace u = st_trace s @
        [Spawned (BackupTable (pj_disk j) path) plan, Finished (BackupTable (pj_disk j) path)]" by blast
    ultimately show ?thesis
      by (intro disjI2 exI [of _ plan] exI [of _ new] exI [of _ tail]) simp
  qed
qed

text \<open>The whole of an accepted commit: backups only; then, if that succeeded, the commands of the
  operations; then what the result calls for; then the temporary directory is removed unless it is
  needed for recovery.\<close>

lemma commit_accepted_ends:
  assumes "commit_accepted mc j sector_size s = (r, t)"
  shows "(\<exists>e new. r = Inl e \<and> st_trace t = st_trace s @ new \<and> list_all (backup_effect (pj_disk j)) new) \<or>
    (\<exists>dir path pre new tail. path = path_join dir ''partition-table.backup'' \<and>
       st_trace t = st_trace s @ (pre @ [Finished (BackupTable (pj_disk j) path)]) @ new @ tail @
         (case r of Inr x \<Rightarrow> if keeps_backup x then [] else [DroppedDir dir] | Inl _ \<Rightarrow> [DroppedDir dir]) \<and>
       list_all (backup_effect (pj_disk j)) pre \<and>
       list_all (loop_effect (pj_disk j)) new \<and> ending (pj_disk j) path r tail \<and> reports j dir r (st_irreversible t) \<and>
       (is_committed r \<longrightarrow> completed_kinds new = map op_kind (pj_ops j)))"
proof -
  let ?p = "for_each (\<lambda>path. persist_external_backup mc path (pj_disk j)) (external_backup_paths j)"
  have persist: "keeps_to (backup_effect (pj_disk j)) ?p"
    by (intro emits.keeps_for_each keeps_persist)
  obtain rp u where p: "?p s = (rp, u)" by (metis surj_pair)
  obtain pre where pre: "st_trace u = st_trace s @ pre" "list_all (backup_effect (pj_disk j)) pre"
    using emits.keepsD [OF persist p] by (auto simp: extends_def)
  obtain created w where c: "mc_tempdir mc None ''kyth-partition-'' (st_world u) = (created, w)" by (metis surj_pair)
  consider (stop) e where "r = Inl e" "st_trace t = st_trace u"
    | (go) dir where "scoped_dir keeps_backup dir (commit_with_backup mc j sector_size dir) (u\<lparr>st_world := w\<rparr>) = (r, t)"
    using assms p c
    by (cases rp; cases created) (auto simp: commit_accepted_def then_do_def)
  then show ?thesis
  proof cases
    case stop
    with pre show ?thesis by auto
  next
    case go
    obtain r' t' where b: "commit_with_backup mc j sector_size dir (u\<lparr>st_world := w\<rparr>) = (r', t')" by (metis surj_pair)
    have t: "r = r'" "st_irreversible t = st_irreversible t'" "st_trace t = st_trace t' @
        (case r of Inr x \<Rightarrow> if keeps_backup x then [] else [DroppedDir dir] | Inl _ \<Rightarrow> [DroppedDir dir])"
      using go b by (auto simp: scoped_dir_def split: sum.splits if_splits)
    from commit_with_backup_ends [OF b] show ?thesis
    proof (elim disjE exE conjE)
      fix e new assume "r' = Inl e" "st_trace t' = st_trace (u\<lparr>st_world := w\<rparr>) @ new" "list_all (backup_effect (pj_disk j)) new"
      with t pre show ?thesis by (intro disjI1) auto
    next
      fix plan new tail
      let ?path = "path_join dir ''partition-table.backup''"
      assume h: "st_trace t' = st_trace (u\<lparr>st_world := w\<rparr>) @ [Spawned (BackupTable (pj_disk j) ?path) plan,
          Finished (BackupTable (pj_disk j) ?path)] @ new @ tail"
        "list_all (loop_effect (pj_disk j)) new" "ending (pj_disk j) ?path r' tail" "reports j dir r' (st_irreversible t')"
        "is_committed r' \<longrightarrow> completed_kinds new = map op_kind (pj_ops j)"
      have "st_trace t = st_trace s @ ((pre @ [Spawned (BackupTable (pj_disk j) ?path) plan]) @
          [Finished (BackupTable (pj_disk j) ?path)]) @ new @ tail @
          (case r of Inr x \<Rightarrow> if keeps_backup x then [] else [DroppedDir dir] | Inl _ \<Rightarrow> [DroppedDir dir])"
        using h(1) t(3) pre(1) by simp
      moreover have "list_all (backup_effect (pj_disk j)) (pre @ [Spawned (BackupTable (pj_disk j) ?path) plan])"
        using pre(2) by simp
      ultimately show ?thesis using h(2-5) t(1,2)
        by (intro disjI2 exI [of _ dir] exI [of _ ?path]
            exI [of _ "pre @ [Spawned (BackupTable (pj_disk j) ?path) plan]"] exI [of _ new] exI [of _ tail]) simp
    qed
  qed
qed

section \<open>The properties of the commit\<close>

abbreviation identity_guard :: "partition_journal \<Rightarrow> string \<Rightarrow> guard_probes \<Rightarrow> (guard_error, unit) res" where
  "identity_guard j \<equiv> \<lambda>disk probes. validate_target_disk_with_identity probes disk (journal_identity j)"

lemma commit_request_phases:
  assumes "commit_request mc j s = (r, t)"
  obtains (refused) "st_trace t = st_trace s" and "\<And>x. r = Inr x \<Longrightarrow> \<exists>es. x = Rejected es \<and> es \<noteq> []"
  | (accepted) sector_size v where "admitted mc j (identity_guard j) s v" and "st_trace v = st_trace s"
      and "commit_accepted mc j sector_size v = (r, t)"
proof (cases "id_serial (journal_identity j) = None \<and> id_model (journal_identity j) = None \<and>
    id_size_bytes (journal_identity j) = None")
  case True
  with assms have "r = Inl NoStagingIdentity \<and> t = s" by (auto simp: commit_request_def Let_def)
  with refused show thesis by simp
next
  case False
  with assms have "commit_request_with_target_guard mc j (identity_guard j) s = (r, t)"
    by (simp add: commit_request_def Let_def)
  then show thesis by (rule commit_phases) (fact refused accepted)+
qed

text \<open>C1: Whenever a commit did anything to the machine, or reports that it committed, the target guard
  with the staged disk identity had passed, the exclusive disk lock was held, and the journal
  validated without an error against partitions and metadata read after that lock, from a snapshot
  not cached before.\<close>

theorem commit_guarded:
  assumes "commit_request mc j s = (r, t)" and "st_trace t \<noteq> st_trace s \<or> is_committed r"
  defines "locked \<equiv> mc_lock mc (snd (mc_guard mc (st_world s)))"
  shows "validate_target_disk_with_identity (fst (mc_guard mc (st_world s))) (pj_disk j) (journal_identity j) = Inr () \<and>
    (\<exists>lock. acquire_disk_lock (fst locked) (pj_disk j) = Inr lock) \<and>
    (\<exists>parts u table_type n v.
       runtime_partition_records mc (pj_disk j) (s\<lparr>st_world := snd locked, st_cache := []\<rparr>) = (Inr parts, u) \<and>
       runtime_disk_metadata mc (pj_disk j) u = (Inr (table_type, n), v) \<and> validate j parts table_type n = [])"
proof (cases rule: commit_request_phases [OF assms(1)])
  case 1
  with assms(2) show ?thesis by (cases r) fastforce+
next
  case (2 sector_size v)
  then show ?thesis by (auto simp: admitted_def locked_def split_beta Let_def)
qed

fun is_backup :: "disk_operation_input \<Rightarrow> bool" where
  "is_backup (BackupTable _ _) = True"
| "is_backup _ = False"

lemma backup_spawned: "list_all (backup_effect d) es \<Longrightarrow> Spawned op plan \<in> set es \<Longrightarrow> is_backup op"
  by (induction es) (auto elim!: backup_effect.elims)

lemma ending_spawned:
  assumes "ending d path r tail" and "Spawned op plan \<in> set tail"
  shows "op = RestoreTable d path"
proof -
  have no: "\<not> list_all is_marker m \<or> Spawned op plan \<notin> set m" for m by (induction m) auto
  have "op = RestoreTable d path" if "list_all (restore_attempt d path) m" "Spawned op plan \<in> set m" for m
    using that by (induction m) (auto elim!: restore_attempt.elims)
  with assms no show ?thesis
    by (fastforce simp: ending_def rolled_back_def split: sum.splits commit_response.splits bool.splits)
qed

lemma split_after: "a @ x # b = p @ q \<Longrightarrow> x \<notin> set p \<Longrightarrow> \<exists>us. a = p @ us \<and> q = us @ x # b"
proof (induction p arbitrary: a)
  case (Cons y ys)
  then show ?case by (cases a) auto
qed simp

lemma loop_spawned: "list_all (loop_effect d) es \<Longrightarrow> Spawned op plan \<in> set es \<Longrightarrow> executes d op"
  by (induction es) auto


lemma completed_none:
  "list_all (backup_effect d) es \<Longrightarrow> completed_kinds es = []"
  "list_all is_marker es \<Longrightarrow> completed_kinds es = []"
  by (induction es) (auto simp: completed_kinds_def elim!: backup_effect.elims is_marker.elims)

lemma restore_attempt_no_drop: "list_all (restore_attempt d p) es \<Longrightarrow> DroppedDir x \<notin> set es"
  by (induction es) auto

lemma loop_no_drop: "list_all (loop_effect d) es \<Longrightarrow> DroppedDir x \<notin> set es"
  by (induction es) auto

text \<open>What a response promises, given the effects of the commit.\<close>

definition response_means :: "partition_journal \<Rightarrow> commit_response \<Rightarrow> effect list \<Rightarrow> bool" where
  "response_means j x new =
     (case x of
        Rejected es \<Rightarrow> es \<noteq> [] \<and> new = []
      | Committed root j' \<Rightarrow>
          completed_kinds new = map op_kind (pj_ops j) \<and> map op_kind (pj_ops j') = map op_kind (pj_ops j) \<and>
          pj_committed j' \<and> pj_disk j' = pj_disk j \<and> root = pj_root_partition j'
      | Failed irreversible _ j' \<Rightarrow>
          pj_irreversible_completed j' = irreversible \<and> pj_committed j' = pj_committed j \<and>
          (\<not> irreversible \<longrightarrow> (\<exists>path plan before after.
             new = before @ [Spawned (RestoreTable (pj_disk j) path) plan, Finished (RestoreTable (pj_disk j) path)] @ after \<and>
             Finished (BackupTable (pj_disk j) path) \<in> set before \<and> (\<forall>op plan. Spawned op plan \<notin> set after)))
      | RecoveryRequired dir _ _ j' \<Rightarrow>
          pj_irreversible_completed j' \<and> pj_committed j' = pj_committed j \<and>
          (\<exists>before after. new = before @ Finished (BackupTable (pj_disk j) (path_join dir ''partition-table.backup'')) # after \<and>
             (\<forall>other. DroppedDir other \<notin> set after)))"

lemma accepted_response_means:
  assumes tr: "new = (pre @ [Finished (BackupTable (pj_disk j) path)]) @ mid @ tail @
         (if keeps_backup x then [] else [DroppedDir dir])"
    and path: "path = path_join dir ''partition-table.backup''"
    and h: "list_all (backup_effect (pj_disk j)) pre" "list_all (loop_effect (pj_disk j)) mid"
      "ending (pj_disk j) path (Inr x) tail" "reports j dir (Inr x) irr"
      "is_committed (Inr x) \<longrightarrow> completed_kinds mid = map op_kind (pj_ops j)"
  shows "response_means j x new"
proof (cases x)
  case (Rejected es)
  with h(3) show ?thesis by (simp add: ending_def)
next
  case (Committed root j')
  with h have "tail = []" "completed_kinds mid = map op_kind (pj_ops j)" "completed_kinds pre = []"
    by (simp_all add: ending_def completed_none)
  then have "completed_kinds new = map op_kind (pj_ops j)"
    using Committed tr by (simp add: completed_kinds_def)
  with Committed h(4) show ?thesis by (simp add: response_means_def reports_def)
next
  case (RecoveryRequired d e e' j')
  with h(3,4) have "d = dir" "list_all (restore_attempt (pj_disk j) path) tail" "pj_irreversible_completed j'"
      "pj_committed j' = pj_committed j"
    by (simp_all add: ending_def reports_def)
  moreover have "DroppedDir other \<notin> set (mid @ tail)" for other
    using loop_no_drop [OF h(2)] restore_attempt_no_drop calculation(2) by auto
  ultimately show ?thesis using RecoveryRequired tr path
    by (simp add: response_means_def) (rule exI [of _ pre], rule exI [of _ "mid @ tail"], simp)
next
  case (Failed irreversible e j')
  have "\<exists>path plan before after.
             new = before @ [Spawned (RestoreTable (pj_disk j) path) plan, Finished (RestoreTable (pj_disk j) path)] @ after \<and>
             Finished (BackupTable (pj_disk j) path) \<in> set before \<and> (\<forall>op plan. Spawned op plan \<notin> set after)"
    if no: "\<not> irreversible"
  proof -
    from Failed no h(3) obtain plan a b where tail: "tail = a @ [Spawned (RestoreTable (pj_disk j) path) plan,
        Finished (RestoreTable (pj_disk j) path)] @ b" "list_all is_marker b"
      by (auto simp: ending_def rolled_back_def)
    have "Spawned op plan' \<notin> set (b @ [DroppedDir dir])" for op plan' using tail(2) by (auto simp: list_all_iff)
    with tail(1) tr Failed show ?thesis
      by (intro exI [of _ path] exI [of _ plan] exI [of _ "pre @ [Finished (BackupTable (pj_disk j) path)] @ mid @ a"]
          exI [of _ "b @ [DroppedDir dir]"]) simp
  qed
  with Failed h(4) show ?thesis by (simp add: response_means_def reports_def)
qed

text \<open>C3: The response of a commit tells the truth.  Rejected: nothing was done.  Committed: every
  staged operation completed, in order, and the journal is marked so.  Failed without the
  irreversible flag: the backup taken before the operations was restored, completely, and no command
  ran after that.  Recovery required: the directory it names holds the backup that finished, and it
  was not removed afterwards.\<close>

theorem commit_response_truthful:
  assumes "commit_request mc j s = (Inr x, t)"
  shows "\<exists>new. st_trace t = st_trace s @ new \<and> response_means j x new"
proof (cases rule: commit_request_phases [OF assms])
  case 1
  then obtain es where "x = Rejected es" "es \<noteq> []" by blast
  with 1(1) show ?thesis by (intro exI [of _ "[]"]) (simp add: response_means_def)
next
  case (2 sector_size v)
  from commit_accepted_ends [OF 2(3)] obtain dir path pre mid tail where
    "path = path_join dir ''partition-table.backup''"
    "st_trace t = st_trace v @ (pre @ [Finished (BackupTable (pj_disk j) path)]) @ mid @ tail @
         (if keeps_backup x then [] else [DroppedDir dir])"
    "list_all (backup_effect (pj_disk j)) pre" "list_all (loop_effect (pj_disk j)) mid"
    "ending (pj_disk j) path (Inr x) tail" "reports j dir (Inr x) (st_irreversible t)"
    "is_committed (Inr x) \<longrightarrow> completed_kinds mid = map op_kind (pj_ops j)"
    by auto
  with accepted_response_means [OF refl] 2(2) show ?thesis by metis
qed

section \<open>The irreversible flag\<close>

text \<open>A filesystem was shrunk: the resize stage finished.\<close>

fun shrunk :: "effect \<Rightarrow> bool" where
  "shrunk (Finished (FilesystemResize _ _ _ stage)) = (stage = ''resize'')"
| "shrunk _ = False"

abbreviation not_shrunk :: "effect \<Rightarrow> bool" where
  "not_shrunk e \<equiv> \<not> shrunk e"

text \<open>The flag is never cleared, and while it is not set no filesystem has been shrunk.\<close>

definition flagged :: "'w state \<Rightarrow> 'w state \<Rightarrow> bool" where
  "flagged s t \<longleftrightarrow> (st_irreversible s \<longrightarrow> st_irreversible t) \<and>
     (\<exists>new. st_trace t = st_trace s @ new \<and> (\<not> st_irreversible t \<longrightarrow> list_all not_shrunk new))"

interpretation marks: trace_relation flagged not_shrunk
proof
  show "flagged s s" for s :: "'w state" by (simp add: flagged_def)
  show "flagged s u" if "flagged s t" and "flagged t u" for s t u :: "'w state"
    using that by (auto simp: flagged_def)
qed (simp_all add: flagged_def)

lemma set_irreversible_flagged: "marks.keeps (set_irreversible True)"
  by (simp add: marks.keeps_def flagged_def set_irreversible_def)

lemma not_shrunk_run:
  assumes "run_disk_operation mc op s = (r, t)" and "input_backup_path op = None" and "r = Inr () \<longrightarrow> not_shrunk (Finished op)"
  shows "extends not_shrunk s t \<and> st_irreversible t = st_irreversible s"
proof (cases r)
  case (Inl e)
  with assms run_err [of mc op s e t] show ?thesis by (auto simp: extends_def)
next
  case (Inr u)
  with assms run_ok [of mc op s u t] show ?thesis by (auto simp: extends_def)
qed

text \<open>A shrink that fails has shrunk nothing: the resize is the last stage.\<close>

definition steady :: "'w state \<Rightarrow> 'w state \<Rightarrow> bool" where
  "steady s t \<longleftrightarrow> extends not_shrunk s t \<and> st_irreversible t = st_irreversible s"

definition fails_steady :: "('w state, 'e, 'a) comp \<Rightarrow> bool" where
  "fails_steady m \<longleftrightarrow> (\<forall>s e t. m s = (Inl e, t) \<longrightarrow> steady s t)"

lemma fails_steady_then:
  assumes "\<And>s r t. m s = (r, t) \<Longrightarrow> steady s t" and "\<And>x. fails_steady (f x)"
  shows "fails_steady (then_do m f)"
  unfolding fails_steady_def
proof (intro allI impI)
  fix s e t assume "then_do m f s = (Inl e, t)"
  then consider "m s = (Inl e, t)" | x u where "m s = (Inr x, u)" "f x u = (Inl e, t)"
    by (auto simp: then_do_Inl)
  then show "steady s t"
  proof cases
    case 2
    with assms have "steady s u" "steady u t" by (auto simp: fails_steady_def)
    then show ?thesis using emits.R_trans by (auto simp: steady_def)
  qed (rule assms)
qed

lemma fails_steady_return: "fails_steady (return_err e)"
  by (simp add: fails_steady_def steady_def emits.R_refl)

lemma fails_steady_last: "fails_steady m \<Longrightarrow> fails_steady (then_do m (\<lambda>_. return_ok ()))"
  by (auto simp: fails_steady_def then_do_Inl)

lemma fails_steady_run: "input_backup_path op = None \<Longrightarrow> fails_steady (run_disk_operation mc op)"
  using not_shrunk_run by (fastforce simp: fails_steady_def steady_def)

lemma steady_run:
  "run_disk_operation mc op s = (r, t) \<Longrightarrow> input_backup_path op = None \<Longrightarrow> not_shrunk (Finished op) \<Longrightarrow> steady s t"
  using not_shrunk_run by (fastforce simp: steady_def)

lemma fails_steady_shrink: "fails_steady (shrink_filesystem mc device fs n)"
proof -
  have "fails_steady (for_each (\<lambda>stage. run_disk_operation mc (FilesystemResize device ''ntfs'' n stage))
      [''check'', ''info'', ''dry_run'', ''resize''])"
    unfolding for_each.simps
    by (intro fails_steady_then fails_steady_last fails_steady_run) (auto intro: steady_run)
  moreover have "fails_steady (then_do (run_disk_operation mc (FilesystemCheck device))
      (\<lambda>_. run_disk_operation mc (FilesystemResize device ''ext4'' n ''resize'')))"
    by (intro fails_steady_then fails_steady_run) (auto intro: steady_run)
  ultimately show ?thesis
    by (simp add: shrink_filesystem_def fails_steady_return del: for_each.simps)
qed

lemma marks_shrink:
  assumes "\<And>x. marks.keeps (f x)"
  shows "marks.keeps (then_do (shrink_filesystem mc device fs n) (\<lambda>_. then_do (set_irreversible True) f))"
  unfolding marks.keeps_def
proof
  fix s
  let ?m = "shrink_filesystem mc device fs n" and ?g = "\<lambda>_::unit. then_do (set_irreversible True) f"
  show "flagged s (snd (then_do ?m ?g s))"
  proof (cases rule: then_do_cases [of ?m s ?g])
    case (err e u)
    have "steady s u" using fails_steady_shrink err(1) unfolding fails_steady_def by blast
    with err show ?thesis by (auto simp: steady_def flagged_def extends_def)
  next
    case (ok x u)
    obtain new where "st_trace u = st_trace s @ new"
      using emits.keepsD [OF keeps_shrink ok(1)] by (auto simp: extends_def)
    then have "flagged s (u\<lparr>st_irreversible := True\<rparr>)" by (simp add: flagged_def)
    moreover have "flagged (u\<lparr>st_irreversible := True\<rparr>) (snd (?g x u))"
      using assms [of "()"] by (simp add: then_do_steps marks.keeps_def)
    ultimately show ?thesis using ok(2) marks.R_trans by metis
  qed
qed

lemma marks_flag: "marks.keeps (flag_partition mc d p f)"
  unfolding flag_partition_def split_beta
  by (intro marks.keeps_rules marks.keeps_probes marks.keeps_run) auto

lemma marks_esp:
  assumes "esp_flag_operation m target d before uuid = Inr esp_flag"
  shows "marks.keeps (case esp_flag of None \<Rightarrow> return_ok () | Some op \<Rightarrow> run_disk_operation mc op)"
  using assms by (auto simp: esp_flag_operation_def marks.keeps_pure intro!: marks.keeps_run split: if_splits)

lemma marks_execute: "marks.keeps (execute_operation mc kind j sector_size)"
proof -
  have nt: "marks.keeps (exec_new_table mc j params sector_size)" for params
    unfolding exec_new_table_def Let_def
    by (intro marks.keeps_rules marks.keeps_probes marks.keeps_run marks_flag marks.keeps_find_new) auto
  have cr: "marks.keeps (exec_create mc j params before sector_size)" for params before
    unfolding exec_create_def Let_def
    by (intro marks.keeps_rules marks.keeps_probes marks.keeps_run marks_flag marks.keeps_find_new) auto
  have de: "marks.keeps (exec_delete mc j target before)" for target before
    unfolding exec_delete_def split_beta by (intro marks.keeps_rules marks.keeps_probes marks.keeps_run) auto
  have re: "marks.keeps (exec_resize mc j params target sector_size)" for params target
    unfolding exec_resize_def Let_def split_beta
    by (intro marks.keeps_if marks.keeps_pure marks.keeps_then [OF marks.keeps_probes(5)]
        marks.keeps_then [OF marks.keeps_pure(3)] marks_shrink marks.keeps_then [OF marks.keeps_probes(7)]
        marks.keeps_then [OF marks.keeps_probes(9)] marks.keeps_then [OF marks.keeps_run]) auto
  have fo: "marks.keeps (exec_format mc j params target)" for params target
    unfolding exec_format_def by (intro marks.keeps_rules marks.keeps_run set_irreversible_flagged) auto
  have se: "marks.keeps (exec_set_mountpoint mc j params target before)" for params target before
    unfolding exec_set_mountpoint_def split_beta
    by (rule marks.keeps_then [OF marks.keeps_probes(9)], rule marks.keeps_lift, rule marks.keeps_then,
        erule marks_esp, rule marks.keeps_pure)
  show ?thesis
    unfolding execute_operation_def Let_def
    by (intro marks.keeps_rules marks.keeps_probes nt cr de re fo se)
qed

lemma marks_failure: "marks.keeps (commit_failure mc dir path kind target error j)"
proof -
  have marker: "marks.keeps (write_rollback_marker dir d stage detail)" for d stage detail
    unfolding write_rollback_marker_def by (intro marks.keeps_rules marks.keeps_record) auto
  show ?thesis
    unfolding commit_failure_def
    by (intro marks.keeps_rules marks.keeps_run marker) auto
qed

lemma marks_loop: "marks.keeps (commit_loop mc dir path sector_size is j)"
proof (induction "is" arbitrary: j)
  case Nil
  show ?case unfolding commit_loop.simps Let_def by (intro marks.keeps_rules)
next
  case (Cons i "is")
  show ?case unfolding commit_loop.simps Let_def
    by (intro marks.keeps_rules marks.keeps_emit marks_execute marks_failure Cons.IH) auto
qed

text \<open>The commit as a whole: a filesystem that was shrunk is covered by the flag, or the commit ended in
  an error.\<close>

lemma backup_not_shrunk: "backup_effect d e \<Longrightarrow> not_shrunk e"
  by (auto elim!: backup_effect.elims)

lemma accepted_ok:
  assumes "commit_accepted mc j sector_size s = (Inr x, t)"
  obtains u w dir path s3 t' where
    "for_each (\<lambda>path. persist_external_backup mc path (pj_disk j)) (external_backup_paths j) s = (Inr (), u)"
    and "run_disk_operation mc (BackupTable (pj_disk j) path) (u\<lparr>st_world := w\<rparr>) = (Inr (), s3)"
    and "commit_loop mc dir path sector_size [0..<length (pj_ops j)] j (s3\<lparr>st_irreversible := False\<rparr>) = (Inr x, t')"
    and "st_irreversible t = st_irreversible t'" and "extends not_shrunk t' t"
proof -
  from assms obtain u dir w where p: "for_each (\<lambda>path. persist_external_backup mc path (pj_disk j))
        (external_backup_paths j) s = (Inr (), u)" and
      s2: "scoped_dir keeps_backup dir (commit_with_backup mc j sector_size dir) (u\<lparr>st_world := w\<rparr>) = (Inr x, t)"
    by (auto simp: commit_accepted_def then_do_def split: prod.splits sum.splits)
  obtain t' where t': "commit_with_backup mc j sector_size dir (u\<lparr>st_world := w\<rparr>) = (Inr x, t')"
      "st_irreversible t = st_irreversible t'" "extends not_shrunk t' t"
    using s2 by (auto simp: scoped_dir_def extends_def split: prod.splits if_splits)
  then show thesis using p that
    by (auto simp: commit_with_backup_def Let_def set_irreversible_def)
qed

lemma accepted_flagged:
  assumes "commit_accepted mc j sector_size s = (Inr x, t)" and "\<not> st_irreversible t"
  shows "extends not_shrunk s t"
proof (rule accepted_ok [OF assms(1)])
  fix u w dir path s3 t'
  assume p: "for_each (\<lambda>path. persist_external_backup mc path (pj_disk j)) (external_backup_paths j) s = (Inr (), u)"
    and b: "run_disk_operation mc (BackupTable (pj_disk j) path) (u\<lparr>st_world := w\<rparr>) = (Inr (), s3)"
    and loop: "commit_loop mc dir path sector_size [0..<length (pj_ops j)] j (s3\<lparr>st_irreversible := False\<rparr>) = (Inr x, t')"
    and t': "st_irreversible t = st_irreversible t'" "extends not_shrunk t' t"
  have "flagged (s3\<lparr>st_irreversible := False\<rparr>) t'" by (rule marks.keepsD [OF marks_loop loop])
  then have "extends not_shrunk s3 t'" using assms(2) t'(1) by (auto simp: flagged_def extends_def)
  moreover have "extends not_shrunk u s3" using run_ok [OF b] by (auto simp: extends_def)
  moreover have "extends not_shrunk s u"
    using emits.keepsD [OF emits.keeps_for_each [OF keeps_persist] p] backup_not_shrunk
    by (fastforce simp: extends_def list_all_iff)
  ultimately show ?thesis using t'(2) emits.R_trans by metis
qed

text \<open>The response admits that the old state cannot be restored.\<close>

fun admits_loss :: "commit_response \<Rightarrow> bool" where
  "admits_loss (Failed irreversible _ _) = irreversible"
| "admits_loss (RecoveryRequired _ _ _ _) = True"
| "admits_loss (Committed _ j) = pj_irreversible_completed j"
| "admits_loss (Rejected _) = False"

lemma admits_loss_reports: "reports j dir (Inr x) b \<Longrightarrow> \<not> admits_loss x \<Longrightarrow> \<not> b"
  by (cases x) (auto simp: reports_def)



text \<open>Creating a partition, and the filesystem on it, never sets the flag: a later failure restores the
  partition table and reports a clean rollback although the new filesystem has overwritten what was
  there.\<close>

definition same_flag :: "'w state \<Rightarrow> 'w state \<Rightarrow> bool" where
  "same_flag s t \<longleftrightarrow> st_irreversible t = st_irreversible s"

interpretation unflagged: trace_relation same_flag "\<lambda>_. True"
  by unfold_locales (simp_all add: same_flag_def)

lemma create_leaves_flag:
  assumes "execute_operation mc ''create'' j sector_size s = (r, t)"
  shows "st_irreversible t = st_irreversible s"
proof -
  have flag: "unflagged.keeps (flag_partition mc d p f)" for d p f
    unfolding flag_partition_def split_beta
    by (intro unflagged.keeps_rules unflagged.keeps_probes unflagged.keeps_run) auto
  have "unflagged.keeps (exec_create mc j params before sector_size)" for params before
    unfolding exec_create_def Let_def
    by (intro unflagged.keeps_rules unflagged.keeps_run flag unflagged.keeps_find_new) auto
  then have "unflagged.keeps (execute_operation mc ''create'' j sector_size)"
    unfolding execute_operation_def Let_def
    by (auto intro!: unflagged.keeps_then unflagged.keeps_quiet unflagged.keeps_probes)
  from unflagged.keepsD [OF this assms] show ?thesis by (simp add: same_flag_def)
qed

section \<open>Finding a new partition\<close>

text \<open>The document \<open>lsblk\<close> prints is an object whose only member is the array of devices: the object
  itself has no type and no children.\<close>

definition lsblk_document :: "json \<Rightarrow> bool" where
  "lsblk_document v \<longleftrightarrow> json_get v ''type'' = None \<and> json_get v ''children'' = None"

lemma candidates_of_document: "lsblk_document v \<Longrightarrow> candidates_walk before start n v = []"
  by (simp add: lsblk_document_def candidates_walk.simps [of before start n v] candidate_partition_def
      json_text_def json_entries_def)

lemma probe_json_ok:
  assumes "probe_json mc args s = (Inr v, t)"
  shows "\<exists>out w. mc_cmd mc args (st_world s) = (Output out, w) \<and> mc_json mc out = Some v"
proof (cases "mc_cmd mc args (st_world s)")
  case (Pair result w)
  with assms show ?thesis by (cases result) (auto simp: probe_json_def then_do_def ok_or_def split: option.splits)
qed

lemma find_new_fails:
  assumes "\<And>disk w out w' v. mc_cmd mc [''/usr/bin/lsblk'', ''--json'', ''--bytes'', ''--paths'', ''--output'',
      ''NAME,TYPE,START,SIZE'', disk] w = (Output out, w') \<Longrightarrow> mc_json mc out = Some v \<Longrightarrow> lsblk_document v"
  shows "find_new_partition mc disk before start n s \<noteq> (Inr name, t)"
proof
  assume "find_new_partition mc disk before start n s = (Inr name, t)"
  then obtain d v u where "probe_json mc [''/usr/bin/lsblk'', ''--json'', ''--bytes'', ''--paths'', ''--output'',
        ''NAME,TYPE,START,SIZE'', d] s = (Inr v, u)" "candidates_walk before start n v \<noteq> []"
    by (simp add: find_new_partition_def split: list.split_asm) (metis list.exhaust)
  with assms candidates_of_document show False by (metis probe_json_ok)
qed

text \<open>What \<open>lsblk\<close> prints when asked for the partitions of a disk is such a document.\<close>

definition lists_documents :: "'w machine \<Rightarrow> bool" where
  "lists_documents mc \<longleftrightarrow> (\<forall>disk w out w' v.
     mc_cmd mc [''/usr/bin/lsblk'', ''--json'', ''--bytes'', ''--paths'', ''--output'', ''NAME,TYPE,START,SIZE'', disk] w
       = (Output out, w') \<and> mc_json mc out = Some v \<longrightarrow> lsblk_document v)"

lemma create_fails:
  assumes "lists_documents mc" and "execute_operation mc ''create'' j sector_size s = (r, t)"
  shows "\<exists>e. r = Inl e"
proof (rule ccontr)
  assume "\<nexists>e. r = Inl e"
  then obtain name where "r = Inr name" by (cases r) auto
  with assms(2) obtain disk before start n u c v where "find_new_partition mc disk before start n u = (Inr c, v)"
    by (auto simp: execute_operation_def exec_create_def Let_def)
  with find_new_fails assms(1) show False unfolding lists_documents_def by metis
qed

lemma create_loop_fails:
  assumes "lists_documents mc" and "i \<in> set is" and "op_kind (pj_ops j ! i) = ''create''"
    and "commit_loop mc dir path sector_size is j s = (r, t)"
  shows "\<not> is_committed r"
  using assms(2-4)
proof (induction "is" arbitrary: j s)
  case (Cons k ks)
  show ?case
  proof (cases rule: commit_loop_step [OF Cons.prems(3)])
    case (2 s1 res s2 j')
    have kinds: "op_kind (pj_ops j' ! i) = ''create''"
      using Cons.prems(2) by (simp add: 2(5) update_keeps_kind)
    show ?thesis
    proof (cases res)
      case (Inl e)
      with 2(6) commit_failure_reports show ?thesis by fastforce
    next
      case (Inr tgt)
      with 2(4) create_fails [OF assms(1)] Cons.prems(2) have "i \<noteq> k" by fastforce
      with Cons.prems(1) have i: "i \<in> set ks" by simp
      from Inr 2(6) have "(\<exists>e. r = Inl e) \<or> (\<exists>s3. commit_loop mc dir path sector_size ks j' s3 = (r, t))" by auto
      with Cons.IH [OF i kinds] show ?thesis by auto
    qed
  qed auto
qed simp

text \<open>C26: No journal that creates a partition can be committed: the search for the created partition
  looks at the top-level object of the document and at its children, and never at its list of
  devices, so the operation fails after the partition has been made.\<close>

theorem create_never_commits:
  assumes "lists_documents mc" and "x \<in> set (pj_ops j)" and "op_kind x = ''create''"
    and "commit_request mc j s = (r, t)"
  shows "\<not> is_committed r"
proof (cases rule: commit_request_phases [OF assms(4)])
  case 1
  then show ?thesis by (cases r) auto
next
  case (2 sector_size v)
  obtain i where i: "i \<in> set [0..<length (pj_ops j)]" "op_kind (pj_ops j ! i) = ''create''"
    using assms(2,3) by (auto simp: in_set_conv_nth)
  show ?thesis
  proof
    assume "is_committed r"
    then obtain x where x: "r = Inr x" by (cases r) auto
    obtain dir path u u' where "commit_loop mc dir path sector_size [0..<length (pj_ops j)] j u = (r, u')"
      by (rule accepted_ok [OF 2(3) [unfolded x]]) (simp add: x)
    with create_loop_fails [OF assms(1) i] \<open>is_committed r\<close> show False by blast
  qed
qed

section \<open>The snapshot cache\<close>

lemma fresh_entry_Some: "now - at < 5000 \<Longrightarrow> fresh_entry now (Some (at, v)) = Some v"
  by (simp add: fresh_entry_def PARTITION_SNAPSHOT_TTL_def)

text \<open>A cached snapshot is returned for five seconds whatever the disk looks like by then, and after
  an invalidation the live disk is read and the answer is cached.\<close>

theorem snapshot_cache_window:
  assumes "normalize_device_path raw = Some disk"
  shows "(\<forall>s at v. map_of (st_cache s) disk = Some (at, v) \<and> mc_now mc (st_world s) - at < 5000 \<longrightarrow>
       cached_runtime_lsblk mc raw s = (Inr v, s)) \<and>
    (\<forall>s v t. cached_runtime_lsblk mc raw (s\<lparr>st_cache := []\<rparr>) = (Inr v, t) \<longrightarrow>
       (\<exists>u. runtime_lsblk mc disk (s\<lparr>st_cache := []\<rparr>) = (Inr v, u) \<and>
          map_of (st_cache t) disk = Some (mc_now mc (st_world u), v)))"
  using assms
  by (auto simp: cached_runtime_lsblk_def safe_disk_def cache_get_def cache_put_def then_do_os
      fresh_entry_def PARTITION_SNAPSHOT_TTL_def map_of_map_insert then_do_def
      split: option.splits if_splits prod.splits sum.splits)

section \<open>Validation and execution disagree\<close>

text \<open>Validation reserves one mebibyte for the BIOS boot partition and execution creates it with two:
  a root partition at two mebibytes is accepted and overlaps it.  Validation asks for 512-byte
  alignment and execution for one mebibyte: an accepted partition is refused when it is created, after
  the table has been replaced.\<close>

theorem accepted_layout_not_executable:
  "validate (journal_of [table_op, create_root_op 1 2097152 42949672960]) [] ''gpt'' 107374182400 = [] \<and>
   1024 * 1024 < (2097152 :: nat) \<and> 2097152 < 1024 * 1024 + BIOS_BOOT_BYTES \<and>
   validate (journal_of [table_op, create_root_op 1 3146240 42949672960]) [] ''gpt'' 107374182400 = [] \<and>
   build_plan_with_probes probes (CreatePartition ''/dev/sda'' 3146240 42949672960 ''btrfs'' [] 512) = Inl GeometryUnaligned"
proof -
  have "normalized_name ''btrfs'' = ''btrfs''" by (simp add: normalized_name_def str_simps)
  moreover have "is_power_of_two 512" by (simp add: is_power_of_two.simps)
  ultimately show ?thesis
    using validate_table_root [of 2097152 42949672960 107374182400 "[]"]
      validate_table_root [of 3146240 42949672960 107374182400 "[]"]
    by (simp add: i64_max_def BIOS_BOOT_BYTES_def partition_end_def PARTITION_ALIGN_BYTES_def safe_label_def
        MAX_LABEL_BYTES_def)
qed

section \<open>Waiting ends\<close>

lemma wait_loop_spec:
  assumes "wait_loop poll delay timeout i = (outcome, n)"
  shows "i \<le> n \<and> (n \<le> 10 * timeout \<or> n = i) \<and> list_all (\<lambda>k. poll k = StillRunning \<and> 100 * k + delay k < 1000 * timeout) [i..<n] \<and>
    (case outcome of
       WaitExited code \<Rightarrow> poll n = Exited code
     | WaitPollError \<Rightarrow> poll n = PollFailed
     | WaitTimedOut \<Rightarrow> poll n = StillRunning \<and> 1000 * timeout \<le> 100 * n + delay n)"
  using assms
proof (induction poll delay timeout i rule: wait_loop.induct)
  case (1 poll delay timeout i)
  show ?case
  proof (cases "poll i = StillRunning \<and> 100 * i + delay i < 1000 * timeout")
    case True
    with 1 have "i + 1 \<le> n" "n \<le> 10 * timeout \<or> n = i + 1"
      and rest: "list_all (\<lambda>k. poll k = StillRunning \<and> 100 * k + delay k < 1000 * timeout) [i + 1..<n]"
        "case outcome of WaitExited code \<Rightarrow> poll n = Exited code | WaitPollError \<Rightarrow> poll n = PollFailed
         | WaitTimedOut \<Rightarrow> poll n = StillRunning \<and> 1000 * timeout \<le> 100 * n + delay n"
      by (auto simp: wait_loop.simps [of poll delay timeout i])
    moreover from \<open>i + 1 \<le> n\<close> have "[i..<n] = i # [i + 1..<n]" by (simp add: upt_conv_Cons)
    ultimately show ?thesis using True by auto
  next
    case False
    with 1(2) show ?thesis
      by (auto simp: wait_loop.simps [of poll delay timeout i] split: poll.splits if_splits)
  qed
qed

text \<open>C27: The supervision of a disk command ends: after at most ten polls per second of its timeout, with
  the first exit or polling failure, or with a timeout that has really elapsed while every poll found
  the command running.\<close>

theorem wait_loop_ends:
  "let (outcome, n) = wait_loop poll delay timeout 0 in
   n \<le> 10 * timeout \<and> list_all (\<lambda>k. poll k = StillRunning \<and> 100 * k + delay k < 1000 * timeout) [0..<n] \<and>
   (case outcome of
      WaitExited code \<Rightarrow> poll n = Exited code
    | WaitPollError \<Rightarrow> poll n = PollFailed
    | WaitTimedOut \<Rightarrow> poll n = StillRunning \<and> 1000 * timeout \<le> 100 * n + delay n)"
proof (cases "wait_loop poll delay timeout 0")
  case (Pair outcome n)
  with wait_loop_spec [OF Pair] show ?thesis by auto
qed

section \<open>Concrete runs\<close>

definition sample_document :: json where
  "sample_document = JObject [(''blockdevices'', JArray [JObject [(''name'', JString ''/dev/sda''),
     (''type'', JString ''disk''), (''pttype'', JString ''gpt''), (''size'', JNumber (PosInt 107374182400))]])]"

text \<open>A machine with one empty disk; \<open>code\<close> is the exit code of each command, \<open>emit\<close> what becomes of
  an event.\<close>

definition sample_machine :: "(disk_plan \<Rightarrow> int) \<Rightarrow> emit_outcome \<Rightarrow> unit machine" where
  "sample_machine code emit = \<lparr>
     mc_cmd = (\<lambda>args w. (if hd args = ''/usr/bin/blockdev'' then Output ''512'' else Output ''{}'', w)),
     mc_plan_probe = (\<lambda>args w. if hd args = ''/usr/bin/blockdev'' then Output ''512'' else Output ''gpt''),
     mc_exists = (\<lambda>_ _. True),
     mc_exec = (\<lambda>plan w. (\<lparr>proc_started = True, proc_confirmed = True,
        proc_poll = (\<lambda>_. Exited (Some (code plan))), proc_delay = (\<lambda>_. 0)\<rparr>, w)),
     mc_open = (\<lambda>_ _. True), mc_sync = (\<lambda>_ _. True), mc_rename = (\<lambda>_ _ w. (True, w)),
     mc_canonicalize = (\<lambda>p w. (Some p, w)), mc_is_dir = (\<lambda>_ _. True),
     mc_tempdir = (\<lambda>_ _ w. (Some ''/tmp/kyth'', w)),
     mc_emit = (\<lambda>_ w. (emit, w)), mc_now = (\<lambda>_. 0),
     mc_guard = (\<lambda>w. (guard_sample, w)), mc_lock = (\<lambda>w. (lock_sample, w)),
     mc_json = (\<lambda>_. Some sample_document), mc_decode = (\<lambda>_. candidate_snapshot), mc_value = (\<lambda>_. Inr [])\<rparr>"

definition sample_start :: "unit state" where
  "sample_start = \<lparr>st_world = (), st_trace = [], st_cache = [], st_params = JNull, st_irreversible = False\<rparr>"

definition sample_journal :: partition_journal where
  "sample_journal = journal_of [table_op, create_root_op 1 2097152 42949672960]"

definition label_fails :: "disk_plan \<Rightarrow> int" where
  "label_fails plan = (if ''mklabel'' \<in> set (argv plan) then 1 else 0)"

lemma sample_guard:
  "validate_target_disk_with_identity guard_sample ''/dev/sda'' (journal_identity sample_journal) = Inr ()"
proof -
  have "verify_disk_identity (probe_identity guard_sample) ''/dev/sda'' (journal_identity sample_journal) = Inr ()"
    by (simp add: guard_sample_def journal_identity_def sample_journal_def journal_of_def verify_disk_identity_def
        verify_disk_identity_in_snapshot_def identity_device_def candidate_simps str_simps)
  moreover have "validate_target_disk_inner guard_sample ''/dev/sda'' None = Inr ()"
    by (rule guard_sample_passes)
  ultimately show ?thesis
    by (simp add: validate_target_disk_with_identity_def validate_target_disk_inner_def normalized_def
        normalize_plan_sda)
qed

lemmas machine_eval = sample_machine_def probe_json_def then_do_def safe_disk_def normalize_plan_sda

lemma sample_records:
  "runtime_partition_records (sample_machine code emit) ''/dev/sda'' (s\<lparr>st_cache := []\<rparr>) =
     (Inr [], s\<lparr>st_cache := [(''/dev/sda'', 0, sample_document)]\<rparr>)"
  by (simp add: machine_eval runtime_partition_records_def probe_sector_size_def cached_runtime_lsblk_def
      runtime_lsblk_def cache_get_def cache_put_def fresh_entry_def parse_u64_def parse_unsigned_def all_digits_def
      digits_value_def u64_max_def parse_partitions_def parse_snapshot_def valid_512 str_simps)

lemma machine_metadata:
  "runtime_disk_metadata (sample_machine code emit) ''/dev/sda'' (s\<lparr>st_cache := [(''/dev/sda'', 0, sample_document)]\<rparr>) =
     (Inr (''gpt'', 107374182400), s\<lparr>st_cache := [(''/dev/sda'', 0, sample_document)]\<rparr>)"
  by (simp add: machine_eval runtime_disk_metadata_def cached_runtime_lsblk_def cache_get_def fresh_entry_def
      PARTITION_SNAPSHOT_TTL_def sample_document_def json_entries_def disk_metadata_entry_def json_text_def
      json_nat_def str_simps)

lemma sample_sector: "logical_sector_size (\<lambda>args. mc_plan_probe (sample_machine code emit) args w) ''/dev/sda'' = Inr 512"
  by (simp add: sample_machine_def logical_sector_size_def parse_u64_def parse_unsigned_def all_digits_def
      digits_value_def u64_max_def is_power_of_two.simps str_simps)

lemma sample_journal_simps:
  "pj_disk sample_journal = ''/dev/sda''" "pj_ops sample_journal = [table_op, create_root_op 1 2097152 42949672960]"
  "external_backup_paths sample_journal = []"
  by (simp_all add: sample_journal_def journal_of_def external_backup_paths_def table_op_def create_root_op_def)

lemma sample_admitted:
  "commit_request (sample_machine code emit) sample_journal sample_start =
     commit_accepted (sample_machine code emit) sample_journal 512
       (sample_start\<lparr>st_cache := [(''/dev/sda'', 0, sample_document)]\<rparr>)"
proof -
  let ?m = "sample_machine code emit"
  obtain lock where lock: "acquire_disk_lock lock_sample ''/dev/sda'' = Inr lock"
    using lock_sample_taken by (cases "acquire_disk_lock lock_sample ''/dev/sda''") auto
  have g: "mc_guard ?m w = (guard_sample, w)" "mc_lock ?m w = (lock_sample, w)" for w
    by (simp_all add: sample_machine_def)
  have id: "id_serial (journal_identity sample_journal) \<noteq> None"
    by (simp add: journal_identity_def sample_journal_def journal_of_def)
  have v: "validate sample_journal [] ''gpt'' 107374182400 = []"
    unfolding sample_journal_def by (rule validate_table_root) (simp_all add: i64_max_def)
  have rec: "runtime_partition_records ?m ''/dev/sda'' (sample_start\<lparr>st_world := w, st_cache := []\<rparr>) =
      (Inr [], sample_start\<lparr>st_cache := [(''/dev/sda'', 0, sample_document)]\<rparr>)" for w
    using sample_records [of code emit sample_start] by (simp add: sample_start_def)
  show ?thesis
    unfolding commit_request_def commit_request_with_target_guard_def Let_def
    using id
    by (simp only: if_False simp_thms then_do_os then_do_steps g fst_conv snd_conv sample_journal_simps sample_guard
        lock map_err_simps sum.case sample_sector)
      (simp add: then_do_def rec machine_metadata v)
qed

text \<open>Planning and running a command on this machine.\<close>

lemma sample_run:
  assumes "build_plan_with_probes (planning_probes (sample_machine code emit) (st_world s)) op = Inr plan"
    and "\<not> needs_confirmation plan" and "input_backup_path op = None \<or> parent_path (the (input_backup_path op)) \<noteq> None"
  shows "run_disk_operation (sample_machine code emit) op s =
    (if code plan = 0 then (Inr (), s\<lparr>st_trace := st_trace s @ [Spawned op plan, Finished op]\<rparr>)
     else (Inl (ExitedWith (Some (code plan))), s\<lparr>st_trace := st_trace s @ [Spawned op plan]\<rparr>))"
  using assms
  by (auto simp: run_disk_operation_def Let_def then_do_os then_do_def sync_backup_at_eval sync_backup_def
      sample_machine_def wait_loop.simps ok_or_def split: option.splits)

definition backup_file :: string where
  "backup_file = ''/tmp/kyth/partition-table.backup''"

definition backup_plan :: "string \<Rightarrow> nat \<Rightarrow> disk_plan" where
  "backup_plan flag timeout = \<lparr>argv = [''/usr/sbin/sgdisk'', flag, backup_file, ''/dev/sda''],
     timeout_seconds = timeout, needs_confirmation = False\<rparr>"

lemma sample_device: "disk_required_device ''/dev/sda'' lab = Inr ''/dev/sda''"
  by (simp add: disk_required_device_def normalize_plan_sda)

lemma sample_table_type:
  "dp_table_type (planning_probes (sample_machine code emit) w) ''/dev/sda'' = Inr ''gpt''"
  by (simp add: planning_probes_def os_disk_probes_def probe_partition_table_type_def sample_machine_def
      sample_device str_simps)

lemma sample_plans:
  "build_plan_with_probes (planning_probes (sample_machine code emit) w) (BackupTable ''/dev/sda'' backup_file) =
     Inr (backup_plan ''--backup'' 30)"
  "build_plan_with_probes (planning_probes (sample_machine code emit) w) (RestoreTable ''/dev/sda'' backup_file) =
     Inr (backup_plan ''--load-backup'' 60)"
  "build_plan_with_probes (planning_probes (sample_machine code emit) w) (CreateLabel ''/dev/sda'' ''gpt'') =
     Inr \<lparr>argv = [''/usr/sbin/parted'', ''-s'', ''/dev/sda'', ''mklabel'', ''gpt''], timeout_seconds = 30,
          needs_confirmation = False\<rparr>"
proof -
  have path: "safe_absolute_path backup_file lab = Inr backup_file" for lab
    by (simp add: safe_absolute_path_def backup_file_def MAX_PATH_BYTES_def path_char_def str_simps)
  show "build_plan_with_probes (planning_probes (sample_machine code emit) w) (BackupTable ''/dev/sda'' backup_file) =
     Inr (backup_plan ''--backup'' 30)"
    by (simp add: sample_table_type table_tool_def table_backup_plan_def path sample_device backup_plan_def)
  show "build_plan_with_probes (planning_probes (sample_machine code emit) w) (RestoreTable ''/dev/sda'' backup_file) =
     Inr (backup_plan ''--load-backup'' 60)"
    by (simp add: sample_table_type table_tool_def table_restore_plan_def path sample_device backup_plan_def)
  show "build_plan_with_probes (planning_probes (sample_machine code emit) w) (CreateLabel ''/dev/sda'' ''gpt'') =
     Inr \<lparr>argv = [''/usr/sbin/parted'', ''-s'', ''/dev/sda'', ''mklabel'', ''gpt''], timeout_seconds = 30,
          needs_confirmation = False\<rparr>"
    by (simp add: normalized_name_def parted_device_def sample_device str_simps)
qed

lemma backup_parent: "parent_path backup_file = Some ''/tmp/kyth''"
  by (simp add: parent_path_def backup_file_def drop_trivial_def Let_def)

lemma backup_plan_simps:
  "\<not> needs_confirmation (backup_plan flag n)" "flag \<noteq> ''mklabel'' \<Longrightarrow> label_fails (backup_plan flag n) = 0"
  by (auto simp: backup_plan_def label_fails_def backup_file_def)

lemma sample_tables:
  "run_disk_operation (sample_machine label_fails emit) (BackupTable ''/dev/sda'' backup_file) s =
     (Inr (), s\<lparr>st_trace := st_trace s @ [Spawned (BackupTable ''/dev/sda'' backup_file) (backup_plan ''--backup'' 30),
        Finished (BackupTable ''/dev/sda'' backup_file)]\<rparr>)"
  "run_disk_operation (sample_machine label_fails emit) (RestoreTable ''/dev/sda'' backup_file) s =
     (Inr (), s\<lparr>st_trace := st_trace s @ [Spawned (RestoreTable ''/dev/sda'' backup_file) (backup_plan ''--load-backup'' 60),
        Finished (RestoreTable ''/dev/sda'' backup_file)]\<rparr>)"
  by (simp_all add: sample_run [OF sample_plans(1)] sample_run [OF sample_plans(2)] backup_parent backup_plan_simps)

lemma machine_partitions: "runtime_partitions (sample_machine code emit) s = (Inr [], s)"
  by (simp add: runtime_partitions_def machine_eval sample_document_def numbers_walk.simps json_entries_def
      numbered_partition_def json_text_def)

lemma sample_label:
  assumes "st_params s = op_params table_op"
  shows "execute_operation (sample_machine label_fails emit) ''new_table'' sample_journal n s =
     (Inl (ExitedWith (Some 1)), s\<lparr>st_trace := st_trace s @
        [Spawned (CreateLabel ''/dev/sda'' ''gpt'') \<lparr>argv = [''/usr/sbin/parted'', ''-s'', ''/dev/sda'', ''mklabel'', ''gpt''],
           timeout_seconds = 30, needs_confirmation = False\<rparr>]\<rparr>)"
proof -
  have "value_string (op_params table_op) ''table_type'' = ''gpt''"
    by (simp add: value_string_def table_op_def str_simps)
  then show ?thesis
    by (simp add: execute_operation_def then_do_def get_params_def assms machine_partitions
        exec_new_table_def Let_def sample_journal_simps sample_run [OF sample_plans(3)] label_fails_def)
qed

lemma sample_emit: "emit_event (sample_machine code Emitted) v s = (Inr (), s\<lparr>st_trace := st_trace s @ [Event v]\<rparr>)"
  by (simp add: emit_event_def then_do_def sample_machine_def)

definition failed_trace :: "effect list" where
  "failed_trace =
     [Spawned (BackupTable ''/dev/sda'' backup_file) (backup_plan ''--backup'' 30),
      Finished (BackupTable ''/dev/sda'' backup_file),
      Event (step_event ''new_table'' ''started'' ''/dev/sda''),
      Spawned (CreateLabel ''/dev/sda'' ''gpt'') \<lparr>argv = [''/usr/sbin/parted'', ''-s'', ''/dev/sda'', ''mklabel'', ''gpt''],
           timeout_seconds = 30, needs_confirmation = False\<rparr>,
      Marker ''/tmp/kyth.rollback-started'' ''/dev/sda'' (RollbackStarted ''new_table'' [] (ExitedWith (Some 1))),
      Spawned (RestoreTable ''/dev/sda'' backup_file) (backup_plan ''--load-backup'' 60),
      Finished (RestoreTable ''/dev/sda'' backup_file),
      Marker ''/tmp/kyth.rollback-completed'' ''/dev/sda'' (RollbackRestored ''new_table'' [] (ExitedWith (Some 1))),
      DroppedDir ''/tmp/kyth'']"

lemma sample_markers:
  "marker_path ''/tmp/kyth'' ''started'' = Some ''/tmp/kyth.rollback-started''"
  "marker_path ''/tmp/kyth'' ''completed'' = Some ''/tmp/kyth.rollback-completed''"
  by (simp_all add: marker_path_def parent_path_def path_file_name_def drop_trivial_def path_join_def Let_def)

lemma sample_loop:
  assumes "\<not> st_irreversible s" and "st_trace s = take 2 failed_trace"
  shows "\<exists>j t. commit_loop (sample_machine label_fails Emitted) ''/tmp/kyth'' backup_file 512 [0, 1] sample_journal s =
     (Inr (Failed False (ExitedWith (Some 1)) j), t) \<and> st_trace t @ [DroppedDir ''/tmp/kyth''] = failed_trace"
proof -
  have target: "op_kind table_op = ''new_table''" "value_string (op_params table_op) ''partition'' = []"
    by (simp_all add: table_op_def value_string_def str_simps)
  show ?thesis
    using assms
    by (simp add: then_do_def Let_def sample_emit sample_journal_simps target put_params_def attempt_def sample_label
        get_params_def commit_failure_def invalidate_partition_snapshot_cache_def get_irreversible_def
        write_rollback_marker_def sample_markers sample_tables failed_trace_def)
qed

lemma sample_accepted:
  "commit_accepted (sample_machine label_fails emit) sample_journal 512 s =
     scoped_dir keeps_backup ''/tmp/kyth''
       (commit_loop (sample_machine label_fails emit) ''/tmp/kyth'' backup_file 512 [0, 1] sample_journal)
       (s\<lparr>st_trace := st_trace s @ take 2 failed_trace, st_irreversible := False\<rparr>)"
proof -
  have path: "path_join ''/tmp/kyth'' ''partition-table.backup'' = backup_file"
    by (simp add: path_join_def backup_file_def)
  have world: "s\<lparr>st_world := ()\<rparr> = s" for s :: "unit state" by (cases s) simp
  have "mc_tempdir (sample_machine c e) p q w = (Some ''/tmp/kyth'', w)" for c e p q w
    by (simp add: sample_machine_def)
  then show ?thesis
    by (simp add: world commit_accepted_def commit_with_backup_def sample_journal_simps then_do_def
        sample_tables path set_irreversible_def scoped_dir_def failed_trace_def del: commit_loop.simps)
qed

lemma sample_failed:
  "\<exists>j t. commit_request (sample_machine label_fails Emitted) sample_journal sample_start =
     (Inr (Failed False (ExitedWith (Some 1)) j), t) \<and> st_trace t = failed_trace"
proof -
  let ?s = "sample_start\<lparr>st_cache := [(''/dev/sda'', 0, sample_document)], st_trace := take 2 failed_trace, st_irreversible := False\<rparr>"
  obtain j t where loop: "commit_loop (sample_machine label_fails Emitted) ''/tmp/kyth'' backup_file 512 [0, 1] sample_journal ?s =
     (Inr (Failed False (ExitedWith (Some 1)) j), t)" "st_trace t @ [DroppedDir ''/tmp/kyth''] = failed_trace"
    using sample_loop [of ?s] by auto
  moreover have "st_trace sample_start = []" by (simp add: sample_start_def)
  ultimately show ?thesis
    by (simp add: sample_admitted sample_accepted scoped_dir_def del: commit_loop.simps)
qed

text \<open>The same machine when no event can be written: the commit ends in an error before the first
  operation.\<close>

lemma sample_error:
  "\<exists>t. commit_request (sample_machine label_fails FlushFailed) sample_journal sample_start = (Inl EventNotFlushed, t)"
proof -
  have "emit_event (sample_machine code FlushFailed) v s = (Inl EventNotFlushed, s)" for code v and s :: "unit state"
    by (simp add: emit_event_def then_do_def sample_machine_def)
  then show ?thesis
    by (simp add: sample_admitted sample_accepted scoped_dir_def then_do_def Let_def)
qed

theorem commit_guarded_witness:
  "validate_target_disk_with_identity guard_sample ''/dev/sda'' (journal_identity sample_journal) = Inr ()"
proof -
  obtain j t where r: "commit_request (sample_machine label_fails Emitted) sample_journal sample_start =
      (Inr (Failed False (ExitedWith (Some 1)) j), t)" and t: "st_trace t = failed_trace"
    using sample_failed by blast
  have "st_trace t \<noteq> st_trace sample_start" by (simp add: t sample_start_def failed_trace_def)
  with commit_guarded [OF r] show ?thesis by (simp add: sample_machine_def sample_journal_simps)
qed


theorem commit_response_truthful_witness:
  "\<exists>e j. response_means sample_journal (Failed False e j) failed_trace"
proof -
  obtain j t where r: "commit_request (sample_machine label_fails Emitted) sample_journal sample_start =
      (Inr (Failed False (ExitedWith (Some 1)) j), t)" and t: "st_trace t = failed_trace"
    using sample_failed by blast
  from commit_response_truthful [OF r] show ?thesis by (auto simp: t sample_start_def)
qed



theorem create_never_commits_witness:
  "\<not> is_committed (fst (commit_request (sample_machine label_fails Emitted) sample_journal sample_start))"
proof -
  obtain r t where r: "commit_request (sample_machine label_fails Emitted) sample_journal sample_start = (r, t)"
    by (metis surj_pair)
  have "lists_documents (sample_machine label_fails Emitted)"
    by (simp add: lists_documents_def lsblk_document_def sample_machine_def sample_document_def)
  from create_never_commits [OF this _ _ r, of "create_root_op 1 2097152 42949672960"] show ?thesis
    by (simp add: r sample_journal_simps create_root_op_def)
qed

theorem snapshot_cache_window_witness:
  "cached_runtime_lsblk (sample_machine label_fails Emitted) ''/dev/sda''
     (sample_start\<lparr>st_cache := [(''/dev/sda'', 0, JNull)]\<rparr>) =
   (Inr JNull, sample_start\<lparr>st_cache := [(''/dev/sda'', 0, JNull)]\<rparr>)"
  using snapshot_cache_window [OF normalize_plan_sda, of "sample_machine label_fails Emitted"]
  by (simp add: sample_machine_def)

end
