(* ===== verification/Installer_Runtime.thy ===== *)
theory Installer_Runtime
  imports Kyth_Prelude
begin

text \<open>
  The visible state of an installation: \<open>installer_runtime.rs\<close> (the lifecycle and phase of the one
  job, guarded by a mutex: each method is one atomic step) and \<open>installer_mount.rs\<close> (the registry of
  mounts to undo).  The locale \<open>transition_system\<close> is the invariant rule the step relations of the
  installer use.
\<close>

section \<open>Invariants of step relations\<close>

locale transition_system =
  fixes start :: "'s \<Rightarrow> bool" and step :: "'s \<Rightarrow> 's \<Rightarrow> bool" and inv :: "'s \<Rightarrow> bool"
  assumes start_inv: "start s \<Longrightarrow> inv s"
    and step_inv: "inv s \<Longrightarrow> step s t \<Longrightarrow> inv t"
begin

lemma steps_inv: "step\<^sup>*\<^sup>* s t \<Longrightarrow> inv s \<Longrightarrow> inv t"
  by (induction rule: rtranclp_induct) (auto intro: step_inv)

lemma reachable_inv: "start s \<Longrightarrow> step\<^sup>*\<^sup>* s t \<Longrightarrow> inv t"
  using steps_inv start_inv by blast

end

section \<open>Lifecycle and phase\<close>

datatype lifecycle = LcIdle | LcValidated | LcPartitioning | LcInstalling | LcDone | LcFailed

datatype phase = Prepare | Storage | Image | Configure | SecureBoot | Complete

record runtime_snapshot =
  rs_lifecycle :: lifecycle
  rs_phase :: phase
  rs_cancel_requested :: bool

datatype runtime_error =
    AlreadyRunning
  | StartOutOfOrder
  | NothingToCancel
  | PhaseMissing
  | PhaseUnknown
  | PhaseBeforeStart
  | PhaseBackwards phase phase
  | PhaseAfterTerminal
  | DoneOutOfOrder
  | ErrorOutOfOrder

definition runtime_default :: runtime_snapshot where
  "runtime_default = \<lparr>rs_lifecycle = LcIdle, rs_phase = Prepare, rs_cancel_requested = False\<rparr>"

fun phase_order :: "phase \<Rightarrow> nat" where
  "phase_order Prepare = 0"
| "phase_order Storage = 1"
| "phase_order Image = 2"
| "phase_order Configure = 3"
| "phase_order SecureBoot = 4"
| "phase_order Complete = 5"

fun phase_name :: "phase \<Rightarrow> string" where
  "phase_name Prepare = ''prepare''"
| "phase_name Storage = ''storage''"
| "phase_name Image = ''image''"
| "phase_name Configure = ''configure''"
| "phase_name SecureBoot = ''secure_boot''"
| "phase_name Complete = ''complete''"

definition parse_phase :: "string \<Rightarrow> (runtime_error, phase) res" where
  "parse_phase s =
     ok_or PhaseUnknown
       (List.find (\<lambda>p. phase_name p = s) [Prepare, Storage, Image, Configure, SecureBoot, Complete])"

text \<open>Every method runs under the lock; an error leaves the state unchanged.\<close>

definition claim_start :: "runtime_snapshot \<Rightarrow> (runtime_error, runtime_snapshot) res" where
  "claim_start s =
     (if rs_lifecycle s \<in> {LcValidated, LcPartitioning, LcInstalling} then Inl AlreadyRunning
      else Inr (s\<lparr>rs_lifecycle := LcValidated, rs_phase := Prepare, rs_cancel_requested := False\<rparr>))"

definition start_accepted :: "runtime_snapshot \<Rightarrow> (runtime_error, runtime_snapshot) res" where
  "start_accepted s =
     (if rs_lifecycle s \<noteq> LcValidated then Inl StartOutOfOrder else Inr (s\<lparr>rs_lifecycle := LcInstalling\<rparr>))"

definition start_rejected :: "runtime_snapshot \<Rightarrow> (runtime_error, runtime_snapshot) res" where
  "start_rejected s =
     Inr (if rs_lifecycle s = LcValidated then s\<lparr>rs_lifecycle := LcIdle, rs_cancel_requested := False\<rparr> else s)"

definition claim_cancel :: "runtime_snapshot \<Rightarrow> (runtime_error, runtime_snapshot) res" where
  "claim_cancel s =
     (if rs_lifecycle s \<notin> {LcValidated, LcInstalling} then Inl NothingToCancel
      else Inr (s\<lparr>rs_cancel_requested := True\<rparr>))"

definition cancel_rejected :: "runtime_snapshot \<Rightarrow> (runtime_error, runtime_snapshot) res" where
  "cancel_rejected s = Inr (s\<lparr>rs_cancel_requested := False\<rparr>)"

definition phase_event :: "json \<Rightarrow> runtime_snapshot \<Rightarrow> (runtime_error, runtime_snapshot) res" where
  "phase_event event s =
     and_then (ok_or PhaseMissing (Option.bind (json_get event ''phase'') json_as_str)) (\<lambda>name.
     and_then (guard (name \<in> phase_name ` {Prepare, Storage, Image, Configure, SecureBoot, Complete}) PhaseUnknown) (\<lambda>_.
     and_then (guard (rs_lifecycle s \<noteq> LcIdle) PhaseBeforeStart) (\<lambda>_.
     and_then (parse_phase name) (\<lambda>p.
     if phase_order p < phase_order (rs_phase s) then Inl (PhaseBackwards (rs_phase s) p)
     else if rs_lifecycle s \<in> {LcDone, LcFailed} then Inl PhaseAfterTerminal
     else Inr (s\<lparr>rs_phase := p\<rparr>)))))"

definition runtime_event :: "json \<Rightarrow> runtime_snapshot \<Rightarrow> (runtime_error, runtime_snapshot) res" where
  "runtime_event event s =
     (let kind = Option.bind (json_get event ''type'') json_as_str in
      if kind = Some ''phase'' then phase_event event s
      else if kind = Some ''done'' then
        (if rs_lifecycle s \<notin> {LcInstalling, LcValidated} then Inl DoneOutOfOrder
         else Inr (s\<lparr>rs_lifecycle := LcDone, rs_phase := Complete, rs_cancel_requested := False\<rparr>))
      else if kind = Some ''error'' then
        (if rs_lifecycle s \<in> {LcIdle, LcDone, LcFailed} then Inl ErrorOutOfOrder
         else Inr (s\<lparr>rs_lifecycle := LcFailed, rs_cancel_requested := False\<rparr>))
      else Inr s)"

section \<open>What an event can do\<close>

lemma phase_order_inj: "phase_order p = phase_order q \<Longrightarrow> p = q"
  by (cases p; cases q) auto

lemma parse_phase_name: "parse_phase (phase_name p) = Inr p"
  by (cases p) (simp_all add: parse_phase_def)

definition running :: "runtime_snapshot \<Rightarrow> bool" where
  "running s \<longleftrightarrow> rs_lifecycle s \<in> {LcValidated, LcPartitioning, LcInstalling}"

text \<open>An event never starts a job and never revives one, and while it runs its phase never moves back;
  a terminal event ends it exactly once, and a further terminal event is refused.\<close>

theorem runtime_events_progress:
  assumes "runtime_event event s = Inr t"
  shows "(running t \<longrightarrow> running s \<and> phase_order (rs_phase s) \<le> phase_order (rs_phase t) \<and> rs_lifecycle t = rs_lifecycle s) \<and>
    (\<not> running s \<longrightarrow> t = s) \<and>
    (rs_lifecycle t \<in> {LcDone, LcFailed} \<longrightarrow>
       (\<forall>e k. json_get e ''type'' = Some (JString k) \<and> k \<in> {''done'', ''error'', ''phase''} \<longrightarrow> (\<exists>err. runtime_event e t = Inl err)))"
proof -
  have ends: "\<exists>err. runtime_event e t = Inl err"
    if "rs_lifecycle t \<in> {LcDone, LcFailed}" "json_get e ''type'' = Some (JString k)" "k \<in> {''done'', ''error'', ''phase''}" for e k
  proof (cases "runtime_event e t")
    case (Inr u)
    with that show ?thesis by (auto simp: runtime_event_def Let_def phase_event_def split: if_splits)
  qed simp
  have "(running t \<longrightarrow> running s \<and> phase_order (rs_phase s) \<le> phase_order (rs_phase t) \<and> rs_lifecycle t = rs_lifecycle s) \<and>
      (\<not> running s \<longrightarrow> t = s)"
    using assms
    by (cases "rs_lifecycle s")
      (auto simp: runtime_event_def phase_event_def Let_def running_def split: if_splits)
  with ends show ?thesis by blast
qed

section \<open>The mount registry\<close>

text \<open>The stack, bottom first.\<close>

definition mount_register :: "string \<Rightarrow> string list \<Rightarrow> string list" where
  "mount_register path stack = (if path \<in> set stack then stack else stack @ [path])"

fun remove_last :: "'a \<Rightarrow> 'a list \<Rightarrow> 'a list" where
  "remove_last x [] = []"
| "remove_last x (y # ys) = (if x = y \<and> x \<notin> set ys then ys else y # remove_last x ys)"

definition mount_release :: "string \<Rightarrow> string list \<Rightarrow> string list" where
  "mount_release path stack = remove_last path stack"

definition cleanup_order :: "string list \<Rightarrow> string list \<times> string list" where
  "cleanup_order stack = (rev stack, [])"

datatype mount_action = Register string | Release string

fun mount_act :: "mount_action \<Rightarrow> string list \<Rightarrow> string list" where
  "mount_act (Register p) stack = mount_register p stack"
| "mount_act (Release p) stack = mount_release p stack"

lemma remove_last_distinct: "distinct xs \<Longrightarrow> remove_last x xs = filter (\<lambda>y. y \<noteq> x) xs"
proof (induction xs)
  case (Cons y ys)
  then show ?case by (cases "x = y") (auto intro!: filter_True [symmetric])
qed simp

lemma mount_act_distinct: "distinct stack \<Longrightarrow> distinct (mount_act a stack)"
  by (cases a) (auto simp: mount_register_def mount_release_def remove_last_distinct)

text \<open>After any sequence of registrations and releases the cleanup order lists every mount still
  registered, once, the one registered last first, and leaves nothing registered.\<close>

theorem cleanup_lists_registered:
  "let stack = fold mount_act actions [] in
   distinct (fst (cleanup_order stack)) \<and> snd (cleanup_order stack) = [] \<and>
   (\<forall>p. p \<in> set (fst (cleanup_order (mount_act (Register p) stack)))) \<and>
   (\<forall>p. p \<notin> set (fst (cleanup_order (mount_act (Release p) stack)))) \<and>
   (\<forall>p. p \<notin> set stack \<longrightarrow> hd (fst (cleanup_order (mount_act (Register p) stack))) = p)"
proof -
  have "distinct (fold mount_act as stack)" if "distinct stack" for "as" stack
    using that by (induction "as" arbitrary: stack) (auto simp: mount_act_distinct)
  then have "distinct (fold mount_act actions [])" by simp
  then show ?thesis
    by (simp add: Let_def cleanup_order_def mount_register_def mount_release_def remove_last_distinct)
qed

theorem runtime_events_progress_witness:
  "let event = JObject [(''type'', JString ''done'')]; s = runtime_default\<lparr>rs_lifecycle := LcInstalling\<rparr>;
       t = s\<lparr>rs_lifecycle := LcDone, rs_phase := Complete\<rparr> in
   runtime_event event s = Inr t \<and> (\<exists>err. runtime_event event t = Inl err)"
proof -
  let ?event = "JObject [(''type'', JString ''done'')]" and ?s = "runtime_default\<lparr>rs_lifecycle := LcInstalling\<rparr>"
  let ?t = "?s\<lparr>rs_lifecycle := LcDone, rs_phase := Complete\<rparr>"
  have r: "runtime_event ?event ?s = Inr ?t" by (simp add: runtime_event_def runtime_default_def)
  have k: "json_get ?event ''type'' = Some (JString ''done'')" by simp
  have "\<exists>err. runtime_event ?event ?t = Inl err" using runtime_events_progress [OF r] k by (simp add: runtime_default_def)
  with r show ?thesis by (simp add: Let_def)
qed

end
