(* ===== verification/Installer_Job.thy ===== *)
theory Installer_Job
  imports Installer_Runtime
begin

text \<open>
  The job supervisor, \<open>installer_job.rs\<close>: one worker thread runs the six phases, callers start and
  cancel, subscribers replay the event history.  Every section that holds the state lock is one
  function on \<open>job_state\<close>; \<open>sup_step\<close> interleaves these sections and the atomic accesses to the
  cancellation tokens of any number of callers and workers.  The executor is nondeterministic: a
  phase returns any result, or panics, which the worker turns into an error.  A poisoned lock is not
  modelled: no section panics while it holds the lock.
\<close>

section \<open>Data\<close>

datatype job_event_kind =
    EvPhase phase
  | EvDone "string option" "bool option"
  | EvError string "phase option" bool

record job_event =
  ev_id :: nat
  ev_kind :: job_event_kind

record event_replay =
  er_events :: "job_event list"
  er_next_event_id :: nat
  er_reset_required :: bool

text \<open>A token is the number of its allocation; whether it is cancelled is part of the system.\<close>

record job_state =
  js_next_job_id :: nat
  js_next_event_id :: nat
  js_job_id :: "nat option"
  js_runtime :: runtime_snapshot
  js_cancellation :: "nat option"
  js_worker_active :: bool
  js_worker_id :: "nat option"
  js_terminal_event_id :: "nat option"
  js_history :: "job_event list"

record job_snapshot =
  sn_job_id :: "nat option"
  sn_runtime :: runtime_snapshot
  sn_worker_active :: bool
  sn_terminal_event_id :: "nat option"

datatype job_error = JobRunning | JobNotRunning

definition MAX_EVENT_HISTORY :: nat where
  "MAX_EVENT_HISTORY = 1024"

definition PHASES :: "phase list" where
  "PHASES = [Prepare, Storage, Image, Configure, SecureBoot, Complete]"

definition CANCELLATION_MESSAGE :: string where
  "CANCELLATION_MESSAGE = ''Installation cancelled by user. Disk changes may have already started.''"

definition job_default :: job_state where
  "job_default = \<lparr>js_next_job_id = 0, js_next_event_id = 0, js_job_id = None, js_runtime = runtime_default,
     js_cancellation = None, js_worker_active = False, js_worker_id = None, js_terminal_event_id = None,
     js_history = []\<rparr>"

section \<open>Sections under the state lock\<close>

text \<open>The loop that drops events from the front leaves the last \<open>MAX_EVENT_HISTORY\<close>.\<close>

definition append_event :: "job_event_kind \<Rightarrow> job_state \<Rightarrow> nat \<times> job_state" where
  "append_event kind s =
     (let i = saturating_add (js_next_event_id s) 1;
          h = js_history s @ [\<lparr>ev_id = i, ev_kind = kind\<rparr>]
      in (i, s\<lparr>js_next_event_id := i, js_history := drop (length h - MAX_EVENT_HISTORY) h\<rparr>))"

definition replay_locked :: "job_state \<Rightarrow> nat \<Rightarrow> event_replay" where
  "replay_locked s last_event_id =
     \<lparr>er_events = filter (\<lambda>e. ev_id e > last_event_id) (js_history s),
      er_next_event_id = js_next_event_id s,
      er_reset_required = (case js_history s of [] \<Rightarrow> False | e # _ \<Rightarrow> saturating_add last_event_id 1 < ev_id e)\<rparr>"

definition job_snapshot_of :: "job_state \<Rightarrow> job_snapshot" where
  "job_snapshot_of s = \<lparr>sn_job_id = js_job_id s, sn_runtime = js_runtime s,
     sn_worker_active = js_worker_active s, sn_terminal_event_id = js_terminal_event_id s\<rparr>"

text \<open>\<open>start\<close>: the claim with the new token, and the release when the job could not be recorded or
  its thread not be spawned.\<close>

definition claim_slot :: "nat \<Rightarrow> job_state \<Rightarrow> (job_error, nat \<times> nat) res \<times> job_state" where
  "claim_slot token s =
     (if js_worker_active s then (Inl JobRunning, s)
      else
        let jid = saturating_add (js_next_job_id s) 1 in
        (Inr (jid, saturating_add (js_next_event_id s) 1),
         s\<lparr>js_next_job_id := jid, js_job_id := Some jid,
           js_runtime := \<lparr>rs_lifecycle = LcValidated, rs_phase = Prepare, rs_cancel_requested = False\<rparr>,
           js_cancellation := Some token, js_worker_active := True, js_worker_id := None,
           js_terminal_event_id := None\<rparr>))"

definition release_slot :: "job_state \<Rightarrow> job_state" where
  "release_slot s =
     s\<lparr>js_worker_active := False, js_worker_id := None, js_cancellation := None,
       js_runtime := (js_runtime s)\<lparr>rs_lifecycle := LcFailed, rs_cancel_requested := False\<rparr>\<rparr>"

definition request_cancel :: "job_state \<Rightarrow> (job_error, nat option) res \<times> job_state" where
  "request_cancel s =
     (if \<not> js_worker_active s then (Inl JobNotRunning, s)
      else (Inr (js_cancellation s), s\<lparr>js_runtime := (js_runtime s)\<lparr>rs_cancel_requested := True\<rparr>\<rparr>))"

definition owns :: "nat \<Rightarrow> job_state \<Rightarrow> bool" where
  "owns job s \<longleftrightarrow> js_job_id s = Some job \<and> js_worker_active s"

definition begin_worker :: "nat \<Rightarrow> nat \<Rightarrow> job_state \<Rightarrow> job_state" where
  "begin_worker thread job s =
     (if \<not> owns job s then s
      else s\<lparr>js_worker_id := Some thread, js_runtime := (js_runtime s)\<lparr>rs_lifecycle := LcInstalling\<rparr>\<rparr>)"

definition enter_phase :: "nat \<Rightarrow> phase \<Rightarrow> job_state \<Rightarrow> job_state" where
  "enter_phase job p s =
     (if \<not> owns job s then s
      else snd (append_event (EvPhase p) (s\<lparr>js_runtime := (js_runtime s)\<lparr>rs_phase := p\<rparr>\<rparr>)))"

definition finish_terminal :: "nat \<Rightarrow> job_event_kind \<Rightarrow> job_state \<Rightarrow> job_state" where
  "finish_terminal job event s =
     (if \<not> owns job s then s
      else
        let s = s\<lparr>js_runtime := (js_runtime s)\<lparr>rs_lifecycle := LcFailed, rs_cancel_requested := False\<rparr>,
                  js_cancellation := None, js_worker_active := False, js_worker_id := None\<rparr>;
            (i, s) = append_event event s
        in s\<lparr>js_terminal_event_id := Some i\<rparr>)"

definition finish_cancelled :: "nat \<Rightarrow> phase option \<Rightarrow> job_state \<Rightarrow> job_state" where
  "finish_cancelled job p = finish_terminal job (EvError CANCELLATION_MESSAGE p True)"

definition finish_error :: "nat \<Rightarrow> phase \<Rightarrow> string \<Rightarrow> job_state \<Rightarrow> job_state" where
  "finish_error job p message = finish_terminal job (EvError message (Some p) False)"

definition finish_done :: "nat \<Rightarrow> string option \<Rightarrow> job_state \<Rightarrow> job_state" where
  "finish_done job mok_state s =
     (let confirm = mok_state = Some ''staged'' \<or> mok_state = Some ''pending'';
          s = s\<lparr>js_runtime := \<lparr>rs_lifecycle = LcDone, rs_phase = Complete, rs_cancel_requested = False\<rparr>,
                js_cancellation := None, js_worker_active := False, js_worker_id := None\<rparr>;
          (i, s) = append_event (EvDone mok_state (if confirm then Some True else None)) s
      in s\<lparr>js_terminal_event_id := Some i\<rparr>)"

section \<open>The interleaving\<close>

text \<open>Where a worker is: before its first section; at the head of the loop with the phases left; past
  the token check; executing; back with a result; on its way to report; finished.\<close>

datatype worker_pc =
    Starting
  | LoopHead "phase list"
  | Entering phase "phase list"
  | Executing phase "phase list"
  | Executed phase "phase list" "(string, unit) res"
  | Cancelling phase
  | Failing phase string
  | Stopped

record worker =
  w_job :: nat
  w_thread :: nat
  w_token :: "nat option"
  w_pc :: worker_pc

datatype start_pc = Claimed | Recorded

record supervisor =
  sy_state :: job_state
  sy_cancelled :: "nat \<Rightarrow> bool"
  sy_next_token :: nat
  sy_next_thread :: nat
  sy_starters :: "(nat \<times> start_pc) list"
  sy_cancels :: "nat list"
  sy_workers :: "worker list"

definition token_cancelled :: "(nat \<Rightarrow> bool) \<Rightarrow> worker \<Rightarrow> bool" where
  "token_cancelled cancelled w \<longleftrightarrow> (case w_token w of None \<Rightarrow> False | Some t \<Rightarrow> cancelled t)"

text \<open>One step of \<open>run_worker\<close>.\<close>

inductive worker_step :: "(nat \<Rightarrow> bool) \<Rightarrow> worker \<Rightarrow> job_state \<Rightarrow> worker \<Rightarrow> job_state \<Rightarrow> bool" where
  worker_begin: "w_pc w = Starting \<Longrightarrow>
    worker_step c w s
      (if owns (w_job w) s then w\<lparr>w_token := js_cancellation s, w_pc := LoopHead PHASES\<rparr> else w\<lparr>w_pc := Stopped\<rparr>)
      (begin_worker (w_thread w) (w_job w) s)"
| worker_head_cancelled: "w_pc w = LoopHead (p # ps) \<Longrightarrow> token_cancelled c w \<Longrightarrow>
    worker_step c w s (w\<lparr>w_pc := Cancelling p\<rparr>) s"
| worker_head: "w_pc w = LoopHead (p # ps) \<Longrightarrow> \<not> token_cancelled c w \<Longrightarrow>
    worker_step c w s (w\<lparr>w_pc := Entering p ps\<rparr>) s"
| worker_enter: "w_pc w = Entering p ps \<Longrightarrow>
    worker_step c w s (w\<lparr>w_pc := (if owns (w_job w) s then Executing p ps else Stopped)\<rparr>) (enter_phase (w_job w) p s)"
| worker_execute: "w_pc w = Executing p ps \<Longrightarrow> worker_step c w s (w\<lparr>w_pc := Executed p ps r\<rparr>) s"
| worker_interrupted: "w_pc w = Executed p ps r \<Longrightarrow> token_cancelled c w \<Longrightarrow>
    worker_step c w s (w\<lparr>w_pc := Cancelling p\<rparr>) s"
| worker_failed: "w_pc w = Executed p ps (Inl e) \<Longrightarrow> \<not> token_cancelled c w \<Longrightarrow>
    worker_step c w s (w\<lparr>w_pc := Failing p e\<rparr>) s"
| worker_next: "w_pc w = Executed p ps (Inr u) \<Longrightarrow> \<not> token_cancelled c w \<Longrightarrow>
    worker_step c w s (w\<lparr>w_pc := LoopHead ps\<rparr>) s"
| worker_lost: "w_pc w = LoopHead [] \<Longrightarrow> \<not> owns (w_job w) s \<Longrightarrow>
    worker_step c w s (w\<lparr>w_pc := Stopped\<rparr>) s"
| worker_late_cancel: "w_pc w = LoopHead [] \<Longrightarrow> owns (w_job w) s \<Longrightarrow>
    rs_cancel_requested (js_runtime s) \<or> token_cancelled c w \<Longrightarrow>
    worker_step c w s (w\<lparr>w_pc := Cancelling Complete\<rparr>) s"
| worker_done: "w_pc w = LoopHead [] \<Longrightarrow> owns (w_job w) s \<Longrightarrow>
    \<not> rs_cancel_requested (js_runtime s) \<Longrightarrow> \<not> token_cancelled c w \<Longrightarrow>
    worker_step c w s (w\<lparr>w_pc := Stopped\<rparr>) (finish_done (w_job w) mok_state s)"
| worker_cancelled: "w_pc w = Cancelling p \<Longrightarrow>
    worker_step c w s (w\<lparr>w_pc := Stopped\<rparr>) (finish_cancelled (w_job w) (Some p) s)"
| worker_error: "w_pc w = Failing p e \<Longrightarrow>
    worker_step c w s (w\<lparr>w_pc := Stopped\<rparr>) (finish_error (w_job w) p e s)"

text \<open>The steps of \<open>start\<close> and \<open>cancel\<close>, by any caller, and of the workers.\<close>

inductive sup_step :: "supervisor \<Rightarrow> supervisor \<Rightarrow> bool" where
  start_claim: "claim_slot (sy_next_token y) (sy_state y) = (Inr (job, first), s) \<Longrightarrow>
    sup_step y (y\<lparr>sy_state := s, sy_next_token := sy_next_token y + 1,
      sy_cancelled := (sy_cancelled y)(sy_next_token y := False), sy_starters := sy_starters y @ [(job, Claimed)]\<rparr>)"
| start_recorded: "sy_starters y = xs @ (job, Claimed) # ys \<Longrightarrow>
    sup_step y (y\<lparr>sy_starters := xs @ (job, Recorded) # ys\<rparr>)"
| start_failed: "sy_starters y = xs @ (job, pc) # ys \<Longrightarrow>
    sup_step y (y\<lparr>sy_starters := xs @ ys, sy_state := release_slot (sy_state y)\<rparr>)"
| start_spawned: "sy_starters y = xs @ (job, Recorded) # ys \<Longrightarrow>
    sup_step y (y\<lparr>sy_starters := xs @ ys, sy_next_thread := sy_next_thread y + 1,
      sy_workers := sy_workers y @ [\<lparr>w_job = job, w_thread = sy_next_thread y, w_token = None, w_pc = Starting\<rparr>]\<rparr>)"
| cancel_requested: "request_cancel (sy_state y) = (Inr token, s) \<Longrightarrow>
    sup_step y (y\<lparr>sy_state := s, sy_cancels := sy_cancels y @ (case token of None \<Rightarrow> [] | Some t \<Rightarrow> [t])\<rparr>)"
| cancel_token: "sy_cancels y = xs @ t # ys \<Longrightarrow>
    sup_step y (y\<lparr>sy_cancels := xs @ ys, sy_cancelled := (sy_cancelled y)(t := True)\<rparr>)"
| work: "sy_workers y = xs @ w # ys \<Longrightarrow> worker_step (sy_cancelled y) w (sy_state y) w' s \<Longrightarrow>
    sup_step y (y\<lparr>sy_state := s, sy_workers := xs @ w' # ys\<rparr>)"

definition sup_new :: supervisor where
  "sup_new = \<lparr>sy_state = job_default, sy_cancelled = (\<lambda>_. False), sy_next_token = 0, sy_next_thread = 0,
     sy_starters = [], sy_cancels = [], sy_workers = []\<rparr>"

section \<open>Waiting\<close>

text \<open>\<open>wait_for_events\<close> and \<open>wait_for_terminal\<close>: \<open>wakes\<close> are the returns of \<open>wait_timeout\<close> before the
  deadline, each with the state then seen and whether it timed out; with none left the deadline has
  passed.\<close>

fun wait_for_events :: "nat \<Rightarrow> job_state \<Rightarrow> (job_state \<times> bool) list \<Rightarrow> event_replay" where
  "wait_for_events last_id s wakes =
     (let replay = replay_locked s last_id in
      if er_events replay \<noteq> [] \<or> er_reset_required replay then replay
      else case wakes of
        [] \<Rightarrow> replay
      | (s', timed_out) # rest \<Rightarrow>
          if timed_out then replay_locked s' last_id else wait_for_events last_id s' rest)"

fun wait_for_terminal :: "job_state \<Rightarrow> (job_state \<times> bool) list \<Rightarrow> job_snapshot" where
  "wait_for_terminal s wakes =
     (if \<not> js_worker_active s then job_snapshot_of s
      else case wakes of
        [] \<Rightarrow> job_snapshot_of s
      | (s', timed_out) # rest \<Rightarrow> if timed_out then job_snapshot_of s' else wait_for_terminal s' rest)"

end
