(* ===== verification/Job_Safety.thy ===== *)
theory Job_Safety
  imports Installer_Job
begin

text \<open>
  What the supervisor guarantees under every interleaving: one owner of the job slot, a history of
  consecutive identifiers, phases in order, a completion only after all of them, and a cancellation
  that is never overtaken by a completion.
\<close>

section \<open>The owner of the slot\<close>

definition live :: "worker \<Rightarrow> bool" where
  "live w \<longleftrightarrow> w_pc w \<noteq> Stopped"

definition owners :: "supervisor \<Rightarrow> nat list" where
  "owners y = map fst (sy_starters y) @ map w_job (filter live (sy_workers y))"

definition one_owner :: "supervisor \<Rightarrow> bool" where
  "one_owner y \<longleftrightarrow>
     (if js_worker_active (sy_state y) then \<exists>k. js_job_id (sy_state y) = Some k \<and> owners y = [k] else owners y = [])"

lemma append_event_simps [simp]:
  "js_worker_active (snd (append_event k s)) = js_worker_active s"
  "js_job_id (snd (append_event k s)) = js_job_id s"
  "js_runtime (snd (append_event k s)) = js_runtime s"
  "js_next_job_id (snd (append_event k s)) = js_next_job_id s"
  "js_cancellation (snd (append_event k s)) = js_cancellation s"
  "js_terminal_event_id (snd (append_event k s)) = js_terminal_event_id s"
  "fst (append_event k s) = js_next_event_id (snd (append_event k s))"
  by (simp_all add: append_event_def Let_def)

lemmas section_defs = begin_worker_def enter_phase_def finish_cancelled_def finish_error_def finish_terminal_def
  finish_done_def claim_slot_def release_slot_def request_cancel_def Let_def split_beta

inductive_cases work_cases: "worker_step c w s w' s'"

text \<open>A step of the owner keeps the slot or releases it and stops.\<close>

lemma worker_step_owner:
  assumes "worker_step c w s w' s'" and "owns (w_job w) s"
  shows "w_job w' = w_job w \<and> live w \<and> (if live w' then owns (w_job w) s' else \<not> js_worker_active s')"
  using assms by (cases rule: worker_step.cases) (auto simp: section_defs live_def owns_def)

lemma worker_step_live: "worker_step c w s w' s' \<Longrightarrow> live w"
  by (cases rule: worker_step.cases) (auto simp: live_def)

lemma owner_worker:
  assumes "one_owner y" and "sy_workers y = xs @ w # ys" and "live w"
  shows "owns (w_job w) (sy_state y) \<and> sy_starters y = [] \<and> filter live xs = [] \<and> filter live ys = []"
proof -
  have "w_job w \<in> set (owners y)" using assms(2,3) by (auto simp: owners_def)
  with assms(1) obtain k where k: "js_job_id (sy_state y) = Some k" "owners y = [k]" "js_worker_active (sy_state y)"
    by (auto simp: one_owner_def split: if_splits)
  have "map fst (sy_starters y) @ map w_job (filter live xs) @ w_job w # map w_job (filter live ys) = [k]"
    using k(2) assms(2,3) by (simp add: owners_def)
  then have "sy_starters y = [] \<and> filter live xs = [] \<and> filter live ys = [] \<and> w_job w = k"
    by (auto simp: append_eq_Cons_conv Cons_eq_append_conv)
  with k show ?thesis by (simp add: owns_def)
qed

lemma owner_starter:
  assumes "one_owner y" and "sy_starters y = xs @ (job, pc) # ys"
  shows "owns job (sy_state y) \<and> xs = [] \<and> ys = [] \<and> filter live (sy_workers y) = []"
proof -
  have "job \<in> set (owners y)" using assms(2) by (auto simp: owners_def)
  with assms(1) obtain k where k: "js_job_id (sy_state y) = Some k" "owners y = [k]" "js_worker_active (sy_state y)"
    by (auto simp: one_owner_def split: if_splits)
  have "map fst xs @ job # map fst ys @ map w_job (filter live (sy_workers y)) = [k]"
    using k(2) assms(2) by (simp add: owners_def)
  then have "xs = [] \<and> ys = [] \<and> filter live (sy_workers y) = [] \<and> job = k"
    by (auto simp: append_eq_Cons_conv Cons_eq_append_conv)
  with k show ?thesis by (simp add: owns_def)
qed

lemma one_owner_step:
  assumes "one_owner y" and "sup_step y z"
  shows "one_owner z"
  using assms(2,1)
proof (cases rule: sup_step.cases)
  case (start_claim job first s)
  then have "\<not> js_worker_active (sy_state y)" by (auto simp: claim_slot_def split: if_splits)
  with start_claim assms(1) show ?thesis
    by (auto simp: one_owner_def owners_def claim_slot_def Let_def)
next
  case (start_failed xs job pc ys)
  with owner_starter [OF assms(1) start_failed(2)] show ?thesis
    by (simp add: one_owner_def owners_def release_slot_def)
next
  case (start_recorded xs job ys)
  with owner_starter [OF assms(1) start_recorded(2)] show ?thesis
    by (simp add: one_owner_def owners_def owns_def)
next
  case (start_spawned xs job ys)
  with owner_starter [OF assms(1) start_spawned(2)] show ?thesis
    by (simp add: one_owner_def owners_def owns_def live_def)
next
  case (cancel_requested token s)
  with assms(1) show ?thesis
    by (auto simp: one_owner_def owners_def request_cancel_def split: if_splits)
next
  case (cancel_token xs t ys)
  with assms(1) show ?thesis by (auto simp: one_owner_def owners_def split: if_splits)
next
  case (work xs w ys w' s)
  have o: "owns (w_job w) (sy_state y)" "sy_starters y = []" "filter live xs = []" "filter live ys = []"
    using owner_worker [OF assms(1) work(2) worker_step_live [OF work(3)]] by auto
  with worker_step_owner [OF work(3) o(1)] work(1) show ?thesis
    by (simp add: one_owner_def owners_def owns_def split: if_splits)
qed

section \<open>The event history\<close>

text \<open>Identifiers are consecutive and end at the last one assigned, and at most \<open>MAX_EVENT_HISTORY\<close>
  events are kept; this is stated below the saturation point of the 64-bit counter.\<close>

definition history_ok :: "job_state \<Rightarrow> bool" where
  "history_ok s \<longleftrightarrow> length (js_history s) = min (js_next_event_id s) MAX_EVENT_HISTORY \<and>
     (js_next_event_id s < u64_max \<longrightarrow>
       map ev_id (js_history s) = [js_next_event_id s + 1 - length (js_history s)..<js_next_event_id s + 1])"

lemma history_ok_cong:
  "js_history t = js_history s \<Longrightarrow> js_next_event_id t = js_next_event_id s \<Longrightarrow> history_ok t = history_ok s"
  by (simp add: history_ok_def)

lemma append_event_history:
  "js_history (snd (append_event k s)) =
     drop (Suc (length (js_history s)) - MAX_EVENT_HISTORY)
       (js_history s @ [\<lparr>ev_id = saturating_add (js_next_event_id s) 1, ev_kind = k\<rparr>])"
  "js_next_event_id (snd (append_event k s)) = saturating_add (js_next_event_id s) 1"
  by (simp_all add: append_event_def Let_def)

lemma history_ok_append:
  assumes "history_ok s" and "js_next_event_id s < u64_max"
  shows "history_ok (snd (append_event k s))"
proof -
  define n h d where "n = js_next_event_id s" and "h = js_history s" and "d = Suc (length h) - MAX_EVENT_HISTORY"
  have ids: "map ev_id h = [n + 1 - length h..<n + 1]" and len: "length h \<le> n" "length h \<le> MAX_EVENT_HISTORY"
    using assms by (simp_all add: history_ok_def n_def h_def)
  have next_id: "saturating_add n 1 = n + 1" using assms(2) by (simp add: saturating_add_def n_def)
  define h' where "h' = drop d (h @ [\<lparr>ev_id = n + 1, ev_kind = k\<rparr>])"
  have "map ev_id (h @ [\<lparr>ev_id = n + 1, ev_kind = k\<rparr>]) = [n + 1 - length h..<n + 2]"
    using ids len(1) by (simp add: upt_Suc_append)
  then have "map ev_id h' = drop d [n + 1 - length h..<n + 2]" unfolding h'_def by (metis drop_map)
  then have ids': "map ev_id h' = [n + 1 - length h + d..<n + 2]" by (simp only: drop_upt)
  have full: "length h = min n MAX_EVENT_HISTORY" using assms(1) by (simp add: history_ok_def n_def h_def)
  have short: "length h' = Suc (length h) - d" by (simp add: h'_def)
  have len': "length h' = min (n + 1) MAX_EVENT_HISTORY"
    unfolding short d_def full MAX_EVENT_HISTORY_def by linarith
  have "n + 1 - length h + d = n + 2 - length h'"
    unfolding short d_def full MAX_EVENT_HISTORY_def by linarith
  then have "map ev_id h' = [n + 2 - length h'..<n + 2]" using ids' by (simp only:)
  moreover note len'
  moreover have "js_history (snd (append_event k s)) = h'" "js_next_event_id (snd (append_event k s)) = n + 1"
    unfolding append_event_history next_id n_def [symmetric] h_def [symmetric] d_def [symmetric] h'_def by simp_all
  ultimately show ?thesis by (simp add: history_ok_def)
qed

lemma filter_less_upt: "filter (\<lambda>i. a < i) [m..<n] = [max m (Suc a)..<n]"
  by (induction n) (auto simp: max_def)

lemma history_ok_append_any:
  assumes "history_ok s"
  shows "history_ok (snd (append_event k s))"
proof (cases "js_next_event_id s < u64_max")
  case False
  have max: "MAX_EVENT_HISTORY \<le> u64_max" by (simp add: MAX_EVENT_HISTORY_def u64_max_def)
  with False assms have "length (js_history s) = MAX_EVENT_HISTORY" by (simp add: history_ok_def)
  then have "length (js_history (snd (append_event k s))) = MAX_EVENT_HISTORY"
    unfolding append_event_history length_drop length_append by simp
  moreover have "saturating_add (js_next_event_id s) 1 = u64_max" using False by (simp add: saturating_add_def)
  ultimately show ?thesis using max by (simp add: history_ok_def append_event_history(2))
qed (rule history_ok_append [OF assms])

text \<open>What a subscriber is given: the retained events after the last one it has seen, in order, and the
  request to start over exactly when some event in between was dropped.\<close>

lemma replay_ids:
  assumes "history_ok s" and "js_next_event_id s < u64_max" and "last_id \<le> js_next_event_id s"
  shows "map ev_id (er_events (replay_locked s last_id)) =
      [max (last_id + 1) (js_next_event_id s + 1 - MAX_EVENT_HISTORY)..<js_next_event_id s + 1]"
    and "er_reset_required (replay_locked s last_id) \<longleftrightarrow> last_id + MAX_EVENT_HISTORY < js_next_event_id s"
proof -
  define n h where "n = js_next_event_id s" and "h = js_history s"
  have ids: "map ev_id h = [n + 1 - length h..<n + 1]" and len: "length h = min n MAX_EVENT_HISTORY"
    using assms(1,2) by (simp_all add: history_ok_def n_def h_def)
  have "map ev_id (filter (\<lambda>e. last_id < ev_id e) h) = filter (\<lambda>i. last_id < i) (map ev_id h)"
    by (simp add: filter_map comp_def)
  also have "\<dots> = [max (last_id + 1) (n + 1 - MAX_EVENT_HISTORY)..<n + 1]"
  proof -
    have "max (n + 1 - length h) (Suc last_id) = max (last_id + 1) (n + 1 - MAX_EVENT_HISTORY)"
      by (simp add: len MAX_EVENT_HISTORY_def)
    then show ?thesis by (simp only: ids filter_less_upt)
  qed
  finally show "map ev_id (er_events (replay_locked s last_id)) =
      [max (last_id + 1) (js_next_event_id s + 1 - MAX_EVENT_HISTORY)..<js_next_event_id s + 1]"
    by (simp add: replay_locked_def n_def h_def)
  show "er_reset_required (replay_locked s last_id) \<longleftrightarrow> last_id + MAX_EVENT_HISTORY < js_next_event_id s"
  proof (cases h)
    case Nil
    with len assms(3) show ?thesis by (simp add: replay_locked_def n_def h_def MAX_EVENT_HISTORY_def min_def split: if_splits)
  next
    case (Cons e es)
    have "map ev_id h ! 0 = [n + 1 - length h..<n + 1] ! 0" by (simp only: ids)
    then have "ev_id e = n + 1 - length h" using Cons len by (simp add: nth_upt del: upt_Suc)
    moreover have "saturating_add last_id 1 = last_id + 1" using assms(2,3) by (simp add: saturating_add_def)
    ultimately show ?thesis using Cons len assms(3) by (auto simp: replay_locked_def h_def n_def)
  qed
qed

section \<open>Phases in order\<close>

definition ends_with :: "'a list \<Rightarrow> 'a list \<Rightarrow> bool" where
  "ends_with xs h \<longleftrightarrow> (\<exists>pre. h = pre @ xs)"

lemma ends_with_append:
  assumes "ends_with xs (map ev_kind (js_history s))" and "length xs < MAX_EVENT_HISTORY"
  shows "ends_with (xs @ [k]) (map ev_kind (js_history (snd (append_event k s))))"
proof -
  from assms(1) obtain pre where pre: "map ev_kind (js_history s) = pre @ xs" by (auto simp: ends_with_def)
  let ?d = "length (js_history s) + 1 - MAX_EVENT_HISTORY"
  have "length (js_history s) = length pre + length xs" by (metis pre length_append length_map)
  then have "?d \<le> length pre" using assms(2) by linarith
  then have "drop ?d (pre @ xs @ [k]) = drop ?d pre @ xs @ [k]" by simp
  moreover have "map ev_kind (js_history (snd (append_event k s))) = drop ?d (pre @ xs @ [k])"
    unfolding append_event_history drop_map [symmetric] by (simp add: pre)
  ultimately show ?thesis by (simp add: ends_with_def)
qed

text \<open>The phases a worker has announced, by where it is.\<close>

definition progress :: "job_state \<Rightarrow> worker \<Rightarrow> bool" where
  "progress s w \<longleftrightarrow>
     (let shown = (\<lambda>ps. ends_with (map EvPhase ps) (map ev_kind (js_history s))) in
      case w_pc w of
        LoopHead ps \<Rightarrow> (\<exists>old. old @ ps = PHASES \<and> shown old)
      | Entering p ps \<Rightarrow> (\<exists>old. old @ p # ps = PHASES \<and> shown old)
      | Executing p ps \<Rightarrow> (\<exists>old. old @ p # ps = PHASES \<and> shown (old @ [p]))
      | Executed p ps _ \<Rightarrow> (\<exists>old. old @ p # ps = PHASES \<and> shown (old @ [p]))
      | _ \<Rightarrow> True)"

lemma progress_history: "js_history t = js_history s \<Longrightarrow> progress t w = progress s w"
  by (simp add: progress_def)

lemma phases_short: "old @ ps = PHASES \<Longrightarrow> length old < MAX_EVENT_HISTORY"
proof -
  assume "old @ ps = PHASES"
  then have "length old \<le> length PHASES" by (metis le_add1 length_append)
  then show ?thesis by (simp add: PHASES_def MAX_EVENT_HISTORY_def)
qed

lemma progress_step:
  assumes "worker_step c w s w' s'" and "owns (w_job w) s" and "progress s w"
  shows "progress s' w'"
  using assms
proof (cases rule: worker_step.cases)
  case worker_begin
  with assms(2) show ?thesis by (auto simp: progress_def ends_with_def)
next
  case (worker_enter p ps)
  with assms(3) obtain old where old: "old @ p # ps = PHASES" "ends_with (map EvPhase old) (map ev_kind (js_history s))"
    by (auto simp: progress_def)
  let ?s = "s\<lparr>js_runtime := (js_runtime s)\<lparr>rs_phase := p\<rparr>\<rparr>"
  have "ends_with (map EvPhase old @ [EvPhase p]) (map ev_kind (js_history (snd (append_event (EvPhase p) ?s))))"
    by (rule ends_with_append) (use old phases_short [OF old(1)] in simp_all)
  with old(1) worker_enter assms(2) show ?thesis
    by (auto simp: progress_def enter_phase_def)
next
  case (worker_next p ps u)
  with assms(3) obtain old where "old @ p # ps = PHASES" "ends_with (map EvPhase (old @ [p])) (map ev_kind (js_history s))"
    by (auto simp: progress_def)
  then have "(old @ [p]) @ ps = PHASES \<and> ends_with (map EvPhase (old @ [p])) (map ev_kind (js_history s))" by simp
  then have "\<exists>old. old @ ps = PHASES \<and> ends_with (map EvPhase old) (map ev_kind (js_history s))" by blast
  with worker_next show ?thesis by (simp add: progress_def)
qed (auto simp: progress_def)

section \<open>The invariant of the supervisor\<close>

lemma worker_step_history:
  assumes "worker_step c w s w' s'" and "history_ok s"
  shows "history_ok s'"
proof -
  have cong: "history_ok (t\<lparr>js_terminal_event_id := i\<rparr>) = history_ok t" for t i by (rule history_ok_cong) simp_all
  have set: "history_ok (s\<lparr>js_runtime := r, js_cancellation := None, js_worker_active := False, js_worker_id := None\<rparr>)"
    "history_ok (s\<lparr>js_runtime := r\<rparr>)" "history_ok (s\<lparr>js_worker_id := i, js_runtime := r\<rparr>)" for r i
    using assms(2) by (simp_all add: history_ok_def)
  show ?thesis using assms
    by (cases rule: worker_step.cases) (simp_all add: section_defs cong set history_ok_append_any)
qed

definition progress_all :: "supervisor \<Rightarrow> bool" where
  "progress_all y \<longleftrightarrow> (\<forall>w \<in> set (sy_workers y). live w \<longrightarrow> progress (sy_state y) w)"

definition done_ok :: "job_state \<Rightarrow> bool" where
  "done_ok s \<longleftrightarrow> (rs_lifecycle (js_runtime s) = LcDone \<longrightarrow>
     \<not> js_worker_active s \<and> js_terminal_event_id s = Some (js_next_event_id s) \<and>
     (\<exists>mok confirm. ends_with (map EvPhase PHASES @ [EvDone mok confirm]) (map ev_kind (js_history s))))"

definition job_inv :: "supervisor \<Rightarrow> bool" where
  "job_inv y \<longleftrightarrow> one_owner y \<and> history_ok (sy_state y) \<and> progress_all y \<and> done_ok (sy_state y) \<and>
     js_job_id (sy_state y) = (if js_next_job_id (sy_state y) = 0 then None else Some (js_next_job_id (sy_state y)))"

lemma done_ok_step:
  assumes "worker_step c w s w' s'" and "owns (w_job w) s" and "progress s w" and "done_ok s"
  shows "done_ok s'"
  using assms(1)
proof (cases rule: worker_step.cases)
  case (worker_done mok)
  from assms(3) worker_done have shown: "ends_with (map EvPhase PHASES) (map ev_kind (js_history s))"
    by (simp add: progress_def)
  let ?s = "s\<lparr>js_runtime := \<lparr>rs_lifecycle = LcDone, rs_phase = Complete, rs_cancel_requested = False\<rparr>,
      js_cancellation := None, js_worker_active := False, js_worker_id := None\<rparr>"
  have "ends_with (map EvPhase PHASES @ [k]) (map ev_kind (js_history (snd (append_event k ?s))))" for k
    by (rule ends_with_append) (use shown in \<open>simp_all add: PHASES_def MAX_EVENT_HISTORY_def\<close>)
  with worker_done show ?thesis by (auto simp: done_ok_def finish_done_def Let_def split_beta)
qed (use assms(2,4) in \<open>auto simp: done_ok_def section_defs owns_def\<close>)

lemma job_id_step:
  assumes "worker_step c w s w' s'"
  shows "js_job_id s' = js_job_id s \<and> js_next_job_id s' = js_next_job_id s"
  using assms by (cases rule: worker_step.cases) (simp_all add: section_defs)

lemma job_inv_start: "job_inv sup_new"
  by (simp add: job_inv_def sup_new_def job_default_def one_owner_def owners_def history_ok_def progress_all_def
      done_ok_def runtime_default_def)

lemma progress_all_history:
  assumes "js_history (sy_state z) = js_history (sy_state y)" and "sy_workers z = sy_workers y"
  shows "progress_all z = progress_all y"
  unfolding progress_all_def assms(2) progress_history [OF assms(1)] by (rule refl)

lemma progress_all_step:
  assumes "one_owner y" and "progress_all y" and "sup_step y z"
  shows "progress_all z"
  using assms(3)
proof (cases rule: sup_step.cases)
  case (start_claim job first s)
  then have "js_history s = js_history (sy_state y)" by (auto simp: claim_slot_def Let_def split: if_splits)
  with start_claim(1) progress_all_history [of z y] assms(2) show ?thesis by simp
next
  case (start_failed xs job pc ys)
  with progress_all_history [of z y] assms(2) show ?thesis by (simp add: release_slot_def)
next
  case (cancel_requested token s)
  then have "js_history s = js_history (sy_state y)" by (auto simp: request_cancel_def split: if_splits)
  with cancel_requested(1) progress_all_history [of z y] assms(2) show ?thesis by simp
next
  case (work xs w ys w' s)
  have o: "owns (w_job w) (sy_state y)" "filter live xs = []" "filter live ys = []"
    using owner_worker [OF assms(1) work(2) worker_step_live [OF work(3)]] by auto
  have "progress (sy_state y) w"
    using assms(2) work(2) worker_step_live [OF work(3)] by (simp add: progress_all_def)
  from progress_step [OF work(3) o(1) this] o(2,3) work(1) show ?thesis
    by (auto simp: progress_all_def filter_empty_conv)
qed (use assms(2) in \<open>auto simp: progress_all_def progress_def live_def\<close>)

lemma job_inv_step:
  assumes "job_inv y" and "sup_step y z"
  shows "job_inv z"
proof -
  have own: "one_owner y" and hist: "history_ok (sy_state y)" and prog: "progress_all y" and dn: "done_ok (sy_state y)"
    and ids: "js_job_id (sy_state y) = (if js_next_job_id (sy_state y) = 0 then None else Some (js_next_job_id (sy_state y)))"
    using assms(1) by (simp_all add: job_inv_def)
  have "history_ok (sy_state z) \<and> done_ok (sy_state z) \<and>
      js_job_id (sy_state z) = (if js_next_job_id (sy_state z) = 0 then None else Some (js_next_job_id (sy_state z)))"
    using assms(2)
  proof (cases rule: sup_step.cases)
    case (start_claim job first s)
    then have "s = snd (claim_slot (sy_next_token y) (sy_state y))" "\<not> js_worker_active (sy_state y)"
      by (auto simp: claim_slot_def split: if_splits)
    with start_claim hist show ?thesis
      by (simp add: claim_slot_def Let_def history_ok_def done_ok_def saturating_add_def u64_max_def)
  next
    case (start_failed xs job pc ys)
    with hist ids show ?thesis by (simp add: release_slot_def history_ok_def done_ok_def)
  next
    case (cancel_requested token s)
    then have "s = snd (request_cancel (sy_state y))" "js_worker_active (sy_state y)"
      by (auto simp: request_cancel_def split: if_splits)
    with cancel_requested hist ids dn show ?thesis by (simp add: request_cancel_def history_ok_def done_ok_def)
  next
    case (work xs w ys w' s)
    have o: "owns (w_job w) (sy_state y)"
      using owner_worker [OF own work(2) worker_step_live [OF work(3)]] by simp
    have "progress (sy_state y) w" using prog work(2) worker_step_live [OF work(3)] by (simp add: progress_all_def)
    then show ?thesis
      using worker_step_history [OF work(3) hist] done_ok_step [OF work(3) o _ dn] job_id_step [OF work(3)] ids work(1)
      by simp
  qed (use hist dn ids in simp_all)
  with one_owner_step [OF own assms(2)] progress_all_step [OF own prog assms(2)] show ?thesis
    by (simp add: job_inv_def)
qed

interpretation sup: transition_system "\<lambda>y. y = sup_new" sup_step job_inv
  by unfold_locales (auto simp: job_inv_start intro: job_inv_step)

lemmas reachable_job = sup.reachable_inv [OF refl]

section \<open>Runs of one worker\<close>

definition worker_run :: "(nat \<Rightarrow> bool) \<Rightarrow> worker \<times> job_state \<Rightarrow> worker \<times> job_state \<Rightarrow> bool" where
  "worker_run c a b \<longleftrightarrow> worker_step c (fst a) (snd a) (fst b) (snd b)"

lemma worker_run_lift:
  assumes "(worker_run (sy_cancelled y) ^^ n) (w, sy_state y) b" and "sy_workers y = xs @ w # ys"
  shows "(sup_step ^^ n) y (y\<lparr>sy_state := snd b, sy_workers := xs @ fst b # ys\<rparr>)"
  using assms
proof (induction n arbitrary: b)
  case 0
  then show ?case by auto
next
  case (Suc n)
  from Suc.prems(1) obtain a where a: "(worker_run (sy_cancelled y) ^^ n) (w, sy_state y) a" "worker_run (sy_cancelled y) a b"
    by auto
  let ?y = "y\<lparr>sy_state := snd a, sy_workers := xs @ fst a # ys\<rparr>"
  have "sup_step ?y (?y\<lparr>sy_state := snd b, sy_workers := xs @ fst b # ys\<rparr>)"
    by (rule sup_step.work [of ?y xs "fst a" ys]) (use a(2) in \<open>simp_all add: worker_run_def\<close>)
  with Suc.IH [OF a(1) Suc.prems(2)] show ?case by auto
qed

text \<open>How many steps a worker has left.\<close>

fun pc_rank :: "worker_pc \<Rightarrow> nat" where
  "pc_rank Starting = 4 * length PHASES + 4"
| "pc_rank (LoopHead ps) = 4 * length ps + 3"
| "pc_rank (Entering p ps) = 4 * length ps + 6"
| "pc_rank (Executing p ps) = 4 * length ps + 5"
| "pc_rank (Executed p ps r) = 4 * length ps + 4"
| "pc_rank (Cancelling p) = 1"
| "pc_rank (Failing p e) = 1"
| "pc_rank Stopped = 0"

lemma pc_rank_step: "worker_step c w s w' s' \<Longrightarrow> pc_rank (w_pc w') < pc_rank (w_pc w)"
  by (erule worker_step.cases) auto

lemma worker_not_stuck:
  assumes "live w"
  shows "\<exists>w' s'. worker_step c w s w' s'"
proof (cases "w_pc w")
  case (LoopHead ps)
  then show ?thesis
    by (cases ps; cases "token_cancelled c w"; cases "owns (w_job w) s"; cases "rs_cancel_requested (js_runtime s)")
      (blast intro: worker_step.intros)+
next
  case (Executed p ps r)
  then show ?thesis by (cases "token_cancelled c w"; cases r) (blast intro: worker_step.intros)+
qed (use assms in \<open>auto simp: live_def intro: worker_step.intros\<close>)

lemma owner_finishes:
  assumes "live w" and "owns (w_job w) s"
  shows "\<exists>n b. n \<le> pc_rank (w_pc w) \<and> (worker_run c ^^ n) (w, s) b \<and> \<not> js_worker_active (snd b)"
  using assms
proof (induction "pc_rank (w_pc w)" arbitrary: w s rule: less_induct)
  case less
  from worker_not_stuck [OF less.prems(1)] obtain w' s' where st: "worker_step c w s w' s'" by blast
  note o = worker_step_owner [OF st less.prems(2)]
  have run: "worker_run c (w, s) (w', s')" using st by (simp add: worker_run_def)
  show ?case
  proof (cases "live w'")
    case True
    with o less.hyps [OF pc_rank_step [OF st], of s'] obtain n b where
      nb: "n \<le> pc_rank (w_pc w')" "(worker_run c ^^ n) (w', s') b" "\<not> js_worker_active (snd b)" by auto
    then have "(worker_run c ^^ Suc n) (w, s) b" using run by (meson relpowp_Suc_I2)
    with nb pc_rank_step [OF st] show ?thesis by (meson Suc_leI le_less_trans)
  next
    case False
    with o run pc_rank_step [OF st] show ?thesis
      by (intro exI [of _ 1] exI [of _ "(w', s')"]) auto
  qed
qed

lemma all_phases_run:
  assumes "w_pc w = LoopHead ps" and "owns (w_job w) s" and "\<not> rs_cancel_requested (js_runtime s)" and "\<not> token_cancelled c w"
  shows "\<exists>n b. (worker_run c ^^ n) (w, s) b \<and> rs_lifecycle (js_runtime (snd b)) = LcDone \<and> js_job_id (snd b) = js_job_id s"
  using assms
proof (induction ps arbitrary: w s)
  case Nil
  have "worker_run c (w, s) (w\<lparr>w_pc := Stopped\<rparr>, finish_done (w_job w) mok s)" for mok
    using Nil by (simp add: worker_run_def worker_step.worker_done)
  then have "(worker_run c ^^ 1) (w, s) (w\<lparr>w_pc := Stopped\<rparr>, finish_done (w_job w) mok s)" for mok by (simp only: relpowp_1)
  moreover have "rs_lifecycle (js_runtime (finish_done (w_job w) mok s)) = LcDone"
    "js_job_id (finish_done (w_job w) mok s) = js_job_id s" for mok
    by (simp_all add: finish_done_def Let_def split_beta)
  ultimately show ?case by (metis snd_conv)
next
  case (Cons p ps)
  let ?s = "enter_phase (w_job w) p s" and ?w = "w\<lparr>w_pc := LoopHead ps\<rparr>"
  have tok: "token_cancelled c (w\<lparr>w_pc := q\<rparr>) = token_cancelled c w" for q by (simp add: token_cancelled_def)
  have "worker_run c (w, s) (w\<lparr>w_pc := Entering p ps\<rparr>, s)"
    using Cons.prems worker_step.worker_head [of w p ps c s] by (simp add: worker_run_def)
  moreover have "worker_run c (w\<lparr>w_pc := Entering p ps\<rparr>, s) (w\<lparr>w_pc := Executing p ps\<rparr>, ?s)"
    using Cons.prems worker_step.worker_enter [of "w\<lparr>w_pc := Entering p ps\<rparr>" p ps c s] by (simp add: worker_run_def)
  moreover have "worker_run c (w\<lparr>w_pc := Executing p ps\<rparr>, ?s) (w\<lparr>w_pc := Executed p ps (Inr ())\<rparr>, ?s)"
    using worker_step.worker_execute [of "w\<lparr>w_pc := Executing p ps\<rparr>" p ps c ?s "Inr ()"] by (simp add: worker_run_def)
  moreover have "worker_run c (w\<lparr>w_pc := Executed p ps (Inr ())\<rparr>, ?s) (?w, ?s)"
    using Cons.prems(4) worker_step.worker_next [of "w\<lparr>w_pc := Executed p ps (Inr ())\<rparr>" p ps "()" c ?s]
    by (simp add: worker_run_def tok)
  ultimately have run: "(worker_run c ^^ 4) (w, s) (?w, ?s)" by (simp add: numeral_eq_Suc relcompp_apply) blast
  have "owns (w_job ?w) ?s" "\<not> rs_cancel_requested (js_runtime ?s)" "js_job_id ?s = js_job_id s"
    using Cons.prems(2,3) by (simp_all add: enter_phase_def owns_def)
  with Cons.IH [of ?w ?s] Cons.prems(4) obtain n b where
    "(worker_run c ^^ n) (?w, ?s) b" "rs_lifecycle (js_runtime (snd b)) = LcDone" "js_job_id (snd b) = js_job_id s"
    by (auto simp: tok)
  moreover have "(worker_run c ^^ (4 + n)) (w, s) b" using run calculation(1) by (auto simp: relpowp_add relcompp_apply)
  ultimately show ?case by blast
qed

section \<open>Cancellation\<close>

text \<open>What an accepted request leaves behind: the job never ends as done, also not in a later section.\<close>

definition cancel_holds :: "nat \<Rightarrow> job_state \<Rightarrow> bool" where
  "cancel_holds k s \<longleftrightarrow> k \<le> js_next_job_id s \<and>
     (js_job_id s = Some k \<longrightarrow>
       (if js_worker_active s then rs_cancel_requested (js_runtime s) else rs_lifecycle (js_runtime s) \<noteq> LcDone))"

lemma cancel_holds_worker:
  assumes "worker_step c w s w' s'" and "owns (w_job w) s" and "cancel_holds k s"
  shows "cancel_holds k s'"
  using assms by (cases rule: worker_step.cases) (auto simp: cancel_holds_def section_defs owns_def)

lemma cancel_holds_step:
  assumes "job_inv y" and "k < u64_max" and "cancel_holds k (sy_state y)" and "sup_step y z"
  shows "cancel_holds k (sy_state z)"
  using assms(4)
proof (cases rule: sup_step.cases)
  case (start_claim job first s)
  then have "s = snd (claim_slot (sy_next_token y) (sy_state y))" "\<not> js_worker_active (sy_state y)"
    by (auto simp: claim_slot_def split: if_splits)
  moreover have "k \<noteq> saturating_add (js_next_job_id (sy_state y)) 1" "k \<le> saturating_add (js_next_job_id (sy_state y)) 1"
    using assms(2,3) by (auto simp: cancel_holds_def saturating_add_def)
  ultimately show ?thesis using start_claim(1) by (simp add: cancel_holds_def claim_slot_def Let_def)
next
  case (cancel_requested token s)
  then show ?thesis using assms(3) by (auto simp: cancel_holds_def request_cancel_def split: if_splits)
next
  case (work xs w ys w' s)
  have "owns (w_job w) (sy_state y)"
    using owner_worker [OF _ work(2) worker_step_live [OF work(3)]] assms(1) by (simp add: job_inv_def)
  from cancel_holds_worker [OF work(3) this assms(3)] work(1) show ?thesis by simp
qed (use assms(3) in \<open>simp_all add: cancel_holds_def release_slot_def\<close>)

lemma cancel_holds_steps:
  assumes "sup_step\<^sup>*\<^sup>* y z" and "job_inv y" and "k < u64_max" and "cancel_holds k (sy_state y)"
  shows "cancel_holds k (sy_state z)"
  using assms
proof (induction rule: rtranclp_induct)
  case (step a b)
  then show ?case using cancel_holds_step [OF _ assms(3)] sup.steps_inv by blast
qed

section \<open>Releasing the slot\<close>

lemma pc_rank_bound:
  assumes "progress s w"
  shows "pc_rank (w_pc w) \<le> 28"
proof -
  have "length ps \<le> 6" if "old @ ps = PHASES" for old ps
    using arg_cong [OF that, of length] by (simp add: PHASES_def)
  then show ?thesis using assms
    by (cases "w_pc w") (fastforce simp: progress_def PHASES_def)+
qed

lemma job_inv_freed:
  assumes "job_inv y"
  shows "\<exists>n z. n \<le> 28 \<and> (sup_step ^^ n) y z \<and> \<not> js_worker_active (sy_state z)"
proof (cases "js_worker_active (sy_state y)")
  case False
  then show ?thesis by (intro exI [of _ 0] exI [of _ y]) simp
next
  case True
  have own: "one_owner y" and prog: "progress_all y" using assms by (simp_all add: job_inv_def)
  from own True obtain k where "owners y = [k]" by (auto simp: one_owner_def)
  then consider (starter) a xs where "sy_starters y = a # xs" | (worker) w where "w \<in> set (sy_workers y)" "live w"
    by (cases "sy_starters y") (force simp: owners_def filter_eq_Cons_iff)+
  then show ?thesis
  proof cases
    case starter
    have "sup_step y (y\<lparr>sy_starters := [] @ xs, sy_state := release_slot (sy_state y)\<rparr>)"
      by (rule sup_step.start_failed [of y "[]" "fst a" "snd a"]) (simp add: starter)
    moreover have "\<not> js_worker_active (release_slot (sy_state y))" by (simp add: release_slot_def)
    ultimately show ?thesis
      by (intro exI [of _ 1] exI [of _ "y\<lparr>sy_starters := [] @ xs, sy_state := release_slot (sy_state y)\<rparr>"])
        (simp add: relpowp_1 del: relpowp.simps One_nat_def)
  next
    case worker
    from split_list [OF worker(1)] obtain xs ys where w: "sy_workers y = xs @ w # ys" by blast
    have "owns (w_job w) (sy_state y)" using owner_worker [OF own w worker(2)] by simp
    from owner_finishes [OF worker(2) this, of "sy_cancelled y"] obtain n b where
      nb: "n \<le> pc_rank (w_pc w)" "(worker_run (sy_cancelled y) ^^ n) (w, sy_state y) b" "\<not> js_worker_active (snd b)" by blast
    have "pc_rank (w_pc w) \<le> 28" using prog worker pc_rank_bound unfolding progress_all_def by blast
    with nb worker_run_lift [OF nb(2) w] show ?thesis by (intro exI [of _ n]) force
  qed
qed

section \<open>Guarantees\<close>

text \<open>C14: At most one caller is starting a job or one worker running it, exactly one when the slot is
  taken; a live worker runs the job the state names.\<close>

theorem one_worker_owns_slot:
  assumes "sup_step\<^sup>*\<^sup>* sup_new y"
  shows "length (sy_starters y) + length (filter live (sy_workers y)) = (if js_worker_active (sy_state y) then 1 else 0) \<and>
    (\<forall>w. w \<in> set (sy_workers y) \<and> live w \<longrightarrow> owns (w_job w) (sy_state y))"
proof -
  have own: "one_owner y" using reachable_job [OF assms] by (simp add: job_inv_def)
  then have "length (owners y) = (if js_worker_active (sy_state y) then 1 else 0)"
    by (auto simp: one_owner_def split: if_splits)
  moreover have "owns (w_job w) (sy_state y)" if "w \<in> set (sy_workers y)" "live w" for w
    using owner_worker [OF own _ that(2)] split_list [OF that(1)] by blast
  ultimately show ?thesis by (auto simp: owners_def)
qed

text \<open>C28: A subscriber that has seen everything up to an event receives the events after it, with
  consecutive identifiers and none missing; it is told to start over exactly when more than 1024 events
  have passed, and then receives the last 1024.\<close>

theorem replay_never_skips:
  assumes "sup_step\<^sup>*\<^sup>* sup_new y" and "js_next_event_id (sy_state y) < u64_max" and "last_id \<le> js_next_event_id (sy_state y)"
  shows "map ev_id (er_events (replay_locked (sy_state y) last_id)) =
      [max (last_id + 1) (js_next_event_id (sy_state y) - 1023)..<js_next_event_id (sy_state y) + 1] \<and>
    (er_reset_required (replay_locked (sy_state y) last_id) \<longleftrightarrow> last_id + 1024 < js_next_event_id (sy_state y))"
proof -
  have "history_ok (sy_state y)" using reachable_job [OF assms(1)] by (simp add: job_inv_def)
  from replay_ids [OF this assms(2,3)] show ?thesis by (simp add: MAX_EVENT_HISTORY_def)
qed

text \<open>C15: A job is reported done only after its six phases were announced in order, nothing between them and
  the report, and the report is the last event.\<close>

theorem done_after_all_phases:
  assumes "sup_step\<^sup>*\<^sup>* sup_new y" and "rs_lifecycle (js_runtime (sy_state y)) = LcDone"
  shows "\<not> js_worker_active (sy_state y) \<and> js_terminal_event_id (sy_state y) = Some (js_next_event_id (sy_state y)) \<and>
    (\<exists>before mok confirm. map ev_kind (js_history (sy_state y)) =
       before @ map EvPhase [Prepare, Storage, Image, Configure, SecureBoot, Complete] @ [EvDone mok confirm])"
  using reachable_job [OF assms(1)] assms(2)
  by (auto simp: job_inv_def done_ok_def ends_with_def PHASES_def)

text \<open>C5: A cancellation that was accepted is never overtaken by a completion.\<close>

theorem accepted_cancel_never_done:
  assumes "sup_step\<^sup>*\<^sup>* sup_new y" and "request_cancel (sy_state y) = (Inr token, s)" and "js_job_id s = Some k"
    and "k < u64_max" and "sup_step\<^sup>*\<^sup>* (y\<lparr>sy_state := s, sy_cancels := sy_cancels y @ (case token of None \<Rightarrow> [] | Some t \<Rightarrow> [t])\<rparr>) z"
    and "js_job_id (sy_state z) = Some k"
  shows "rs_lifecycle (js_runtime (sy_state z)) \<noteq> LcDone"
proof -
  let ?y = "y\<lparr>sy_state := s, sy_cancels := sy_cancels y @ (case token of None \<Rightarrow> [] | Some t \<Rightarrow> [t])\<rparr>"
  have inv: "job_inv y" by (rule reachable_job [OF assms(1)])
  have y': "job_inv ?y" by (rule job_inv_step [OF inv sup_step.cancel_requested [OF assms(2)]])
  have "cancel_holds k (sy_state ?y)"
    using assms(2,3) y' by (auto simp: cancel_holds_def request_cancel_def job_inv_def split: if_splits)
  from cancel_holds_steps [OF assms(5) y' assms(4) this] sup.steps_inv [OF assms(5) y'] assms(6) show ?thesis
    by (auto simp: cancel_holds_def job_inv_def done_ok_def)
qed

text \<open>C29: No state of the supervisor is stuck with the slot taken: the slot is freed within twenty-eight
  steps, and every worker that has not finished can move and has fewer steps left after every move.\<close>

theorem slot_is_freed:
  assumes "sup_step\<^sup>*\<^sup>* sup_new y"
  shows "(\<exists>n z. n \<le> 28 \<and> (sup_step ^^ n) y z \<and> \<not> js_worker_active (sy_state z)) \<and>
    (\<forall>w c s. live w \<longrightarrow> (\<exists>w' s'. worker_step c w s w' s')) \<and>
    (\<forall>w c s w' s'. worker_step c w s w' s' \<longrightarrow> pc_rank (w_pc w') < pc_rank (w_pc w))"
proof -
  have "\<exists>n z. n \<le> 28 \<and> (sup_step ^^ n) y z \<and> \<not> js_worker_active (sy_state z)"
    by (rule job_inv_freed [OF reachable_job [OF assms]])
  then show ?thesis using worker_not_stuck pc_rank_step by blast
qed

section \<open>A run\<close>

text \<open>The first job: claimed, recorded, its thread spawned and its first section run.\<close>

definition first_job :: supervisor where
  "first_job =
     (let s = begin_worker 0 1 (snd (claim_slot 0 job_default)) in
      sup_new\<lparr>sy_state := s, sy_next_token := 1, sy_next_thread := 1, sy_cancelled := (\<lambda>_. False)(0 := False),
        sy_workers := [\<lparr>w_job = 1, w_thread = 0, w_token = Some 0, w_pc = LoopHead PHASES\<rparr>]\<rparr>)"

lemma first_job_reachable: "sup_step\<^sup>*\<^sup>* sup_new first_job"
proof -
  let ?s = "snd (claim_slot 0 job_default)"
  let ?a = "sup_new\<lparr>sy_state := ?s, sy_next_token := 1, sy_cancelled := (\<lambda>_. False)(0 := False), sy_starters := [(1, Claimed)]\<rparr>"
  let ?b = "?a\<lparr>sy_starters := [(1, Recorded)]\<rparr>"
  let ?c = "?a\<lparr>sy_starters := [], sy_next_thread := 1,
      sy_workers := [\<lparr>w_job = 1, w_thread = 0, w_token = None, w_pc = Starting\<rparr>]\<rparr>"
  have claim: "claim_slot 0 job_default = (Inr (1, 1), ?s)"
    by (simp add: claim_slot_def job_default_def saturating_add_def u64_max_def)
  have "sup_step sup_new ?a"
    using sup_step.start_claim [of sup_new 1 1 ?s] claim by (simp add: sup_new_def)
  moreover have "sup_step ?a ?b" using sup_step.start_recorded [of ?a "[]" 1 "[]"] by simp
  moreover have "sup_step ?b ?c" using sup_step.start_spawned [of ?b "[]" 1 "[]"] by (simp add: sup_new_def)
  moreover have "sup_step ?c first_job"
  proof -
    have "worker_step (sy_cancelled ?c) \<lparr>w_job = 1, w_thread = 0, w_token = None, w_pc = Starting\<rparr> ?s
        \<lparr>w_job = 1, w_thread = 0, w_token = Some 0, w_pc = LoopHead PHASES\<rparr> (begin_worker 0 1 ?s)"
      using worker_step.worker_begin [of "\<lparr>w_job = 1, w_thread = 0, w_token = None, w_pc = Starting\<rparr>" "sy_cancelled ?c" ?s]
      by (simp add: owns_def claim_slot_def job_default_def saturating_add_def u64_max_def)
    then have "worker_step (sy_cancelled ?c) \<lparr>w_job = 1, w_thread = 0, w_token = None, w_pc = Starting\<rparr> (sy_state ?c)
        \<lparr>w_job = 1, w_thread = 0, w_token = Some 0, w_pc = LoopHead PHASES\<rparr> (begin_worker 0 1 ?s)" by simp
    from sup_step.work [of ?c "[]" _ "[]", OF _ this] show ?thesis by (simp add: first_job_def sup_new_def)
  qed
  ultimately show ?thesis by (meson converse_rtranclp_into_rtranclp rtranclp.rtrancl_refl)
qed

lemma first_job_state:
  "owns 1 (sy_state first_job)" "js_job_id (sy_state first_job) = Some 1" "\<not> rs_cancel_requested (js_runtime (sy_state first_job))"
  "js_next_event_id (sy_state first_job) = 0" "\<not> sy_cancelled first_job 0" "js_worker_active (sy_state first_job)"
  "sy_workers first_job = [\<lparr>w_job = 1, w_thread = 0, w_token = Some 0, w_pc = LoopHead PHASES\<rparr>]"
  by (simp_all add: first_job_def begin_worker_def owns_def claim_slot_def job_default_def saturating_add_def u64_max_def)

lemma first_job_completes: "\<exists>y. sup_step\<^sup>*\<^sup>* sup_new y \<and> rs_lifecycle (js_runtime (sy_state y)) = LcDone"
proof -
  let ?w = "\<lparr>w_job = 1, w_thread = 0, w_token = Some 0, w_pc = LoopHead PHASES\<rparr>"
  from all_phases_run [of ?w PHASES "sy_state first_job" "sy_cancelled first_job"] first_job_state obtain n b where
    "(worker_run (sy_cancelled first_job) ^^ n) (?w, sy_state first_job) b" "rs_lifecycle (js_runtime (snd b)) = LcDone"
    by (auto simp: token_cancelled_def)
  with worker_run_lift [of n first_job ?w b "[]" "[]"] first_job_state(7)
  have "\<exists>z. (sup_step ^^ n) first_job z \<and> rs_lifecycle (js_runtime (sy_state z)) = LcDone" by fastforce
  then show ?thesis using first_job_reachable by (meson relpowp_imp_rtranclp rtranclp_trans)
qed

theorem one_worker_owns_slot_witness:
  "sup_step\<^sup>*\<^sup>* sup_new first_job \<and> js_worker_active (sy_state first_job) \<and>
   length (sy_starters first_job) + length (filter live (sy_workers first_job)) = 1"
  using one_worker_owns_slot [OF first_job_reachable] first_job_reachable first_job_state(6) by simp

theorem replay_never_skips_witness:
  "\<exists>y. sup_step\<^sup>*\<^sup>* sup_new y \<and> js_next_event_id (sy_state y) = 0 \<and>
     map ev_id (er_events (replay_locked (sy_state y) 0)) = [max 1 0..<1]"
  using replay_never_skips [OF first_job_reachable, of 0] first_job_reachable first_job_state(4)
  by (intro exI [of _ first_job]) (simp add: u64_max_def)

theorem done_after_all_phases_witness:
  "\<exists>y. sup_step\<^sup>*\<^sup>* sup_new y \<and> rs_lifecycle (js_runtime (sy_state y)) = LcDone \<and> \<not> js_worker_active (sy_state y)"
  using first_job_completes done_after_all_phases by blast

theorem accepted_cancel_never_done_witness:
  "\<exists>y token s z. sup_step\<^sup>*\<^sup>* sup_new y \<and> request_cancel (sy_state y) = (Inr token, s) \<and> js_job_id s = Some 1 \<and>
     js_job_id (sy_state (z :: supervisor)) = Some 1 \<and> rs_lifecycle (js_runtime (sy_state z)) \<noteq> LcDone"
proof -
  obtain token s where r: "request_cancel (sy_state first_job) = (Inr token, s)" "js_job_id s = Some 1"
    using first_job_state(2,6) by (simp add: request_cancel_def)
  let ?z = "first_job\<lparr>sy_state := s, sy_cancels := sy_cancels first_job @ (case token of None \<Rightarrow> [] | Some t \<Rightarrow> [t])\<rparr>"
  have "rs_lifecycle (js_runtime (sy_state ?z)) \<noteq> LcDone"
    by (rule accepted_cancel_never_done [OF first_job_reachable r]) (use r in \<open>simp_all add: u64_max_def\<close>)
  moreover have "js_job_id (sy_state ?z) = Some 1" using r(2) by simp
  ultimately show ?thesis using first_job_reachable r by blast
qed

theorem slot_is_freed_witness:
  "js_worker_active (sy_state first_job) \<and> (\<exists>n z. n \<le> 28 \<and> (sup_step ^^ n) first_job z \<and> \<not> js_worker_active (sy_state z))"
  using slot_is_freed [OF first_job_reachable] first_job_state(6) by blast

end
