(* ===== verification/Installer_Durable.thy ===== *)
theory Installer_Durable
  imports Installer_Commit
begin

text \<open>
  The crash-recovery journal, \<open>installer_durable_journal.rs\<close>, over a model of the file system it
  lives on.  The disk keeps what is visible (names and contents) apart from what survives a power
  loss: a content survives once its file was synced, a name keeps every value it had since its
  directory was last synced.  A schedule of faults decides the fate of every call: it may be refused,
  cut short (a write), torn (a rename on FAT, which may shorten or lose its target) or never return because the machine stopped.  The
  encoder and decoder of \<open>serde_json\<close> are arguments.
\<close>

section \<open>The disk\<close>

datatype node = NFile nat | NDir | NLink

datatype fault = Fine | Refused | Cut nat | Torn nat | Vanished | Halt

type_synonym path_key = "bool \<times> bool \<times> string list"

text \<open>Two paths are equal when their components are.\<close>

definition path_key :: "string \<Rightarrow> path_key" where
  "path_key p =
     (let parts = split_on (CHR ''/'') p in
      (starts_with p ''/'', hd parts = ''.'', filter (\<lambda>c. c \<noteq> [] \<and> c \<noteq> ''.'') parts))"

record disk =
  dk_entries :: "path_key \<Rightarrow> node option"
  dk_data :: "nat \<Rightarrow> string"
  dk_synced :: "nat \<Rightarrow> bool"
  dk_pending :: "path_key \<Rightarrow> node option list"
  dk_next :: nat
  dk_faults :: "nat \<Rightarrow> fault"
  dk_calls :: nat
  dk_halted :: bool

definition set_entry :: "path_key \<Rightarrow> node option \<Rightarrow> disk \<Rightarrow> disk" where
  "set_entry k v d =
     d\<lparr>dk_entries := (dk_entries d)(k := v), dk_pending := (dk_pending d)(k := dk_pending d k @ [v])\<rparr>"

text \<open>A new file: a fresh number with its content, not synced.\<close>

definition set_data :: "nat \<Rightarrow> string \<Rightarrow> disk \<Rightarrow> disk" where
  "set_data i bytes d = d\<lparr>dk_data := (dk_data d)(i := bytes), dk_synced := (dk_synced d)(i := False)\<rparr>"

definition new_file :: "path_key \<Rightarrow> string \<Rightarrow> disk \<Rightarrow> disk" where
  "new_file k bytes d =
     set_entry k (Some (NFile (dk_next d))) (set_data (dk_next d) bytes (d\<lparr>dk_next := Suc (dk_next d)\<rparr>))"

definition fs_call :: "(fault \<Rightarrow> disk \<Rightarrow> 'a option \<times> disk) \<Rightarrow> 'e \<Rightarrow> (disk, 'e, 'a) comp" where
  "fs_call op err d =
     (if dk_halted d then (Inl err, d)
      else
        let f = dk_faults d (dk_calls d); d' = d\<lparr>dk_calls := Suc (dk_calls d)\<rparr> in
        if f = Halt then (Inl err, d'\<lparr>dk_halted := True\<rparr>)
        else case op f d' of (None, t) \<Rightarrow> (Inl err, t) | (Some x, t) \<Rightarrow> (Inr x, t))"

text \<open>\<open>symlink_metadata\<close>: an error, nothing there, or what is there with its length.\<close>

definition fs_stat :: "string \<Rightarrow> (disk, 'e, (node \<times> nat) option option) comp" where
  "fs_stat p d =
     (case fs_call (\<lambda>f d.
          (if f \<noteq> Fine then None
           else Some (map_option (\<lambda>n. (n, case n of NFile i \<Rightarrow> length (dk_data d i) | _ \<Rightarrow> 0)) (dk_entries d (path_key p))), d)) () d of
        (Inl _, t) \<Rightarrow> (Inr None, t)
      | (Inr x, t) \<Rightarrow> (Inr (Some x), t))"

definition fs_read :: "string \<Rightarrow> 'e \<Rightarrow> (disk, 'e, string) comp" where
  "fs_read p err = fs_call (\<lambda>f d.
     (if f \<noteq> Fine then None
      else case dk_entries d (path_key p) of Some (NFile i) \<Rightarrow> Some (dk_data d i) | _ \<Rightarrow> None, d)) err"

definition fs_remove :: "string \<Rightarrow> 'e \<Rightarrow> (disk, 'e, unit) comp" where
  "fs_remove p err = fs_call (\<lambda>f d.
     if f \<noteq> Fine \<or> dk_entries d (path_key p) \<in> {None, Some NDir} then (None, d)
     else (Some (), set_entry (path_key p) None d)) err"

definition fs_create_new :: "string \<Rightarrow> 'e \<Rightarrow> (disk, 'e, nat) comp" where
  "fs_create_new p err = fs_call (\<lambda>f d.
     if f \<noteq> Fine \<or> dk_entries d (path_key p) \<noteq> None then (None, d)
     else (Some (dk_next d), new_file (path_key p) [] d)) err"

definition fs_write :: "nat \<Rightarrow> string \<Rightarrow> 'e \<Rightarrow> (disk, 'e, unit) comp" where
  "fs_write i bytes err = fs_call (\<lambda>f d.
     case f of Fine \<Rightarrow> (Some (), set_data i bytes d) | Cut n \<Rightarrow> (None, set_data i (take n bytes) d) | _ \<Rightarrow> (None, d)) err"

definition fs_sync :: "nat \<Rightarrow> 'e \<Rightarrow> (disk, 'e, unit) comp" where
  "fs_sync i err = fs_call (\<lambda>f d.
     if f \<noteq> Fine then (None, d) else (Some (), d\<lparr>dk_synced := (dk_synced d)(i := True)\<rparr>)) err"

text \<open>A torn rename reports success and leaves a shortened copy or nothing.\<close>

definition fs_rename :: "string \<Rightarrow> string \<Rightarrow> 'e \<Rightarrow> (disk, 'e, unit) comp" where
  "fs_rename a b err = fs_call (\<lambda>f d.
     case dk_entries d (path_key a) of
       Some (NFile i) \<Rightarrow>
         if dk_entries d (path_key b) = Some NDir then (None, d)
         else (case f of
             Fine \<Rightarrow> (Some (), set_entry (path_key a) None (set_entry (path_key b) (Some (NFile i)) d))
           | Torn n \<Rightarrow> (Some (), set_entry (path_key a) None (new_file (path_key b) (take n (dk_data d i)) d))
           | Vanished \<Rightarrow> (Some (), set_entry (path_key a) None (set_entry (path_key b) None d))
           | _ \<Rightarrow> (None, d))
     | _ \<Rightarrow> (None, d)) err"

text \<open>After a sync of a directory every name in it has only its present value.\<close>

definition in_directory :: "path_key \<Rightarrow> path_key \<Rightarrow> bool" where
  "in_directory k dir \<longleftrightarrow> snd (snd k) \<noteq> [] \<and> (fst k, fst (snd k), butlast (snd (snd k))) = dir"

definition fs_sync_dir :: "string \<Rightarrow> 'e \<Rightarrow> (disk, 'e, unit) comp" where
  "fs_sync_dir dir err = fs_call (\<lambda>f d.
     if f \<noteq> Fine then (None, d)
     else (Some (), d\<lparr>dk_pending := (\<lambda>k. if in_directory k (path_key dir) then [dk_entries d k] else dk_pending d k)\<rparr>)) err"

definition fs_create_dir_all :: "string \<Rightarrow> 'e \<Rightarrow> (disk, 'e, unit) comp" where
  "fs_create_dir_all p err = fs_call (\<lambda>f d.
     if f \<noteq> Fine then (None, d)
     else case dk_entries d (path_key p) of
       None \<Rightarrow> (Some (), set_entry (path_key p) (Some NDir) d)
     | Some (NFile i) \<Rightarrow> (None, d)
     | Some _ \<Rightarrow> (Some (), d)) err"

definition ignore :: "('s, 'e, 'a) comp \<Rightarrow> ('s, 'f, unit) comp" where
  "ignore m s = (Inr (), snd (m s))"

definition on_error :: "('s, 'e, 'a) comp \<Rightarrow> ('s, 'f, 'b) comp \<Rightarrow> ('s, 'e, 'a) comp" where
  "on_error m cleanup s = (case m s of (Inl e, t) \<Rightarrow> (Inl e, snd (cleanup t)) | (Inr x, t) \<Rightarrow> (Inr x, t))"

section \<open>Journal states\<close>

datatype op_state = Started | Completed

record journal_op =
  jo_name :: string
  jo_started :: nat
  jo_completed :: "nat option"

type_synonym journal_state = "journal_op list"

datatype durable_error =
    OpNameLength
  | OpNameUnsafe string
  | ClockUnavailable
  | UnsafeDirectory string
  | DirectoryNotCreated
  | DirectoryNotInspected
  | NotADirectory
  | PathNotInspected
  | NotARegularFile
  | JournalTooLarge
  | JournalNotRead
  | JournalInvalid
  | SchemaUnsupported
  | EntryWithoutName
  | EntryWithoutStart string
  | NoParentDirectory
  | TemporaryNotCreated
  | JournalNotWritten
  | JournalNotSynced
  | JournalNotReplaced
  | DirectoryNotSynced
  | VerificationFailed durable_error
  | CountMismatch nat nat

definition JOURNAL_FILE_NAME :: string where
  "JOURNAL_FILE_NAME = ''.kyth-install-journal.json''"

definition SCHEMA_VERSION :: nat where
  "SCHEMA_VERSION = 1"

definition MAX_JOURNAL_BYTES :: nat where
  "MAX_JOURNAL_BYTES = 1024 * 1024"

definition op_completed :: "journal_state \<Rightarrow> string \<Rightarrow> bool" where
  "op_completed ops name \<longleftrightarrow> (\<exists>p \<in> set ops. jo_name p = name \<and> jo_completed p \<noteq> None)"

definition op_started :: "journal_state \<Rightarrow> string \<Rightarrow> bool" where
  "op_started ops name \<longleftrightarrow> (\<exists>p \<in> set ops. jo_name p = name)"

definition op_name_char :: "char \<Rightarrow> bool" where
  "op_name_char c \<longleftrightarrow> (97 \<le> byte c \<and> byte c \<le> 122) \<or> is_ascii_digit c \<or> c = CHR ''_''"

definition validated_op_name :: "string \<Rightarrow> (durable_error, string) res" where
  "validated_op_name raw =
     (let name = trim raw in
      if name = [] \<or> length name > 64 then Inl OpNameLength
      else if \<not> list_all op_name_char name then Inl (OpNameUnsafe name)
      else Inr name)"

definition safe_directory :: "string \<Rightarrow> string \<Rightarrow> (durable_error, unit) res" where
  "safe_directory dir lab =
     guard (starts_with dir ''/'' \<and> ''..'' \<notin> set (split_on (CHR ''/'') dir)) (UnsafeDirectory lab)"

section \<open>Encoding\<close>

definition encode_op :: "journal_op \<Rightarrow> json" where
  "encode_op p =
     JObject [(''name'', JString (jo_name p)), (''started'', JNumber (PosInt (jo_started p))),
       (''completed'', case jo_completed p of None \<Rightarrow> JNull | Some t \<Rightarrow> JNumber (PosInt t))]"

definition encode_state :: "journal_state \<Rightarrow> json" where
  "encode_state ops =
     JObject [(''schema_version'', JNumber (PosInt SCHEMA_VERSION)), (''ops'', JArray (map encode_op ops))]"

definition decode_op :: "json \<Rightarrow> (durable_error, journal_op) res" where
  "decode_op entry =
     and_then (ok_or EntryWithoutName (Option.bind (json_get entry ''name'') json_as_str)) (\<lambda>raw.
     and_then (validated_op_name raw) (\<lambda>name.
     and_then (ok_or (EntryWithoutStart name) (Option.bind (json_get entry ''started'') json_as_u64)) (\<lambda>start.
     Inr \<lparr>jo_name = name, jo_started = start, jo_completed = Option.bind (json_get entry ''completed'') json_as_u64\<rparr>)))"

fun decode_ops :: "json list \<Rightarrow> (durable_error, journal_state) res" where
  "decode_ops [] = Inr []"
| "decode_ops (e # es) = and_then (decode_op e) (\<lambda>p. and_then (decode_ops es) (\<lambda>ps. Inr (p # ps)))"

definition decode_state :: "json \<Rightarrow> (durable_error, journal_state) res" where
  "decode_state v =
     (if Option.bind (json_get v ''schema_version'') json_as_u64 \<noteq> Some SCHEMA_VERSION then Inl SchemaUnsupported
      else decode_ops (unwrap_or [] (Option.bind (json_get v ''ops'') json_as_array)))"

section \<open>Reading and writing the file\<close>

definition durable_read_regular_file :: "string \<Rightarrow> (disk, durable_error, string) comp" where
  "durable_read_regular_file path =
     then_do (fs_stat path) (\<lambda>metadata.
     case metadata of
       Some (Some (NFile i, len)) \<Rightarrow>
         if len > MAX_JOURNAL_BYTES then return_err JournalTooLarge else fs_read path JournalNotRead
     | Some (Some _) \<Rightarrow> return_err NotARegularFile
     | _ \<Rightarrow> return_err PathNotInspected)"

definition load :: "(string \<Rightarrow> json option) \<Rightarrow> string \<Rightarrow> (disk, durable_error, journal_state) comp" where
  "load dec path =
     then_do (durable_read_regular_file path) (\<lambda>raw.
     then_do (lift_res (ok_or JournalInvalid (dec raw))) (\<lambda>value.
     lift_res (decode_state value)))"

text \<open>\<open>Path::with_extension\<close>.\<close>

definition file_stem :: "string \<Rightarrow> string" where
  "file_stem name =
     (let before = rev (drop 1 (dropWhile (\<lambda>c. c \<noteq> CHR ''.'') (rev name))) in
      if name = ''..'' \<or> before = [] then name else before)"

definition with_extension :: "string \<Rightarrow> string \<Rightarrow> string" where
  "with_extension path ext =
     (let whole = join_with ''/'' (drop_trivial (split_on (CHR ''/'') path)) in
      case path_file_name path of
        None \<Rightarrow> path
      | Some name \<Rightarrow>
          if name = ''..'' \<or> name = [] then path
          else take (length whole - length name) whole @ file_stem name @ ''.'' @ ext)"

definition write_atomically :: "string \<Rightarrow> string \<Rightarrow> (disk, durable_error, unit) comp" where
  "write_atomically path bytes =
     then_do (lift_res (ok_or NoParentDirectory (parent_path path))) (\<lambda>parent.
     then_do (lift_res (safe_directory parent ''journal directory'')) (\<lambda>_.
     let temporary = with_extension path ''json.tmp'' in
     then_do (ignore (fs_remove temporary ())) (\<lambda>_.
     on_error
       (then_do (fs_create_new temporary TemporaryNotCreated) (\<lambda>file.
        then_do (fs_write file bytes JournalNotWritten) (\<lambda>_.
        then_do (fs_sync file JournalNotSynced) (\<lambda>_.
        then_do (fs_rename temporary path JournalNotReplaced) (\<lambda>_.
        fs_sync_dir parent DirectoryNotSynced)))))
       (fs_remove temporary ()))))"

text \<open>The read-back: one retry, then failure.\<close>

definition reloads :: "(string \<Rightarrow> json option) \<Rightarrow> string \<Rightarrow> nat \<Rightarrow> (disk, durable_error, bool) comp" where
  "reloads dec path expected =
     then_do (attempt (load dec path)) (\<lambda>reloaded.
     return_ok (case reloaded of Inl _ \<Rightarrow> False | Inr ops \<Rightarrow> length ops = expected))"

definition write_state ::
    "(json \<Rightarrow> string) \<Rightarrow> (string \<Rightarrow> json option) \<Rightarrow> string \<Rightarrow> journal_state \<Rightarrow> (disk, durable_error, unit) comp" where
  "write_state enc dec path ops =
     (let bytes = enc (encode_state ops); expected = length ops in
      then_do (write_atomically path bytes) (\<lambda>_.
      then_do (reloads dec path expected) (\<lambda>same.
      if same then return_ok ()
      else
        then_do (write_atomically path bytes) (\<lambda>_.
        then_do (attempt (load dec path)) (\<lambda>answer.
        then_do (lift_res (map_err VerificationFailed answer)) (\<lambda>reloaded.
        if length reloaded = expected then return_ok () else return_err (CountMismatch expected (length reloaded))))))))"

section \<open>Operations\<close>

text \<open>The most recent open record of that name.\<close>

definition open_record :: "string \<Rightarrow> journal_op \<Rightarrow> bool" where
  "open_record name p \<longleftrightarrow> jo_name p = name \<and> jo_completed p = None"

fun complete_last :: "string \<Rightarrow> nat \<Rightarrow> journal_state \<Rightarrow> journal_state option" where
  "complete_last name now [] = None"
| "complete_last name now (p # ps) =
     (case complete_last name now ps of
        Some ps' \<Rightarrow> Some (p # ps')
      | None \<Rightarrow> if open_record name p then Some (p\<lparr>jo_completed := Some now\<rparr> # ps) else None)"

definition apply_record :: "string \<Rightarrow> op_state \<Rightarrow> nat \<Rightarrow> journal_state \<Rightarrow> journal_state" where
  "apply_record name st now ops =
     (case st of
        Started \<Rightarrow> ops @ [\<lparr>jo_name = name, jo_started = now, jo_completed = None\<rparr>]
      | Completed \<Rightarrow>
          (case complete_last name now ops of
             Some ops' \<Rightarrow> ops'
           | None \<Rightarrow> ops @ [\<lparr>jo_name = name, jo_started = now, jo_completed = Some now\<rparr>]))"

definition record_op ::
    "(json \<Rightarrow> string) \<Rightarrow> (string \<Rightarrow> json option) \<Rightarrow> nat option \<Rightarrow> string \<Rightarrow> string \<Rightarrow> op_state
       \<Rightarrow> (disk, durable_error, unit) comp" where
  "record_op enc dec clock path raw st =
     then_do (lift_res (validated_op_name raw)) (\<lambda>name.
     then_do (lift_res (ok_or ClockUnavailable clock)) (\<lambda>now.
     then_do (load dec path) (\<lambda>ops.
     write_state enc dec path (apply_record name st now ops))))"

definition open_journal ::
    "(json \<Rightarrow> string) \<Rightarrow> (string \<Rightarrow> json option) \<Rightarrow> string option \<Rightarrow> string \<Rightarrow> (disk, durable_error, string) comp" where
  "open_journal enc dec esp_mount target_root =
     (let dir = unwrap_or target_root esp_mount in
      then_do (lift_res (safe_directory dir ''journal directory'')) (\<lambda>_.
      then_do (fs_create_dir_all dir DirectoryNotCreated) (\<lambda>_.
      then_do (fs_stat dir) (\<lambda>metadata.
      case metadata of
        Some (Some (NDir, _)) \<Rightarrow>
          (let path = path_join dir JOURNAL_FILE_NAME in
           then_do (fs_stat path) (\<lambda>found.
           case found of
             Some None \<Rightarrow> then_do (write_state enc dec path []) (\<lambda>_. return_ok path)
           | Some (Some (NFile i, _)) \<Rightarrow> then_do (load dec path) (\<lambda>_. return_ok path)
           | Some (Some _) \<Rightarrow> return_err NotARegularFile
           | None \<Rightarrow> return_err PathNotInspected))
      | Some (Some _) \<Rightarrow> return_err NotADirectory
      | _ \<Rightarrow> return_err DirectoryNotInspected))))"

definition merge_journal_states :: "journal_state \<Rightarrow> journal_state \<Rightarrow> journal_state" where
  "merge_journal_states staging existing =
     fold (\<lambda>p merged. if op_completed merged (jo_name p) then merged else merged @ [p]) existing staging"

definition relocate ::
    "(json \<Rightarrow> string) \<Rightarrow> (string \<Rightarrow> json option) \<Rightarrow> string \<Rightarrow> string \<Rightarrow> (disk, durable_error, string) comp" where
  "relocate enc dec path dest =
     (if path_key dest = path_key path then return_ok path
      else
        then_do (lift_res (ok_or NoParentDirectory (parent_path dest))) (\<lambda>parent.
        then_do (lift_res (safe_directory parent ''journal destination directory'')) (\<lambda>_.
        then_do (fs_create_dir_all parent DirectoryNotCreated) (\<lambda>_.
        then_do (load dec path) (\<lambda>staging.
        then_do (fs_stat dest) (\<lambda>found.
        then_do
          (case found of
             Some (Some _) \<Rightarrow>
               then_do (attempt (load dec dest)) (\<lambda>answer.
               return_ok (case answer of Inr existing \<Rightarrow> merge_journal_states staging existing | Inl _ \<Rightarrow> staging))
           | Some None \<Rightarrow> return_ok staging
           | None \<Rightarrow> return_err PathNotInspected) (\<lambda>merged.
        then_do (write_state enc dec dest merged) (\<lambda>_. return_ok dest))))))))"

end
