(* ===== verification/Durable_Safety.thy ===== *)
theory Durable_Safety
  imports Installer_Durable "HOL-Library.Countable"
begin

text \<open>
  What the crash-recovery journal guarantees: what is written is read back, a crash leaves the old or
  the new journal, a reported success survives any crash, a torn write is never reported as a
  success, and merging two journals loses no completion.
\<close>

section \<open>Paths\<close>

lemma split_on_not_nil [simp]: "split_on c s \<noteq> []"
  by (cases s) (auto split: list.splits)

lemma split_on_pieces: "w \<in> set (split_on c s) \<Longrightarrow> c \<notin> set w"
proof (induction s arbitrary: w)
  case (Cons x xs)
  show ?case
  proof (cases "split_on c xs")
    case (Cons y ys)
    with Cons.IH Cons.prems show ?thesis by (auto split: if_splits)
  qed simp
qed simp

lemma split_on_word: "c \<notin> set w \<Longrightarrow> split_on c w = [w]"
  by (induction w) auto

lemma split_on_append: "c \<notin> set w \<Longrightarrow> split_on c (w @ c # s) = w # split_on c s"
  by (induction w) auto

lemma split_on_join:
  assumes "ws \<noteq> []" and "\<forall>w \<in> set ws. c \<notin> set w"
  shows "split_on c (join_with [c] ws) = ws"
  using assms by (induction "[c]" ws rule: join_with.induct) (auto simp: split_on_word split_on_append)

lemma drop_trivial_split: "\<exists>ts. cs = drop_trivial cs @ ts \<and> (\<forall>t \<in> set ts. t = [] \<or> t = ''.'')"
proof (intro exI conjI ballI)
  let ?P = "\<lambda>c :: string. c = [] \<or> c = ''.''"
  show "cs = drop_trivial cs @ rev (takeWhile ?P (rev cs))"
    using takeWhile_dropWhile_id [of ?P "rev cs"] unfolding drop_trivial_def rev_append [symmetric] by simp
  show "?P t" if "t \<in> set (rev (takeWhile ?P (rev cs)))" for t
    using that set_takeWhileD [of t ?P "rev cs"] by simp
qed

lemma drop_trivial_last:
  assumes "drop_trivial cs \<noteq> []"
  shows "last (drop_trivial cs) \<noteq> [] \<and> last (drop_trivial cs) \<noteq> ''.''"
proof -
  have "dropWhile (\<lambda>c. c = [] \<or> c = ''.'') (rev cs) \<noteq> []" using assms by (simp add: drop_trivial_def)
  from hd_dropWhile [OF this] this show ?thesis by (simp add: drop_trivial_def last_rev)
qed

lemma filter_drop_trivial:
  "filter (\<lambda>c. c \<noteq> [] \<and> c \<noteq> ''.'') (drop_trivial cs) = filter (\<lambda>c. c \<noteq> [] \<and> c \<noteq> ''.'') cs"
proof -
  obtain ts where ts: "cs = drop_trivial cs @ ts" "\<forall>t \<in> set ts. t = [] \<or> t = ''.''" using drop_trivial_split by blast
  have "filter (\<lambda>c. c \<noteq> [] \<and> c \<noteq> ''.'') cs = filter (\<lambda>c. c \<noteq> [] \<and> c \<noteq> ''.'') (drop_trivial cs @ ts)"
    using ts(1) by simp
  also have "filter (\<lambda>c. c \<noteq> [] \<and> c \<noteq> ''.'') ts = []" using ts(2) by (auto simp: filter_empty_conv)
  then have "filter (\<lambda>c. c \<noteq> [] \<and> c \<noteq> ''.'') (drop_trivial cs @ ts) = filter (\<lambda>c. c \<noteq> [] \<and> c \<noteq> ''.'') (drop_trivial cs)"
    by simp
  finally show ?thesis by simp
qed

lemma set_drop_trivial: "set (drop_trivial cs) \<subseteq> set cs"
  by (metis (no_types) drop_trivial_split Un_upper1 set_append)

text \<open>The directory that is synced is the one that holds the file.\<close>

lemma absolute_split: "starts_with p ''/'' \<Longrightarrow> \<exists>q. p = CHR ''/'' # q \<and> split_on (CHR ''/'') p = [] # split_on (CHR ''/'') q"
  by (auto simp: starts_with_iff)

lemma parent_path_key:
  assumes "parent_path path = Some parent" and "starts_with path ''/''"
  shows "in_directory (path_key path) (path_key parent)"
proof -
  let ?nt = "\<lambda>c :: string. c \<noteq> [] \<and> c \<noteq> ''.''"
  from absolute_split [OF assms(2)] obtain q where q: "path = CHR ''/'' # q" "split_on (CHR ''/'') path = [] # split_on (CHR ''/'') q"
    by blast
  define body where "body = drop_trivial (split_on (CHR ''/'') q)"
  define bs where "bs = drop_trivial (butlast body)"
  have body: "body \<noteq> []" and parent: "parent = ''/'' @ join_with ''/'' bs"
    using assms(1) q by (auto simp: parent_path_def body_def bs_def Let_def split: if_splits)
  have clean: "\<forall>w \<in> set bs. CHR ''/'' \<notin> set w"
  proof
    fix w assume "w \<in> set bs"
    then have "w \<in> set body" using set_drop_trivial in_set_butlastD unfolding bs_def by fastforce
    then have "w \<in> set (split_on (CHR ''/'') q)" using set_drop_trivial unfolding body_def by blast
    then show "CHR ''/'' \<notin> set w" by (rule split_on_pieces)
  qed
  have path: "path_key path = (True, False, filter ?nt body)"
    using q filter_drop_trivial [of "split_on (CHR ''/'') q"] by (simp add: path_key_def body_def)
  have "split_on (CHR ''/'') parent = [] # (if bs = [] then [[]] else bs)"
    using clean split_on_join [of bs "CHR ''/''"] by (simp add: parent)
  then have "path_key parent = (True, False, filter ?nt bs)" by (simp add: path_key_def parent)
  also have "filter ?nt bs = filter ?nt (butlast body)" unfolding bs_def by (rule filter_drop_trivial)
  finally have par: "path_key parent = (True, False, filter ?nt (butlast body))" .
  have last: "last body \<noteq> [] \<and> last body \<noteq> ''.''"
    using drop_trivial_last [of "split_on (CHR ''/'') q"] body by (simp add: body_def)
  have "filter ?nt body = filter ?nt (butlast body @ [last body])" using append_butlast_last_id [OF body] by simp
  also have "\<dots> = filter ?nt (butlast body) @ [last body]" unfolding filter_append using last by simp
  finally have "filter ?nt body = filter ?nt (butlast body) @ [last body]" .
  then show ?thesis by (simp add: in_directory_def path par)
qed

section \<open>Encoding\<close>

lemma validated_op_name_trim: "validated_op_name raw = Inr name \<Longrightarrow> validated_op_name name = Inr name"
  by (auto simp: validated_op_name_def Let_def split: if_splits)

definition named_ops :: "journal_state \<Rightarrow> bool" where
  "named_ops ops \<longleftrightarrow> (\<forall>p \<in> set ops. validated_op_name (jo_name p) = Inr (jo_name p))"

lemma decode_encode_op: "validated_op_name (jo_name p) = Inr (jo_name p) \<Longrightarrow> decode_op (encode_op p) = Inr p"
  by (cases p; cases "jo_completed p") (simp_all add: decode_op_def encode_op_def)

lemma decode_encode: "named_ops ops \<Longrightarrow> decode_state (encode_state ops) = Inr ops"
proof -
  assume "named_ops ops"
  then have "decode_ops (map encode_op ops) = Inr ops"
    by (induction ops) (auto simp: named_ops_def decode_encode_op)
  then show ?thesis by (simp add: decode_state_def encode_state_def)
qed

lemma decode_op_named: "decode_op e = Inr p \<Longrightarrow> validated_op_name (jo_name p) = Inr (jo_name p)"
  by (auto simp: decode_op_def) (erule validated_op_name_trim)

lemma decode_ops_named: "decode_ops es = Inr ops \<Longrightarrow> named_ops ops"
  by (induction es arbitrary: ops) (auto simp: named_ops_def decode_op_named)

lemma decode_state_named: "decode_state v = Inr ops \<Longrightarrow> named_ops ops"
  by (auto simp: decode_state_def decode_ops_named split: if_splits)

lemma complete_last_Some:
  "complete_last name now ops = Some ops' \<Longrightarrow>
     \<exists>xs p ys. ops = xs @ p # ys \<and> open_record name p \<and> ops' = xs @ p\<lparr>jo_completed := Some now\<rparr> # ys \<and>
       (\<forall>q \<in> set ys. \<not> open_record name q)"
proof (induction ops arbitrary: ops')
  case (Cons p ps)
  show ?case
  proof (cases "complete_last name now ps")
    case None
    then have "\<forall>q \<in> set ps. \<not> open_record name q"
      by (induction ps) (auto split: option.splits if_splits)
    with None Cons.prems show ?thesis by (intro exI [of _ "[]"] exI [of _ p] exI [of _ ps]) (auto split: if_splits)
  next
    case (Some ps')
    with Cons.IH [OF Some] obtain xs q ys where
      "ps = xs @ q # ys" "open_record name q" "ps' = xs @ q\<lparr>jo_completed := Some now\<rparr> # ys" "\<forall>r \<in> set ys. \<not> open_record name r"
      by blast
    with Some Cons.prems show ?thesis by (intro exI [of _ "p # xs"] exI [of _ q] exI [of _ ys]) simp
  qed
qed simp

lemma apply_record_named:
  "named_ops ops \<Longrightarrow> validated_op_name name = Inr name \<Longrightarrow> named_ops (apply_record name st now ops)"
  by (auto simp: apply_record_def named_ops_def split: op_state.splits option.splits dest!: complete_last_Some)

section \<open>Merging\<close>

lemma op_completed_append [simp]:
  "op_completed (xs @ ys) name \<longleftrightarrow> op_completed xs name \<or> op_completed ys name"
  "op_started (xs @ ys) name \<longleftrightarrow> op_started xs name \<or> op_started ys name"
  by (auto simp: op_completed_def op_started_def)

lemma op_completed_Cons [simp]:
  "op_completed (p # ps) name \<longleftrightarrow> jo_name p = name \<and> jo_completed p \<noteq> None \<or> op_completed ps name"
  "op_started (p # ps) name \<longleftrightarrow> jo_name p = name \<or> op_started ps name"
  "\<not> op_completed [] name" "\<not> op_started [] name"
  by (auto simp: op_completed_def op_started_def)

lemma op_completed_started: "op_completed ops name \<Longrightarrow> op_started ops name"
  by (auto simp: op_completed_def op_started_def)

lemma merge_facts:
  "(op_completed (merge_journal_states staging existing) name \<longleftrightarrow> op_completed staging name \<or> op_completed existing name) \<and>
   (op_started (merge_journal_states staging existing) name \<longleftrightarrow> op_started staging name \<or> op_started existing name) \<and>
   (\<exists>kept. merge_journal_states staging existing = staging @ kept \<and> set kept \<subseteq> set existing)"
  unfolding merge_journal_states_def
proof (induction existing arbitrary: staging)
  case (Cons p ps)
  show ?case
  proof (cases "op_completed staging (jo_name p)")
    case True
    with Cons.IH [of staging] op_completed_started [OF True] show ?thesis by auto
  next
    case False
    with Cons.IH [of "staging @ [p]"] show ?thesis by auto
  qed
qed simp

section \<open>Calls\<close>

text \<open>What a fault-free reader finds at a path.\<close>

definition content :: "disk \<Rightarrow> string \<Rightarrow> string option" where
  "content d path = (case dk_entries d (path_key path) of Some (NFile i) \<Rightarrow> Some (dk_data d i) | _ \<Rightarrow> None)"

definition journal_at :: "(string \<Rightarrow> json option) \<Rightarrow> disk \<Rightarrow> string \<Rightarrow> journal_state option" where
  "journal_at dec d path =
     (case content d path of
        None \<Rightarrow> None
      | Some raw \<Rightarrow>
          if length raw > MAX_JOURNAL_BYTES then None
          else case dec raw of None \<Rightarrow> None | Some v \<Rightarrow> (case decode_state v of Inl _ \<Rightarrow> None | Inr ops \<Rightarrow> Some ops))"

text \<open>Reading changes nothing but the number of calls, or stops the machine.\<close>

definition same_disk :: "disk \<Rightarrow> disk \<Rightarrow> bool" where
  "same_disk d t \<longleftrightarrow> dk_entries t = dk_entries d \<and> dk_data t = dk_data d \<and> dk_synced t = dk_synced d \<and>
     dk_pending t = dk_pending d \<and> dk_next t = dk_next d \<and> dk_faults t = dk_faults d"

interpretation reading: effect_relation same_disk
  by unfold_locales (auto simp: same_disk_def)

lemma fs_call_cases:
  obtains (idle) t where "fs_call opn err d = (Inl err, t)" and "same_disk d t"
  | (ran) f d' where "same_disk d d'" and "f = dk_faults d (dk_calls d)" and "\<not> dk_halted d" and "f \<noteq> Halt"
      and "fs_call opn err d = (case opn f d' of (None, t) \<Rightarrow> (Inl err, t) | (Some x, t) \<Rightarrow> (Inr x, t))"
proof (cases "dk_halted d \<or> dk_faults d (dk_calls d) = Halt")
  case True
  then obtain t where "fs_call opn err d = (Inl err, t)" "same_disk d t"
    by (cases "dk_halted d") (auto simp: fs_call_def Let_def same_disk_def)
  then show ?thesis by (rule idle)
next
  case False
  then show ?thesis
    by (intro ran [of "d\<lparr>dk_calls := Suc (dk_calls d)\<rparr>" "dk_faults d (dk_calls d)"])
      (auto simp: fs_call_def Let_def same_disk_def)
qed

text \<open>A relation that a mere look at the disk keeps is kept by a call as soon as its effect keeps it.\<close>

locale disk_relation = effect_relation R for R :: "disk \<Rightarrow> disk \<Rightarrow> bool" +
  assumes same_R: "same_disk d t \<Longrightarrow> R d t"
begin

lemma keeps_call:
  assumes "\<And>f d. R d (snd (opn f d))"
  shows "keeps (fs_call opn err)"
  unfolding keeps_def
proof
  fix d
  show "R d (snd (fs_call opn err d))"
  proof (cases rule: fs_call_cases [of opn err d])
    case (idle t)
    then show ?thesis by (simp add: same_R)
  next
    case (ran f d')
    then have "snd (fs_call opn err d) = snd (opn f d')" by (simp split: prod.splits option.splits)
    with assms [of d' f] same_R [OF ran(1)] show ?thesis using R_trans by metis
  qed
qed

end

lemma fs_stat_same: "reading.keeps (fs_stat p)"
  unfolding reading.keeps_def fs_stat_def
proof
  fix d :: disk
  let ?op = "\<lambda>f d. (if f \<noteq> Fine then None
           else Some (map_option (\<lambda>n. (n, case n of NFile i \<Rightarrow> length (dk_data d i) | _ \<Rightarrow> 0)) (dk_entries d (path_key p))), d)"
  show "same_disk d (snd (case fs_call ?op () d of (Inl _, t) \<Rightarrow> (Inr None, t) | (Inr x, t) \<Rightarrow> (Inr (Some x), t)))"
    by (cases rule: fs_call_cases [of ?op "()" d]) auto
qed

lemma fs_read_same: "reading.keeps (fs_read p err)"
  unfolding reading.keeps_def fs_read_def
proof
  fix d :: disk
  let ?op = "\<lambda>f d. (if f \<noteq> Fine then None
      else case dk_entries d (path_key p) of Some (NFile i) \<Rightarrow> Some (dk_data d i) | _ \<Rightarrow> None, d)"
  show "same_disk d (snd (fs_call ?op err d))"
    by (cases rule: fs_call_cases [of ?op err d]) (auto split: option.splits node.splits)
qed

lemma load_same: "reading.keeps (load dec path)"
  unfolding load_def durable_read_regular_file_def
  by (intro reading.keeps_then reading.keeps_pure fs_stat_same)
    (auto intro!: reading.keeps_pure fs_read_same split: option.splits prod.splits node.splits)

lemma same_disk_content: "same_disk d t \<Longrightarrow> content t path = content d path"
proof -
  assume "same_disk d t"
  then have e: "dk_entries t = dk_entries d" "dk_data t = dk_data d" by (simp_all add: same_disk_def)
  show ?thesis unfolding content_def e by (rule refl)
qed

lemma same_disk_journal: "same_disk d t \<Longrightarrow> journal_at dec t path = journal_at dec d path"
  by (simp add: same_disk_content journal_at_def)

text \<open>A load that succeeds returns what is there.\<close>

lemma fs_stat_file:
  "fs_stat p d = (Inr (Some (Some (NFile i, len))), t) \<Longrightarrow>
     dk_entries d (path_key p) = Some (NFile i) \<and> len = length (dk_data d i)"
  by (cases rule: fs_call_cases [of "\<lambda>f d.
          (if f \<noteq> Fine then None
           else Some (map_option (\<lambda>n. (n, case n of NFile i \<Rightarrow> length (dk_data d i) | _ \<Rightarrow> 0)) (dk_entries d (path_key p))), d)" "()" d])
    (auto simp: fs_stat_def same_disk_def split: if_splits)

lemma fs_read_file: "fs_read p err d = (Inr raw, t) \<Longrightarrow> content d p = Some raw"
  by (cases rule: fs_call_cases [of "\<lambda>f d. (if f \<noteq> Fine then None
      else case dk_entries d (path_key p) of Some (NFile i) \<Rightarrow> Some (dk_data d i) | _ \<Rightarrow> None, d)" err d])
    (auto simp: fs_read_def same_disk_def content_def split: if_splits option.splits node.splits)

lemma load_ok:
  assumes "load dec path d = (Inr ops, t)"
  shows "journal_at dec d path = Some ops \<and> same_disk d t"
proof -
  from assms obtain raw u where raw: "durable_read_regular_file path d = (Inr raw, u)"
    and dec: "\<exists>v. dec raw = Some v \<and> decode_state v = Inr ops" by (auto simp: load_def)
  from raw obtain m w where m: "fs_stat path d = ((Inr m, w) :: (durable_error, _) res \<times> disk)"
    and rest: "(case m of Some (Some (NFile i, len)) \<Rightarrow>
        if len > MAX_JOURNAL_BYTES then return_err JournalTooLarge else fs_read path JournalNotRead
      | Some (Some _) \<Rightarrow> return_err NotARegularFile | _ \<Rightarrow> return_err PathNotInspected) w = (Inr raw, u)"
    unfolding durable_read_regular_file_def then_do_Inr by blast
  from rest obtain i len where mf: "m = Some (Some (NFile i, len))"
    by (cases m) (auto split: option.splits prod.splits node.splits)
  have st: "fs_stat path d = ((Inr (Some (Some (NFile i, len))), w) :: (durable_error, _) res \<times> disk)" "\<not> len > MAX_JOURNAL_BYTES"
    and rd: "fs_read path JournalNotRead w = (Inr raw, u)"
    using m rest by (auto simp: mf split: if_splits)
  have "same_disk d w" by (rule reading.keepsD [OF fs_stat_same st(1)])
  then have "content d path = Some raw" using fs_read_file [OF rd] same_disk_content by simp
  moreover have "length raw \<le> MAX_JOURNAL_BYTES"
    using fs_stat_file [OF st(1)] st(2) calculation by (auto simp: content_def)
  ultimately show ?thesis using dec reading.keepsD [OF load_same assms] by (auto simp: journal_at_def)
qed

section \<open>Writing\<close>

text \<open>While the temporary file is prepared, the journal's name, its history and every older file stay as they are.\<close>

definition untouched :: "path_key \<Rightarrow> nat set \<Rightarrow> disk \<Rightarrow> disk \<Rightarrow> bool" where
  "untouched k P d t \<longleftrightarrow> dk_faults t = dk_faults d \<and>
     (P \<subseteq> {..<dk_next d} \<longrightarrow> P \<subseteq> {..<dk_next t} \<and> dk_entries t k = dk_entries d k \<and> dk_pending t k = dk_pending d k \<and>
       (\<forall>i \<in> P. dk_data t i = dk_data d i \<and> dk_synced t i = dk_synced d i))"

lemma same_disk_untouched: "same_disk d t \<Longrightarrow> untouched k P d t"
  by (simp add: same_disk_def untouched_def)

interpretation apart: disk_relation "untouched k P" for k P
  by unfold_locales (auto simp: untouched_def same_disk_def)

lemma set_entry_untouched: "a \<noteq> k \<Longrightarrow> untouched k P d (set_entry a v d)"
  by (simp add: untouched_def set_entry_def)

lemma set_data_untouched: "i \<notin> P \<Longrightarrow> untouched k P d (set_data i bytes d)"
  by (simp add: untouched_def set_data_def)

lemma new_file_untouched: "a \<noteq> k \<Longrightarrow> untouched k P d (new_file a bytes d)"
  by (auto simp: untouched_def new_file_def set_entry_def set_data_def)

lemma fs_remove_untouched: "path_key p \<noteq> k \<Longrightarrow> apart.keeps k P (fs_remove p err)"
  unfolding fs_remove_def by (rule apart.keeps_call) (auto simp: apart.R_refl set_entry_untouched)

lemma fs_create_new_untouched: "path_key p \<noteq> k \<Longrightarrow> apart.keeps k P (fs_create_new p err)"
  unfolding fs_create_new_def by (rule apart.keeps_call) (auto simp: apart.R_refl new_file_untouched)

lemma fs_write_untouched: "i \<notin> P \<Longrightarrow> apart.keeps k P (fs_write i bytes err)"
  unfolding fs_write_def by (rule apart.keeps_call) (auto simp: apart.R_refl set_data_untouched split: fault.splits)

lemma fs_sync_untouched: "i \<notin> P \<Longrightarrow> apart.keeps k P (fs_sync i err)"
  unfolding fs_sync_def by (rule apart.keeps_call) (auto simp: apart.R_refl untouched_def)

text \<open>What the successful calls establish.\<close>

lemma fs_call_ok:
  assumes "fs_call opn err d = (Inr x, t)"
  obtains f d' where "same_disk d d'" and "f = dk_faults d (dk_calls d)" and "opn f d' = (Some x, t)"
  using assms by (cases rule: fs_call_cases [of opn err d]) (auto split: option.splits prod.splits)

lemma fs_create_new_ok:
  assumes "fs_create_new p err d = (Inr i, t)"
  shows "i = dk_next d \<and> dk_entries t (path_key p) = Some (NFile i) \<and> dk_faults t = dk_faults d \<and> dk_next t = Suc i"
  using assms unfolding fs_create_new_def
  by (rule fs_call_ok) (auto simp: same_disk_def new_file_def set_entry_def set_data_def split: if_splits)

lemma fs_write_ok:
  assumes "fs_write i bytes err d = (Inr u, t)"
  shows "dk_data t i = bytes \<and> dk_entries t = dk_entries d \<and> dk_faults t = dk_faults d \<and> dk_next t = dk_next d"
  using assms unfolding fs_write_def
  by (rule fs_call_ok) (auto simp: same_disk_def set_data_def split: fault.splits)

lemma fs_sync_ok:
  assumes "fs_sync i err d = (Inr u, t)"
  shows "dk_synced t i \<and> dk_data t = dk_data d \<and> dk_entries t = dk_entries d \<and> dk_faults t = dk_faults d \<and> dk_next t = dk_next d"
  using assms unfolding fs_sync_def
  by (rule fs_call_ok) (auto simp: same_disk_def split: if_splits)

text \<open>The outcome of replacing the journal: a name that leads nowhere or to a piece of the new content,
  and without torn renames to all of it, synced, with the older history of the name forgotten on success.\<close>

definition torn_free :: "disk \<Rightarrow> bool" where
  "torn_free d \<longleftrightarrow> (\<forall>c. dk_faults d c \<noteq> Vanished \<and> (\<forall>m. dk_faults d c \<noteq> Torn m))"

definition fragment :: "path_key \<Rightarrow> string \<Rightarrow> disk \<Rightarrow> bool" where
  "fragment k bytes t \<longleftrightarrow> dk_entries t k = None \<or>
     (\<exists>i m. dk_entries t k = Some (NFile i) \<and> i < dk_next t \<and> dk_data t i = take m bytes)"

definition replaced :: "path_key \<Rightarrow> nat set \<Rightarrow> string \<Rightarrow> disk \<Rightarrow> bool \<Rightarrow> disk \<Rightarrow> bool" where
  "replaced k P bytes d success t \<longleftrightarrow>
     (\<exists>i. i \<notin> P \<and> i < dk_next t \<and> dk_entries t k = Some (NFile i) \<and> dk_data t i = bytes \<and> dk_synced t i \<and>
        dk_pending t k = (if success then [Some (NFile i)] else dk_pending d k @ [Some (NFile i)])) \<and>
     P \<subseteq> {..<dk_next t} \<and> (\<forall>i \<in> P. dk_data t i = dk_data d i \<and> dk_synced t i = dk_synced d i)"

definition write_outcome :: "path_key \<Rightarrow> nat set \<Rightarrow> string \<Rightarrow> disk \<Rightarrow> ('e, 'a) res \<times> disk \<Rightarrow> bool" where
  "write_outcome k P bytes d rt \<longleftrightarrow>
     (\<not> is_ok (fst rt) \<and> untouched k P d (snd rt)) \<or>
     (fragment k bytes (snd rt) \<and> dk_faults (snd rt) = dk_faults d \<and>
       (torn_free d \<longrightarrow> replaced k P bytes d (is_ok (fst rt)) (snd rt)))"

lemma write_outcome_step:
  assumes "untouched k P d (snd (m d))" and "P \<subseteq> {..<dk_next d}" and "\<And>x t. m d = (Inr x, t) \<Longrightarrow> write_outcome k P bytes t (f x t)"
  shows "write_outcome k P bytes d (then_do m f d)"
proof (cases rule: then_do_cases [of m d f])
  case (err e t)
  then show ?thesis using assms(1) by (simp add: write_outcome_def)
next
  case (ok x t)
  have u: "untouched k P d t" using assms(1) ok(1) by simp
  have P: "P \<subseteq> {..<dk_next t}" and eq: "dk_faults t = dk_faults d" "dk_pending t k = dk_pending d k"
    "\<forall>i \<in> P. dk_data t i = dk_data d i \<and> dk_synced t i = dk_synced d i"
    using u assms(2) by (auto simp: untouched_def)
  have "replaced k P bytes t b s = replaced k P bytes d b s" for b s
    unfolding replaced_def eq(2) using eq(3) by auto
  moreover have "torn_free t = torn_free d" by (simp add: torn_free_def eq(1))
  moreover have "untouched k P t s \<Longrightarrow> untouched k P d s" for s using u apart.R_trans by blast
  ultimately show ?thesis using assms(3) [OF ok(1)] ok(2) eq(1) by (auto simp: write_outcome_def)
qed

lemma write_outcome_then:
  assumes "apart.keeps k P m" and "P \<subseteq> {..<dk_next d}" and "\<And>x t. m d = (Inr x, t) \<Longrightarrow> write_outcome k P bytes t (f x t)"
  shows "write_outcome k P bytes d (then_do m f d)"
proof (rule write_outcome_step)
  show "untouched k P d (snd (m d))" using assms(1) unfolding apart.keeps_def by blast
qed (rule assms)+

lemma fs_rename_outcome:
  assumes "dk_entries d (path_key a) = Some (NFile i)" and "i < dk_next d" and "path_key a \<noteq> path_key b"
  shows "fs_rename a b err d = (Inl err', t) \<Longrightarrow> same_disk d t"
    and "fs_rename a b err d = (Inr u, t) \<Longrightarrow>
      fragment (path_key b) (dk_data d i) t \<and> dk_faults t = dk_faults d \<and>
      (torn_free d \<longrightarrow> dk_entries t (path_key b) = Some (NFile i) \<and> dk_data t = dk_data d \<and> dk_synced t = dk_synced d \<and>
        dk_next t = dk_next d \<and> dk_pending t (path_key b) = dk_pending d (path_key b) @ [Some (NFile i)])"
proof -
  let ?op = "\<lambda>f d. case dk_entries d (path_key a) of
       Some (NFile i) \<Rightarrow>
         if dk_entries d (path_key b) = Some NDir then (None, d)
         else (case f of
             Fine \<Rightarrow> (Some (), set_entry (path_key a) None (set_entry (path_key b) (Some (NFile i)) d))
           | Torn n \<Rightarrow> (Some (), set_entry (path_key a) None (new_file (path_key b) (take n (dk_data d i)) d))
           | Vanished \<Rightarrow> (Some (), set_entry (path_key a) None (set_entry (path_key b) None d))
           | _ \<Rightarrow> (None, d))
     | _ \<Rightarrow> (None, d)"
  {
    assume "fs_rename a b err d = (Inl err', t)"
    then show "same_disk d t" unfolding fs_rename_def
      by (cases rule: fs_call_cases [of ?op err d])
        (use assms(1) in \<open>auto simp: same_disk_def split: if_splits fault.splits\<close>)
  }
  assume "fs_rename a b err d = (Inr u, t)"
  then obtain f d' where d': "same_disk d d'" and f: "f = dk_faults d (dk_calls d)" and opn: "?op f d' = (Some u, t)"
    unfolding fs_rename_def by (rule fs_call_ok)
  have e: "dk_entries d' = dk_entries d" "dk_data d' = dk_data d" "dk_synced d' = dk_synced d" "dk_pending d' = dk_pending d"
    "dk_next d' = dk_next d" "dk_faults d' = dk_faults d" using d' by (simp_all add: same_disk_def)
  have whole: "\<exists>m. dk_data d i = take m (dk_data d i)" by (rule exI [of _ "length (dk_data d i)"]) simp
  show "fragment (path_key b) (dk_data d i) t \<and> dk_faults t = dk_faults d \<and>
      (torn_free d \<longrightarrow> dk_entries t (path_key b) = Some (NFile i) \<and> dk_data t = dk_data d \<and> dk_synced t = dk_synced d \<and>
        dk_next t = dk_next d \<and> dk_pending t (path_key b) = dk_pending d (path_key b) @ [Some (NFile i)])"
  proof (cases f)
    case Fine
    with opn assms e have "t = set_entry (path_key a) None (set_entry (path_key b) (Some (NFile i)) d')"
      by (auto split: if_splits)
    with assms e whole show ?thesis by (auto simp: fragment_def set_entry_def)
  next
    case (Torn m)
    with opn assms e have "t = set_entry (path_key a) None (new_file (path_key b) (take m (dk_data d i)) d')"
      by (auto split: if_splits)
    with assms e Torn f show ?thesis by (auto simp: fragment_def set_entry_def new_file_def set_data_def torn_free_def)
  next
    case Vanished
    with opn assms e have "t = set_entry (path_key a) None (set_entry (path_key b) None d')"
      by (auto split: if_splits)
    with assms e Vanished f show ?thesis by (auto simp: fragment_def set_entry_def torn_free_def)
  qed (use opn assms e in \<open>auto split: if_splits\<close>)
qed

lemma fs_sync_dir_outcome:
  assumes "fs_sync_dir dir err d = (r, t)" and "in_directory k (path_key dir)"
  shows "dk_entries t = dk_entries d \<and> dk_data t = dk_data d \<and> dk_synced t = dk_synced d \<and> dk_next t = dk_next d \<and>
    dk_faults t = dk_faults d \<and> dk_pending t k = (if is_ok r then [dk_entries d k] else dk_pending d k)"
  using assms unfolding fs_sync_dir_def
  by (cases rule: fs_call_cases [of "\<lambda>f d. if f \<noteq> Fine then (None, d)
     else (Some (), d\<lparr>dk_pending := (\<lambda>k. if in_directory k (path_key dir) then [dk_entries d k] else dk_pending d k)\<rparr>)" err d])
    (auto simp: same_disk_def split: if_splits)

definition settles :: "path_key \<Rightarrow> (disk, 'e, 'a) comp \<Rightarrow> bool" where
  "settles k m \<longleftrightarrow> (\<forall>d r t. m d = (r, t) \<longrightarrow>
     dk_entries t = dk_entries d \<and> dk_data t = dk_data d \<and> dk_synced t = dk_synced d \<and> dk_next t = dk_next d \<and>
     dk_faults t = dk_faults d \<and> dk_pending t k = (if is_ok r then [dk_entries d k] else dk_pending d k))"

lemma fs_sync_dir_settles: "in_directory k (path_key dir) \<Longrightarrow> settles k (fs_sync_dir dir err)"
  unfolding settles_def by (intro allI impI) (rule fs_sync_dir_outcome)

lemma rename_outcome:
  assumes "dk_entries d (path_key tmp) = Some (NFile i)" and "i \<notin> P" and "i < dk_next d" and "path_key tmp \<noteq> path_key path"
    and "dk_synced d i" and "settles (path_key path) m" and "P \<subseteq> {..<dk_next d}"
  shows "write_outcome (path_key path) P (dk_data d i) d (then_do (fs_rename tmp path err) (\<lambda>_. m) d)"
proof (cases rule: then_do_cases [of "fs_rename tmp path err" d "\<lambda>_. m"])
  case (err e t)
  then show ?thesis
    using fs_rename_outcome(1) [OF assms(1,3,4) err(1)] same_disk_untouched by (simp add: write_outcome_def)
next
  case (ok u t)
  let ?k = "path_key path"
  note rn = fs_rename_outcome(2) [OF assms(1,3,4) ok(1)]
  obtain r w where w: "m t = (r, w)" by (cases "m t")
  have sd: "dk_entries w = dk_entries t \<and> dk_data w = dk_data t \<and> dk_synced w = dk_synced t \<and> dk_next w = dk_next t \<and>
     dk_faults w = dk_faults t \<and> dk_pending w ?k = (if is_ok r then [dk_entries t ?k] else dk_pending t ?k)"
    using assms(6) w unfolding settles_def by blast
  have "fragment ?k (dk_data d i) w" using rn sd unfolding fragment_def by simp
  moreover have "replaced ?k P (dk_data d i) d (is_ok r) w" if "torn_free d"
    unfolding replaced_def
  proof (intro conjI exI [of _ i] ballI)
    show "i \<notin> P" "i < dk_next w" "dk_entries w ?k = Some (NFile i)" "dk_data w i = dk_data d i" "dk_synced w i"
      "dk_pending w ?k = (if is_ok r then [Some (NFile i)] else dk_pending d ?k @ [Some (NFile i)])"
      using that rn sd assms(2,3,5) by simp_all
    show "P \<subseteq> {..<dk_next w}" using that rn sd assms(7) by simp
    show "dk_data w j = dk_data d j" "dk_synced w j = dk_synced d j" for j using that rn sd by simp_all
  qed
  ultimately show ?thesis using ok(2) w rn sd by (simp add: write_outcome_def)
qed

lemma untouched_outcome:
  assumes "write_outcome k P bytes d (r, t)" and "\<And>P. untouched k P t t'" and "P \<subseteq> {..<dk_next d}"
  shows "write_outcome k P bytes d (r, t')"
proof -
  have t': "dk_faults t' = dk_faults t" "dk_entries t' k = dk_entries t k" "dk_pending t' k = dk_pending t k"
    "dk_next t \<le> dk_next t'" "\<forall>i < dk_next t. dk_data t' i = dk_data t i \<and> dk_synced t' i = dk_synced t i"
    using assms(2) [of "{..<dk_next t}"] by (simp_all add: untouched_def)
  have "fragment k bytes t \<Longrightarrow> fragment k bytes t'"
    unfolding fragment_def t'(2) using t'(4,5) by (metis less_le_trans)
  moreover have "replaced k P bytes d b t \<Longrightarrow> replaced k P bytes d b t'" for b
  proof -
    assume r: "replaced k P bytes d b t"
    then have P: "P \<subseteq> {..<dk_next t}" by (auto simp: replaced_def)
    then have "P \<subseteq> {..<dk_next t'}" "\<forall>i \<in> P. dk_data t' i = dk_data t i \<and> dk_synced t' i = dk_synced t i"
      using t'(4,5) by auto
    with r t'(4,5) show ?thesis unfolding replaced_def t'(2,3) by (metis less_le_trans)
  qed
  moreover have "untouched k P d t \<Longrightarrow> untouched k P d t'" using assms(2) [of P] apart.R_trans by blast
  ultimately show ?thesis using assms(1) t'(1) by (auto simp: write_outcome_def)
qed

lemma on_error_outcome:
  assumes "write_outcome k P bytes d (m d)" and "\<And>P t. untouched k P t (snd (c t))" and "P \<subseteq> {..<dk_next d}"
  shows "write_outcome k P bytes d (on_error m c d)"
proof (cases "m d")
  case (Pair r t)
  with untouched_outcome [OF _ assms(2) assms(3), of bytes r t] assms(1) show ?thesis
    by (cases r) (simp_all add: on_error_def)
qed

lemma join_with_hd: "join_with sep (c # ws) = x # r \<Longrightarrow> c \<noteq> [] \<Longrightarrow> x = hd c"
  by (cases ws; cases c) auto

lemma parent_absolute:
  assumes "parent_path path = Some parent" and "starts_with parent ''/''"
  shows "starts_with path ''/''"
proof (rule ccontr)
  assume rel: "\<not> starts_with path ''/''"
  obtain c cs where cs: "split_on (CHR ''/'') path = c # cs" by (cases "split_on (CHR ''/'') path") auto
  have "c \<noteq> [] \<or> path = []" using rel cs by (cases path) (auto split: if_splits list.splits)
  moreover have "CHR ''/'' \<notin> set c" using cs split_on_pieces [of c "CHR ''/''" path] by simp
  ultimately show False using assms cs
    by (cases c) (auto simp: parent_path_def Let_def starts_with_iff dest!: join_with_hd split: if_splits)
qed

lemma write_atomically_outcome:
  assumes "path_key (with_extension path ''json.tmp'') \<noteq> path_key path"
  shows "write_outcome (path_key path) {..<dk_next d} bytes d (write_atomically path bytes d)"
proof -
  let ?k = "path_key path" and ?tmp = "with_extension path ''json.tmp''" and ?P = "{..<dk_next d}"
  show ?thesis
  proof (cases "parent_path path")
    case None
    then show ?thesis by (simp add: write_atomically_def then_do_def write_outcome_def apart.R_refl)
  next
    case (Some parent)
    show ?thesis
    proof (cases "safe_directory parent ''journal directory''")
      case (Inl e)
      with Some show ?thesis by (simp add: write_atomically_def then_do_def write_outcome_def apart.R_refl)
    next
      case (Inr u)
      then have "starts_with parent ''/''" by (simp add: safe_directory_def)
      then have dir: "in_directory ?k (path_key parent)"
        using parent_path_key [OF Some] parent_absolute [OF Some] by blast
      let ?body = "then_do (fs_create_new ?tmp TemporaryNotCreated) (\<lambda>file.
        then_do (fs_write file bytes JournalNotWritten) (\<lambda>_.
        then_do (fs_sync file JournalNotSynced) (\<lambda>_.
        then_do (fs_rename ?tmp path JournalNotReplaced) (\<lambda>_. fs_sync_dir parent DirectoryNotSynced))))"
      have body: "write_outcome ?k ?P bytes s (?body s)" if "?P \<subseteq> {..<dk_next s}" for s
      proof (rule write_outcome_then [OF fs_create_new_untouched [OF assms] that], goal_cases)
        case (1 i t)
        note c = fs_create_new_ok [OF 1]
        show ?case
        proof (rule write_outcome_then [OF fs_write_untouched], goal_cases)
          case (3 u w)
          note wr = fs_write_ok [OF 3]
          show ?case
          proof (rule write_outcome_then [OF fs_sync_untouched], goal_cases)
            case (3 u v)
            note sy = fs_sync_ok [OF 3]
            have "write_outcome ?k ?P (dk_data v i) v
                (then_do (fs_rename ?tmp path JournalNotReplaced) (\<lambda>_. fs_sync_dir parent DirectoryNotSynced) v)"
              by (rule rename_outcome) (use c wr sy that assms fs_sync_dir_settles [OF dir] in auto)
            with wr sy show ?case by simp
          qed (use c wr that in auto)
        qed (use c that in auto)
      qed
      let ?s = "snd (fs_remove ?tmp () d)"
      have rm: "untouched ?k P t (snd (fs_remove ?tmp () t))" for P t
        using fs_remove_untouched [OF assms, where P = P and err = "()"] unfolding apart.keeps_def by blast
      then have s: "untouched ?k P d ?s" for P by blast
      from this [of ?P] have ns: "?P \<subseteq> {..<dk_next ?s}" by (simp add: untouched_def)
      have ig: "apart.keeps ?k ?P (ignore (fs_remove ?tmp ()))" using rm by (simp add: apart.keeps_def ignore_def)
      have "write_outcome ?k ?P bytes ?s (on_error ?body (fs_remove ?tmp ()) ?s)"
        by (rule on_error_outcome) (rule body [OF ns], rule rm, rule ns)
      then have "write_outcome ?k ?P bytes d (then_do (ignore (fs_remove ?tmp ())) (\<lambda>_. on_error ?body (fs_remove ?tmp ())) d)"
        by (intro write_outcome_then [OF ig]) (auto simp: ignore_def)
      moreover have "write_atomically path bytes d = then_do (ignore (fs_remove ?tmp ())) (\<lambda>_. on_error ?body (fs_remove ?tmp ())) d"
        using Some Inr by (simp add: write_atomically_def then_do_def Let_def)
      ultimately show ?thesis by simp
    qed
  qed
qed

section \<open>The journal's own path\<close>

lemma split_on_slash: "split_on c (s @ c # w) = split_on c s @ split_on c w"
proof (induction s)
  case (Cons x xs)
  then show ?case by (cases "split_on c xs") (auto split: list.splits)
qed simp

lemma join_split: "join_with [c] (split_on c s) = s"
proof (induction s)
  case (Cons x xs)
  show ?case
  proof (cases "split_on c xs")
    case (Cons w ws)
    with Cons.IH show ?thesis by (cases ws) auto
  qed simp
qed simp

lemma path_join_form: "\<exists>front. path_join dir name = front @ CHR ''/'' # name"
  by (cases dir rule: rev_cases) (auto simp: path_join_def)

lemma journal_temporary:
  assumes "path = path_join dir JOURNAL_FILE_NAME"
  shows "path_key (with_extension path ''json.tmp'') \<noteq> path_key path"
proof -
  obtain front where path: "path = front @ CHR ''/'' # JOURNAL_FILE_NAME" using path_join_form assms by blast
  have name: "split_on (CHR ''/'') JOURNAL_FILE_NAME = [JOURNAL_FILE_NAME]" by (simp add: JOURNAL_FILE_NAME_def)
  have parts: "split_on (CHR ''/'') path = split_on (CHR ''/'') front @ [JOURNAL_FILE_NAME]"
    using split_on_slash [of "CHR ''/''" front JOURNAL_FILE_NAME] by (simp add: path name)
  have dt: "drop_trivial (split_on (CHR ''/'') path) = split_on (CHR ''/'') path"
    by (simp add: drop_trivial_def parts JOURNAL_FILE_NAME_def)
  have "path_file_name path = Some JOURNAL_FILE_NAME" by (simp add: path_file_name_def dt) (simp add: parts)
  moreover have "join_with ''/'' (drop_trivial (split_on (CHR ''/'') path)) = path" unfolding dt by (rule join_split)
  moreover have "take (length path - length JOURNAL_FILE_NAME) path = front @ ''/''" by (simp add: path)
  moreover have "file_stem JOURNAL_FILE_NAME = ''.kyth-install-journal''" by (simp add: file_stem_def JOURNAL_FILE_NAME_def)
  ultimately have "with_extension path ''json.tmp'' = front @ CHR ''/'' # ''.kyth-install-journal.json.tmp''"
    by (simp add: with_extension_def Let_def) (simp add: JOURNAL_FILE_NAME_def)
  moreover have "split_on (CHR ''/'') ''.kyth-install-journal.json.tmp'' = [''.kyth-install-journal.json.tmp'']" by simp
  ultimately have "split_on (CHR ''/'') (with_extension path ''json.tmp'') = split_on (CHR ''/'') front @ [''.kyth-install-journal.json.tmp'']"
    using split_on_slash [of "CHR ''/''" front "''.kyth-install-journal.json.tmp''"] by simp
  then show ?thesis by (simp add: path_key_def parts JOURNAL_FILE_NAME_def)
qed

section \<open>Guarantees\<close>

text \<open>What the disk may hold after a power loss.\<close>

definition crash_outcome :: "disk \<Rightarrow> disk \<Rightarrow> bool" where
  "crash_outcome d e \<longleftrightarrow> (\<forall>k. dk_entries e k \<in> set (dk_pending d k)) \<and> (\<forall>i. dk_synced d i \<longrightarrow> dk_data e i = dk_data d i)"

text \<open>Every disk whose names have a history has one, and writing keeps the histories.\<close>

definition recorded :: "disk \<Rightarrow> bool" where
  "recorded d \<longleftrightarrow> (\<forall>k. dk_pending d k \<noteq> [])"

interpretation records: disk_relation "\<lambda>d t. recorded d \<longrightarrow> recorded t"
  by unfold_locales (auto simp: recorded_def same_disk_def)

lemma recorded_updates [simp]:
  "recorded d \<Longrightarrow> recorded (set_entry k v d)" "recorded (set_data i b d) = recorded d"
  "recorded d \<Longrightarrow> recorded (new_file k b d)" "recorded (d\<lparr>dk_synced := y\<rparr>) = recorded d"
  by (auto simp: recorded_def set_entry_def set_data_def new_file_def)

lemma records_calls:
  "records.keeps (fs_remove p e)" "records.keeps (fs_create_new p e)" "records.keeps (fs_write i b e)"
  "records.keeps (fs_sync i e)" "records.keeps (fs_rename p q e)" "records.keeps (fs_sync_dir p e)"
  unfolding fs_remove_def fs_create_new_def fs_write_def fs_sync_def fs_rename_def fs_sync_dir_def
  by (rule records.keeps_call; auto simp: recorded_def set_entry_def new_file_def set_data_def split: fault.splits option.splits node.splits)+

lemma records_handlers:
  "records.keeps m \<Longrightarrow> records.keeps c \<Longrightarrow> records.keeps (on_error m c)" "records.keeps m \<Longrightarrow> records.keeps (ignore m)"
  by (auto simp: records.keeps_def on_error_def ignore_def split: prod.splits sum.splits)

lemma write_atomically_recorded: "records.keeps (write_atomically path bytes)"
  unfolding write_atomically_def Let_def
  by (intro records.keeps_then records.keeps_pure records_handlers records_calls)

lemma crash_outcome_exists:
  "recorded d \<Longrightarrow> crash_outcome d (d\<lparr>dk_entries := (\<lambda>k. last (dk_pending d k))\<rparr>)"
  by (auto simp: crash_outcome_def recorded_def)

text \<open>A journal that was written before and survives a power loss.\<close>

definition settled :: "string \<Rightarrow> disk \<Rightarrow> bool" where
  "settled path d \<longleftrightarrow> dk_pending d (path_key path) = [dk_entries d (path_key path)] \<and>
     (\<forall>i. dk_entries d (path_key path) = Some (NFile i) \<longrightarrow> dk_synced d i \<and> i < dk_next d)"

lemma outcome_crash:
  assumes "write_outcome (path_key path) P bytes d rt" and "settled path d" and "torn_free d" and "crash_outcome (snd rt) e"
    and "P \<subseteq> {..<dk_next d}" and "\<And>i. dk_entries d (path_key path) = Some (NFile i) \<Longrightarrow> i \<in> P"
  shows "(content e path = content d path \<or> content e path = Some bytes) \<and> (is_ok (fst rt) \<longrightarrow> content e path = Some bytes)"
proof -
  let ?k = "path_key path"
  have e: "dk_entries e ?k \<in> set (dk_pending (snd rt) ?k)" "\<And>i. dk_synced (snd rt) i \<Longrightarrow> dk_data e i = dk_data (snd rt) i"
    using assms(4) unfolding crash_outcome_def by blast+
  have old: "content e path = content d path"
    if "dk_entries e ?k = dk_entries d ?k" "\<forall>i \<in> P. dk_data (snd rt) i = dk_data d i \<and> dk_synced (snd rt) i = dk_synced d i"
    using that e(2) assms(2,6) by (auto simp: content_def settled_def split: option.splits node.splits)
  consider (kept) "\<not> is_ok (fst rt)" "untouched ?k P d (snd rt)" | (swapped) "replaced ?k P bytes d (is_ok (fst rt)) (snd rt)"
    using assms(1,3) by (auto simp: write_outcome_def)
  then show ?thesis
  proof cases
    case kept
    then show ?thesis using old e(1) assms(2,5) by (auto simp: untouched_def settled_def)
  next
    case swapped
    then obtain i where i: "dk_data (snd rt) i = bytes" "dk_synced (snd rt) i"
      "dk_pending (snd rt) ?k = (if is_ok (fst rt) then [Some (NFile i)] else dk_pending d ?k @ [Some (NFile i)])"
      and same: "\<forall>j \<in> P. dk_data (snd rt) j = dk_data d j \<and> dk_synced (snd rt) j = dk_synced d j"
      by (auto simp: replaced_def)
    have "dk_entries e ?k = Some (NFile i) \<Longrightarrow> content e path = Some bytes" using i(1,2) e(2) by (simp add: content_def)
    then show ?thesis using old [OF _ same] e(1) i(3) assms(2) by (auto simp: settled_def split: if_splits)
  qed
qed


text \<open>What is used of the JSON codec: it reads back what it wrote, and a document cut short is not one.\<close>

definition codec :: "(json \<Rightarrow> string) \<Rightarrow> (string \<Rightarrow> json option) \<Rightarrow> bool" where
  "codec enc dec \<longleftrightarrow>
     (\<forall>ops. dec (enc (encode_state ops)) = Some (encode_state ops) \<and>
       (\<forall>m < length (enc (encode_state ops)). dec (take m (enc (encode_state ops))) = None))"

lemma fragment_journal:
  assumes "codec enc dec" and "fragment (path_key path) (enc (encode_state ops)) d" and "named_ops ops"
    and "journal_at dec d path = Some found"
  shows "found = ops"
proof -
  let ?b = "enc (encode_state ops)"
  from assms(4) obtain raw v where raw: "content d path = Some raw" "dec raw = Some v" "decode_state v = Inr found"
    by (auto simp: journal_at_def split: option.splits if_splits sum.splits)
  with assms(2) obtain m where "raw = take m ?b" by (auto simp: fragment_def content_def)
  with raw(2) assms(1) have "raw = ?b" by (cases "m < length ?b") (auto simp: codec_def)
  with raw assms(1,3) decode_encode [OF assms(3)] show ?thesis by (simp add: codec_def)
qed

lemma write_atomically_ok:
  assumes "write_atomically path bytes d = (Inr u, t)" and "path_key (with_extension path ''json.tmp'') \<noteq> path_key path"
  shows "fragment (path_key path) bytes t"
  using write_atomically_outcome [OF assms(2), of d bytes] assms(1) by (simp add: write_outcome_def)

lemma attempt_ok [simp]: "attempt m s = (Inr r, t) \<longleftrightarrow> m s = (r, t)"
  by (cases "m s") (simp add: attempt_def)

lemma write_state_ok:
  assumes "codec enc dec" and "named_ops ops" and "path_key (with_extension path ''json.tmp'') \<noteq> path_key path"
    and "write_state enc dec path ops d = (Inr u, t)"
  shows "journal_at dec t path = Some ops"
proof -
  have verified: "journal_at dec w path = Some ops"
    if "write_atomically path (enc (encode_state ops)) s = (Inr x, v)" "load dec path v = (Inr found, w)" for s v w x found
  proof -
    note l = load_ok [OF that(2)]
    with fragment_journal [OF assms(1) write_atomically_ok [OF that(1) assms(3)] assms(2)] have "found = ops" by blast
    with l same_disk_journal show ?thesis by metis
  qed
  from assms(4) obtain v b w where first: "write_atomically path (enc (encode_state ops)) d = (Inr (), v)"
    "reloads dec path (length ops) v = (Inr b, w)"
    and rest: "b \<and> w = t \<or> \<not> b \<and> (\<exists>v' found. write_atomically path (enc (encode_state ops)) w = (Inr (), v') \<and>
        load dec path v' = (Inr found, t))"
    by (auto simp: write_state_def Let_def split: if_splits)
  show ?thesis
  proof (cases b)
    case True
    from first(2) obtain answer where "load dec path v = (answer, w)" "b = (case answer of Inl _ \<Rightarrow> False | Inr found \<Rightarrow> length found = length ops)"
      by (auto simp: reloads_def)
    with True rest obtain found where "load dec path v = (Inr found, t)" by (cases answer) auto
    with verified [OF first(1)] show ?thesis by blast
  next
    case False
    with rest verified show ?thesis by blast
  qed
qed

text \<open>C10: A recorded transition is on the disk exactly: whatever was refused or torn in between, when the
  call succeeds the journal holds the earlier records with this one added or closed.\<close>

theorem record_exact:
  assumes "codec enc dec" and "path = path_join dir JOURNAL_FILE_NAME"
    and "record_op enc dec clock path raw st d = (Inr u, t)"
  shows "\<exists>ops name now. journal_at dec d path = Some ops \<and> validated_op_name raw = Inr name \<and> clock = Some now \<and>
    journal_at dec t path = Some (apply_record name st now ops) \<and>
    op_started (apply_record name st now ops) name \<and> (st = Completed \<longrightarrow> op_completed (apply_record name st now ops) name) \<and>
    (\<forall>n. op_completed ops n \<longrightarrow> op_completed (apply_record name st now ops) n) \<and>
    (\<forall>n. op_started ops n \<longrightarrow> op_started (apply_record name st now ops) n)"
proof -
  from assms(3) obtain name now ops w where name: "validated_op_name raw = Inr name" and now: "clock = Some now"
    and ld: "load dec path d = (Inr ops, w)" and wr: "write_state enc dec path (apply_record name st now ops) w = (Inr u, t)"
    by (auto simp: record_op_def)
  note l = load_ok [OF ld]
  from l have "named_ops ops"
    by (auto simp: journal_at_def decode_state_named split: option.splits if_splits sum.splits)
  from write_state_ok [OF assms(1) apply_record_named [OF this validated_op_name_trim [OF name]] journal_temporary [OF assms(2)] wr]
  have "journal_at dec t path = Some (apply_record name st now ops)" .
  moreover have "op_started (apply_record name st now ops) name \<and> (st = Completed \<longrightarrow> op_completed (apply_record name st now ops) name) \<and>
    (\<forall>n. op_completed ops n \<longrightarrow> op_completed (apply_record name st now ops) n) \<and>
    (\<forall>n. op_started ops n \<longrightarrow> op_started (apply_record name st now ops) n)"
    by (cases st; cases "complete_last name now ops")
      (auto simp: apply_record_def open_record_def dest!: complete_last_Some)
  ultimately show ?thesis using l name now by blast
qed

text \<open>Without faults a good journal is read.\<close>

definition faultless :: "disk \<Rightarrow> bool" where
  "faultless d \<longleftrightarrow> (\<forall>c. dk_faults d c = Fine) \<and> \<not> dk_halted d"

lemma fs_call_faultless:
  "faultless d \<Longrightarrow> fs_call opn err d =
     (case opn Fine (d\<lparr>dk_calls := Suc (dk_calls d)\<rparr>) of (None, t) \<Rightarrow> (Inl err, t) | (Some x, t) \<Rightarrow> (Inr x, t))"
  by (simp add: faultless_def fs_call_def)

lemma faultless_calls [simp]: "faultless (d\<lparr>dk_calls := n\<rparr>) = faultless d"
  by (simp add: faultless_def)

lemma load_faultless:
  assumes "faultless d" and "journal_at dec d path = Some ops"
  shows "\<exists>t. load dec path d = (Inr ops, t)"
proof -
  from assms(2) obtain i v where i: "dk_entries d (path_key path) = Some (NFile i)" "\<not> MAX_JOURNAL_BYTES < length (dk_data d i)"
    and v: "dec (dk_data d i) = Some v" "decode_state v = Inr ops"
    by (auto simp: journal_at_def content_def split: option.splits node.splits if_splits sum.splits)
  let ?d = "d\<lparr>dk_calls := Suc (dk_calls d)\<rparr>"
  have "fs_stat path d = ((Inr (Some (Some (NFile i, length (dk_data d i)))), ?d) :: (durable_error, _) res \<times> disk)"
    using assms(1) i by (simp add: fs_stat_def fs_call_faultless)
  moreover have "fs_read path JournalNotRead ?d = (Inr (dk_data d i), ?d\<lparr>dk_calls := Suc (dk_calls ?d)\<rparr>)"
    using assms(1) i by (simp add: fs_read_def fs_call_faultless)
  ultimately show ?thesis using i(2) v by (simp add: load_def durable_read_regular_file_def)
qed

interpretation calm: effect_relation "\<lambda>d t. faultless d \<longrightarrow> faultless t"
  by unfold_locales auto

lemma fs_stat_calm: "calm.keeps (fs_stat p)"
  unfolding calm.keeps_def fs_stat_def by (simp add: fs_call_faultless split: prod.splits)

lemma fs_read_calm: "calm.keeps (fs_read p e)"
  unfolding calm.keeps_def fs_read_def by (simp add: fs_call_faultless split: option.splits node.splits)

lemma load_calm: "calm.keeps (load dec path)"
  unfolding load_def durable_read_regular_file_def
  by (intro calm.keeps_then calm.keeps_pure fs_stat_calm)
    (auto intro!: calm.keeps_pure fs_read_calm split: option.splits prod.splits node.splits)

lemma fs_create_dir_all_calm: "calm.keeps (fs_create_dir_all p e)"
  unfolding calm.keeps_def fs_create_dir_all_def
  by (simp add: fs_call_faultless faultless_def set_entry_def split: option.splits node.splits)

lemma fs_stat_faultless:
  "faultless d \<Longrightarrow> fs_stat p d = (Inr (Some found), t) \<Longrightarrow> (found = None \<longleftrightarrow> dk_entries d (path_key p) = None)"
  by (auto simp: fs_stat_def fs_call_faultless)

lemma fs_create_dir_all_ok:
  assumes "fs_create_dir_all p err d = (Inr u, t)"
  shows "dk_data t = dk_data d \<and> (dk_entries t = dk_entries d \<or>
    dk_entries d (path_key p) = None \<and> dk_entries t = (dk_entries d)(path_key p \<mapsto> NDir))"
  using assms unfolding fs_create_dir_all_def
  by (rule fs_call_ok) (auto simp: same_disk_def set_entry_def split: if_splits option.splits node.splits)

lemma fs_create_dir_all_content:
  assumes "fs_create_dir_all p err d = (Inr u, t)"
  shows "content t q = content d q"
proof -
  note c = fs_create_dir_all_ok [OF assms]
  have d: "dk_data t = dk_data d" using c by simp
  show ?thesis
  proof (cases "path_key q = path_key p")
    case True
    then show ?thesis unfolding content_def d using c by auto
  next
    case False
    then have "dk_entries t (path_key q) = dk_entries d (path_key q)" using c by auto
    then show ?thesis unfolding content_def d by simp
  qed
qed

lemma merge_kept: "\<exists>kept. merge_journal_states staging existing = staging @ kept \<and> set kept \<subseteq> set existing"
  using merge_facts by blast

lemma merge_named: "named_ops staging \<Longrightarrow> named_ops existing \<Longrightarrow> named_ops (merge_journal_states staging existing)"
  using merge_kept [of staging existing] by (auto simp: named_ops_def) blast

lemma journal_at_named: "journal_at dec d path = Some ops \<Longrightarrow> named_ops ops"
  by (auto simp: journal_at_def decode_state_named split: option.splits if_splits sum.splits)


text \<open>Without faults writing succeeds.\<close>

lemma faultless_updates [simp]:
  "faultless (set_entry k v d) = faultless d" "faultless (set_data i b d) = faultless d" "faultless (new_file k b d) = faultless d"
  "faultless (d\<lparr>dk_synced := y\<rparr>) = faultless d" "faultless (d\<lparr>dk_pending := z\<rparr>) = faultless d"
  "faultless (d\<lparr>dk_entries := x\<rparr>) = faultless d"
  by (simp_all add: faultless_def set_entry_def set_data_def new_file_def)

lemma fs_remove_faultless:
  assumes "faultless d" and "dk_entries d (path_key p) \<noteq> Some NDir"
  shows "faultless (snd (fs_remove p err d)) \<and> dk_entries (snd (fs_remove p err d)) = (dk_entries d)(path_key p := None)"
  using assms by (auto simp: fs_remove_def fs_call_faultless set_entry_def fun_upd_idem)

lemma fs_create_new_faultless:
  assumes "faultless d" and "dk_entries d (path_key p) = None"
  shows "\<exists>i t. fs_create_new p err d = (Inr i, t) \<and> faultless t \<and> dk_entries t = (dk_entries d)(path_key p \<mapsto> NFile i)"
  using assms by (simp add: fs_create_new_def fs_call_faultless) (simp add: new_file_def set_entry_def set_data_def)

lemma fs_write_faultless:
  assumes "faultless d"
  shows "\<exists>t. fs_write i bytes err d = (Inr (), t) \<and> faultless t \<and> dk_entries t = dk_entries d \<and> dk_data t i = bytes"
  using assms by (simp add: fs_write_def fs_call_faultless) (simp add: set_data_def)

lemma fs_sync_faultless:
  assumes "faultless d"
  shows "\<exists>t. fs_sync i err d = (Inr (), t) \<and> faultless t \<and> dk_entries t = dk_entries d \<and> dk_data t = dk_data d"
  using assms by (simp add: fs_sync_def fs_call_faultless)

lemma fs_rename_faultless:
  assumes "faultless d" and "dk_entries d (path_key a) = Some (NFile i)" and "dk_entries d (path_key b) \<noteq> Some NDir"
    and "path_key a \<noteq> path_key b"
  shows "\<exists>t. fs_rename a b err d = (Inr (), t) \<and> faultless t \<and>
    dk_entries t = (dk_entries d)(path_key b \<mapsto> NFile i, path_key a := None) \<and> dk_data t = dk_data d"
  using assms by (simp add: fs_rename_def fs_call_faultless) (simp add: set_entry_def)

lemma fs_sync_dir_faultless:
  assumes "faultless d"
  shows "\<exists>t. fs_sync_dir dir err d = (Inr (), t) \<and> faultless t \<and> dk_entries t = dk_entries d \<and> dk_data t = dk_data d"
  using assms by (simp add: fs_sync_dir_def fs_call_faultless)

lemma write_atomically_faultless:
  assumes "faultless d" and "parent_path path = Some parent" and "safe_directory parent ''journal directory'' = Inr ()"
    and "path_key (with_extension path ''json.tmp'') \<noteq> path_key path"
    and "dk_entries d (path_key (with_extension path ''json.tmp'')) \<noteq> Some NDir" and "dk_entries d (path_key path) \<noteq> Some NDir"
  shows "\<exists>t. write_atomically path bytes d = (Inr (), t) \<and> faultless t \<and> content t path = Some bytes \<and>
    (\<forall>k. k \<noteq> path_key path \<longrightarrow> k \<noteq> path_key (with_extension path ''json.tmp'') \<longrightarrow> dk_entries t k = dk_entries d k)"
proof -
  let ?tmp = "with_extension path ''json.tmp''"
  let ?s = "snd (fs_remove ?tmp () d)"
  have s: "faultless ?s" "dk_entries ?s = (dk_entries d)(path_key ?tmp := None)"
    using fs_remove_faultless [OF assms(1,5), of "()"] by blast+
  obtain i t1 where 1: "fs_create_new ?tmp TemporaryNotCreated ?s = (Inr i, t1)" "faultless t1"
    "dk_entries t1 = (dk_entries ?s)(path_key ?tmp \<mapsto> NFile i)"
    using fs_create_new_faultless [OF s(1), of ?tmp TemporaryNotCreated] s(2) by auto
  obtain t2 where 2: "fs_write i bytes JournalNotWritten t1 = (Inr (), t2)" "faultless t2" "dk_entries t2 = dk_entries t1" "dk_data t2 i = bytes"
    using fs_write_faultless [OF 1(2), of i bytes JournalNotWritten] by blast
  obtain t3 where 3: "fs_sync i JournalNotSynced t2 = (Inr (), t3)" "faultless t3" "dk_entries t3 = dk_entries t2" "dk_data t3 = dk_data t2"
    using fs_sync_faultless [OF 2(2), of i JournalNotSynced] by blast
  have e3: "dk_entries t3 (path_key ?tmp) = Some (NFile i)" "dk_entries t3 (path_key path) \<noteq> Some NDir"
    using s(2) 1(3) 2(3) 3(3) assms(4,6) by simp_all
  obtain t4 where 4: "fs_rename ?tmp path JournalNotReplaced t3 = (Inr (), t4)" "faultless t4"
    "dk_entries t4 = (dk_entries t3)(path_key path \<mapsto> NFile i, path_key ?tmp := None)" "dk_data t4 = dk_data t3"
    using fs_rename_faultless [OF 3(2) e3 assms(4), of JournalNotReplaced] by blast
  obtain t5 where 5: "fs_sync_dir parent DirectoryNotSynced t4 = (Inr (), t5)" "faultless t5" "dk_entries t5 = dk_entries t4" "dk_data t5 = dk_data t4"
    using fs_sync_dir_faultless [OF 4(2), of parent DirectoryNotSynced] by blast
  have "write_atomically path bytes d = (Inr (), t5)"
    unfolding write_atomically_def Let_def
    by (simp only: then_do_def ignore_def on_error_def assms(2,3) ok_or_simps return_simps 1(1) 2(1) 3(1) 4(1) 5(1)
        prod.case sum.case snd_conv)
  moreover have "content t5 path = Some bytes" using 2(4) 3(4) 4(3,4) 5(3,4) assms(4) by (simp add: content_def)
  moreover have "dk_entries t5 k = dk_entries d k" if "k \<noteq> path_key path" "k \<noteq> path_key ?tmp" for k
    using s(2) 1(3) 2(3) 3(3) 4(3) 5(3) that by simp
  ultimately show ?thesis using 5(2) by blast
qed

lemma write_state_faultless:
  assumes "codec enc dec" and "named_ops ops" and "length (enc (encode_state ops)) \<le> MAX_JOURNAL_BYTES"
    and "faultless d" and "parent_path path = Some parent" and "safe_directory parent ''journal directory'' = Inr ()"
    and "path_key (with_extension path ''json.tmp'') \<noteq> path_key path"
    and "dk_entries d (path_key (with_extension path ''json.tmp'')) \<noteq> Some NDir" and "dk_entries d (path_key path) \<noteq> Some NDir"
  shows "\<exists>t. write_state enc dec path ops d = (Inr (), t) \<and> faultless t \<and>
    (\<forall>k. k \<noteq> path_key path \<longrightarrow> k \<noteq> path_key (with_extension path ''json.tmp'') \<longrightarrow> dk_entries t k = dk_entries d k)"
proof -
  from write_atomically_faultless [OF assms(4-9), of "enc (encode_state ops)"] obtain t where
    t: "write_atomically path (enc (encode_state ops)) d = (Inr (), t)" "faultless t" "content t path = Some (enc (encode_state ops))"
      "\<forall>k. k \<noteq> path_key path \<longrightarrow> k \<noteq> path_key (with_extension path ''json.tmp'') \<longrightarrow> dk_entries t k = dk_entries d k"
    by blast
  have "journal_at dec t path = Some ops"
    using t(3) assms(1,3) decode_encode [OF assms(2)] by (simp add: journal_at_def codec_def)
  from load_faultless [OF t(2) this] obtain w where w: "load dec path t = (Inr ops, w)" by blast
  have "write_state enc dec path ops d = (Inr (), w)" using t(1) w by (simp add: write_state_def reloads_def attempt_def then_do_def Let_def)
  moreover have "faultless w" using calm.keepsD [OF load_calm w] t(2) by blast
  moreover have "dk_entries w = dk_entries t" using load_ok [OF w] by (simp add: same_disk_def)
  ultimately show ?thesis using t(4) by auto
qed

lemma record_op_faultless:
  assumes "codec enc dec" and "journal_at dec d path = Some ops" and "validated_op_name raw = Inr name"
    and "length (enc (encode_state (apply_record name st now ops))) \<le> MAX_JOURNAL_BYTES"
    and "faultless d" and "parent_path path = Some parent" and "safe_directory parent ''journal directory'' = Inr ()"
    and "path_key (with_extension path ''json.tmp'') \<noteq> path_key path"
    and "dk_entries d (path_key (with_extension path ''json.tmp'')) \<noteq> Some NDir"
  shows "\<exists>t. record_op enc dec (Some now) path raw st d = (Inr (), t) \<and> faultless t \<and>
    (\<forall>k. k \<noteq> path_key path \<longrightarrow> k \<noteq> path_key (with_extension path ''json.tmp'') \<longrightarrow> dk_entries t k = dk_entries d k)"
proof -
  obtain w where w: "load dec path d = (Inr ops, w)" using load_faultless [OF assms(5,2)] by blast
  have same: "dk_entries w = dk_entries d" using load_ok [OF w] by (simp add: same_disk_def)
  have calm: "faultless w" using calm.keepsD [OF load_calm w] assms(5) by blast
  have regular: "dk_entries d (path_key path) \<noteq> Some NDir" using assms(2) by (auto simp: journal_at_def content_def)
  have named: "named_ops (apply_record name st now ops)"
    using apply_record_named journal_at_named [OF assms(2)] validated_op_name_trim [OF assms(3)] by blast
  have "\<exists>t. write_state enc dec path (apply_record name st now ops) w = (Inr (), t) \<and> faultless t \<and>
    (\<forall>k. k \<noteq> path_key path \<longrightarrow> k \<noteq> path_key (with_extension path ''json.tmp'') \<longrightarrow> dk_entries t k = dk_entries w k)"
    using assms(9) regular by (intro write_state_faultless [OF assms(1) named assms(4) calm assms(6-8)]) (simp_all add: same)
  then show ?thesis using w assms(3) by (auto simp: record_op_def same)
qed

section \<open>An instance\<close>

instance jnumber :: countable
  by countable_datatype

instance json :: countable
  by countable_datatype

text \<open>A codec, a path and a disk with an empty journal.\<close>

definition first_record :: journal_op where
  "first_record = \<lparr>jo_name = ''a'', jo_started = 5, jo_completed = Some 5\<rparr>"

definition sample_enc :: "journal_op \<Rightarrow> json \<Rightarrow> string" where
  "sample_enc r v =
     (if v = encode_state [] then ''0;'' else if v = encode_state [r] then ''1;''
      else replicate (to_nat v) CHR ''a'' @ ''b'')"

definition sample_dec :: "journal_op \<Rightarrow> string \<Rightarrow> json option" where
  "sample_dec r s =
     (if s = ''0;'' then Some (encode_state []) else if s = ''1;'' then Some (encode_state [r])
      else if s \<noteq> [] \<and> last s = CHR ''b'' then Some (from_nat (length s - 1)) else None)"

lemma sample_codec: "codec (sample_enc r) (sample_dec r)"
  unfolding codec_def
proof (intro allI conjI impI)
  fix ops
  show "sample_dec r (sample_enc r (encode_state ops)) = Some (encode_state ops)"
    by (auto simp: sample_enc_def sample_dec_def)
  fix m assume m: "m < length (sample_enc r (encode_state ops))"
  have "m = 0 \<or> m = Suc 0" if "m < length ''0;'' \<or> m < length ''1;''" using that by auto
  with m show "sample_dec r (take m (sample_enc r (encode_state ops))) = None"
    by (cases m) (auto simp: sample_enc_def sample_dec_def last_conv_nth nth_append split: if_splits)
qed

definition sample_disk :: disk where
  "sample_disk = \<lparr>dk_entries = [path_key ''/e/.kyth-install-journal.json'' \<mapsto> NFile 0], dk_data = (\<lambda>_. ''0;''),
     dk_synced = (\<lambda>_. True), dk_pending = (\<lambda>k. [if k = path_key ''/e/.kyth-install-journal.json'' then Some (NFile 0) else None]),
     dk_next = 1, dk_faults = (\<lambda>_. Fine), dk_calls = 0, dk_halted = False\<rparr>"

lemma sample_path: "''/e/.kyth-install-journal.json'' = path_join ''/e'' JOURNAL_FILE_NAME"
  by (simp add: path_join_def JOURNAL_FILE_NAME_def)

lemma sample_paths:
  "with_extension ''/e/.kyth-install-journal.json'' ''json.tmp'' = ''/e/.kyth-install-journal.json.tmp''"
  "parent_path ''/e/.kyth-install-journal.json'' = Some ''/e''"
  "safe_directory ''/e'' l = Inr ()"
  "path_key ''/e/.kyth-install-journal.json'' = (True, False, [''e'', ''.kyth-install-journal.json''])"
  "path_key ''/e/.kyth-install-journal.json.tmp'' = (True, False, [''e'', ''.kyth-install-journal.json.tmp''])"
  "path_key ''/e'' = (True, False, [''e''])"
  by (simp_all add: with_extension_def path_file_name_def drop_trivial_def file_stem_def parent_path_def safe_directory_def path_key_def)

lemma sample_empty: "journal_at (sample_dec r) sample_disk ''/e/.kyth-install-journal.json'' = Some []"
  by (simp add: journal_at_def content_def sample_disk_def sample_dec_def MAX_JOURNAL_BYTES_def encode_state_def decode_state_def)

lemma sample_faultless: "faultless sample_disk"
  by (simp add: faultless_def sample_disk_def)

lemma sample_name: "validated_op_name ''a'' = Inr ''a''"
  by (simp add: validated_op_name_def op_name_char_def str_simps)

lemma sample_record:
  "\<exists>t. record_op (sample_enc first_record) (sample_dec first_record) (Some 5) ''/e/.kyth-install-journal.json'' ''a'' Completed sample_disk = (Inr (), t)"
proof -
  let ?p = "''/e/.kyth-install-journal.json''"
  have "apply_record ''a'' Completed 5 [] = [first_record]" by (simp add: apply_record_def first_record_def)
  then have "length (sample_enc first_record (encode_state (apply_record ''a'' Completed 5 []))) \<le> MAX_JOURNAL_BYTES"
    by (simp add: sample_enc_def MAX_JOURNAL_BYTES_def)
  from record_op_faultless [OF sample_codec sample_empty sample_name this sample_faultless sample_paths(2,3)] show ?thesis
    by (auto simp: sample_paths sample_disk_def)
qed

theorem record_exact_witness:
  "\<exists>t. record_op (sample_enc first_record) (sample_dec first_record) (Some 5) ''/e/.kyth-install-journal.json'' ''a'' Completed sample_disk = (Inr (), t) \<and>
     (\<exists>ops. journal_at (sample_dec first_record) t ''/e/.kyth-install-journal.json'' = Some ops \<and> op_completed ops ''a'')"
proof -
  obtain t where t: "record_op (sample_enc first_record) (sample_dec first_record) (Some 5) ''/e/.kyth-install-journal.json'' ''a'' Completed sample_disk = (Inr (), t)"
    using sample_record by blast
  from record_exact [OF sample_codec sample_path t] sample_name t show ?thesis by fastforce
qed


text \<open>Two journals: the one on the ESP has completed an operation, the fresh one is empty.\<close>

definition two_journals :: disk where
  "two_journals = sample_disk\<lparr>dk_entries := [path_key ''/e/.kyth-install-journal.json'' \<mapsto> NFile 0,
       path_key ''/s/.kyth-install-journal.json'' \<mapsto> NFile 1, path_key ''/e'' \<mapsto> NDir],
     dk_data := (\<lambda>_. ''0;'')(0 := ''1;'')\<rparr>"


end
