(* ===== verification/Installer_Orchestration.thy ===== *)
theory Installer_Orchestration
  imports Installer_Job Installer_Storage
begin

text \<open>
  The decisions the helper and the service share: \<open>installer_orchestration.rs\<close> (lifecycle, phase,
  cancellation, transaction status and power) and the classification of a recorded status for Rescue
  mode, \<open>installer_recovery.rs\<close>.  The orchestrator declares the lifecycle and phase enumerations of
  \<open>installer_runtime.rs\<close> again with the same variants; both are the datatypes of \<open>Installer_Runtime\<close>.
\<close>

section \<open>Lifecycle and phase\<close>

datatype orchestration_error =
    UnknownLifecycle string
  | UnknownPhase string
  | InvalidTransition lifecycle lifecycle
  | PhaseNotAllowed phase lifecycle
  | PhaseSkipped phase phase
  | InvalidStatus string string
  | UnknownAction string

fun lifecycle_name :: "lifecycle \<Rightarrow> string" where
  "lifecycle_name LcIdle = ''idle''"
| "lifecycle_name LcValidated = ''validated''"
| "lifecycle_name LcPartitioning = ''partitioning''"
| "lifecycle_name LcInstalling = ''installing''"
| "lifecycle_name LcDone = ''done''"
| "lifecycle_name LcFailed = ''failed''"

definition lifecycle_parse :: "string \<Rightarrow> (orchestration_error, lifecycle) res" where
  "lifecycle_parse s =
     ok_or (UnknownLifecycle s)
       (List.find (\<lambda>l. lifecycle_name l = s) [LcIdle, LcValidated, LcPartitioning, LcInstalling, LcDone, LcFailed])"

definition phase_parse :: "string \<Rightarrow> (orchestration_error, phase) res" where
  "phase_parse s =
     ok_or (UnknownPhase s)
       (List.find (\<lambda>p. phase_name p = s) [Prepare, Storage, Image, Configure, SecureBoot, Complete])"

definition is_destructive :: "phase \<Rightarrow> bool" where
  "is_destructive p \<longleftrightarrow> p \<in> {Storage, Image, Configure, SecureBoot}"

fun successor :: "phase \<Rightarrow> phase option" where
  "successor Prepare = Some Storage"
| "successor Storage = Some Image"
| "successor Image = Some Configure"
| "successor Configure = Some SecureBoot"
| "successor SecureBoot = Some Complete"
| "successor Complete = None"

definition lifecycle_transition :: "lifecycle \<Rightarrow> lifecycle \<Rightarrow> bool" where
  "lifecycle_transition current target \<longleftrightarrow>
     (case current of
        LcIdle \<Rightarrow> target \<in> {LcValidated, LcPartitioning, LcFailed}
      | LcValidated \<Rightarrow> target \<in> {LcInstalling, LcFailed}
      | LcPartitioning \<Rightarrow> target \<in> {LcIdle, LcFailed}
      | LcInstalling \<Rightarrow> target \<in> {LcDone, LcFailed}
      | _ \<Rightarrow> False)"

definition status_transition :: "string \<Rightarrow> string \<Rightarrow> bool" where
  "status_transition current target \<longleftrightarrow>
     current = target \<or> target = ''failed'' \<or>
     (if current = '''' then target \<in> {''started'', ''partitioning''}
      else if current = ''partitioning'' then target = ''started''
      else if current = ''started'' then target = ''prepared''
      else if current = ''prepared'' then target = ''storage_complete''
      else if current = ''storage_complete'' then target = ''configure_started''
      else if current = ''configure_started'' then target = ''configure_complete''
      else if current = ''configure_complete'' then target = ''secure_boot_staged''
      else current = ''secure_boot_staged'' \<and> target = ''complete'')"

section \<open>Requests\<close>

record orchestration_input =
  oi_action :: string
  oi_lifecycle :: string
  oi_phase :: string
  oi_target :: string
  oi_cancel_requested :: bool
  oi_slot_held :: bool
  oi_status :: string
  oi_next_status :: string

record orchestration_response =
  or_action :: string
  or_lifecycle :: string
  or_phase :: string
  or_accepted :: bool
  or_cancelled :: bool
  or_cancel_message :: string
  or_status :: string

definition DESTRUCTIVE_CANCEL_MESSAGE :: string where
  "DESTRUCTIVE_CANCEL_MESSAGE = ''Installation cancelled by user. Disk changes may have already started.''"

definition SAFE_CANCEL_MESSAGE :: string where
  "SAFE_CANCEL_MESSAGE = ''Installation cancelled by user before disk changes were committed.''"

definition orchestration_response_of :: "orchestration_input \<Rightarrow> lifecycle \<Rightarrow> phase \<Rightarrow> orchestration_response" where
  "orchestration_response_of input l p =
     \<lparr>or_action = oi_action input, or_lifecycle = lifecycle_name l, or_phase = phase_name p, or_accepted = True,
      or_cancelled = False, or_cancel_message = [], or_status = oi_next_status input\<rparr>"

definition orchestrate :: "orchestration_input \<Rightarrow> (orchestration_error, orchestration_response) res" where
  "orchestrate input =
     and_then (lifecycle_parse (oi_lifecycle input)) (\<lambda>l.
     and_then (phase_parse (oi_phase input)) (\<lambda>p.
     if oi_action input = ''transition'' then
       and_then (lifecycle_parse (oi_target input)) (\<lambda>target.
       if target \<noteq> l \<and> \<not> lifecycle_transition l target then Inl (InvalidTransition l target)
       else Inr (orchestration_response_of input target p))
     else if oi_action input = ''phase'' then
       and_then (phase_parse (oi_target input)) (\<lambda>target.
       if l \<notin> {LcIdle, LcInstalling, LcFailed} then Inl (PhaseNotAllowed target l)
       else if Some target \<noteq> successor p then Inl (PhaseSkipped p target)
       else Inr (orchestration_response_of input l target))
     else if oi_action input = ''cancel-request'' then
       Inr (let result = orchestration_response_of input l p in
            if \<not> oi_slot_held input \<or> l \<notin> {LcValidated, LcInstalling} then result\<lparr>or_accepted := False\<rparr> else result)
     else if oi_action input = ''cancel-check'' then
       Inr (let result = orchestration_response_of input l p in
            if oi_cancel_requested input
            then result\<lparr>or_cancelled := True,
              or_cancel_message := (if is_destructive p then DESTRUCTIVE_CANCEL_MESSAGE else SAFE_CANCEL_MESSAGE)\<rparr>
            else result)
     else if oi_action input = ''transaction'' then
       (if \<not> status_transition (oi_status input) (oi_next_status input)
        then Inl (InvalidStatus (oi_status input) (oi_next_status input))
        else Inr (orchestration_response_of input l p))
     else Inl (UnknownAction (oi_action input))))"

section \<open>Power\<close>

text \<open>One entry of \<open>/sys/class/power_supply\<close>: its name and what its files read; \<open>None\<close> is a read that failed.\<close>

record power_supply =
  su_name :: string
  su_type :: "string option"
  su_capacity :: "string option"
  su_status :: "string option"

datatype supply_listing = SuppliesMissing | SuppliesUnreadable | Supplies "power_supply option list"

datatype power_detail =
    NoConstraint
  | ReadFailed
  | InspectFailed
  | UnsafeBattery string
  | BatteryLow nat
  | BatteryLevel nat string

record power_check =
  pc_status :: string
  pc_detail :: power_detail

definition power_pass :: "power_detail \<Rightarrow> power_check" where
  "power_pass d = \<lparr>pc_status = ''pass'', pc_detail = d\<rparr>"

definition power_fail :: "power_detail \<Rightarrow> power_check" where
  "power_fail d = \<lparr>pc_status = ''fail'', pc_detail = d\<rparr>"

definition battery_of :: "power_supply \<Rightarrow> (power_detail, (nat \<times> string) option) res" where
  "battery_of e =
     (case su_type e of
        None \<Rightarrow> if starts_with (su_name e) ''BAT'' then Inl ReadFailed else Inr None
      | Some kind \<Rightarrow>
          if trim kind \<noteq> ''Battery'' then Inr None
          else
            (case (Option.bind (su_capacity e) (\<lambda>v. parse_unsigned 255 (trim v)), map_option (\<lambda>v. to_ascii_lowercase (trim v)) (su_status e)) of
               (Some capacity, Some status) \<Rightarrow>
                 if capacity \<le> 100 \<and> status \<in> {''charging'', ''discharging'', ''not charging'', ''full''}
                 then Inr (Some (capacity, status)) else Inl (UnsafeBattery (su_name e))
             | _ \<Rightarrow> Inl (UnsafeBattery (su_name e))))"

fun batteries_of :: "power_supply option list \<Rightarrow> (power_detail, (nat \<times> string) list) res" where
  "batteries_of [] = Inr []"
| "batteries_of (None # es) = Inl InspectFailed"
| "batteries_of (Some e # es) =
     and_then (battery_of e) (\<lambda>b.
     and_then (batteries_of es) (\<lambda>bs. Inr (case b of None \<Rightarrow> bs | Some x \<Rightarrow> x # bs)))"

text \<open>\<open>min_by_key\<close>: the first of the smallest.\<close>

fun min_battery :: "(nat \<times> string) list \<Rightarrow> (nat \<times> string) option" where
  "min_battery [] = None"
| "min_battery (b # bs) =
     (case min_battery bs of None \<Rightarrow> Some b | Some m \<Rightarrow> if fst b \<le> fst m then Some b else Some m)"

definition power_check_at :: "bool \<Rightarrow> supply_listing \<Rightarrow> power_check" where
  "power_check_at is_dir listing =
     (if \<not> is_dir then power_pass NoConstraint
      else case listing of
        SuppliesMissing \<Rightarrow> power_pass NoConstraint
      | SuppliesUnreadable \<Rightarrow> power_fail ReadFailed
      | Supplies es \<Rightarrow>
          (case batteries_of es of
             Inl d \<Rightarrow> power_fail d
           | Inr bs \<Rightarrow>
               (case min_battery bs of
                  None \<Rightarrow> power_pass NoConstraint
                | Some (capacity, status) \<Rightarrow>
                    if capacity < 20 \<and> status \<in> {''discharging'', ''not charging''} then power_fail (BatteryLow capacity)
                    else power_pass (BatteryLevel capacity status))))"

section \<open>Rescue guidance\<close>

record recovery_guidance =
  rg_status :: string
  rg_severity :: string
  rg_message :: string
  rg_bootable :: bool

definition GUIDANCE :: "(string \<times> string \<times> string \<times> bool) list" where
  "GUIDANCE =
    [('''', ''unknown'', ''No install transaction recorded. Do not assume the disk is bootable.'', False),
     (''started'', ''incomplete'', ''Install started but storage did not finish. Stay in this live session.'', False),
     (''prepared'', ''incomplete'', ''Install prepared a plan but storage did not finish. Stay in this live session.'', False),
     (''storage_complete'', ''unbootable'',
       ''The image is on disk but the installed system is not configured yet. Continue or rescue from this live session '' @
       [char_of (226 :: nat), char_of (128 :: nat), char_of (148 :: nat)] @ '' do not reboot into the target.'', False),
     (''image_installed'', ''unbootable'',
       ''Legacy journal: image written, configure unknown. Treat the target as not bootable until configure_complete.'', False),
     (''configure_started'', ''unbootable'',
       ''Configuring the installed system was interrupted. Continue from this live session '' @
       [char_of (226 :: nat), char_of (128 :: nat), char_of (148 :: nat)] @ '' the target is not bootable yet.'', False),
     (''configure_complete'', ''almost'',
       ''The installed system is configured. Secure Boot enrollment may still be pending '' @
       [char_of (226 :: nat), char_of (128 :: nat), char_of (148 :: nat)] @ '' check MOK staging before reboot.'', False),
     (''secure_boot_staged'', ''ready'',
       ''Secure Boot enrollment is staged. Reboot and enroll the MOK if the firmware prompts.'', True),
     (''complete'', ''ready'', ''Install finished. The target should be bootable.'', True),
     (''failed'', ''failed'', ''Install failed. Use the log tail and transaction details below.'', False)]"

text \<open>The message for an unknown status quotes it with \<open>quoted\<close>, the debug format of strings.\<close>

definition rescue_guidance :: "(string \<Rightarrow> string) \<Rightarrow> string option \<Rightarrow> recovery_guidance" where
  "rescue_guidance quoted raw =
     (let status = unwrap_or [] raw in
      case List.find (\<lambda>entry. fst entry = status) GUIDANCE of
        Some (_, severity, message, bootable) \<Rightarrow>
          \<lparr>rg_status = status, rg_severity = severity, rg_message = message, rg_bootable = bootable\<rparr>
      | None \<Rightarrow>
          \<lparr>rg_status = status, rg_severity = ''unknown'',
           rg_message = ''Unrecognized transaction status '' @ quoted status @ ''. Do not assume the disk is bootable.'',
           rg_bootable = False\<rparr>)"

text \<open>The summary of \<open>bootc status\<close>: \<open>dec\<close> is the JSON parser, \<open>take_chars\<close> keeps the first characters of a text.\<close>

definition text_of :: "json option \<Rightarrow> string" where
  "text_of v = unwrap_or [] (Option.bind v json_as_str)"

fun or_else :: "'a option \<Rightarrow> 'a option \<Rightarrow> 'a option" where
  "or_else None y = y"
| "or_else (Some x) y = Some x"

definition deployment_step :: "json \<Rightarrow> string \<times> string \<Rightarrow> string \<times> string" where
  "deployment_step dep found =
     (if \<not> json_is_object dep then found
      else
        let image = text_of (or_else (json_get dep ''image'') (json_get dep ''id''));
            (booted, staged) = found;
            booted = (if booted = [] \<and> Option.bind (json_get dep ''booted'') json_as_bool = Some True then image else booted);
            staged = (if staged = [] \<and> Option.bind (json_get dep ''staged'') json_as_bool = Some True then image else staged)
        in (booted, staged))"

definition bootc_status_summary ::
    "(string \<Rightarrow> json option) \<Rightarrow> (nat \<Rightarrow> string \<Rightarrow> string) \<Rightarrow> string \<Rightarrow> json" where
  "bootc_status_summary dec take_chars raw =
     (case dec raw of
        None \<Rightarrow> JObject [(''booted'', JString []), (''staged'', JString [])]
      | Some value \<Rightarrow>
          let status = unwrap_or value (json_get value ''status'');
              booted = text_of (or_else (json_get status ''booted'') (or_else (json_get status ''bootedImage'') (json_get value ''booted'')));
              staged = text_of (or_else (json_get status ''staged'') (or_else (json_get status ''stagedImage'') (json_get value ''staged'')));
              (booted, staged) = fold deployment_step (unwrap_or [] (Option.bind (json_get value ''deployments'') json_as_array)) (booted, staged)
          in JObject [(''booted'', JString (take_chars 256 booted)), (''staged'', JString (take_chars 256 staged))])"

section \<open>A bootable verdict needs every step\<close>

text \<open>A sequence of recorded statuses in which each change was accepted.\<close>

fun status_run :: "string list \<Rightarrow> bool" where
  "status_run (s # t # rest) \<longleftrightarrow> status_transition s t \<and> status_run (t # rest)"
| "status_run _ \<longleftrightarrow> True"

definition status_accepted :: "string \<Rightarrow> string \<Rightarrow> bool" where
  "status_accepted s t \<longleftrightarrow>
     is_ok (orchestrate \<lparr>oi_action = ''transaction'', oi_lifecycle = ''idle'', oi_phase = ''prepare'', oi_target = [],
       oi_cancel_requested = False, oi_slot_held = False, oi_status = s, oi_next_status = t\<rparr>)"

lemma status_accepted_iff: "status_accepted s t = status_transition s t"
  by (simp add: status_accepted_def orchestrate_def lifecycle_parse_def phase_parse_def)

text \<open>The order of the statuses, as far as they are in it.\<close>

definition STATUS_ORDER :: "string list" where
  "STATUS_ORDER = [''started'', ''prepared'', ''storage_complete'', ''configure_started'', ''configure_complete'', ''secure_boot_staged'', ''complete'']"

fun behind :: "string \<Rightarrow> string list" where
  "behind s = (if s \<in> set STATUS_ORDER then takeWhile (\<lambda>x. x \<noteq> s) STATUS_ORDER else [])"

declare behind.simps [simp del]

lemma behind_values:
  "behind [] = []" "behind ''partitioning'' = []" "behind ''failed'' = []" "behind ''started'' = []" "behind ''prepared'' = [''started'']"
  "behind ''storage_complete'' = [''started'', ''prepared'']"
  "behind ''configure_started'' = [''started'', ''prepared'', ''storage_complete'']"
  "behind ''configure_complete'' = [''started'', ''prepared'', ''storage_complete'', ''configure_started'']"
  "behind ''secure_boot_staged'' = [''started'', ''prepared'', ''storage_complete'', ''configure_started'', ''configure_complete'']"
  "behind ''complete'' = [''started'', ''prepared'', ''storage_complete'', ''configure_started'', ''configure_complete'', ''secure_boot_staged'']"
  by (simp_all add: behind.simps STATUS_ORDER_def)

lemma behind_step:
  assumes "status_transition s t"
  shows "set (behind t) \<subseteq> insert s (set (behind s))"
proof -
  from assms consider "t = s" | "t = ''failed''" | "s = []" "t \<in> {''started'', ''partitioning''}" | "s = ''partitioning''" "t = ''started''"
    | "s = ''started''" "t = ''prepared''" | "s = ''prepared''" "t = ''storage_complete''" | "s = ''storage_complete''" "t = ''configure_started''"
    | "s = ''configure_started''" "t = ''configure_complete''" | "s = ''configure_complete''" "t = ''secure_boot_staged''"
    | "s = ''secure_boot_staged''" "t = ''complete''"
    unfolding status_transition_def by metis
  then show ?thesis by cases (auto simp: behind_values)
qed

lemma status_run_behind:
  "status_run (s # ss) \<Longrightarrow> t \<in> set (s # ss) \<Longrightarrow> set (behind t) \<subseteq> set (behind s) \<union> set (s # ss)"
proof (induction ss arbitrary: s)
  case (Cons u us)
  show ?case
  proof (cases "t = s")
    case False
    with Cons have "set (behind t) \<subseteq> set (behind u) \<union> set (u # us)" by simp
    with behind_step [of s u] Cons.prems(1) show ?thesis by auto
  qed auto
qed auto

lemma bootable_statuses: "rg_bootable (rescue_guidance quoted (Some s)) \<longleftrightarrow> s = ''secure_boot_staged'' \<or> s = ''complete''"
  by (auto simp: rescue_guidance_def GUIDANCE_def)

text \<open>When a status that an accepted run from the empty status reaches is classified as bootable, storage
  was finished and the installed system configured in that run.\<close>

theorem bootable_after_configuration:
  assumes "status_run ([] # ss)" and "s \<in> set ss" and "rg_bootable (rescue_guidance quoted (Some s))"
  shows "{''started'', ''prepared'', ''storage_complete'', ''configure_started'', ''configure_complete'', ''secure_boot_staged''} \<subseteq> set ss"
proof -
  have sub: "set (behind s) \<subseteq> set (behind []) \<union> set ([] # ss)" by (rule status_run_behind [OF assms(1)]) (use assms(2) in simp)
  from assms(3) consider "s = ''secure_boot_staged''" | "s = ''complete''" unfolding bootable_statuses by blast
  then show ?thesis
  proof cases
    case 1
    with sub assms(2) show ?thesis by (simp add: behind_values)
  next
    case 2
    with sub show ?thesis by (simp add: behind_values)
  qed
qed

theorem bootable_after_configuration_witness:
  "status_run ([] # STATUS_ORDER) \<and> rg_bootable (rescue_guidance id (Some ''complete'')) \<and> ''configure_complete'' \<in> set STATUS_ORDER"
proof -
  have r: "status_run ([] # STATUS_ORDER)" by (simp add: STATUS_ORDER_def status_transition_def)
  have b: "rg_bootable (rescue_guidance id (Some ''complete''))" by (simp add: bootable_statuses)
  have "''complete'' \<in> set STATUS_ORDER" by (simp add: STATUS_ORDER_def)
  from bootable_after_configuration [OF r this b] r b show ?thesis by blast
qed

section \<open>The three phase machines agree\<close>

text \<open>The phases the supervisor runs are, one after the other, the only phase the orchestrator accepts
  next, and each moves the runtime state forward by one.\<close>

theorem phases_agree:
  "\<forall>i. Suc i < length PHASES \<longrightarrow>
     successor (PHASES ! i) = Some (PHASES ! Suc i) \<and> phase_order (PHASES ! Suc i) = Suc (phase_order (PHASES ! i)) \<and>
     (\<forall>input. oi_action input = ''phase'' \<and> oi_lifecycle input = ''installing'' \<and> oi_phase input = phase_name (PHASES ! i) \<longrightarrow>
        (is_ok (orchestrate input) \<longleftrightarrow> oi_target input = phase_name (PHASES ! Suc i)))"
proof (intro allI impI)
  fix i assume "Suc i < length PHASES"
  then have i: "i \<in> {0, 1, 2, 3, 4}" by (auto simp: PHASES_def)
  have target: "(\<exists>p. phase_parse t = Inr p \<and> Some p = successor q) \<longleftrightarrow> (\<exists>p. successor q = Some p \<and> t = phase_name p)" for t q
    by (cases q) (auto simp: phase_parse_def split: if_splits)
  have parse: "phase_parse (phase_name q) = Inr q" for q by (cases q) (simp_all add: phase_parse_def)
  have ok: "is_ok (orchestrate input) \<longleftrightarrow> (\<exists>p. successor q = Some p \<and> oi_target input = phase_name p)"
    if "oi_action input = ''phase''" "oi_lifecycle input = ''installing''" "oi_phase input = phase_name q" for input q
    unfolding target [symmetric] using that
    by (cases "phase_parse (oi_target input)") (auto simp: orchestrate_def lifecycle_parse_def parse is_ok_def)
  have "successor (PHASES ! i) = Some (PHASES ! Suc i) \<and> phase_order (PHASES ! Suc i) = Suc (phase_order (PHASES ! i))"
    using i by (auto simp: PHASES_def)
  with ok show "successor (PHASES ! i) = Some (PHASES ! Suc i) \<and> phase_order (PHASES ! Suc i) = Suc (phase_order (PHASES ! i)) \<and>
     (\<forall>input. oi_action input = ''phase'' \<and> oi_lifecycle input = ''installing'' \<and> oi_phase input = phase_name (PHASES ! i) \<longrightarrow>
        (is_ok (orchestrate input) \<longleftrightarrow> oi_target input = phase_name (PHASES ! Suc i)))"
    by auto
qed

theorem phases_agree_witness:
  "successor (PHASES ! 2) = Some (PHASES ! 3) \<and>
   is_ok (orchestrate \<lparr>oi_action = ''phase'', oi_lifecycle = ''installing'', oi_phase = ''image'', oi_target = ''configure'',
     oi_cancel_requested = False, oi_slot_held = True, oi_status = [], oi_next_status = []\<rparr>)"
proof -
  have "Suc 2 < length PHASES" by (simp add: PHASES_def)
  moreover have "phase_name (PHASES ! 2) = ''image''" "phase_name (PHASES ! Suc 2) = ''configure''" by (simp_all add: PHASES_def numeral_2_eq_2)
  ultimately show ?thesis using phases_agree by (simp add: numeral_3_eq_3 numeral_2_eq_2)
qed

end
