(* ===== verification/Installer_Transaction.thy ===== *)
theory Installer_Transaction
  imports Durable_Safety Installer_Orchestration
begin

text \<open>
  The durable transaction record, \<open>installer_transaction.rs\<close>, and the support export of
  \<open>installer_recovery.rs\<close>, over the disk of \<open>Installer_Durable\<close>.  The generated encoder and decoder of
  the state and the pretty printer of \<open>serde_json\<close> are arguments.
\<close>

section \<open>Data\<close>

record transaction_source =
  ts_kind :: string
  ts_digest :: string
  ts_verified :: bool
  ts_target_ref :: string

record transaction_state =
  tx_schema_version :: nat
  tx_transaction_id :: string
  tx_job_id :: "nat option"
  tx_updated_at :: string
  tx_status :: string
  tx_phase :: string
  tx_lifecycle :: string
  tx_install_mode :: string
  tx_disk :: string
  tx_target_partition :: string
  tx_source :: transaction_source
  tx_checks :: "json list"
  tx_partition_steps :: "json list"
  tx_message :: string
  tx_recovery_required :: bool

datatype transaction_error =
    TransactionPathUnsafe
  | TransactionPathOutside
  | TransactionPathNotDirect
  | TransactionNoParent
  | TransactionDirectoryNotSecured
  | TransactionDirectoryNotCreated
  | TransactionDirectoryNotInspected
  | TransactionDirectoryNotReal
  | TransactionNotRegular
  | TransactionNotOpened
  | TransactionNotEncoded
  | TransactionNotFinished
  | TransactionNotSynced
  | TransactionNotSecured
  | TransactionNotReplaced
  | TransactionDirectoryNotOpened
  | TransactionDirectoryNotSynced
  | FailureNotObject
  | TransactionInvalid
  | TransactionSchema nat

definition TRANSACTION_BASE :: string where
  "TRANSACTION_BASE = ''/run/kyth-installer''"

definition TRANSACTION_SUBDIR :: string where
  "TRANSACTION_SUBDIR = ''txn''"

section \<open>The path\<close>

definition path_parts :: "string \<Rightarrow> string list" where
  "path_parts p = snd (snd (path_key p))"

text \<open>\<open>Path::starts_with\<close> compares components.\<close>

definition path_starts_with :: "string \<Rightarrow> string \<Rightarrow> bool" where
  "path_starts_with p base \<longleftrightarrow>
     fst (path_key p) = fst (path_key base) \<and> take (length (path_parts base)) (path_parts p) = path_parts base"

definition accepted_transaction_base_dir :: "string \<Rightarrow> string option" where
  "accepted_transaction_base_dir path = (if path_starts_with path TRANSACTION_BASE then Some TRANSACTION_BASE else None)"

definition safe_transaction_path :: "string \<Rightarrow> (transaction_error, string) res" where
  "safe_transaction_path raw =
     (let path = trim raw in
      if \<not> starts_with path ''/'' \<or> length path > 4096 \<or> ''..'' \<in> set (split_on (CHR ''/'') path)
      then Inl TransactionPathUnsafe
      else
        and_then (ok_or TransactionPathOutside (accepted_transaction_base_dir path)) (\<lambda>base.
        let subdir = path_join base TRANSACTION_SUBDIR in
        if map_option path_key (parent_path path) \<noteq> Some (path_key subdir) \<or> path_file_name path = None
        then Inl TransactionPathNotDirect
        else Inr path))"

section \<open>The writer\<close>

datatype mkdir_answer = DirMade | DirMissing | DirExists | DirRefused

text \<open>\<open>create_dir\<close>: the kinds of failure the writer distinguishes.\<close>

definition fs_create_dir :: "string \<Rightarrow> (disk, 'e, mkdir_answer) comp" where
  "fs_create_dir p d =
     (case fs_call (\<lambda>f d.
          if f \<noteq> Fine then (None, d)
          else if dk_entries d (path_key p) \<noteq> None then (Some DirExists, d)
          else if map_option (\<lambda>q. dk_entries d (path_key q)) (parent_path p) \<noteq> Some (Some NDir) then (Some DirMissing, d)
          else (Some DirMade, set_entry (path_key p) (Some NDir) d)) () d of
        (Inl _, t) \<Rightarrow> (Inr DirRefused, t)
      | (Inr x, t) \<Rightarrow> (Inr x, t))"

text \<open>Permissions are not part of the disk; setting them may fail.\<close>

definition fs_chmod :: "string \<Rightarrow> nat \<Rightarrow> 'e \<Rightarrow> (disk, 'e, unit) comp" where
  "fs_chmod p mode err = fs_call (\<lambda>f d. (if f \<noteq> Fine then None else Some (), d)) err"

definition fs_open_truncate :: "string \<Rightarrow> 'e \<Rightarrow> (disk, 'e, nat) comp" where
  "fs_open_truncate p err = fs_call (\<lambda>f d.
     if f \<noteq> Fine then (None, d)
     else case dk_entries d (path_key p) of
       None \<Rightarrow> (Some (dk_next d), new_file (path_key p) [] d)
     | Some (NFile i) \<Rightarrow> (Some i, set_data i [] d)
     | Some _ \<Rightarrow> (None, d)) err"

definition fs_append :: "nat \<Rightarrow> string \<Rightarrow> 'e \<Rightarrow> (disk, 'e, unit) comp" where
  "fs_append i bytes err = fs_call (\<lambda>f d.
     case f of
       Fine \<Rightarrow> (Some (), set_data i (dk_data d i @ bytes) d)
     | Cut n \<Rightarrow> (None, set_data i (dk_data d i @ take n bytes) d)
     | _ \<Rightarrow> (None, d)) err"

definition fs_open_dir :: "string \<Rightarrow> 'e \<Rightarrow> (disk, 'e, unit) comp" where
  "fs_open_dir p err = fs_call (\<lambda>f d. (if f \<noteq> Fine then None else Some (), d)) err"

definition sync_directory :: "string \<Rightarrow> (disk, transaction_error, unit) comp" where
  "sync_directory path =
     then_do (fs_open_dir path TransactionDirectoryNotOpened) (\<lambda>_.
     fs_sync_dir path TransactionDirectoryNotSynced)"

definition prepare_directory :: "string \<Rightarrow> (disk, transaction_error, unit) comp" where
  "prepare_directory parent =
     then_do (fs_create_dir parent) (\<lambda>answer.
     case answer of
       DirMade \<Rightarrow> fs_chmod parent 448 TransactionDirectoryNotSecured
     | DirMissing \<Rightarrow>
         then_do (fs_create_dir_all parent TransactionDirectoryNotCreated) (\<lambda>_.
         fs_chmod parent 448 TransactionDirectoryNotSecured)
     | DirExists \<Rightarrow>
         then_do (fs_stat parent) (\<lambda>metadata.
         case metadata of
           Some (Some (NDir, _)) \<Rightarrow> return_ok ()
         | Some (Some _) \<Rightarrow> return_err TransactionDirectoryNotReal
         | _ \<Rightarrow> return_err TransactionDirectoryNotInspected)
     | DirRefused \<Rightarrow> return_err TransactionDirectoryNotCreated)"

definition path_extension :: "string \<Rightarrow> string option" where
  "path_extension path =
     Option.bind (path_file_name path) (\<lambda>name.
       let stem = file_stem name in if stem = name then None else Some (drop (Suc (length stem)) name))"

definition transaction_temporary :: "string \<Rightarrow> string" where
  "transaction_temporary path = with_extension path (unwrap_or ''json'' (path_extension path) @ ''.tmp'')"

definition write_json :: "(json \<Rightarrow> string) \<Rightarrow> string \<Rightarrow> json \<Rightarrow> (disk, transaction_error, unit) comp" where
  "write_json pretty path value =
     then_do (lift_res (ok_or TransactionNoParent (parent_path path))) (\<lambda>parent.
     then_do (prepare_directory parent) (\<lambda>_.
     then_do (fs_stat path) (\<lambda>metadata.
     then_do (lift_res (guard (case metadata of Some (Some (NFile _, _)) \<Rightarrow> True | Some (Some _) \<Rightarrow> False | _ \<Rightarrow> True) TransactionNotRegular)) (\<lambda>_.
     let temporary = transaction_temporary path in
     then_do (fs_open_truncate temporary TransactionNotOpened) (\<lambda>file.
     then_do (fs_append file (pretty value) TransactionNotEncoded) (\<lambda>_.
     then_do (fs_append file [char_of (10 :: nat)] TransactionNotFinished) (\<lambda>_.
     then_do (fs_sync file TransactionNotSynced) (\<lambda>_.
     then_do (fs_chmod temporary 384 TransactionNotSecured) (\<lambda>_.
     then_do (fs_rename temporary path TransactionNotReplaced) (\<lambda>_.
     sync_directory parent))))))))))"

definition write_request ::
    "(transaction_state \<Rightarrow> json) \<Rightarrow> (json \<Rightarrow> string) \<Rightarrow> string \<Rightarrow> transaction_state \<Rightarrow> (disk, transaction_error, unit) comp" where
  "write_request enc pretty raw st =
     then_do (lift_res (safe_transaction_path raw)) (\<lambda>path. write_json pretty path (enc st))"

fun object_insert :: "(string \<times> json) \<Rightarrow> json \<Rightarrow> json" where
  "object_insert (k, v) (JObject kvs) = JObject (map_insert k v kvs)"
| "object_insert kv v = v"

definition failure_document :: "json \<Rightarrow> string \<Rightarrow> json" where
  "failure_document value message =
     object_insert (''recovery_required'', JBool True) (object_insert (''message'', JString message)
       (object_insert (''lifecycle'', JString ''failed'') (object_insert (''status'', JString ''failed'') value)))"

definition write_failure_summary ::
    "(transaction_state \<Rightarrow> json) \<Rightarrow> (json \<Rightarrow> string) \<Rightarrow> string \<Rightarrow> transaction_state \<Rightarrow> string \<Rightarrow> (disk, transaction_error, unit) comp" where
  "write_failure_summary enc pretty raw st message =
     then_do (lift_res (safe_transaction_path raw)) (\<lambda>path.
     then_do (lift_res (guard (json_is_object (enc st)) FailureNotObject)) (\<lambda>_.
     write_json pretty path (failure_document (enc st) message)))"

definition decode_transaction ::
    "(string \<Rightarrow> transaction_state option) \<Rightarrow> (string \<Rightarrow> string) \<Rightarrow> string \<Rightarrow> (transaction_error, transaction_state \<times> recovery_guidance) res" where
  "decode_transaction dec quoted input =
     and_then (ok_or TransactionInvalid (dec input)) (\<lambda>st.
     if tx_schema_version st \<noteq> 1 then Inl (TransactionSchema (tx_schema_version st))
     else Inr (st, rescue_guidance quoted (Some (tx_status st))))"

section \<open>Support export\<close>

datatype recovery_error =
    RecoveryPathUnsafe string
  | RecoveryNotInspected
  | RecoveryTooLarge string
  | RecoveryNotOpened
  | RecoveryNotCreated
  | RecoveryNotRead
  | RecoveryGrew string
  | RecoveryNotCopied
  | RecoveryNotFlushed
  | RecoveryNotSynced
  | RecoveryNotSecured
  | MountNotResolved
  | MountNotDirectory
  | ExportDirectoryUnsafe
  | ExportDirectoryNotCreated
  | ExportTargetUnsafe string
  | ExportTooLarge
  | NothingCopied

definition MAX_RECOVERY_PATH_BYTES :: nat where
  "MAX_RECOVERY_PATH_BYTES = 4096"

definition MAX_SUPPORT_FILE_BYTES :: nat where
  "MAX_SUPPORT_FILE_BYTES = 16 * 1024 * 1024"

definition MAX_SUPPORT_EXPORT_BYTES :: nat where
  "MAX_SUPPORT_EXPORT_BYTES = 32 * 1024 * 1024"

definition recovery_path_char :: "char \<Rightarrow> bool" where
  "recovery_path_char c \<longleftrightarrow> is_ascii_alphanumeric c \<or> c \<in> set ''/._+:-''"

definition recovery_safe_absolute_path :: "string \<Rightarrow> string \<Rightarrow> (recovery_error, string) res" where
  "recovery_safe_absolute_path raw lab =
     (let v = trim raw in
      if v = [] \<or> length v > MAX_RECOVERY_PATH_BYTES \<or> \<not> starts_with v ''/'' \<or> str_contains v ''..''
         \<or> str_contains v ''//'' \<or> \<not> list_all recovery_path_char v
      then Inl (RecoveryPathUnsafe lab) else Inr v)"

text \<open>What the calls of one copy answer: the metadata (an error, nothing, or the kind and length), the two
  opens, the results of the successive reads (\<open>None\<close> an error; the end of the list is the end of the
  file), which writes succeed, and flush, sync and chmod.\<close>

record copy_answers =
  ca_stat :: "(bool \<times> nat) option option"
  ca_open :: bool
  ca_create :: bool
  ca_reads :: "string option list"
  ca_write :: "nat \<Rightarrow> bool"
  ca_flush :: bool
  ca_sync :: bool
  ca_chmod :: bool

text \<open>The loop: the bytes counted so far, the number of writes and the output.\<close>

fun copy_loop :: "string \<Rightarrow> (nat \<Rightarrow> bool) \<Rightarrow> string option list \<Rightarrow> nat \<Rightarrow> nat \<Rightarrow> string \<Rightarrow> (recovery_error, unit) res \<times> string" where
  "copy_loop source write_ok [] copied k out = (Inr (), out)"
| "copy_loop source write_ok (None # rest) copied k out = (Inl RecoveryNotRead, out)"
| "copy_loop source write_ok (Some chunk # rest) copied k out =
     (if chunk = [] then (Inr (), out)
      else
        let copied' = saturating_add copied (length chunk) in
        if copied' > MAX_SUPPORT_FILE_BYTES then (Inl (RecoveryGrew source), out)
        else if \<not> write_ok k then (Inl RecoveryNotCopied, out)
        else copy_loop source write_ok rest copied' (Suc k) (out @ chunk))"

text \<open>The result, and what the destination holds if it was opened.\<close>

definition copy_support_file :: "copy_answers \<Rightarrow> string \<Rightarrow> (recovery_error, bool) res \<times> string option" where
  "copy_support_file a source =
     (case ca_stat a of
        None \<Rightarrow> (Inl RecoveryNotInspected, None)
      | Some None \<Rightarrow> (Inr False, None)
      | Some (Some (regular, len)) \<Rightarrow>
          if \<not> regular then (Inr False, None)
          else if len > MAX_SUPPORT_FILE_BYTES then (Inl (RecoveryTooLarge source), None)
          else if \<not> ca_open a then (Inl RecoveryNotOpened, None)
          else if \<not> ca_create a then (Inl RecoveryNotCreated, None)
          else
            (case copy_loop source (ca_write a) (ca_reads a) 0 0 [] of
               (Inl e, out) \<Rightarrow> (Inl e, Some out)
             | (Inr _, out) \<Rightarrow>
                 (if \<not> ca_flush a then Inl RecoveryNotFlushed
                  else if \<not> ca_sync a then Inl RecoveryNotSynced
                  else if \<not> ca_chmod a then Inl RecoveryNotSecured
                  else Inr True, Some out)))"

record recovery_export_input =
  re_usb_mount :: string
  re_log_path :: string
  re_transaction_path :: string
  re_failure_summary_path :: string

text \<open>The machine: canonical paths, what a path is (\<open>None\<close> an error or nothing, else whether it is a real
  directory, a real file, and its length), creating directories, and the answers of a copy.\<close>

record export_machine =
  em_canonicalize :: "string \<Rightarrow> string option"
  em_is_dir :: "string \<Rightarrow> bool"
  em_stat :: "string \<Rightarrow> (bool \<times> bool \<times> nat) option"
  em_mkdir :: "string \<Rightarrow> bool"
  em_copy :: "string \<Rightarrow> string \<Rightarrow> copy_answers"

text \<open>The files copied so far, with their contents, are returned also after an error.\<close>

fun export_loop ::
    "export_machine \<Rightarrow> string \<Rightarrow> (string \<times> string) list \<Rightarrow> nat \<Rightarrow> (string \<times> string) list
       \<Rightarrow> (recovery_error, unit) res \<times> (string \<times> string) list" where
  "export_loop m destination [] total_bytes files = (Inr (), files)"
| "export_loop m destination ((name, source) # rest) total_bytes files =
     (let target = path_join destination name in
      case em_stat m target of
        Some (_, False, _) \<Rightarrow> (Inl (ExportTargetUnsafe target), files)
      | _ \<Rightarrow>
          let total_bytes' = (case em_stat m source of None \<Rightarrow> total_bytes | Some (_, _, len) \<Rightarrow> saturating_add total_bytes len) in
          if em_stat m source \<noteq> None \<and> total_bytes' > MAX_SUPPORT_EXPORT_BYTES then (Inl ExportTooLarge, files)
          else
            (case copy_support_file (em_copy m source target) source of
               (Inl e, out) \<Rightarrow> (Inl e, files)
             | (Inr copied, out) \<Rightarrow>
                 export_loop m destination rest total_bytes' (if copied then files @ [(name, unwrap_or [] out)] else files)))"

definition export_logs :: "export_machine \<Rightarrow> recovery_export_input \<Rightarrow> (recovery_error, string \<times> string list) res" where
  "export_logs m input =
     and_then (recovery_safe_absolute_path (re_usb_mount input) ''USB mount'') (\<lambda>raw.
     and_then (ok_or MountNotResolved (em_canonicalize m raw)) (\<lambda>mount.
     and_then (guard (em_is_dir m mount) MountNotDirectory) (\<lambda>_.
     let destination = path_join mount ''kyth-installer-logs'' in
     and_then (guard (case em_stat m destination of Some (False, _, _) \<Rightarrow> False | _ \<Rightarrow> True) ExportDirectoryUnsafe) (\<lambda>_.
     and_then (guard (em_mkdir m destination) ExportDirectoryNotCreated) (\<lambda>_.
     and_then (recovery_safe_absolute_path (re_log_path input) ''log path'') (\<lambda>log.
     and_then (recovery_safe_absolute_path (re_transaction_path input) ''transaction path'') (\<lambda>transaction.
     and_then (recovery_safe_absolute_path (re_failure_summary_path input) ''failure summary path'') (\<lambda>failure.
     case export_loop m destination [(''log'', log), (''transaction.json'', transaction), (''failure.json'', failure)] 0 [] of
       (Inl e, _) \<Rightarrow> Inl e
     | (Inr _, files) \<Rightarrow> if files = [] then Inl NothingCopied else Inr (destination, map fst files)))))))))"

end
