(* ===== verification/Installer_Stream.thy ===== *)
theory Installer_Stream
  imports Installer_Storage
begin

text \<open>
  Supervised child processes, \<open>installer_stream.rs\<close>: the incremental decoder and line framer of a
  child's output, the watchdog, the polling loop and the runners built on it.  A child is the list of
  rounds its supervisor makes before the clock reaches the deadline, each with the answers of that
  round; the round after the last one finds the deadline passed.  Every runner returns its result,
  whether it killed the process group, and the lines it logged.
\<close>

section \<open>Constants and data\<close>

definition RECENT_OUTPUT_LINES :: nat where
  "RECENT_OUTPUT_LINES = 30"

definition FAILURE_OUTPUT_LINES :: nat where
  "FAILURE_OUTPUT_LINES = 10"

definition MAX_STREAM_LINE_BYTES :: nat where
  "MAX_STREAM_LINE_BYTES = 64 * 1024"

definition TRUNCATED_LINE_SUFFIX :: string where
  "TRUNCATED_LINE_SUFFIX = ''[truncated]''"

definition MAX_INSTALLER_LOG_BYTES :: nat where
  "MAX_INSTALLER_LOG_BYTES = 1024 * 1024"

definition DEFAULT_OPERATION_TIMEOUT :: nat where
  "DEFAULT_OPERATION_TIMEOUT = 4 * 60 * 60"

definition OPERATION_STALL_WARN_AFTER :: nat where
  "OPERATION_STALL_WARN_AFTER = 10 * 60"

definition OPERATION_STALL_TIMEOUT :: nat where
  "OPERATION_STALL_TIMEOUT = 30 * 60"

datatype stream_error =
    StreamNotSpawned
  | InputNotProvided
  | OutputNotConfigured
  | StreamCancelled
  | StreamTimedOut nat
  | AbsoluteTimeout nat
  | NoOutput nat
  | NoNetworkProgress nat
  | OutputNotRead
  | StreamNotPolled
  | CommandFailed int string
  | OutputNotCollected
  | ProbeExited int
  | ProbeOutputNotUtf8

record stream_model =
  sm_pending :: string
  sm_pending_utf8 :: string
  sm_last_line :: "string option"
  sm_recent_output :: "string list"
  sm_started_at :: nat
  sm_last_activity :: nat
  sm_last_rx_activity :: nat
  sm_last_rx :: nat
  sm_total_bytes :: nat
  sm_cancelled :: bool

definition stream_new :: "nat \<Rightarrow> nat \<Rightarrow> stream_model" where
  "stream_new now rx_bytes =
     \<lparr>sm_pending = [], sm_pending_utf8 = [], sm_last_line = None, sm_recent_output = [],
      sm_started_at = now, sm_last_activity = now, sm_last_rx_activity = now, sm_last_rx = rx_bytes,
      sm_total_bytes = 0, sm_cancelled = False\<rparr>"

section \<open>Decoding\<close>

text \<open>One step of \<open>std::str::from_utf8\<close>: a scalar value of so many bytes, an invalid sequence of so many
  bytes (\<open>error_len\<close>), or a sequence that is cut off.\<close>

datatype utf8_item = Scalar nat | Malformed nat | Truncated

definition continuation :: "char \<Rightarrow> bool" where
  "continuation c \<longleftrightarrow> 128 \<le> byte c \<and> byte c \<le> 191"

definition second_byte :: "nat \<Rightarrow> char \<Rightarrow> bool" where
  "second_byte lead c \<longleftrightarrow>
     (if lead = 224 then 160 else if lead = 240 then 144 else 128) \<le> byte c
     \<and> byte c \<le> (if lead = 237 then 159 else if lead = 244 then 143 else 191)"

definition utf8_width :: "nat \<Rightarrow> nat" where
  "utf8_width lead =
     (if lead < 128 then 1 else if 194 \<le> lead \<and> lead \<le> 223 then 2
      else if 224 \<le> lead \<and> lead \<le> 239 then 3 else if 240 \<le> lead \<and> lead \<le> 244 then 4 else 0)"

fun utf8_scan :: "string \<Rightarrow> utf8_item" where
  "utf8_scan [] = Truncated"
| "utf8_scan (c # cs) =
     (let n = utf8_width (byte c) in
      if n = 0 then Malformed 1
      else if n = 1 then Scalar 1
      else case cs of [] \<Rightarrow> Truncated | c2 # cs2 \<Rightarrow>
        if \<not> second_byte (byte c) c2 then Malformed 1
        else if n = 2 then Scalar 2
        else case cs2 of [] \<Rightarrow> Truncated | c3 # cs3 \<Rightarrow>
          if \<not> continuation c3 then Malformed 2
          else if n = 3 then Scalar 3
          else case cs3 of [] \<Rightarrow> Truncated | c4 # _ \<Rightarrow>
            if continuation c4 then Scalar 4 else Malformed 3)"

definition REPLACEMENT :: string where
  "REPLACEMENT = map char_of [239 :: nat, 191, 189]"

lemma utf8_scan_pos: "utf8_scan s = Scalar n \<or> utf8_scan s = Malformed n \<Longrightarrow> 0 < n \<and> n \<le> length s"
  by (cases s rule: utf8_scan.cases) (auto simp: Let_def split: if_splits list.splits)

text \<open>The text decoded and the bytes kept for the next chunk.\<close>

function utf8_decode :: "bool \<Rightarrow> string \<Rightarrow> string \<times> string" where
  "utf8_decode final_chunk s =
     (if s = [] then ([], [])
      else case utf8_scan s of
        Scalar n \<Rightarrow> (case utf8_decode final_chunk (drop n s) of (out, rest) \<Rightarrow> (take n s @ out, rest))
      | Malformed n \<Rightarrow> (case utf8_decode final_chunk (drop n s) of (out, rest) \<Rightarrow> (REPLACEMENT @ out, rest))
      | Truncated \<Rightarrow> if final_chunk then (REPLACEMENT, []) else ([], s))"
  by pat_completeness auto
termination
proof (relation "measure (\<lambda>(f, s). length s)")
  show "((f, drop n s), f, s) \<in> measure (\<lambda>(f, s). length s)" if "s \<noteq> []" and "utf8_scan s = Scalar n" for f s n
    using that utf8_scan_pos [of s n] by simp
  show "((f, drop n s), f, s) \<in> measure (\<lambda>(f, s). length s)" if "s \<noteq> []" and "utf8_scan s = Malformed n" for f s n
    using that utf8_scan_pos [of s n] by simp
qed simp

declare utf8_decode.simps [simp del]

definition decode :: "string \<Rightarrow> bool \<Rightarrow> stream_model \<Rightarrow> stream_model" where
  "decode bytes final_chunk m =
     (let (text, rest) = utf8_decode final_chunk (sm_pending_utf8 m @ bytes) in
      m\<lparr>sm_pending := sm_pending m @ text, sm_pending_utf8 := rest\<rparr>)"

section \<open>Lines\<close>

definition emit_line :: "string \<Rightarrow> stream_model \<Rightarrow> string list \<times> stream_model" where
  "emit_line raw m =
     (let line = trim raw in
      if line = [] \<or> sm_last_line m = Some line then ([], m)
      else
        let kept = (if length (sm_recent_output m) = RECENT_OUTPUT_LINES then tl (sm_recent_output m) else sm_recent_output m) in
        ([line], m\<lparr>sm_last_line := Some line, sm_recent_output := kept @ [line]\<rparr>))"

definition line_end :: "char \<Rightarrow> bool" where
  "line_end c \<longleftrightarrow> byte c = 10 \<or> byte c = 13"

text \<open>The last character boundary at or below \<open>e\<close>.\<close>

fun boundary_below :: "string \<Rightarrow> nat \<Rightarrow> nat" where
  "boundary_below s 0 = 0"
| "boundary_below s (Suc e) =
     (if Suc e < length s \<and> continuation (s ! Suc e) then boundary_below s e else Suc e)"

lemma boundary_below_le: "boundary_below s e \<le> e"
  by (induction e) auto

text \<open>The loop of \<open>take_lines\<close>.  Text that is valid UTF-8 has a boundary among any four consecutive
  positions, so the chunk split off an overlong line is never empty; the guard \<open>0 < cut\<close> only makes the
  function total on other byte lists.\<close>

function split_lines :: "stream_model \<Rightarrow> string list \<times> stream_model" where
  "split_lines m =
     (let s = sm_pending m; line = takeWhile (\<lambda>c. \<not> line_end c) s in
      if length line < length s then
        (case emit_line line (m\<lparr>sm_pending := drop (Suc (length line)) s\<rparr>) of (es, m1) \<Rightarrow>
         case split_lines (m1\<lparr>sm_pending := drop (Suc (length line)) s\<rparr>) of (es', m2) \<Rightarrow> (es @ es', m2))
      else
        let cut = boundary_below s MAX_STREAM_LINE_BYTES in
        if MAX_STREAM_LINE_BYTES < length s \<and> 0 < cut then
          (case emit_line (take cut s @ TRUNCATED_LINE_SUFFIX) (m\<lparr>sm_pending := drop cut s\<rparr>) of (es, m1) \<Rightarrow>
           case split_lines (m1\<lparr>sm_pending := drop cut s\<rparr>) of (es', m2) \<Rightarrow> (es @ es', m2))
        else ([], m))"
  by pat_completeness auto
termination
  by (relation "measure (\<lambda>m. length (sm_pending m))") auto

declare split_lines.simps [simp del]

definition take_lines :: "bool \<Rightarrow> stream_model \<Rightarrow> string list \<times> stream_model" where
  "take_lines final_chunk m =
     (case split_lines m of (es, m1) \<Rightarrow>
      if final_chunk \<and> sm_pending m1 \<noteq> [] then
        (case emit_line (sm_pending m1) (m1\<lparr>sm_pending := []\<rparr>) of (es', m2) \<Rightarrow> (es @ es', m2))
      else (es, m1))"

definition feed :: "string \<Rightarrow> nat \<Rightarrow> stream_model \<Rightarrow> string list \<times> stream_model" where
  "feed bytes now m = take_lines False (decode bytes False (m\<lparr>sm_last_activity := now\<rparr>))"

definition finish_output :: "stream_model \<Rightarrow> string list \<times> stream_model" where
  "finish_output m = take_lines True (decode [] True m)"

section \<open>Watchdog and exit status\<close>

definition stream_request_cancel :: "stream_model \<Rightarrow> stream_model" where
  "stream_request_cancel m = m\<lparr>sm_cancelled := True\<rparr>"

definition idle_seconds :: "stream_model \<Rightarrow> nat \<Rightarrow> nat" where
  "idle_seconds m now = saturating_sub now (sm_last_activity m)"

definition observe_network :: "nat \<Rightarrow> nat \<Rightarrow> nat \<Rightarrow> stream_model \<Rightarrow> stream_model" where
  "observe_network now rx_bytes total_bytes m =
     (let m1 = m\<lparr>sm_total_bytes := total_bytes\<rparr> in
      if rx_bytes > sm_last_rx m1 then m1\<lparr>sm_last_rx := rx_bytes, sm_last_rx_activity := now\<rparr> else m1)"

definition timeout_error :: "stream_model \<Rightarrow> nat \<Rightarrow> nat \<Rightarrow> nat \<Rightarrow> nat option \<Rightarrow> stream_error option" where
  "timeout_error m now io_timeout net_timeout absolute_timeout =
     (case absolute_timeout of
        Some limit \<Rightarrow>
          if saturating_sub now (sm_started_at m) > limit then Some (AbsoluteTimeout limit)
          else if saturating_sub now (sm_last_activity m) > io_timeout then Some (NoOutput io_timeout)
          else if sm_total_bytes m > 0 \<and> saturating_sub now (sm_last_rx_activity m) > net_timeout then Some (NoNetworkProgress net_timeout)
          else None
      | None \<Rightarrow>
          if saturating_sub now (sm_last_activity m) > io_timeout then Some (NoOutput io_timeout)
          else if sm_total_bytes m > 0 \<and> saturating_sub now (sm_last_rx_activity m) > net_timeout then Some (NoNetworkProgress net_timeout)
          else None)"

fun join_lines :: "string list \<Rightarrow> string" where
  "join_lines [] = []"
| "join_lines [l] = l"
| "join_lines (l # ls) = l @ [char_of (10 :: nat)] @ join_lines ls"

definition finish_status :: "stream_model \<Rightarrow> int \<Rightarrow> (stream_error, unit) res" where
  "finish_status m exit_code =
     (if sm_cancelled m then Inl StreamCancelled
      else if exit_code = 0 then Inr ()
      else
        let detail = join_lines (drop (saturating_sub (length (sm_recent_output m)) FAILURE_OUTPUT_LINES) (sm_recent_output m)) in
        Inl (CommandFailed exit_code (if detail = [] then ''No command output was captured.'' else detail)))"

section \<open>The log file\<close>

text \<open>Whether the file could be opened, its permissions set, truncated and inspected, and how many bytes a
  failing write got through.\<close>

record log_answers =
  la_open :: bool
  la_chmod :: bool
  la_truncate :: bool
  la_inspect :: bool
  la_write :: "nat \<Rightarrow> nat option"

definition log_write :: "log_answers \<Rightarrow> nat \<Rightarrow> string \<Rightarrow> string \<Rightarrow> string" where
  "log_write a k bytes content = content @ (case la_write a k of None \<Rightarrow> bytes | Some n \<Rightarrow> take n bytes)"

definition append_installer_log_at :: "log_answers \<Rightarrow> string \<Rightarrow> string \<Rightarrow> string" where
  "append_installer_log_at a line content =
     (if \<not> la_open a \<or> \<not> la_chmod a then content
      else if length line \<ge> MAX_INSTALLER_LOG_BYTES then
        (if \<not> la_truncate a then content
         else log_write a 1 [char_of (10 :: nat)]
           (log_write a 0 (drop (length line - (MAX_INSTALLER_LOG_BYTES - 1)) line) []))
      else
        let line_bytes = saturating_add (length line) 1 in
        if la_inspect a \<and> saturating_add (length content) line_bytes > MAX_INSTALLER_LOG_BYTES then
          (if \<not> la_truncate a then content
           else log_write a 1 [char_of (10 :: nat)] (log_write a 0 line []))
        else log_write a 1 [char_of (10 :: nat)] (log_write a 0 line content))"

section \<open>Running a child\<close>

text \<open>A read returns bytes (none at the end of the output), or says to try again, or fails.\<close>

datatype read_answer = ReadBytes string | WouldBlock | Interrupted | ReadError

datatype wait_answer = StillAlive | WaitFailed | ExitedStatus "int option"

text \<open>One round: the cancellation flag, the elapsed milliseconds, the read and the second at which it was
  processed, and \<open>try_wait\<close>.\<close>

record round =
  rd_cancelled :: bool
  rd_elapsed :: nat
  rd_read :: read_answer
  rd_read_at :: nat
  rd_wait :: wait_answer

record child =
  ch_spawned :: bool
  ch_input_ok :: bool
  ch_nonblocking :: bool
  ch_rounds :: "round list"
  ch_after :: wait_answer

definition STALL_WARNING :: string where
  "STALL_WARNING = ''warning: no installer output for 10 minutes; the operation may be stalled''"

fun run_child_loop ::
    "nat \<Rightarrow> round list \<Rightarrow> stream_model \<Rightarrow> bool \<Rightarrow> bool \<Rightarrow> string list
       \<Rightarrow> (stream_error, int option) res \<times> bool \<times> string list" where
  "run_child_loop timeout [] m closed warned log = (Inl (StreamTimedOut timeout), True, log)"
| "run_child_loop timeout (r # rs) m closed warned log =
     (if rd_cancelled r then (Inl StreamCancelled, True, log)
      else if rd_elapsed r \<ge> 1000 * timeout then (Inl (StreamTimedOut timeout), True, log)
      else
        let secs = rd_elapsed r div 1000;
            stalled = (\<not> warned \<and> idle_seconds m secs \<ge> OPERATION_STALL_WARN_AFTER);
            warned1 = (warned \<or> stalled);
            log1 = (if stalled then log @ [STALL_WARNING] else log) in
        case timeout_error m secs OPERATION_STALL_TIMEOUT u64_max None of
          Some e \<Rightarrow> (Inl e, True, log1)
        | None \<Rightarrow>
            if \<not> closed \<and> rd_read r = ReadError then (Inl OutputNotRead, True, log1)
            else if \<not> closed \<and> rd_read r = Interrupted then run_child_loop timeout rs m closed warned1 log1
            else
              let (events, m1) = (case rd_read r of
                    ReadBytes bytes \<Rightarrow> if closed \<or> bytes = [] then ([], m) else feed bytes (rd_read_at r) m
                  | _ \<Rightarrow> ([], m));
                  closed1 = (closed \<or> rd_read r = ReadBytes []);
                  log2 = log1 @ events in
              case rd_wait r of
                WaitFailed \<Rightarrow> (Inl StreamNotPolled, False, log2)
              | ExitedStatus code \<Rightarrow>
                  let (last_events, m2) = finish_output m1 in
                  (and_then (finish_status m2 (case code of Some c \<Rightarrow> c | None \<Rightarrow> 1)) (\<lambda>_. Inr code), False, log2 @ last_events)
              | StillAlive \<Rightarrow> run_child_loop timeout rs m1 closed1 warned1 log2)"

definition run_child :: "child \<Rightarrow> nat \<Rightarrow> (stream_error, int option) res \<times> bool \<times> string list" where
  "run_child c timeout =
     (if \<not> ch_nonblocking c then (Inl OutputNotConfigured, False, [])
      else run_child_loop timeout (ch_rounds c) (stream_new 0 0) False False [])"

text \<open>After a failure the process group is killed unless the child is known to have exited.\<close>

definition exited :: "wait_answer \<Rightarrow> bool" where
  "exited w = (case w of ExitedStatus _ \<Rightarrow> True | _ \<Rightarrow> False)"

definition reap :: "child \<Rightarrow> (stream_error, int option) res \<times> bool \<times> string list \<Rightarrow> (stream_error, int option) res \<times> bool \<times> string list" where
  "reap c outcome =
     (case outcome of (result, killed, log) \<Rightarrow>
      (result, killed \<or> (\<not> is_ok result \<and> \<not> exited (ch_after c)), log))"

definition run_command_timeout :: "child \<Rightarrow> nat \<Rightarrow> (stream_error, int option) res \<times> bool \<times> string list" where
  "run_command_timeout c timeout =
     (if \<not> ch_spawned c then (Inl StreamNotSpawned, False, []) else reap c (run_child c timeout))"

definition run_command :: "child \<Rightarrow> (stream_error, int option) res \<times> bool \<times> string list" where
  "run_command c =
     (if \<not> ch_spawned c then (Inl StreamNotSpawned, False, [])
      else reap c (run_child c DEFAULT_OPERATION_TIMEOUT))"

definition run_command_with_input :: "child \<Rightarrow> (stream_error, int option) res \<times> bool \<times> string list" where
  "run_command_with_input c =
     (if \<not> ch_spawned c then (Inl StreamNotSpawned, False, [])
      else if \<not> ch_input_ok c then (Inl InputNotProvided, True, [])
      else reap c (run_child c DEFAULT_OPERATION_TIMEOUT))"

text \<open>The bounded probe: its rounds, and what collecting the output gives.\<close>

record probe_round =
  po_cancelled :: bool
  po_wait :: wait_answer
  po_in_time :: bool

datatype collected = NotCollected | Collected "int option" "string option"

fun run_output_loop :: "nat \<Rightarrow> collected \<Rightarrow> probe_round list \<Rightarrow> (stream_error, string) res \<times> bool" where
  "run_output_loop timeout out [] = (Inl (StreamTimedOut timeout), True)"
| "run_output_loop timeout out (r # rs) =
     (if po_cancelled r then (Inl StreamCancelled, True)
      else case po_wait r of
        ExitedStatus _ \<Rightarrow>
          (case out of
             NotCollected \<Rightarrow> Inl OutputNotCollected
           | Collected code text \<Rightarrow>
               if code \<noteq> Some 0 then Inl (ProbeExited (case code of Some c \<Rightarrow> c | None \<Rightarrow> 1))
               else ok_or ProbeOutputNotUtf8 text, False)
      | StillAlive \<Rightarrow> if po_in_time r then run_output_loop timeout out rs else (Inl (StreamTimedOut timeout), True)
      | WaitFailed \<Rightarrow> (Inl StreamNotPolled, True))"

definition run_output_timeout :: "bool \<Rightarrow> nat \<Rightarrow> collected \<Rightarrow> probe_round list \<Rightarrow> (stream_error, string) res \<times> bool" where
  "run_output_timeout spawned timeout out rs =
     (if \<not> spawned then (Inl StreamNotSpawned, False) else run_output_loop timeout out rs)"

end
