(* ===== verification/Stream_Safety.thy ===== *)
theory Stream_Safety
  imports Installer_Stream
begin

text \<open>
  Correctness of the supervised child processes: decoding does not depend on how the output was cut into
  reads, the framer keeps its buffers bounded and its log free of blank and repeated lines, and a runner
  reports success exactly for exit status zero and never leaves a failed child running.
\<close>

section \<open>Decoding is independent of the chunks\<close>

lemma utf8_scan_append: "utf8_scan s \<noteq> Truncated \<Longrightarrow> utf8_scan (s @ b) = utf8_scan s"
  by (cases s rule: utf8_scan.cases) (auto simp: Let_def split: if_splits list.splits)

lemma utf8_decode_append:
  "utf8_decode final (a @ b) =
     (case utf8_decode False a of (x, r) \<Rightarrow> case utf8_decode final (r @ b) of (y, r') \<Rightarrow> (x @ y, r'))"
proof (induction "length a" arbitrary: a rule: less_induct)
  case less
  show ?case
  proof (cases "a = []")
    case True
    then show ?thesis by (simp add: utf8_decode.simps [of False "[]"] split: prod.split)
  next
    case False
    have step: "utf8_decode final (drop n a @ b) =
        (case utf8_decode False (drop n a) of (x, r) \<Rightarrow> case utf8_decode final (r @ b) of (y, r') \<Rightarrow> (x @ y, r'))"
      if "utf8_scan a = Scalar n \<or> utf8_scan a = Malformed n" for n
      using less [of "drop n a"] utf8_scan_pos [OF that] False by simp
    show ?thesis
    proof (cases "utf8_scan a")
      case (Scalar n)
      then have "n \<le> length a" using utf8_scan_pos [of a n] by simp
      with Scalar False step [of n] show ?thesis
        by (simp add: utf8_decode.simps [of final "a @ b"] utf8_decode.simps [of False a] utf8_scan_append split: prod.split)
    next
      case (Malformed n)
      then have "n \<le> length a" using utf8_scan_pos [of a n] by simp
      with Malformed False step [of n] show ?thesis
        by (simp add: utf8_decode.simps [of final "a @ b"] utf8_decode.simps [of False a] utf8_scan_append split: prod.split)
    next
      case Truncated
      with False show ?thesis by (simp add: utf8_decode.simps [of False a] split: prod.split)
    qed
  qed
qed

lemma decode_then:
  "decode b final (decode a False m) = decode (a @ b) final m"
  by (simp add: decode_def utf8_decode_append [of final "sm_pending_utf8 m @ a" b, simplified] split: prod.split)

lemma decode_chunks: "decode b final (fold (\<lambda>c. decode c False) cs m) = decode (concat cs @ b) final m"
  by (induction cs arbitrary: m) (simp_all add: decode_then)

section \<open>The line buffer is bounded\<close>

text \<open>At most \<open>k\<close> continuation bytes come before the next character starts, and at most three after each
  start.\<close>

fun framed :: "nat \<Rightarrow> string \<Rightarrow> bool" where
  "framed k [] \<longleftrightarrow> True"
| "framed k (c # cs) \<longleftrightarrow> (if continuation c then 0 < k \<and> framed (k - 1) cs else framed 3 cs)"

lemma framed_mono: "framed k s \<Longrightarrow> k \<le> l \<Longrightarrow> framed l s"
  by (induction k s arbitrary: l rule: framed.induct) (auto split: if_splits)

lemma framed_append: "framed k a \<Longrightarrow> framed 0 b \<Longrightarrow> framed k (a @ b)"
  by (induction k a rule: framed.induct) (auto split: if_splits intro: framed_mono)

lemma framed_drop: "framed k s \<Longrightarrow> k \<le> 3 \<Longrightarrow> framed 3 (drop n s)"
proof (induction k s arbitrary: n rule: framed.induct)
  case (2 k c cs)
  then show ?case by (cases n) (auto split: if_splits intro: framed_mono)
qed simp

lemma second_byte_continuation: "second_byte lead c \<Longrightarrow> continuation c"
  by (auto simp: second_byte_def continuation_def split: if_splits)

lemma width_start: "0 < utf8_width (byte c) \<Longrightarrow> \<not> continuation c"
  by (auto simp: utf8_width_def continuation_def split: if_splits)

lemma framed_scalar:
  assumes "utf8_scan s = Scalar n"
  shows "framed 0 (take n s)"
proof (cases s)
  case (Cons c cs)
  let ?n = "utf8_width (byte c)"
  consider "?n = 0" | "?n = Suc 0" | "?n = 2" | "?n = 3" | "?n = 4" unfolding utf8_width_def One_nat_def by argo
  then show ?thesis
  proof cases
    case 2
    with assms Cons have "n = Suc 0" by simp
    with 2 Cons width_start [of c] show ?thesis by simp
  qed (use assms Cons width_start [of c] in
      \<open>auto simp: Let_def dest: second_byte_continuation split: list.splits if_splits\<close>)
qed (use assms in simp)

lemma framed_replacement: "framed 0 REPLACEMENT"
  by (simp add: REPLACEMENT_def continuation_def)

lemma framed_decode: "utf8_decode final s = (out, rest) \<Longrightarrow> framed 0 out"
proof (induction final s arbitrary: out rest rule: utf8_decode.induct)
  case (1 final s)
  show ?case
  proof (cases "s = []")
    case False
    with 1 show ?thesis
      by (cases "utf8_scan s")
        (auto simp: utf8_decode.simps [of final s] framed_scalar framed_replacement split: prod.splits if_splits intro!: framed_append)
  qed (use 1 in \<open>simp add: utf8_decode.simps\<close>)
qed

lemma emit_line_pending: "emit_line l m = (es, m') \<Longrightarrow> sm_pending m' = sm_pending m"
  by (auto simp: emit_line_def Let_def split: if_splits)

lemma boundary_zero:
  assumes "boundary_below s e = 0" and "e < length s" and "0 < i" and "i \<le> e"
  shows "continuation (s ! i)"
  using assms by (induction e) (auto simp: le_Suc_eq split: if_splits)

lemma framed_run: "framed k s \<Longrightarrow> k < n \<Longrightarrow> n \<le> length s \<Longrightarrow> \<exists>i < n. \<not> continuation (s ! i)"
proof (induction k s arbitrary: n rule: framed.induct)
  case (2 k c cs)
  show ?case
  proof (cases "continuation c")
    case True
    with 2(3) have k: "0 < k" "framed (k - 1) cs" by auto
    from 2(4,5) k(1) have "k - 1 < n - 1" "n - 1 \<le> length cs" by simp_all
    from 2(1) [OF True k(2) this] obtain i where "i < n - 1" "\<not> continuation (cs ! i)" by blast
    then show ?thesis by (intro exI [of _ "Suc i"]) auto
  next
    case False
    with 2 show ?thesis by (intro exI [of _ 0]) auto
  qed
qed auto

lemma overlong_cut:
  assumes f: "framed 3 s" and "MAX_STREAM_LINE_BYTES < length s"
  shows "0 < boundary_below s MAX_STREAM_LINE_BYTES"
proof (rule ccontr)
  assume z: "\<not> 0 < boundary_below s MAX_STREAM_LINE_BYTES"
  have len: "5 \<le> length s" "(5::nat) \<le> MAX_STREAM_LINE_BYTES" using assms(2) by (simp_all add: MAX_STREAM_LINE_BYTES_def)
  have "3 < (4::nat)" "4 \<le> length (drop 1 s)" using len by simp_all
  from framed_run [OF framed_drop [OF f order_refl, of 1] this]
  obtain i where "i < 4" and "\<not> continuation (drop 1 s ! i)" by blast
  moreover from \<open>i < 4\<close> have "continuation (s ! Suc i)"
    using boundary_zero [of s MAX_STREAM_LINE_BYTES "Suc i"] z assms(2) len by simp
  ultimately show False using len by (simp add: nth_Cons' drop_Suc nth_tl)
qed

text \<open>Induction along the lines taken off the buffer.\<close>

lemma split_lines_rule:
  assumes "split_lines m = (es, m')"
    and stop: "\<And>m. \<not> (MAX_STREAM_LINE_BYTES < length (sm_pending m) \<and>
        0 < boundary_below (sm_pending m) MAX_STREAM_LINE_BYTES) \<Longrightarrow> P m [] m"
    and step: "\<And>m l n es1 m1 es2 m2. emit_line l (m\<lparr>sm_pending := drop n (sm_pending m)\<rparr>) = (es1, m1) \<Longrightarrow>
        P (m1\<lparr>sm_pending := drop n (sm_pending m)\<rparr>) es2 m2 \<Longrightarrow> P m (es1 @ es2) m2"
  shows "P m es m'"
  using assms(1)
proof (induction m arbitrary: es m' rule: split_lines.induct)
  case (1 m)
  let ?s = "sm_pending m" and ?line = "takeWhile (\<lambda>c. \<not> line_end c) (sm_pending m)"
  let ?cut = "boundary_below ?s MAX_STREAM_LINE_BYTES"
  consider (line) "length ?line < length ?s"
    | (chunk) "\<not> length ?line < length ?s" and "MAX_STREAM_LINE_BYTES < length ?s \<and> 0 < ?cut"
    | (short) "\<not> length ?line < length ?s" and "\<not> (MAX_STREAM_LINE_BYTES < length ?s \<and> 0 < ?cut)" by linarith
  then show ?case
  proof cases
    case line
    obtain es1 m1 where e: "emit_line ?line (m\<lparr>sm_pending := drop (Suc (length ?line)) ?s\<rparr>) = (es1, m1)" by fastforce
    obtain es2 m2 where r: "split_lines (m1\<lparr>sm_pending := drop (Suc (length ?line)) ?s\<rparr>) = (es2, m2)" by fastforce
    from 1(3) line e r have "m' = m2" "es = es1 @ es2" by (simp_all add: split_lines.simps [of m] Let_def)
    with step [OF e 1(1) [OF refl refl line e [symmetric] r]] show ?thesis by simp
  next
    case chunk
    obtain es1 m1 where e: "emit_line (take ?cut ?s @ TRUNCATED_LINE_SUFFIX) (m\<lparr>sm_pending := drop ?cut ?s\<rparr>) = (es1, m1)" by fastforce
    obtain es2 m2 where r: "split_lines (m1\<lparr>sm_pending := drop ?cut ?s\<rparr>) = (es2, m2)" by fastforce
    from 1(3) chunk e r have "m' = m2" "es = es1 @ es2" by (simp_all add: split_lines.simps [of m] Let_def)
    with step [OF e 1(2) [OF refl refl chunk(1) refl chunk(2) e [symmetric] r]] show ?thesis by simp
  next
    case short
    with 1(3) have "es = []" "m' = m" by (simp_all add: split_lines.simps [of m] Let_def)
    with stop [OF short(2)] show ?thesis by simp
  qed
qed

lemma split_lines_bounded:
  assumes "split_lines m = (es, m')" and "framed 3 (sm_pending m)"
  shows "framed 3 (sm_pending m') \<and> length (sm_pending m') \<le> MAX_STREAM_LINE_BYTES"
proof -
  have "framed 3 (sm_pending m) \<longrightarrow> framed 3 (sm_pending m') \<and> length (sm_pending m') \<le> MAX_STREAM_LINE_BYTES"
    using assms(1)
    by (rule split_lines_rule) (use overlong_cut framed_drop [OF _ order_refl] in fastforce)+
  with assms(2) show ?thesis by blast
qed

section \<open>The log\<close>

text \<open>No line is blank, none repeats the line before it (\<open>before\<close> the first), and the last of them is
  remembered; the recent output holds the last lines, at most thirty.\<close>

fun fresh_lines :: "string option \<Rightarrow> string list \<Rightarrow> bool" where
  "fresh_lines before [] \<longleftrightarrow> True"
| "fresh_lines before (l # ls) \<longleftrightarrow> l \<noteq> [] \<and> before \<noteq> Some l \<and> fresh_lines (Some l) ls"

definition last_line :: "string option \<Rightarrow> string list \<Rightarrow> string option" where
  "last_line before ls = (if ls = [] then before else Some (last ls))"

definition keep_last :: "nat \<Rightarrow> 'a list \<Rightarrow> 'a list" where
  "keep_last n xs = drop (length xs - n) xs"

definition logs :: "stream_model \<Rightarrow> string list \<Rightarrow> stream_model \<Rightarrow> bool" where
  "logs m es m' \<longleftrightarrow>
     fresh_lines (sm_last_line m) es \<and> sm_last_line m' = last_line (sm_last_line m) es \<and>
     (length (sm_recent_output m) \<le> RECENT_OUTPUT_LINES \<longrightarrow>
        sm_recent_output m' = keep_last RECENT_OUTPUT_LINES (sm_recent_output m @ es))"

lemma fresh_append: "fresh_lines b (xs @ ys) \<longleftrightarrow> fresh_lines b xs \<and> fresh_lines (last_line b xs) ys"
  by (induction b xs rule: fresh_lines.induct) (auto simp: last_line_def)

lemma last_line_append: "last_line b (xs @ ys) = last_line (last_line b xs) ys"
  by (auto simp: last_line_def)

lemma logs_refl: "logs m [] m"
  by (simp add: logs_def last_line_def keep_last_def)

lemma logs_cong: "logs m es m' \<Longrightarrow> logs m es (m'\<lparr>sm_pending := p\<rparr>)"
  by (simp add: logs_def)

lemma logs_cong_left: "logs (m\<lparr>sm_pending := p\<rparr>) es m' \<Longrightarrow> logs m es m'"
  by (simp add: logs_def)

lemma keep_last_rev: "keep_last n xs = rev (take n (rev xs))"
  by (simp add: keep_last_def take_rev)

lemma keep_last_append: "keep_last n (keep_last n xs @ ys) = keep_last n (xs @ ys)"
  by (simp add: keep_last_rev min_def)

lemma keep_last_length: "length (keep_last n xs) \<le> n"
  by (simp add: keep_last_def)

lemma logs_trans: "logs m es m1 \<Longrightarrow> logs m1 fs m2 \<Longrightarrow> logs m (es @ fs) m2"
  unfolding logs_def
  using keep_last_append [of RECENT_OUTPUT_LINES "sm_recent_output m @ es" fs]
    keep_last_length [of RECENT_OUTPUT_LINES "sm_recent_output m @ es"]
  by (simp add: fresh_append last_line_append)

lemma logs_emit: "emit_line l m = (es, m') \<Longrightarrow> logs m es m'"
  by (auto simp: emit_line_def Let_def logs_def last_line_def keep_last_def drop_Suc RECENT_OUTPUT_LINES_def le_Suc_eq split: if_splits)

lemma logs_split: "split_lines m = (es, m') \<Longrightarrow> logs m es m'"
  by (erule split_lines_rule)
    (use logs_refl logs_trans [OF logs_cong_left [OF logs_emit] logs_cong_left] in blast)+

section \<open>Main results\<close>

text \<open>Text that is valid UTF-8.\<close>

function utf8_valid :: "string \<Rightarrow> bool" where
  "utf8_valid s = (s = [] \<or> (case utf8_scan s of Scalar n \<Rightarrow> utf8_valid (drop n s) | _ \<Rightarrow> False))"
  by pat_completeness auto
termination
  by (relation "measure length") (use utf8_scan_pos in fastforce)+

declare utf8_valid.simps [simp del]

lemma utf8_decode_valid: "utf8_valid s \<Longrightarrow> utf8_decode final s = (s, [])"
proof (induction s rule: utf8_valid.induct)
  case (1 s)
  show ?case
  proof (cases "s = []")
    case False
    with 1(2) obtain n where n: "utf8_scan s = Scalar n" and "utf8_valid (drop n s)"
      by (auto simp: utf8_valid.simps [of s] split: utf8_item.splits)
    with 1(1) False show ?thesis by (simp add: utf8_decode.simps [of final s])
  qed (simp add: utf8_decode.simps)
qed

lemma utf8_decode_final: "snd (utf8_decode True s) = []"
proof (induction "True" s rule: utf8_decode.induct)
  case (1 s)
  then show ?case by (subst utf8_decode.simps) (auto split: utf8_item.split prod.split)
qed

text \<open>C39: However a child's output was cut into reads, the text the framer works on is the whole output
  decoded at once, with every invalid sequence replaced; output that is valid UTF-8 arrives unchanged and
  no byte is held back at the end.\<close>

theorem decoding_ignores_chunks:
  "let m = decode [] True (fold (\<lambda>c. decode c False) cs (stream_new now rx)) in
     sm_pending m = fst (utf8_decode True (concat cs)) \<and> sm_pending_utf8 m = [] \<and>
     (utf8_valid (concat cs) \<longrightarrow> sm_pending m = concat cs)"
  unfolding decode_chunks append_Nil2
  using utf8_decode_final [of "concat cs"]
  by (auto simp: decode_def stream_new_def utf8_decode_valid split: prod.splits)

text \<open>A sequence of reads with the seconds at which they are processed.\<close>

fun feeds :: "(string \<times> nat) list \<Rightarrow> stream_model \<Rightarrow> string list \<times> stream_model" where
  "feeds [] m = ([], m)"
| "feeds ((bytes, now) # cs) m =
     (case feed bytes now m of (es, m1) \<Rightarrow> case feeds cs m1 of (es', m2) \<Rightarrow> (es @ es', m2))"

definition framer_ok :: "stream_model \<Rightarrow> bool" where
  "framer_ok m \<longleftrightarrow> framed 3 (sm_pending m) \<and> length (sm_pending m) \<le> MAX_STREAM_LINE_BYTES"

lemma logs_decode: "logs (decode b f m) es m' \<Longrightarrow> logs m es m'"
  by (simp add: logs_def decode_def split: prod.splits)

lemma feed_framer:
  assumes "feed bytes now m = (es, m')" and "framer_ok m"
  shows "framer_ok m'" and "logs m es m'"
proof -
  let ?d = "decode bytes False (m\<lparr>sm_last_activity := now\<rparr>)"
  from assms(1) have s: "split_lines ?d = (es, m')" by (simp add: feed_def take_lines_def split: prod.splits)
  obtain out rest where t: "utf8_decode False (sm_pending_utf8 m @ bytes) = (out, rest)" by fastforce
  with assms(2) have "framed 3 (sm_pending ?d)"
    by (simp add: decode_def framer_ok_def framed_append framed_decode [OF t])
  with split_lines_bounded [OF s] show "framer_ok m'" by (simp add: framer_ok_def)
  have "logs (m\<lparr>sm_last_activity := now\<rparr>) es m'" using logs_decode logs_split [OF s] by blast
  then show "logs m es m'" by (simp add: logs_def)
qed

lemma feeds_framer: "feeds cs m = (es, m') \<Longrightarrow> framer_ok m \<Longrightarrow> framer_ok m' \<and> logs m es m'"
proof (induction cs arbitrary: m es)
  case (Cons c cs)
  then show ?case
    using feed_framer [of "fst c" "snd c" m] logs_trans by (cases c) (fastforce split: prod.splits)
qed (simp add: logs_refl)


lemma run_child_ok: "run_child_loop timeout rs m closed warned log = (Inr code, killed, log') \<Longrightarrow> code = Some 0 \<and> \<not> killed"
  by (induction rs arbitrary: m closed warned log)
    (auto simp: Let_def finish_status_def split: if_splits option.splits prod.splits wait_answer.splits read_answer.splits)

lemma run_input_ok:
  assumes "run_command_with_input c = (Inr code, killed, log)"
  shows "code = Some 0 \<and> ch_spawned c \<and> \<not> killed"
proof -
  from assms obtain k where "run_child_loop DEFAULT_OPERATION_TIMEOUT (ch_rounds c) (stream_new 0 0) False False [] = (Inr code, k, log)"
      "killed = k" "ch_spawned c"
    by (auto simp: run_command_with_input_def reap_def run_child_def is_ok_def split: if_splits prod.splits)
  with run_child_ok show ?thesis by fastforce
qed

text \<open>C38: A helper run reports success only for exit status zero, and then without having killed
  anything; when it reports an error, a helper that was started has exited or its process group was
  killed.\<close>

theorem helper_outcome:
  assumes "run_command_with_input c = (r, killed, log)"
  shows "case r of
      Inr code \<Rightarrow> code = Some 0 \<and> ch_spawned c \<and> \<not> killed
    | Inl e \<Rightarrow> ch_spawned c \<longrightarrow> killed \<or> exited (ch_after c)"
proof (cases r)
  case (Inl e)
  with assms show ?thesis
    by (auto simp: run_command_with_input_def reap_def is_ok_def split: if_splits prod.splits)
next
  case (Inr code)
  with assms run_input_ok show ?thesis by auto
qed

section \<open>Concrete runs\<close>

definition quiet_round :: "wait_answer \<Rightarrow> round" where
  "quiet_round w = \<lparr>rd_cancelled = False, rd_elapsed = 0, rd_read = WouldBlock, rd_read_at = 0, rd_wait = w\<rparr>"

definition sample_child :: "int \<Rightarrow> child" where
  "sample_child code = \<lparr>ch_spawned = True, ch_input_ok = True, ch_nonblocking = True,
     ch_rounds = [quiet_round StillAlive, quiet_round (ExitedStatus (Some code))], ch_after = ExitedStatus (Some code)\<rparr>"

lemma quiet_steps:
  "timeout_error (stream_new 0 0) 0 OPERATION_STALL_TIMEOUT u64_max None = None"
  "idle_seconds (stream_new 0 0) 0 = 0" "finish_output (stream_new 0 0) = ([], stream_new 0 0)"
  "0 < OPERATION_STALL_WARN_AFTER" "\<not> 1000 * DEFAULT_OPERATION_TIMEOUT \<le> 0"
  by (simp_all add: timeout_error_def idle_seconds_def stream_new_def saturating_sub_def finish_output_def decode_def
      utf8_decode.simps take_lines_def split_lines.simps OPERATION_STALL_WARN_AFTER_def DEFAULT_OPERATION_TIMEOUT_def Let_def)

lemma sample_child_runs:
  "run_command_with_input (sample_child 0) = (Inr (Some 0), False, [])"
  "run_command_with_input (sample_child 3) = (Inl (CommandFailed 3 ''No command output was captured.''), False, [])"
  using quiet_steps(5)
  by (simp_all add: run_command_with_input_def reap_def run_child_def sample_child_def quiet_round_def quiet_steps is_ok_def
      exited_def finish_status_def stream_new_def [of 0 0, THEN arg_cong [of _ _ sm_cancelled], simplified]
      stream_new_def [of 0 0, THEN arg_cong [of _ _ sm_recent_output], simplified] Let_def)

theorem helper_outcome_witness:
  "run_command_with_input (sample_child 0) = (Inr (Some 0), False, []) \<and> ch_spawned (sample_child 0)"
  using helper_outcome [OF sample_child_runs(1)] sample_child_runs(1) by simp

theorem decoding_ignores_chunks_witness:
  "sm_pending (decode [] True (fold (\<lambda>c. decode c False) [map char_of [195 :: nat], map char_of [164 :: nat, 65]] (stream_new 0 0))) =
     map char_of [195 :: nat, 164, 65]"
proof -
  have "utf8_valid (concat [map char_of [195 :: nat], map char_of [164 :: nat, 65]])"
    by (simp add: utf8_valid.simps utf8_width_def second_byte_def)
  then show ?thesis
    using decoding_ignores_chunks [of "[map char_of [195 :: nat], map char_of [164 :: nat, 65]]" 0 0] by (auto simp: Let_def)
qed


end
