(* ===== verification/Installer_Phases.thy ===== *)
theory Installer_Phases
  imports Installer_Transaction Installer_Job Stream_Safety
begin

text \<open>
  The storage phase of the native executor, \<open>installer_job_executor.rs\<close>, with the phases that need no
  other component (prepare, complete) and the terminal records.  The machine answers probes, guard and
  lock calls and decides what a helper process does, to the world and to the files it can see; every
  interaction is an event of the trace with the answer it got.  Requests to the helper are the values
  their JSON decodes to.
\<close>

section \<open>Data\<close>

datatype cancellation_token = JobToken | FreshToken

datatype helper_request = DiskHelper disk_operation_input | StreamHelper disk_operation_input

datatype phase_effect =
    Probed "string list" cmd_result
  | Guarded guard_probes
  | Locked lock_answers
  | Unlocked
  | Requested cancellation_token helper_request
  | Performed helper_request
  | Journalled string op_state
  | BackupDropped string

text \<open>An entry of \<open>/sys/class/power_supply\<close> as \<open>ac_online_in\<close> reads it.\<close>

record ac_entry =
  ac_name :: string
  ac_status :: "string option"
  ac_online :: "string option"

datatype ac_listing = AcMissing | AcUnreadable | AcEntries "ac_entry list"

record 'w exec_machine =
  xm_cmd :: "string list \<Rightarrow> 'w \<Rightarrow> cmd_result \<times> 'w"
  xm_decode :: "string \<Rightarrow> lsblk_text"
  xm_guard :: "'w \<Rightarrow> guard_probes \<times> 'w"
  xm_lock :: "'w \<Rightarrow> lock_answers \<times> 'w"
  xm_helper :: "cancellation_token \<Rightarrow> helper_request \<Rightarrow> 'w \<times> disk \<Rightarrow> child \<times> 'w \<times> disk"
  xm_run :: "string \<Rightarrow> 'w \<Rightarrow> child \<times> 'w"
  xm_exists :: "string \<Rightarrow> 'w \<Rightarrow> bool"
  xm_tempdir :: "'w \<Rightarrow> string option \<times> 'w"
  xm_supplies :: "'w \<Rightarrow> ac_listing"
  xm_power :: "'w \<Rightarrow> power_check"
  xm_power_detail :: "power_detail \<Rightarrow> string"
  xm_clock :: "'w \<Rightarrow> nat option"
  xm_cancelled :: "'w \<Rightarrow> bool"
  xm_enc :: "json \<Rightarrow> string"
  xm_dec :: "string \<Rightarrow> json option"
  xm_transaction :: "transaction_state \<Rightarrow> json"
  xm_pretty :: "json \<Rightarrow> string"
  xm_failure_path :: string

text \<open>The fields of \<open>NativePhaseExecutor\<close> fixed at construction that these phases read.\<close>

record executor =
  xe_plan :: installer_plan
  xe_encryption :: string
  xe_transaction_path :: string

record 'w exec_state =
  xs_world :: 'w
  xs_files :: disk
  xs_trace :: "phase_effect list"
  xs_transaction :: transaction_state
  xs_mounts :: "string list"
  xs_target :: "string option"
  xs_journal :: "string option"

datatype native_operation =
    ValidateStoragePlan | ValidateExecutionPlan | StorageMutation | ImageWrite | ConfigurationWrite
  | AccountCreate | SecureBootInteraction | CompletionCommit

datatype exec_failure =
    ByGuard guard_error
  | ByStorage storage_error
  | ByJournal durable_error
  | ByTransaction transaction_error
  | ByHelper stream_error
  | HelperStatus
  | ProbeNotStarted
  | ProbeRefused
  | ProbeNotText
  | SectorSizeInvalid
  | SectorSizeUnsupported nat
  | TpmMissing
  | TpmNotFunctional
  | NoEspForJournal
  | JournalNotOpened
  | BackupDirectoryMissing
  | RestoreFailed exec_failure exec_failure string
  | GeometryInvalid
  | NoRoomForBiosBoot
  | PostBootGeometry
  | TargetTooSmall
  | AcPowerMissing
  | NoResizePartition
  | NotNtfs
  | NtfsBusy
  | ShrinkTooLarge
  | ShrinkUnsafe
  | NtfsChanged
  | BoundaryMismatch
  | GeometryOverflowed
  | ResumeSizeChanged
  | ResumeInconsistent
  | ResumeLarger
  | ResumeTooSmall
  | ResumeNotFree
  | NoTargetPartition
  | EspVanished
  | NoFreeRegion
  | FreeRegionGone
  | PowerUnsafe string
  | ClockUnreadable

datatype phase_error =
    Cancelled phase
  | InvalidPlan phase native_operation
  | Execution phase exec_failure

type_synonym ('w, 'a) exec = "('w exec_state, phase_error, 'a) comp"

definition BTRFS_STAGING_MOUNTPOINT :: string where
  "BTRFS_STAGING_MOUNTPOINT = ''/run/kyth-installer/btrfs-root''"

definition WIPE_STAGING_MOUNTPOINT :: string where
  "WIPE_STAGING_MOUNTPOINT = ''/run/kyth-installer/install-root''"

definition FILESYSTEM_STAGING_MOUNTPOINT :: string where
  "FILESYSTEM_STAGING_MOUNTPOINT = ''/run/kyth-installer/alongside-target''"

definition ESP_SCRATCH_MOUNTPOINT :: string where
  "ESP_SCRATCH_MOUNTPOINT = ''/run/kyth-installer/esp-journal''"

section \<open>Access to the state\<close>

definition exec_fail :: "phase \<Rightarrow> exec_failure \<Rightarrow> ('w, 'a) exec" where
  "exec_fail ph f = return_err (Execution ph f)"

definition exec_res :: "phase \<Rightarrow> ('e \<Rightarrow> exec_failure) \<Rightarrow> ('e, 'a) res \<Rightarrow> ('w, 'a) exec" where
  "exec_res ph f r = lift_res (map_err (\<lambda>e. Execution ph (f e)) r)"

definition exec_call :: "('w \<Rightarrow> 'a \<times> 'w) \<Rightarrow> ('w, 'a) exec" where
  "exec_call f s = (case f (xs_world s) of (x, w) \<Rightarrow> (Inr x, s\<lparr>xs_world := w\<rparr>))"

definition exec_ask :: "('w \<Rightarrow> 'a) \<Rightarrow> ('w, 'a) exec" where
  "exec_ask f s = (Inr (f (xs_world s)), s)"

definition exec_log :: "phase_effect \<Rightarrow> ('w, unit) exec" where
  "exec_log e s = (Inr (), s\<lparr>xs_trace := xs_trace s @ [e]\<rparr>)"

definition exec_get :: "('w exec_state \<Rightarrow> 'a) \<Rightarrow> ('w, 'a) exec" where
  "exec_get f s = (Inr (f s), s)"

definition exec_set :: "('w exec_state \<Rightarrow> 'w exec_state) \<Rightarrow> ('w, unit) exec" where
  "exec_set f s = (Inr (), f s)"

definition exec_files :: "phase \<Rightarrow> ('e \<Rightarrow> exec_failure) \<Rightarrow> (disk, 'e, 'a) comp \<Rightarrow> ('w, 'a) exec" where
  "exec_files ph f m s =
     (case m (xs_files s) of (r, d) \<Rightarrow> (map_err (\<lambda>e. Execution ph (f e)) r, s\<lparr>xs_files := d\<rparr>))"

text \<open>A probe command with its answer.\<close>

definition probe_command :: "'w exec_machine \<Rightarrow> string list \<Rightarrow> ('w, cmd_result) exec" where
  "probe_command mc args =
     then_do (exec_call (xm_cmd mc args)) (\<lambda>r. then_do (exec_log (Probed args r)) (\<lambda>_. return_ok r))"

section \<open>Transaction records\<close>

definition save_transaction :: "'w exec_machine \<Rightarrow> executor \<Rightarrow> phase \<Rightarrow> ('w, unit) exec" where
  "save_transaction mc x ph =
     then_do (exec_get xs_transaction) (\<lambda>st.
     exec_files ph ByTransaction (write_request (xm_transaction mc) (xm_pretty mc) (xe_transaction_path x) st))"

definition write_transaction ::
    "'w exec_machine \<Rightarrow> executor \<Rightarrow> string \<Rightarrow> phase \<Rightarrow> string \<Rightarrow> string \<Rightarrow> ('w, unit) exec" where
  "write_transaction mc x status ph lifecycle message =
     then_do (exec_ask (xm_clock mc)) (\<lambda>now.
     then_do (exec_res ph (\<lambda>_. ClockUnreadable) (ok_or () now)) (\<lambda>secs.
     then_do (exec_set (\<lambda>s.
       let tx = xs_transaction s;
           tx1 = (if status = ''started'' then tx\<lparr>tx_checks := [], tx_partition_steps := []\<rparr> else tx) in
       s\<lparr>xs_transaction := tx1\<lparr>tx_updated_at := nat_to_string secs, tx_status := status,
          tx_phase := phase_name ph, tx_lifecycle := lifecycle, tx_message := message,
          tx_recovery_required := (status = ''failed'')\<rparr>\<rparr>)) (\<lambda>_.
     save_transaction mc x ph)))"

definition append_check_for_phase :: "'w exec_machine \<Rightarrow> executor \<Rightarrow> phase \<Rightarrow> json \<Rightarrow> ('w, unit) exec" where
  "append_check_for_phase mc x ph check =
     then_do (exec_set (\<lambda>s. s\<lparr>xs_transaction := (xs_transaction s)\<lparr>tx_checks := tx_checks (xs_transaction s) @ [check]\<rparr>\<rparr>)) (\<lambda>_.
     save_transaction mc x ph)"

definition append_check :: "'w exec_machine \<Rightarrow> executor \<Rightarrow> json \<Rightarrow> ('w, unit) exec" where
  "append_check mc x check = append_check_for_phase mc x Prepare check"

definition partition_step :: "nat \<Rightarrow> string \<Rightarrow> string \<Rightarrow> string \<Rightarrow> json" where
  "partition_step i kind status target =
     JObject [(''index'', JString (nat_to_string i)), (''kind'', JString kind), (''status'', JString status), (''target'', JString target)]"

definition append_partition_step ::
    "'w exec_machine \<Rightarrow> executor \<Rightarrow> string \<Rightarrow> string \<Rightarrow> string \<Rightarrow> phase \<Rightarrow> ('w, unit) exec" where
  "append_partition_step mc x kind status target ph =
     then_do (exec_set (\<lambda>s.
       let steps = tx_partition_steps (xs_transaction s) in
       s\<lparr>xs_transaction := (xs_transaction s)\<lparr>tx_partition_steps :=
         steps @ [partition_step (length steps) kind status target]\<rparr>\<rparr>)) (\<lambda>_.
     save_transaction mc x ph)"

definition persist_failure_summary :: "'w exec_machine \<Rightarrow> phase \<Rightarrow> string \<Rightarrow> ('w, unit) exec" where
  "persist_failure_summary mc ph message =
     then_do (exec_get xs_transaction) (\<lambda>st.
     ignore (exec_files ph ByTransaction (write_failure_summary (xm_transaction mc) (xm_pretty mc) (xm_failure_path mc) st message)
       :: ('w, unit) exec))"

definition write_terminal_transaction ::
    "'w exec_machine \<Rightarrow> executor \<Rightarrow> phase option \<Rightarrow> string \<Rightarrow> ('w, unit) exec" where
  "write_terminal_transaction mc x ph message =
     ignore (write_transaction mc x ''failed'' (unwrap_or Prepare ph) ''failed'' message)"

section \<open>Mounts\<close>

definition register_mount :: "string \<Rightarrow> ('w, unit) exec" where
  "register_mount path = exec_set (\<lambda>s. s\<lparr>xs_mounts := mount_register path (xs_mounts s)\<rparr>)"

definition release_mount :: "string \<Rightarrow> ('w, unit) exec" where
  "release_mount path = exec_set (\<lambda>s. s\<lparr>xs_mounts := mount_release path (xs_mounts s)\<rparr>)"

section \<open>Helpers\<close>

text \<open>The kinds of operation that become a partition step, and the target they name.\<close>

fun step_kind :: "disk_operation_input \<Rightarrow> string option" where
  "step_kind (CreateLabel _ _) = Some ''create_label''"
| "step_kind (CreatePartition _ _ _ _ _ _) = Some ''create_partition''"
| "step_kind (CreateUnformattedPartition _ _ _ _ _) = Some ''create_unformatted_partition''"
| "step_kind (DeletePartition _ _ _) = Some ''delete_partition''"
| "step_kind (ResizePartition _ _ _ _ _ _) = Some ''resize_partition''"
| "step_kind (FormatFilesystem _ _ _ _) = Some ''format_filesystem''"
| "step_kind (SetPartitionFlag _ _ _ _ _) = Some ''set_partition_flag''"
| "step_kind (FilesystemResize _ _ _ _) = Some ''filesystem_resize''"
| "step_kind (BtrfsSubvolumeCreate _ _) = Some ''btrfs_subvolume_create''"
| "step_kind (BtrfsSubvolumeSetDefault _ _) = Some ''btrfs_subvolume_set_default''"
| "step_kind _ = None"

fun step_target :: "disk_operation_input \<Rightarrow> string" where
  "step_target (BackupTable disk _) = disk"
| "step_target (RestoreTable disk _) = disk"
| "step_target (CreateLabel disk _) = disk"
| "step_target (CreatePartition disk _ _ _ _ _) = disk"
| "step_target (CreateUnformattedPartition disk _ _ _ _) = disk"
| "step_target (DeletePartition disk _ _) = disk"
| "step_target (ResizePartition disk _ _ _ _ _) = disk"
| "step_target (FilesystemCheck device) = device"
| "step_target (FilesystemResize device _ _ _) = device"
| "step_target (MountFilesystem device _ _ _) = device"
| "step_target (UnmountFilesystem mountpoint _ _) = mountpoint"
| "step_target (SetPartitionFlag disk _ _ _ _) = disk"
| "step_target (FormatFilesystem device _ _ _) = device"
| "step_target (BtrfsSubvolumeCreate mountpoint _) = mountpoint"
| "step_target (BtrfsSubvolumeSetDefault mountpoint _) = mountpoint"
| "step_target (EnsureDirectory _) = []"

definition call_helper ::
    "'w exec_machine \<Rightarrow> cancellation_token \<Rightarrow> helper_request \<Rightarrow> ('w, (stream_error, int option) res) exec" where
  "call_helper mc token request s =
     (case xm_helper mc token request (xs_world s, xs_files s) of (child, w, d) \<Rightarrow>
      case run_command_with_input child of (result, _, _) \<Rightarrow>
      (Inr result, s\<lparr>xs_world := w, xs_files := d, xs_trace := xs_trace s
         @ (if ch_spawned child then [Requested token request] else [])
         @ (if result = Inr (Some 0) then [Performed request] else [])\<rparr>))"

definition record_step ::
    "'w exec_machine \<Rightarrow> executor \<Rightarrow> string option \<Rightarrow> string \<Rightarrow> string \<Rightarrow> phase \<Rightarrow> ('w, unit) exec" where
  "record_step mc x kind status target ph =
     (case kind of None \<Rightarrow> return_ok () | Some k \<Rightarrow> append_partition_step mc x k status target ph)"

text \<open>The common course of \<open>execute_disk_helper\<close> and \<open>execute_stream_helper\<close>.\<close>

definition helper_with_step ::
    "'w exec_machine \<Rightarrow> executor \<Rightarrow> phase \<Rightarrow> cancellation_token \<Rightarrow> helper_request \<Rightarrow> string option \<Rightarrow> string \<Rightarrow> ('w, unit) exec" where
  "helper_with_step mc x ph token request kind target =
     then_do (record_step mc x kind ''started'' target ph) (\<lambda>_.
     then_do (call_helper mc token request) (\<lambda>answer.
     then_do (exec_res ph ByHelper answer) (\<lambda>status.
     if status = Some 0 then record_step mc x kind ''completed'' target ph
     else then_do (ignore (record_step mc x kind ''failed'' target ph)) (\<lambda>_. exec_fail ph HelperStatus))))"

definition execute_disk_helper ::
    "'w exec_machine \<Rightarrow> executor \<Rightarrow> phase \<Rightarrow> cancellation_token \<Rightarrow> disk_operation_input \<Rightarrow> ('w, unit) exec" where
  "execute_disk_helper mc x ph token operation =
     helper_with_step mc x ph token (DiskHelper operation) (step_kind operation) (step_target operation)"

definition execute_stream_helper ::
    "'w exec_machine \<Rightarrow> executor \<Rightarrow> phase \<Rightarrow> cancellation_token \<Rightarrow> disk_operation_input \<Rightarrow> (string \<times> string) option \<Rightarrow> ('w, bool) exec" where
  "execute_stream_helper mc x ph token operation step =
     (let kind = (case operation of FilesystemResize _ _ _ _ \<Rightarrow> Some ''filesystem_resize'' | _ \<Rightarrow> map_option fst step);
          target = (case operation of
              FilesystemCheck device \<Rightarrow> device
            | FilesystemResize device _ _ _ \<Rightarrow> device
            | MountFilesystem device _ _ _ \<Rightarrow> device
            | FormatFilesystem device _ _ _ \<Rightarrow> device
            | _ \<Rightarrow> unwrap_or [] (map_option snd step)) in
      then_do (helper_with_step mc x ph token (StreamHelper operation) kind target) (\<lambda>_. return_ok True))"

fun run_all :: "('w, unit) exec list \<Rightarrow> ('w, unit) exec" where
  "run_all [] = return_ok ()"
| "run_all (m # ms) = then_do m (\<lambda>_. run_all ms)"

text \<open>Unmounting goes on after an error and reports the first one.\<close>

fun unmount_all :: "'w exec_machine \<Rightarrow> executor \<Rightarrow> phase \<Rightarrow> string list \<Rightarrow> ('w, phase_error option) exec" where
  "unmount_all mc x ph [] = return_ok None"
| "unmount_all mc x ph (path # paths) =
     then_do (attempt (execute_disk_helper mc x ph FreshToken (UnmountFilesystem path True True))) (\<lambda>answer.
     then_do (unmount_all mc x ph paths) (\<lambda>later.
     return_ok (case answer of Inl e \<Rightarrow> Some e | Inr _ \<Rightarrow> later)))"

definition cleanup_mounts :: "'w exec_machine \<Rightarrow> executor \<Rightarrow> phase \<Rightarrow> ('w, unit) exec" where
  "cleanup_mounts mc x ph =
     then_do (exec_get xs_mounts) (\<lambda>stack.
     then_do (exec_set (\<lambda>s. s\<lparr>xs_mounts := snd (cleanup_order stack)\<rparr>)) (\<lambda>_.
     then_do (unmount_all mc x ph (fst (cleanup_order stack))) (\<lambda>first_error.
     case first_error of None \<Rightarrow> return_ok () | Some e \<Rightarrow> return_err e)))"

section \<open>Probes and checks\<close>

definition target_disk_identity :: "executor \<Rightarrow> disk_identity" where
  "target_disk_identity x =
     \<lparr>id_serial = plan_target_disk_serial (xe_plan x), id_model = plan_target_disk_model (xe_plan x),
      id_size_bytes = plan_target_disk_size_bytes (xe_plan x)\<rparr>"

definition exec_validate_target_disk :: "'w exec_machine \<Rightarrow> executor \<Rightarrow> phase \<Rightarrow> ('w, unit) exec" where
  "exec_validate_target_disk mc x ph =
     then_do (exec_call (xm_guard mc)) (\<lambda>probes.
     then_do (exec_log (Guarded probes)) (\<lambda>_.
     exec_res ph ByGuard (validate_target_disk_with_identity probes (plan_disk (xe_plan x)) (target_disk_identity x))))"

definition SNAPSHOT_ARGS :: "string list" where
  "SNAPSHOT_ARGS = [''/usr/bin/lsblk'', ''--json'', ''--bytes'', ''--paths'', ''--output'',
     ''NAME,SIZE,TYPE,FSTYPE,PARTTYPE,PARTN,PARTUUID,LABEL,MOUNTPOINT,MOUNTPOINTS,START,RO,PKNAME,PTTYPE'']"

definition probe_output :: "phase \<Rightarrow> cmd_result \<Rightarrow> ('w, string) exec" where
  "probe_output ph r =
     (case r of
        NotStarted _ \<Rightarrow> exec_fail ph ProbeNotStarted
      | ExitFailure \<Rightarrow> exec_fail ph ProbeRefused
      | NotUtf8 \<Rightarrow> exec_fail ph ProbeNotText
      | Output s \<Rightarrow> return_ok s)"

definition disk_snapshot :: "'w exec_machine \<Rightarrow> phase \<Rightarrow> string \<Rightarrow> ('w, lsblk_text) exec" where
  "disk_snapshot mc ph disk =
     then_do (probe_command mc (SNAPSHOT_ARGS @ [disk])) (\<lambda>r.
     then_do (probe_output ph r) (\<lambda>out. return_ok (xm_decode mc out)))"

definition disk_sector_size :: "'w exec_machine \<Rightarrow> executor \<Rightarrow> phase \<Rightarrow> ('w, nat) exec" where
  "disk_sector_size mc x ph =
     then_do (probe_command mc [''/usr/sbin/blockdev'', ''--getss'', plan_disk (xe_plan x)]) (\<lambda>r.
     then_do (probe_output ph r) (\<lambda>out.
     then_do (exec_res ph (\<lambda>_. SectorSizeInvalid) (ok_or () (parse_u64 (trim out)))) (\<lambda>size.
     if \<not> is_power_of_two size \<or> \<not> (512 \<le> size \<and> size \<le> 4096) then exec_fail ph (SectorSizeUnsupported size)
     else return_ok size)))"

text \<open>\<open>any\<close> stops at the first program that succeeds.\<close>

fun any_probe :: "'w exec_machine \<Rightarrow> string list \<Rightarrow> ('w, bool) exec" where
  "any_probe mc [] = return_ok False"
| "any_probe mc (program # programs) =
     then_do (exec_call (xm_run mc program)) (\<lambda>child.
     if fst (run_command_timeout child 30) = Inr (Some 0) then return_ok True else any_probe mc programs)"

definition check_tpm_preflight :: "'w exec_machine \<Rightarrow> executor \<Rightarrow> phase \<Rightarrow> ('w, unit) exec" where
  "check_tpm_preflight mc x ph =
     (if to_ascii_lowercase (trim (xe_encryption x)) \<noteq> ''tpm2'' then return_ok ()
      else
        then_do (exec_ask (xm_exists mc ''/dev/tpm0'')) (\<lambda>present.
        if \<not> present then exec_fail ph TpmMissing
        else
          then_do (any_probe mc [''/usr/bin/tpm2_pcrread'', ''/usr/sbin/tpm2_pcrread'']) (\<lambda>pcrread_ok.
          if pcrread_ok then return_ok () else exec_fail ph TpmNotFunctional)))"

definition check_storage_preflight :: "'w exec_machine \<Rightarrow> executor \<Rightarrow> phase \<Rightarrow> ('w, unit) exec" where
  "check_storage_preflight mc x ph =
     (let disk = plan_disk (xe_plan x) in
      then_do (check_tpm_preflight mc x ph) (\<lambda>_.
      then_do (disk_sector_size mc x ph) (\<lambda>sector_size.
      then_do (disk_snapshot mc ph disk) (\<lambda>snapshot.
      then_do (exec_res ph ByStorage (storage_preflight_from_snapshot snapshot disk sector_size)) (\<lambda>preflight.
      exec_res ph ByStorage (validate_storage_preflight preflight (plan_mode (xe_plan x))))))))"

text \<open>The loop of \<open>ac_online_in\<close>: whether a battery and an adapter were seen and the adapter is online;
  \<open>None\<close> is the early return at a discharging battery.\<close>

fun ac_scan :: "ac_entry list \<Rightarrow> bool \<times> bool \<times> bool \<Rightarrow> (bool \<times> bool \<times> bool) option" where
  "ac_scan [] seen = Some seen"
| "ac_scan (e # es) (battery, ac, online) =
     (if starts_with (ac_name e) ''BAT'' then
        (if map_option trim (ac_status e) = Some ''Discharging'' then None else ac_scan es (True, ac, online))
      else if starts_with (ac_name e) ''AC'' \<or> starts_with (ac_name e) ''ADP'' then
        ac_scan es (battery, True, online \<or> map_option trim (ac_online e) = Some ''1'')
      else ac_scan es (battery, ac, online))"

definition ac_online_in :: "ac_listing \<Rightarrow> bool" where
  "ac_online_in listing =
     (case listing of
        AcMissing \<Rightarrow> True
      | AcUnreadable \<Rightarrow> False
      | AcEntries es \<Rightarrow>
          (case ac_scan es (False, False, False) of
             None \<Rightarrow> False
           | Some (battery, ac, online) \<Rightarrow> if battery then ac \<and> online else True))"

section \<open>The durable journal\<close>

definition esp_mount_probe :: "'w exec_machine \<Rightarrow> executor \<Rightarrow> phase \<Rightarrow> ('w, string option) exec" where
  "esp_mount_probe mc x ph =
     (let disk = plan_disk (xe_plan x) in
      then_do (attempt (disk_sector_size mc x ph)) (\<lambda>size.
      case size of Inl _ \<Rightarrow> return_ok None | Inr sector_size \<Rightarrow>
      then_do (attempt (disk_snapshot mc ph disk)) (\<lambda>snap.
      case snap of Inl _ \<Rightarrow> return_ok None | Inr snapshot \<Rightarrow>
      return_ok (case efi_partition_from_snapshot snapshot disk sector_size of
          Inr (Some efi) \<Rightarrow> mounted_at efi
        | _ \<Rightarrow> None))))"

definition open_durable_journal :: "'w exec_machine \<Rightarrow> executor \<Rightarrow> phase \<Rightarrow> ('w, unit) exec" where
  "open_durable_journal mc x ph =
     (let staging = (if plan_mode (xe_plan x) = ''wipe'' then WIPE_STAGING_MOUNTPOINT else FILESYSTEM_STAGING_MOUNTPOINT) in
      then_do (esp_mount_probe mc x ph) (\<lambda>esp_mount.
      then_do (exec_files ph ByJournal (open_journal (xm_enc mc) (xm_dec mc) esp_mount staging)) (\<lambda>path.
      exec_set (\<lambda>s. s\<lparr>xs_journal := Some path\<rparr>))))"

definition record_journal :: "'w exec_machine \<Rightarrow> phase \<Rightarrow> string \<Rightarrow> op_state \<Rightarrow> ('w, unit) exec" where
  "record_journal mc ph name st =
     then_do (exec_get xs_journal) (\<lambda>journal.
     case journal of None \<Rightarrow> exec_fail ph JournalNotOpened | Some path \<Rightarrow>
     then_do (exec_ask (xm_clock mc)) (\<lambda>now.
     then_do (exec_files ph ByJournal (record_op (xm_enc mc) (xm_dec mc) now path name st)) (\<lambda>_.
     exec_log (Journalled name st))))"

definition journal_completed :: "'w exec_machine \<Rightarrow> phase \<Rightarrow> string \<Rightarrow> ('w, bool) exec" where
  "journal_completed mc ph name =
     then_do (exec_get xs_journal) (\<lambda>journal.
     case journal of None \<Rightarrow> return_ok False | Some path \<Rightarrow>
     then_do (exec_files ph ByJournal (load (xm_dec mc) path)) (\<lambda>ops. return_ok (op_completed ops name)))"

definition ensure_esp_journal :: "'w exec_machine \<Rightarrow> executor \<Rightarrow> phase \<Rightarrow> cancellation_token \<Rightarrow> ('w, unit) exec" where
  "ensure_esp_journal mc x ph token =
     (let disk = plan_disk (xe_plan x) in
      then_do (disk_sector_size mc x ph) (\<lambda>sector_size.
      then_do (disk_snapshot mc ph disk) (\<lambda>snapshot.
      then_do (exec_res ph ByStorage (efi_partition_from_snapshot snapshot disk sector_size)) (\<lambda>found.
      case found of None \<Rightarrow> exec_fail ph NoEspForJournal | Some efi \<Rightarrow>
      then_do (case mounted_at efi of
          Some mounted \<Rightarrow> return_ok mounted
        | None \<Rightarrow>
            then_do (run_all (map (execute_disk_helper mc x ph token)
              [EnsureDirectory ESP_SCRATCH_MOUNTPOINT, MountFilesystem (efi_name efi) ESP_SCRATCH_MOUNTPOINT [] False])) (\<lambda>_.
            then_do (register_mount ESP_SCRATCH_MOUNTPOINT) (\<lambda>_. return_ok ESP_SCRATCH_MOUNTPOINT))) (\<lambda>mountpoint.
      let dest = path_join mountpoint JOURNAL_FILE_NAME in
      then_do (exec_get xs_journal) (\<lambda>journal.
      case journal of None \<Rightarrow> exec_fail ph JournalNotOpened | Some path \<Rightarrow>
      if path_key path = path_key dest then return_ok ()
      else
        then_do (exec_files ph ByJournal (relocate (xm_enc mc) (xm_dec mc) path dest)) (\<lambda>relocated.
        exec_set (\<lambda>s. s\<lparr>xs_journal := Some relocated\<rparr>))))))))"

section \<open>Guarded table changes\<close>

text \<open>A lock is released at the end of its scope.\<close>

definition with_disk_lock :: "'w exec_machine \<Rightarrow> executor \<Rightarrow> phase \<Rightarrow> ('w, 'a) exec \<Rightarrow> ('w, 'a) exec" where
  "with_disk_lock mc x ph body =
     then_do (exec_call (xm_lock mc)) (\<lambda>answers.
     then_do (exec_res ph ByGuard (acquire_disk_lock answers (plan_disk (xe_plan x)))) (\<lambda>_.
     then_do (exec_log (Locked answers)) (\<lambda>_.
     then_do (attempt body) (\<lambda>answer.
     then_do (exec_log Unlocked) (\<lambda>_. lift_res answer)))))"

definition run_guarded :: "('s, 'e, 'a) comp \<Rightarrow> ('s, 'e, unit) comp \<Rightarrow> ('s, 'f, ('e \<times> 'e option, 'a) res) comp" where
  "run_guarded body restore s =
     (case body s of
        (Inr v, t) \<Rightarrow> (Inr (Inr v), t)
      | (Inl e, t) \<Rightarrow>
          (case restore t of
             (Inl e', u) \<Rightarrow> (Inr (Inl (e, Some e')), u)
           | (Inr _, u) \<Rightarrow> (Inr (Inl (e, None)), u)))"

text \<open>The message of the error that reports both failures keeps them and the directory.\<close>

fun failure_of :: "phase_error \<Rightarrow> exec_failure" where
  "failure_of (Execution _ f) = f"
| "failure_of (Cancelled _) = ByHelper StreamCancelled"
| "failure_of (InvalidPlan _ _) = HelperStatus"

text \<open>The part of \<open>guarded_table_mutation\<close> that works in the temporary directory.\<close>

definition backed_up_mutation :: "'w exec_machine \<Rightarrow> executor \<Rightarrow> phase \<Rightarrow> string \<Rightarrow> ('w, 'a) exec \<Rightarrow> ('w, 'a) exec" where
  "backed_up_mutation mc x ph directory body =
     (let disk = plan_disk (xe_plan x); backup_path = path_join directory ''partition-table.backup'' in
      then_do (attempt (execute_disk_helper mc x ph FreshToken (BackupTable disk backup_path))) (\<lambda>backed_up.
      case backed_up of
        Inl error \<Rightarrow> then_do (exec_log (BackupDropped directory)) (\<lambda>_. return_err error)
      | Inr _ \<Rightarrow>
          then_do (run_guarded body (execute_disk_helper mc x ph FreshToken (RestoreTable disk backup_path))) (\<lambda>outcome.
          case outcome of
            Inr v \<Rightarrow> then_do (exec_log (BackupDropped directory)) (\<lambda>_. return_ok v)
          | Inl (error, None) \<Rightarrow> then_do (exec_log (BackupDropped directory)) (\<lambda>_. return_err error)
          | Inl (error, Some restore_error) \<Rightarrow>
              exec_fail ph (RestoreFailed (failure_of error) (failure_of restore_error) directory))))"

definition guarded_table_mutation :: "'w exec_machine \<Rightarrow> executor \<Rightarrow> phase \<Rightarrow> ('w, 'a) exec \<Rightarrow> ('w, 'a) exec" where
  "guarded_table_mutation mc x ph body =
     with_disk_lock mc x ph
       (then_do (exec_validate_target_disk mc x ph) (\<lambda>_.
        then_do (exec_call (xm_tempdir mc)) (\<lambda>made.
        then_do (exec_res ph (\<lambda>_. BackupDirectoryMissing) (ok_or () made)) (\<lambda>directory.
        backed_up_mutation mc x ph directory body))))"

section \<open>Creating the target partition\<close>

definition PHASE_BIOS_BOOT_BYTES :: nat where
  "PHASE_BIOS_BOOT_BYTES = 1024 * 1024"

text \<open>The BIOS boot partition at the start of the region; the snapshot after it.\<close>

definition create_bios_boot ::
    "'w exec_machine \<Rightarrow> executor \<Rightarrow> phase \<Rightarrow> cancellation_token \<Rightarrow> lsblk_text \<Rightarrow> nat \<Rightarrow> nat \<Rightarrow> ('w, lsblk_text) exec" where
  "create_bios_boot mc x ph token before start sector_size =
     (let disk = plan_disk (xe_plan x) in
      then_do (execute_disk_helper mc x ph token
        (CreateUnformattedPartition disk start PHASE_BIOS_BOOT_BYTES ''biosboot'' sector_size)) (\<lambda>_.
      then_do (disk_snapshot mc ph disk) (\<lambda>after.
      then_do (exec_res ph ByStorage (new_partition_from_snapshots before after start PHASE_BIOS_BOOT_BYTES sector_size)) (\<lambda>bios.
      then_do (exec_res ph ByStorage (partition_probe_from_snapshot after disk bios sector_size)) (\<lambda>probe.
      then_do (execute_disk_helper mc x ph token
        (SetPartitionFlag disk (pp_number probe) ''bios_grub'' True (pp_partuuid probe))) (\<lambda>_.
      return_ok after))))))"

definition create_target_partition ::
    "'w exec_machine \<Rightarrow> executor \<Rightarrow> phase \<Rightarrow> cancellation_token \<Rightarrow> nat \<Rightarrow> nat \<Rightarrow> nat \<Rightarrow> ('w, string) exec" where
  "create_target_partition mc x ph token start end' sector_size =
     (let disk = plan_disk (xe_plan x) in
      if end' \<le> start then exec_fail ph GeometryInvalid
      else
        then_do (disk_snapshot mc ph disk) (\<lambda>before.
        then_do (exec_res ph ByStorage (has_bios_boot_partition before sector_size)) (\<lambda>has_bios.
        then_do
          (if has_bios then return_ok (before, start)
           else if end' - start < PHASE_BIOS_BOOT_BYTES + sector_size then exec_fail ph NoRoomForBiosBoot
           else
             then_do (create_bios_boot mc x ph token before start sector_size) (\<lambda>after.
             return_ok (after, saturating_add start PHASE_BIOS_BOOT_BYTES))) (\<lambda>(before, target_start).
        if end' < target_start then exec_fail ph PostBootGeometry
        else
          let target_size = end' - target_start in
          if target_size < 32 * 1024 * 1024 * 1024 then exec_fail ph TargetTooSmall
          else
            then_do (execute_disk_helper mc x ph token
              (CreatePartition disk target_start target_size ''btrfs'' ''KythOS'' sector_size)) (\<lambda>_.
            then_do (disk_snapshot mc ph disk) (\<lambda>after.
            then_do (exec_res ph ByStorage (new_partition_from_snapshots before after target_start target_size sector_size)) (\<lambda>target.
            then_do (exec_res ph ByStorage (partition_probe_from_snapshot after disk target sector_size)) (\<lambda>_.
            return_ok target))))))))"

section \<open>Shrinking NTFS\<close>

definition MIN_WINDOWS_BYTES :: nat where
  "MIN_WINDOWS_BYTES = 64 * 1024 * 1024 * 1024"

definition ntfs_shrink_resume_window ::
    "'w exec_machine \<Rightarrow> executor \<Rightarrow> phase \<Rightarrow> lsblk_text \<Rightarrow> partition_probe \<Rightarrow> nat \<Rightarrow> ('w, (nat \<times> nat) option) exec" where
  "ntfs_shrink_resume_window mc x ph snapshot probe sector_size =
     then_do (journal_completed mc ph ''ntfs_shrink'') (\<lambda>completed.
     if \<not> completed then return_ok None
     else
       let resize_bytes = plan_resize_bytes (xe_plan x);
           pre_shrink = saturating_add (pp_size_bytes probe) resize_bytes in
       then_do (case plan_pre_shrink_bytes (xe_plan x) of
           Some size0 \<Rightarrow>
             if abs_diff size0 (pp_size_bytes probe) > sector_size then exec_fail ph ResumeSizeChanged else return_ok ()
         | None \<Rightarrow> return_ok ()) (\<lambda>_.
       if pre_shrink < resize_bytes then exec_fail ph ResumeInconsistent
       else
         let target_size = pre_shrink - resize_bytes in
         if pp_size_bytes probe > saturating_add target_size sector_size then exec_fail ph ResumeLarger
         else
           then_do (exec_res ph (\<lambda>_. GeometryOverflowed) (ok_or () (checked_add (pp_start_bytes probe) (pp_size_bytes probe)))) (\<lambda>new_end.
           then_do (exec_res ph (\<lambda>_. GeometryOverflowed) (ok_or () (checked_add (pp_start_bytes probe) pre_shrink))) (\<lambda>old_end.
           if old_end \<le> new_end then exec_fail ph ResumeInconsistent
           else if old_end - new_end < 32 * 1024 * 1024 * 1024 then exec_fail ph ResumeTooSmall
           else
             then_do (exec_res ph ByStorage (contains_free_region snapshot (plan_disk (xe_plan x)) new_end old_end sector_size)) (\<lambda>free.
             if free then return_ok (Some (new_end, old_end)) else exec_fail ph ResumeNotFree)))))"

text \<open>The file system in four stages, after the intention was made durable.\<close>

definition shrink_ntfs_filesystem ::
    "'w exec_machine \<Rightarrow> executor \<Rightarrow> phase \<Rightarrow> cancellation_token \<Rightarrow> string \<Rightarrow> nat \<Rightarrow> ('w, unit) exec" where
  "shrink_ntfs_filesystem mc x ph token part new_size =
     then_do (record_journal mc ph ''ntfs_shrink'' Started) (\<lambda>_.
     run_all (map (\<lambda>stage. then_do (execute_stream_helper mc x ph token
         (FilesystemResize part ''ntfs'' new_size stage) (Some (''filesystem_resize'', part))) (\<lambda>_. return_ok ()))
       [''check'', ''info'', ''dry_run'', ''resize'']))"

text \<open>The partition from a fresh snapshot, unchanged since the first probe.\<close>

definition fresh_boundary ::
    "'w exec_machine \<Rightarrow> executor \<Rightarrow> phase \<Rightarrow> string \<Rightarrow> partition_probe \<Rightarrow> nat \<Rightarrow> ('w, partition_probe) exec" where
  "fresh_boundary mc x ph part probe sector_size =
     (let disk = plan_disk (xe_plan x) in
      then_do (disk_snapshot mc ph disk) (\<lambda>fresh.
      then_do (exec_res ph ByStorage (partition_probe_from_snapshot fresh disk part sector_size)) (\<lambda>fresh_probe.
      if pp_start_bytes fresh_probe \<noteq> pp_start_bytes probe
         \<or> abs_diff (pp_size_bytes fresh_probe) (pp_size_bytes probe) > sector_size
      then exec_fail ph NtfsChanged
      else return_ok fresh_probe)))"

text \<open>After the boundary was moved: the check of its place, the record, and the new partition.\<close>

definition finish_shrink ::
    "'w exec_machine \<Rightarrow> executor \<Rightarrow> phase \<Rightarrow> cancellation_token \<Rightarrow> string \<Rightarrow> partition_probe \<Rightarrow> nat \<Rightarrow> nat \<Rightarrow> ('w, string) exec" where
  "finish_shrink mc x ph token part probe new_size sector_size =
     (let disk = plan_disk (xe_plan x) in
      then_do (disk_snapshot mc ph disk) (\<lambda>after.
      then_do (exec_res ph ByStorage (partition_probe_from_snapshot after disk part sector_size)) (\<lambda>resized.
      if abs_diff (pp_size_bytes resized) new_size > sector_size then exec_fail ph BoundaryMismatch
      else
        then_do (record_journal mc ph ''ntfs_shrink'' Completed) (\<lambda>_.
        then_do (exec_res ph (\<lambda>_. GeometryOverflowed) (ok_or () (checked_add (pp_start_bytes probe) (pp_size_bytes probe)))) (\<lambda>old_end.
        then_do (exec_res ph (\<lambda>_. GeometryOverflowed) (ok_or () (checked_add (pp_start_bytes probe) new_size))) (\<lambda>new_end.
        create_target_partition mc x ph token new_end old_end sector_size))))))"

definition shrink_ntfs ::
    "'w exec_machine \<Rightarrow> executor \<Rightarrow> phase \<Rightarrow> cancellation_token \<Rightarrow> string \<Rightarrow> partition_probe \<Rightarrow> nat \<Rightarrow> nat \<Rightarrow> ('w, string) exec" where
  "shrink_ntfs mc x ph token part probe new_size sector_size =
     then_do (shrink_ntfs_filesystem mc x ph token part new_size) (\<lambda>_.
     then_do (fresh_boundary mc x ph part probe sector_size) (\<lambda>fresh_probe.
     then_do (execute_disk_helper mc x ph token
       (ResizePartition (plan_disk (xe_plan x)) (pp_number fresh_probe) (pp_start_bytes fresh_probe) new_size sector_size
         (pp_partuuid fresh_probe))) (\<lambda>_.
     finish_shrink mc x ph token part probe new_size sector_size)))"

definition resize_ntfs_target ::
    "'w exec_machine \<Rightarrow> executor \<Rightarrow> phase \<Rightarrow> cancellation_token \<Rightarrow> ('w, string) exec" where
  "resize_ntfs_target mc x ph token =
     (let disk = plan_disk (xe_plan x) in
      then_do (exec_ask (xm_supplies mc)) (\<lambda>supplies.
      if \<not> ac_online_in supplies then exec_fail ph AcPowerMissing
      else
        then_do (exec_res ph (\<lambda>_. NoResizePartition) (ok_or () (plan_resize_partition (xe_plan x)))) (\<lambda>part.
        then_do (disk_sector_size mc x ph) (\<lambda>sector_size.
        then_do (disk_snapshot mc ph disk) (\<lambda>before.
        then_do (exec_res ph ByStorage (partition_probe_from_snapshot before disk part sector_size)) (\<lambda>probe.
        if \<not> is_ntfs (pp_fstype probe) then exec_fail ph NotNtfs
        else if pp_efi probe \<or> pp_current probe \<or> pp_in_use probe \<or> pp_read_only probe then exec_fail ph NtfsBusy
        else
          then_do (ntfs_shrink_resume_window mc x ph before probe sector_size) (\<lambda>resume.
          case resume of
            Some (new_end, old_end) \<Rightarrow> create_target_partition mc x ph token new_end old_end sector_size
          | None \<Rightarrow>
              then_do (ensure_esp_journal mc x ph token) (\<lambda>_.
              if pp_size_bytes probe < plan_resize_bytes (xe_plan x) then exec_fail ph ShrinkTooLarge
              else
                let new_size = pp_size_bytes probe - plan_resize_bytes (xe_plan x) in
                if new_size < MIN_WINDOWS_BYTES \<or> new_size mod sector_size \<noteq> 0 then exec_fail ph ShrinkUnsafe
                else shrink_ntfs mc x ph token part probe new_size sector_size))))))))"

section \<open>The Btrfs target\<close>

definition efi_mount_operation :: "efi_partition \<Rightarrow> string \<Rightarrow> disk_operation_input" where
  "efi_mount_operation efi mountpoint =
     (case mounted_at efi of
        Some source \<Rightarrow> MountFilesystem source mountpoint [] True
      | None \<Rightarrow> MountFilesystem (efi_name efi) mountpoint [] False)"

definition mount_efi :: "'w exec_machine \<Rightarrow> executor \<Rightarrow> phase \<Rightarrow> cancellation_token \<Rightarrow> ('w, unit) exec" where
  "mount_efi mc x ph token =
     (let disk = plan_disk (xe_plan x); mountpoint = FILESYSTEM_STAGING_MOUNTPOINT @ ''/boot/efi'' in
      then_do (disk_snapshot mc ph disk) (\<lambda>snapshot.
      then_do (disk_sector_size mc x ph) (\<lambda>sector_size.
      then_do (exec_res ph ByStorage (efi_partition_from_snapshot snapshot disk sector_size)) (\<lambda>found.
      case found of None \<Rightarrow> exec_fail ph EspVanished | Some efi \<Rightarrow>
      then_do (execute_disk_helper mc x ph token (EnsureDirectory mountpoint)) (\<lambda>_.
      then_do (execute_disk_helper mc x ph token (efi_mount_operation efi mountpoint)) (\<lambda>_.
      register_mount mountpoint))))))"

definition plan_role :: "executor \<Rightarrow> string" where
  "plan_role x = (if plan_mode (xe_plan x) = ''manual'' then ''root partition'' else ''target partition'')"

text \<open>The last check of the partition, with the lock held.\<close>

definition confirm_target :: "'w exec_machine \<Rightarrow> executor \<Rightarrow> phase \<Rightarrow> ('w, string) exec" where
  "confirm_target mc x ph =
     (let disk = plan_disk (xe_plan x) in
      then_do (exec_res ph (\<lambda>_. NoTargetPartition) (ok_or () (plan_target_partition (xe_plan x)))) (\<lambda>requested.
      then_do (disk_snapshot mc ph disk) (\<lambda>snapshot.
      then_do (disk_sector_size mc x ph) (\<lambda>sector_size.
      then_do (exec_res ph ByStorage (validate_replace_target snapshot disk requested (plan_role x) sector_size)) (\<lambda>probe.
      return_ok (pp_name probe))))))"

definition temporary_setup :: "'w exec_machine \<Rightarrow> executor \<Rightarrow> phase \<Rightarrow> cancellation_token \<Rightarrow> ('w, unit) exec" where
  "temporary_setup mc x ph token =
     run_all (map (execute_disk_helper mc x ph token)
       [BtrfsSubvolumeCreate BTRFS_STAGING_MOUNTPOINT ''@'', BtrfsSubvolumeCreate BTRFS_STAGING_MOUNTPOINT ''@home'',
        BtrfsSubvolumeSetDefault BTRFS_STAGING_MOUNTPOINT ''@''])"

text \<open>From the formatted partition on: the subvolumes on a temporary mount, the target mount, the ESP and
  the journal on it.\<close>

definition setup_btrfs_target :: "'w exec_machine \<Rightarrow> executor \<Rightarrow> phase \<Rightarrow> cancellation_token \<Rightarrow> string \<Rightarrow> ('w, unit) exec" where
  "setup_btrfs_target mc x ph token target =
     then_do (record_journal mc ph ''format'' Completed) (\<lambda>_.
     then_do (execute_disk_helper mc x ph token (EnsureDirectory BTRFS_STAGING_MOUNTPOINT)) (\<lambda>_.
     then_do (execute_disk_helper mc x ph token (MountFilesystem target BTRFS_STAGING_MOUNTPOINT [] False)) (\<lambda>_.
     then_do (register_mount BTRFS_STAGING_MOUNTPOINT) (\<lambda>_.
     then_do (attempt (temporary_setup mc x ph token)) (\<lambda>setup_result.
     then_do (attempt (execute_disk_helper mc x ph FreshToken (UnmountFilesystem BTRFS_STAGING_MOUNTPOINT True True))) (\<lambda>cleanup_result.
     then_do (release_mount BTRFS_STAGING_MOUNTPOINT) (\<lambda>_.
     then_do (lift_res setup_result) (\<lambda>_.
     then_do (lift_res cleanup_result) (\<lambda>_.
     then_do (execute_disk_helper mc x ph token (EnsureDirectory FILESYSTEM_STAGING_MOUNTPOINT)) (\<lambda>_.
     then_do (execute_disk_helper mc x ph token
       (MountFilesystem target FILESYSTEM_STAGING_MOUNTPOINT [''subvol=@''] False)) (\<lambda>_.
     then_do (register_mount FILESYSTEM_STAGING_MOUNTPOINT) (\<lambda>_.
     then_do (mount_efi mc x ph token) (\<lambda>_.
     ensure_esp_journal mc x ph token)))))))))))))"

definition prepare_btrfs_target :: "'w exec_machine \<Rightarrow> executor \<Rightarrow> phase \<Rightarrow> cancellation_token \<Rightarrow> string \<Rightarrow> ('w, unit) exec" where
  "prepare_btrfs_target mc x ph token unused_target =
     with_disk_lock mc x ph
       (then_do (exec_validate_target_disk mc x ph) (\<lambda>_.
        then_do (confirm_target mc x ph) (\<lambda>target.
        then_do (record_journal mc ph ''format'' Started) (\<lambda>_.
        then_do (execute_disk_helper mc x ph token (FormatFilesystem target ''btrfs'' ''KythOS'' (plan_disk (xe_plan x)))) (\<lambda>_.
        setup_btrfs_target mc x ph token target)))))"

section \<open>Phases\<close>

text \<open>The partition the storage phase installs to, or the mode that has no storage change.\<close>

definition requested_target :: "'w exec_machine \<Rightarrow> executor \<Rightarrow> phase \<Rightarrow> ('w, string) exec" where
  "requested_target mc x ph =
     (let disk = plan_disk (xe_plan x) in
      then_do (exec_res ph (\<lambda>_. NoTargetPartition) (ok_or () (plan_target_partition (xe_plan x)))) (\<lambda>requested.
      then_do (disk_sector_size mc x ph) (\<lambda>sector_size.
      then_do (disk_snapshot mc ph disk) (\<lambda>snapshot.
      then_do
        (if plan_mode (xe_plan x) = ''alongside'' then
           then_do (exec_ask (xm_exists mc ''/sys/firmware/efi'')) (\<lambda>uefi.
           exec_res ph ByStorage (validate_alongside_bios_boot snapshot disk uefi sector_size))
         else return_ok ()) (\<lambda>_.
      then_do (exec_res ph ByStorage (validate_replace_target snapshot disk requested (plan_role x) sector_size)) (\<lambda>probe.
      return_ok (pp_name probe)))))))"

text \<open>The durable markers around a guarded change of the partition table.\<close>

definition journalled_mutation :: "'w exec_machine \<Rightarrow> executor \<Rightarrow> phase \<Rightarrow> ('w, string) exec \<Rightarrow> ('w, string) exec" where
  "journalled_mutation mc x ph body =
     then_do (record_journal mc ph ''partition_table'' Started) (\<lambda>_.
     then_do (attempt (guarded_table_mutation mc x ph body)) (\<lambda>result.
     then_do (if is_ok result then record_journal mc ph ''partition_table'' Completed else return_ok ()) (\<lambda>_.
     lift_res result)))"

definition free_space_target :: "'w exec_machine \<Rightarrow> executor \<Rightarrow> phase \<Rightarrow> cancellation_token \<Rightarrow> ('w, string) exec" where
  "free_space_target mc x ph token =
     (let disk = plan_disk (xe_plan x) in
      then_do (exec_res ph (\<lambda>_. NoFreeRegion) (ok_or () (plan_free_region_start (xe_plan x)))) (\<lambda>start.
      then_do (exec_res ph (\<lambda>_. NoFreeRegion) (ok_or () (plan_free_region_end (xe_plan x)))) (\<lambda>end'.
      then_do (disk_snapshot mc ph disk) (\<lambda>snapshot.
      then_do (disk_sector_size mc x ph) (\<lambda>sector_size.
      then_do (exec_res ph ByStorage (contains_free_region snapshot disk start end' sector_size)) (\<lambda>free.
      if \<not> free then exec_fail ph FreeRegionGone
      else journalled_mutation mc x ph (create_target_partition mc x ph token start end' sector_size)))))))"

definition storage_target ::
    "'w exec_machine \<Rightarrow> executor \<Rightarrow> phase \<Rightarrow> cancellation_token \<Rightarrow> ('w, string) exec" where
  "storage_target mc x ph token =
     (if plan_mode (xe_plan x) \<in> {''alongside'', ''manual''} then requested_target mc x ph
      else if plan_mode (xe_plan x) = ''free_space'' then free_space_target mc x ph token
      else if plan_mode (xe_plan x) = ''resize_ntfs'' then journalled_mutation mc x ph (resize_ntfs_target mc x ph token)
      else return_err (InvalidPlan ph StorageMutation))"

definition execute_storage :: "'w exec_machine \<Rightarrow> executor \<Rightarrow> phase \<Rightarrow> cancellation_token \<Rightarrow> ('w, unit) exec" where
  "execute_storage mc x ph token =
     then_do
       (if plan_mode (xe_plan x) \<noteq> ''wipe''
        then then_do (exec_validate_target_disk mc x ph) (\<lambda>_. check_storage_preflight mc x ph)
        else return_ok ()) (\<lambda>_.
     then_do (open_durable_journal mc x ph) (\<lambda>_.
     if plan_mode (xe_plan x) = ''wipe'' then return_ok ()
     else
       then_do (storage_target mc x ph token) (\<lambda>target.
       then_do (prepare_btrfs_target mc x ph token target) (\<lambda>_.
       exec_set (\<lambda>s. s\<lparr>xs_target := Some target\<rparr>)))))"

definition execute_prepare :: "'w exec_machine \<Rightarrow> executor \<Rightarrow> ('w, unit) exec" where
  "execute_prepare mc x =
     then_do (exec_ask (xm_power mc)) (\<lambda>power.
     then_do (append_check mc x (JObject [(''name'', JString ''power''), (''status'', JString (pc_status power)),
         (''detail'', JString (xm_power_detail mc (pc_detail power)))])) (\<lambda>_.
     if pc_status power = ''fail'' then exec_fail Prepare (PowerUnsafe (xm_power_detail mc (pc_detail power)))
     else append_check mc x (JObject [(''name'', JString ''native_plan''), (''status'', JString ''pass''),
         (''detail'', JString ''Typed Rust installer plan validated'')])))"

definition execute_complete :: "'w exec_machine \<Rightarrow> executor \<Rightarrow> ('w, unit) exec" where
  "execute_complete mc x =
     then_do (cleanup_mounts mc x Complete) (\<lambda>_.
     write_transaction mc x ''complete'' Complete ''done'' ''Native installer completed successfully'')"

text \<open>The records before and after a phase, and the phase between them.  The phases that are not modelled
  are the argument \<open>others\<close>.\<close>

fun start_status :: "phase \<Rightarrow> (string \<times> string) option" where
  "start_status Prepare = Some (''started'', ''Installer started'')"
| "start_status Configure = Some (''configure_started'', ''Configuring the installed system'')"
| "start_status _ = None"

fun completion_status :: "phase \<Rightarrow> (string \<times> string) option" where
  "completion_status Prepare = Some (''prepared'', ''Install plan prepared'')"
| "completion_status Image = Some (''image_complete'', ''Operating system image written'')"
| "completion_status Configure = Some (''configure_complete'', ''Installed system configured'')"
| "completion_status SecureBoot = Some (''secure_boot_staged'', ''Secure Boot enrollment state classified'')"
| "completion_status Complete = None"
| "completion_status Storage = None"

definition write_status :: "'w exec_machine \<Rightarrow> executor \<Rightarrow> phase \<Rightarrow> (string \<times> string) option \<Rightarrow> ('w, unit) exec" where
  "write_status mc x ph entry =
     (case entry of
        Some (status, message) \<Rightarrow> write_transaction mc x status ph ''installing'' message
      | None \<Rightarrow> return_ok ())"

definition execute_phase_typed ::
    "'w exec_machine \<Rightarrow> executor \<Rightarrow> (phase \<Rightarrow> cancellation_token \<Rightarrow> ('w, unit) exec) \<Rightarrow> phase \<Rightarrow> ('w, unit) exec" where
  "execute_phase_typed mc x others ph =
     then_do (exec_ask (xm_cancelled mc)) (\<lambda>cancelled.
     if cancelled then return_err (Cancelled ph)
     else
       then_do (write_status mc x ph (start_status ph)) (\<lambda>_.
       then_do
         (case ph of
            Prepare \<Rightarrow> execute_prepare mc x
          | Storage \<Rightarrow> execute_storage mc x ph JobToken
          | Complete \<Rightarrow> execute_complete mc x
          | _ \<Rightarrow> others ph JobToken) (\<lambda>_.
       write_status mc x ph (completion_status ph))))"

definition record_job_started :: "nat \<Rightarrow> ('w, unit) exec" where
  "record_job_started job_id =
     exec_set (\<lambda>s. s\<lparr>xs_transaction := (xs_transaction s)\<lparr>tx_job_id := Some job_id\<rparr>\<rparr>)"

definition record_cancelled :: "'w exec_machine \<Rightarrow> executor \<Rightarrow> phase option \<Rightarrow> ('w, unit) exec" where
  "record_cancelled mc x ph =
     then_do (ignore (cleanup_mounts mc x (unwrap_or Prepare ph))) (\<lambda>_.
     then_do (write_terminal_transaction mc x ph CANCELLATION_MESSAGE) (\<lambda>_.
     persist_failure_summary mc (unwrap_or Prepare ph) CANCELLATION_MESSAGE))"

definition record_failed :: "'w exec_machine \<Rightarrow> executor \<Rightarrow> phase \<Rightarrow> string \<Rightarrow> ('w, unit) exec" where
  "record_failed mc x ph message =
     then_do (ignore (cleanup_mounts mc x ph)) (\<lambda>_.
     then_do (write_terminal_transaction mc x (Some ph) message) (\<lambda>_.
     persist_failure_summary mc ph message))"

end
