(* ===== verification/Transaction_Safety.thy ===== *)
theory Transaction_Safety
  imports Installer_Transaction
begin

text \<open>
  What the transaction writer guarantees: an accepted path names a file directly in the transaction
  directory, replacing the record is atomic under power loss, and a failure summary says that the
  installation failed; and the support export stays within its limits.
\<close>

section \<open>The temporary file\<close>

lemma join_with_snoc: "us \<noteq> [] \<Longrightarrow> join_with sep (us @ [x]) = join_with sep us @ sep @ x"
proof (induction us)
  case (Cons u us)
  then show ?case by (cases us) auto
qed simp

lemma path_file_name_parts:
  assumes "starts_with path ''/''" and "path_file_name path = Some name" and "name \<noteq> []"
  shows "\<exists>us. us \<noteq> [] \<and> hd us = [] \<and> drop_trivial (split_on (CHR ''/'') path) = us @ [name] \<and>
    (\<forall>w \<in> set (us @ [name]). CHR ''/'' \<notin> set w) \<and>
    path_key path = (True, False, filter (\<lambda>c. c \<noteq> [] \<and> c \<noteq> ''.'') us @ [name])"
proof -
  let ?nt = "\<lambda>c :: string. c \<noteq> [] \<and> c \<noteq> ''.''"
  define ws where "ws = drop_trivial (split_on (CHR ''/'') path)"
  have ws: "ws \<noteq> []" "last ws = name" using assms(2) by (auto simp: path_file_name_def ws_def Let_def split: if_splits)
  obtain q where q: "split_on (CHR ''/'') path = [] # split_on (CHR ''/'') q" using absolute_split [OF assms(1)] by blast
  have clean: "\<forall>w \<in> set ws. CHR ''/'' \<notin> set w"
    using set_drop_trivial [of "split_on (CHR ''/'') path"] split_on_pieces [of _ "CHR ''/''" path] by (auto simp: ws_def)
  obtain ts where "split_on (CHR ''/'') path = ws @ ts" using drop_trivial_split unfolding ws_def by blast
  then have "hd ws = []" using q ws(1) by (cases ws) auto
  define us where "us = butlast ws"
  have w: "ws = us @ [name]" using append_butlast_last_id [OF ws(1)] ws(2) by (simp add: us_def)
  with \<open>hd ws = []\<close> assms(3) have us: "us \<noteq> []" "hd us = []" by (cases us; simp)+
  have nt: "?nt name" using drop_trivial_last [of "split_on (CHR ''/'') path"] ws by (simp add: ws_def)
  have "filter ?nt (split_on (CHR ''/'') path) = filter ?nt us @ [name]"
    using filter_drop_trivial [of "split_on (CHR ''/'') path"] nt w by (simp add: ws_def)
  then have "path_key path = (True, False, filter ?nt us @ [name])" using q assms(1) by (simp add: path_key_def)
  with us w clean show ?thesis by (intro exI [of _ us]) (simp add: ws_def)
qed

lemma with_extension_key:
  assumes "starts_with path ''/''" and "path_file_name path = Some name" and "name \<noteq> []" and "name \<noteq> ''..''"
    and "CHR ''/'' \<notin> set ext" and "ext \<noteq> []"
  shows "\<exists>dir. path_key path = (True, False, dir @ [name]) \<and>
    path_key (with_extension path ext) = (True, False, dir @ [file_stem name @ ''.'' @ ext])"
proof -
  let ?nt = "\<lambda>c :: string. c \<noteq> [] \<and> c \<noteq> ''.''"
  from path_file_name_parts [OF assms(1-3)] obtain us where us: "us \<noteq> []" "hd us = []"
    and ws: "drop_trivial (split_on (CHR ''/'') path) = us @ [name]" and clean: "\<forall>w \<in> set (us @ [name]). CHR ''/'' \<notin> set w"
    and key: "path_key path = (True, False, filter ?nt us @ [name])" by blast
  define new where "new = file_stem name @ ''.'' @ ext"
  have whole: "join_with ''/'' (us @ [name]) = join_with ''/'' us @ ''/'' @ name" by (rule join_with_snoc [OF us(1)])
  have we: "with_extension path ext = join_with ''/'' us @ CHR ''/'' # new"
    using assms(2-4) ws whole by (simp add: with_extension_def new_def)
  have "x \<in> set name" if "x \<in> set (drop m (dropWhile f (rev name)))" for x m f
    using set_dropWhileD [OF in_set_dropD [OF that]] by simp
  then have "set (file_stem name) \<subseteq> set name" by (auto simp: file_stem_def Let_def)
  then have stem: "CHR ''/'' \<notin> set new" using clean assms(5) by (auto simp: new_def)
  have split: "split_on (CHR ''/'') (with_extension path ext) = us @ [new]"
    using clean us(1) by (simp add: we split_on_slash split_on_join split_on_word stem)
  have nt: "?nt new" using assms(6) by (auto simp: new_def append_eq_Cons_conv)
  have "starts_with (with_extension path ext) ''/''"
  proof (cases us)
    case (Cons u vs)
    with us(2) show ?thesis by (cases vs) (auto simp: we)
  qed (use us(1) in simp)
  moreover have "hd (us @ [new]) \<noteq> ''.''" using us by (cases us) auto
  ultimately have "path_key (with_extension path ext) = (True, False, filter ?nt us @ [new])"
    using split nt by (simp add: path_key_def)
  with key show ?thesis unfolding new_def by blast
qed

lemma file_stem_length: "length (file_stem name) \<le> length name"
proof -
  have "length (drop 1 (dropWhile f (rev name))) \<le> length name" for f
    using length_dropWhile_le [of f "rev name"] by simp
  then show ?thesis by (auto simp: file_stem_def Let_def)
qed

lemma path_extension_clean:
  assumes "starts_with path ''/''" and "path_file_name path = Some name" and "name \<noteq> []"
  shows "CHR ''/'' \<notin> set (unwrap_or ''json'' (path_extension path)) \<and>
    length name < length (file_stem name @ ''.'' @ unwrap_or ''json'' (path_extension path) @ ''.tmp'')"
proof -
  from path_file_name_parts [OF assms] have "CHR ''/'' \<notin> set name" by auto
  then show ?thesis
    using assms(2) file_stem_length [of name] by (auto simp: path_extension_def Let_def dest: in_set_dropD)
qed

lemma transaction_temporary_key:
  assumes "starts_with path ''/''" and "path_file_name path = Some name" and "name \<noteq> []" and "name \<noteq> ''..''"
  shows "path_key (transaction_temporary path) \<noteq> path_key path \<and>
    (\<forall>dir. in_directory (path_key path) dir \<longrightarrow> in_directory (path_key (transaction_temporary path)) dir)"
proof -
  let ?e = "unwrap_or ''json'' (path_extension path) @ ''.tmp''"
  note clean = path_extension_clean [OF assms(1-3)]
  from with_extension_key [OF assms, of ?e] clean obtain dir where
    "path_key path = (True, False, dir @ [name])" "path_key (transaction_temporary path) = (True, False, dir @ [file_stem name @ ''.'' @ ?e])"
    unfolding transaction_temporary_def by auto
  moreover have "name \<noteq> file_stem name @ ''.'' @ ?e"
  proof
    assume "name = file_stem name @ ''.'' @ ?e"
    then have "length name = length (file_stem name @ ''.'' @ ?e)" by (rule arg_cong)
    with clean show False by simp
  qed
  ultimately show ?thesis by (auto simp: in_directory_def)
qed

section \<open>The calls of the writer\<close>

interpretation still: disk_relation same_disk
  by unfold_locales

lemma fs_chmod_same: "reading.keeps (fs_chmod p mode err)" "reading.keeps (fs_open_dir p err)"
  unfolding fs_chmod_def fs_open_dir_def by (rule still.keeps_call, simp add: reading.R_refl)+

lemma same_keeps: "reading.keeps m \<Longrightarrow> apart.keeps k P m"
  unfolding reading.keeps_def apart.keeps_def using same_disk_untouched by blast

lemma fs_append_untouched: "i \<notin> P \<Longrightarrow> apart.keeps k P (fs_append i bytes err)"
  unfolding fs_append_def by (rule apart.keeps_call) (auto simp: apart.R_refl set_data_untouched split: fault.splits)

lemma fs_create_dir_untouched:
  assumes "path_key p \<noteq> k"
  shows "apart.keeps k P (fs_create_dir p)"
proof -
  let ?op = "\<lambda>f d. if f \<noteq> Fine then (None, d)
          else if dk_entries d (path_key p) \<noteq> None then (Some DirExists, d)
          else if map_option (\<lambda>q. dk_entries d (path_key q)) (parent_path p) \<noteq> Some (Some NDir) then (Some DirMissing, d)
          else (Some DirMade, set_entry (path_key p) (Some NDir) d)"
  have "apart.keeps k P (fs_call ?op ())"
    by (rule apart.keeps_call) (auto simp: apart.R_refl set_entry_untouched [OF assms])
  then have call: "untouched k P s (snd (fs_call ?op () s))" for s unfolding apart.keeps_def by blast
  have eq: "snd (fs_create_dir p s) = snd (fs_call ?op () s)" for s
    unfolding fs_create_dir_def by (simp split: prod.split sum.split)
  show ?thesis unfolding apart.keeps_def eq using call by blast
qed

lemma fs_create_dir_all_untouched: "path_key p \<noteq> k \<Longrightarrow> apart.keeps k P (fs_create_dir_all p err)"
  unfolding fs_create_dir_all_def
  by (rule apart.keeps_call) (auto simp: apart.R_refl set_entry_untouched split: option.splits node.splits)

lemma prepare_directory_untouched: "path_key p \<noteq> k \<Longrightarrow> apart.keeps k P (prepare_directory p)"
  unfolding prepare_directory_def
  by (intro apart.keeps_then fs_create_dir_untouched)
    (auto intro!: apart.keeps_then apart.keeps_pure fs_create_dir_all_untouched same_keeps [OF fs_chmod_same(1)] same_keeps [OF fs_stat_same]
      split: mkdir_answer.splits option.splits prod.splits node.splits)

lemma directory_settles:
  assumes "in_directory k (path_key dir)"
  shows "settles k (then_do (fs_open_dir dir e1) (\<lambda>_. fs_sync_dir dir e2))"
  unfolding settles_def
proof (intro allI impI)
  fix d r t assume run: "then_do (fs_open_dir dir e1) (\<lambda>_. fs_sync_dir dir e2) d = (r, t)"
  show "dk_entries t = dk_entries d \<and> dk_data t = dk_data d \<and> dk_synced t = dk_synced d \<and> dk_next t = dk_next d \<and>
     dk_faults t = dk_faults d \<and> dk_pending t k = (if is_ok r then [dk_entries d k] else dk_pending d k)"
  proof (cases rule: then_do_cases [of "fs_open_dir dir e1" d "\<lambda>_. fs_sync_dir dir e2"])
    case (err e s)
    with run reading.keepsD [OF fs_chmod_same(2) err(1)] show ?thesis by (auto simp: same_disk_def)
  next
    case (ok x s)
    then have "fs_sync_dir dir e2 s = (r, t)" using run by simp
    from fs_sync_dir_outcome [OF this assms] reading.keepsD [OF fs_chmod_same(2) ok(1)] show ?thesis
      by (simp add: same_disk_def)
  qed
qed

lemma sync_directory_settles: "in_directory k (path_key dir) \<Longrightarrow> settles k (sync_directory dir)"
  unfolding sync_directory_def by (rule directory_settles)

lemma fs_append_ok:
  assumes "fs_append i bytes err d = (Inr u, t)"
  shows "dk_data t i = dk_data d i @ bytes \<and> dk_entries t = dk_entries d \<and> dk_next t = dk_next d"
  using assms unfolding fs_append_def
  by (rule fs_call_ok) (auto simp: same_disk_def set_data_def split: fault.splits)

text \<open>The temporary name: free, or a file of its own.\<close>

definition own_file :: "path_key \<Rightarrow> nat set \<Rightarrow> disk \<Rightarrow> bool" where
  "own_file k P d \<longleftrightarrow> P \<subseteq> {..<dk_next d} \<and> (\<forall>i. dk_entries d k = Some (NFile i) \<longrightarrow> i \<notin> P \<and> i < dk_next d)"

lemma own_file_untouched:
  assumes "own_file k P d" and "\<And>Q. untouched k Q d t"
  shows "own_file k P t"
proof -
  have "dk_entries t k = dk_entries d k" "dk_next d \<le> dk_next t"
    using assms(2) [of "{}"] assms(2) [of "{..<dk_next d}"] by (simp_all add: untouched_def)
  with assms(1) show ?thesis by (auto simp: own_file_def)
qed

lemma keeps_own_file:
  assumes "\<And>Q. apart.keeps k Q m" and "m d = (r, t)" and "own_file k P d"
  shows "own_file k P t"
  by (rule own_file_untouched [OF assms(3)]) (rule apart.keepsD [OF assms(1) assms(2)])

lemma fs_open_truncate_outcome:
  assumes "own_file (path_key p) P d" and "path_key p \<noteq> k"
  shows "untouched k P d (snd (fs_open_truncate p err d))"
    and "fs_open_truncate p err d = (Inr i, t) \<Longrightarrow>
      dk_entries t (path_key p) = Some (NFile i) \<and> i \<notin> P \<and> i < dk_next t \<and> dk_data t i = [] \<and> P \<subseteq> {..<dk_next t}"
proof -
  let ?op = "\<lambda>f d. if f \<noteq> Fine then (None, d)
     else case dk_entries d (path_key p) of
       None \<Rightarrow> (Some (dk_next d), new_file (path_key p) [] d)
     | Some (NFile i) \<Rightarrow> (Some i, set_data i [] d)
     | Some _ \<Rightarrow> (None, d)"
  have own: "own_file (path_key p) P d'" if "same_disk d d'" for d' using assms(1) that by (simp add: own_file_def same_disk_def)
  have eff: "untouched k P d' (snd (?op f d'))" if "same_disk d d'" for f d'
    using own [OF that] assms(2)
    by (auto simp: apart.R_refl new_file_untouched set_data_untouched own_file_def split: option.splits node.splits)
  show "untouched k P d (snd (fs_open_truncate p err d))"
    unfolding fs_open_truncate_def
  proof (cases rule: fs_call_cases [of ?op err d])
    case (idle t)
    then show "untouched k P d (snd (fs_call ?op err d))" by (simp add: same_disk_untouched)
  next
    case (ran f d')
    then have eq: "snd (fs_call ?op err d) = snd (?op f d')" by (simp only: split: prod.split option.split) simp
    show "untouched k P d (snd (fs_call ?op err d))"
      unfolding eq by (rule apart.R_trans [OF same_disk_untouched [OF ran(1)] eff [OF ran(1)]])
  qed
  assume "fs_open_truncate p err d = (Inr i, t)"
  then obtain f d' where d': "same_disk d d'" and opn: "?op f d' = (Some i, t)"
    unfolding fs_open_truncate_def by (rule fs_call_ok)
  show "dk_entries t (path_key p) = Some (NFile i) \<and> i \<notin> P \<and> i < dk_next t \<and> dk_data t i = [] \<and> P \<subseteq> {..<dk_next t}"
    using own [OF d'] opn
    by (auto simp: own_file_def new_file_def set_entry_def set_data_def split: if_splits option.splits node.splits)
qed

section \<open>The accepted path\<close>

definition transaction_dir :: path_key where
  "transaction_dir = (True, False, [''run'', ''kyth-installer'', ''txn''])"

lemma transaction_dir_key: "path_key (path_join TRANSACTION_BASE TRANSACTION_SUBDIR) = transaction_dir"
  by (simp add: path_key_def path_join_def TRANSACTION_BASE_def TRANSACTION_SUBDIR_def transaction_dir_def)

lemma safe_transaction_path_ok:
  assumes "safe_transaction_path raw = Inr path"
  obtains name parent where "starts_with path ''/''" and "path_file_name path = Some name" and "name \<noteq> []" and "name \<noteq> ''..''"
    and "parent_path path = Some parent" and "path_key parent = transaction_dir" and "in_directory (path_key path) transaction_dir"
    and "path = trim raw"
proof -
  from assms have abs: "starts_with path ''/''" and up: "''..'' \<notin> set (split_on (CHR ''/'') path)" and trim: "path = trim raw"
    and name: "path_file_name path \<noteq> None" and par: "map_option path_key (parent_path path) = Some transaction_dir"
    by (auto simp: safe_transaction_path_def accepted_transaction_base_dir_def transaction_dir_key Let_def split: if_splits)
  from par obtain parent where parent: "parent_path path = Some parent" "path_key parent = transaction_dir" by auto
  let ?ws = "drop_trivial (split_on (CHR ''/'') path)"
  have ws: "?ws \<noteq> []" "path_file_name path = Some (last ?ws)" using name by (auto simp: path_file_name_def Let_def split: if_splits)
  have "last ?ws \<in> set (split_on (CHR ''/'') path)" using ws(1) set_drop_trivial last_in_set by blast
  then have "last ?ws \<noteq> ''..''" using up by auto
  moreover have "last ?ws \<noteq> []" using drop_trivial_last [OF ws(1)] by blast
  ultimately show thesis
    using that abs ws(2) parent parent_path_key [OF parent(1) abs] trim by metis
qed

lemma in_directory_other: "in_directory k dir \<Longrightarrow> dir \<noteq> k"
proof
  assume k: "in_directory k dir" "dir = k"
  then have "butlast (snd (snd k)) = snd (snd k)" and ne: "snd (snd k) \<noteq> []" by (auto simp: in_directory_def prod_eq_iff)
  then have "length (butlast (snd (snd k))) = length (snd (snd k))" by simp
  with ne show False unfolding length_butlast by (cases "snd (snd k)") simp_all
qed

section \<open>The outcome of a write\<close>

lemma write_json_outcome:
  assumes "starts_with path ''/''" and "path_file_name path = Some name" and "name \<noteq> []" and "name \<noteq> ''..''"
    and "parent_path path = Some parent" and "own_file (path_key (transaction_temporary path)) P d"
  shows "write_outcome (path_key path) P (pretty value @ [char_of (10 :: nat)]) d (write_json pretty path value d)"
proof -
  let ?k = "path_key path" and ?tmp = "transaction_temporary path" and ?b = "pretty value @ [char_of (10 :: nat)]"
  note tk = transaction_temporary_key [OF assms(1-4)]
  have dir: "in_directory ?k (path_key parent)" by (rule parent_path_key [OF assms(5,1)])
  then have pk: "path_key parent \<noteq> ?k" "path_key parent \<noteq> path_key ?tmp" using tk in_directory_other by blast+
  have tail: "write_outcome ?k P ?b t (then_do (fs_rename ?tmp path TransactionNotReplaced) (\<lambda>_. sync_directory parent) t)"
    if "dk_entries t (path_key ?tmp) = Some (NFile i)" "i \<notin> P" "i < dk_next t" "dk_synced t i" "dk_data t i = ?b" "P \<subseteq> {..<dk_next t}" for t i
    using rename_outcome [OF that(1-3) _ that(4) sync_directory_settles [OF dir] that(6), of TransactionNotReplaced] tk that(5) by simp
  let ?file = "\<lambda>file. then_do (fs_append file (pretty value) TransactionNotEncoded) (\<lambda>_.
     then_do (fs_append file [char_of (10 :: nat)] TransactionNotFinished) (\<lambda>_.
     then_do (fs_sync file TransactionNotSynced) (\<lambda>_.
     then_do (fs_chmod ?tmp 384 TransactionNotSecured) (\<lambda>_.
     then_do (fs_rename ?tmp path TransactionNotReplaced) (\<lambda>_. sync_directory parent)))))"
  have body: "write_outcome ?k P ?b t (?file i t)"
    if o: "dk_entries t (path_key ?tmp) = Some (NFile i)" "i \<notin> P" "i < dk_next t" "dk_data t i = []" "P \<subseteq> {..<dk_next t}" for t i
  proof (rule write_outcome_then [OF fs_append_untouched [OF o(2)] o(5)], goal_cases)
    case (1 u a)
    note a = fs_append_ok [OF 1]
    show ?case
    proof (rule write_outcome_then [OF fs_append_untouched [OF o(2)]], goal_cases)
      case (2 u b)
      note b = fs_append_ok [OF 2]
      show ?case
      proof (rule write_outcome_then [OF fs_sync_untouched [OF o(2)]], goal_cases)
        case (2 u c)
        note c = fs_sync_ok [OF 2]
        show ?case
        proof (rule write_outcome_then [OF same_keeps [OF fs_chmod_same(1)]], goal_cases)
          case (2 u e)
          have "same_disk c e" by (rule reading.keepsD [OF fs_chmod_same(1) 2])
          then show ?case using a b c o by (intro tail [of e i]) (auto simp: same_disk_def)
        qed (use a b c o in auto)
      qed (use a b o in auto)
    qed (use a o in auto)
  qed
  have opened: "write_outcome ?k P ?b t (then_do (fs_open_truncate ?tmp TransactionNotOpened) ?file t)"
    if "own_file (path_key ?tmp) P t" for t
  proof (rule write_outcome_step)
    show "untouched ?k P t (snd (fs_open_truncate ?tmp TransactionNotOpened t))"
      by (rule fs_open_truncate_outcome(1) [OF that conjunct1 [OF tk]])
    show "P \<subseteq> {..<dk_next t}" using that by (simp add: own_file_def)
    show "write_outcome ?k P ?b w (?file i w)" if "fs_open_truncate ?tmp TransactionNotOpened t = (Inr i, w)" for i w
      by (rule body) (use fs_open_truncate_outcome(2) [OF \<open>own_file (path_key ?tmp) P t\<close> conjunct1 [OF tk] that] in auto)
  qed
  let ?check = "\<lambda>metadata. lift_res (guard (case metadata of Some (Some (NFile _, _)) \<Rightarrow> True | Some (Some _) \<Rightarrow> False | _ \<Rightarrow> True) TransactionNotRegular)"
  have checked: "write_outcome ?k P ?b t (then_do (?check metadata) (\<lambda>_. then_do (fs_open_truncate ?tmp TransactionNotOpened) ?file) t)"
    if "own_file (path_key ?tmp) P t" for t and metadata :: "(node \<times> nat) option option"
  proof (rule write_outcome_then [OF apart.keeps_pure(3)], goal_cases)
    case 1
    then show ?case using that by (simp add: own_file_def)
  next
    case (2 x w)
    then show ?case using opened [OF that] by simp
  qed
  have statted: "write_outcome ?k P ?b t (then_do (fs_stat path) (\<lambda>m. then_do (?check m) (\<lambda>_. then_do (fs_open_truncate ?tmp TransactionNotOpened) ?file)) t)"
    if own: "own_file (path_key ?tmp) P t" for t
  proof (rule write_outcome_then [OF same_keeps [OF fs_stat_same]], goal_cases)
    case 1
    then show ?case using own by (simp add: own_file_def)
  next
    case (2 m w)
    show ?case by (rule checked) (rule keeps_own_file [OF same_keeps [OF fs_stat_same] 2 own])
  qed
  have "write_outcome ?k P ?b d (then_do (prepare_directory parent) (\<lambda>_. then_do (fs_stat path) (\<lambda>m. then_do (?check m) (\<lambda>_. then_do (fs_open_truncate ?tmp TransactionNotOpened) ?file))) d)"
  proof (rule write_outcome_then [OF prepare_directory_untouched [OF pk(1)]], goal_cases)
    case 1
    then show ?case using assms(6) by (simp add: own_file_def)
  next
    case (2 u w)
    show ?case by (rule statted) (rule keeps_own_file [OF prepare_directory_untouched [OF pk(2)] 2 assms(6)])
  qed
  moreover have "write_json pretty path value d = then_do (prepare_directory parent) (\<lambda>_. then_do (fs_stat path) (\<lambda>m. then_do (?check m) (\<lambda>_. then_do (fs_open_truncate ?tmp TransactionNotOpened) ?file))) d"
    unfolding write_json_def Let_def using assms(5) by (subst then_do_def) simp
  ultimately show ?thesis by simp
qed

section \<open>Guarantees\<close>

definition file_of :: "string \<Rightarrow> disk \<Rightarrow> nat set" where
  "file_of path d = {i. dk_entries d (path_key path) = Some (NFile i)}"


lemma json_get_insert: "json_get (object_insert (k, v) (JObject kvs)) x = (if x = k then Some v else json_get (JObject kvs) x)"
  by (simp add: map_of_map_insert)

text \<open>A failure summary that was written says that the installation failed and needs recovery; every
  other field is that of the transaction.\<close>

theorem failure_summary_exact:
  assumes "write_failure_summary enc pretty raw st message d = (Inr u, t)" and "torn_free d"
    and "own_file (path_key (transaction_temporary (trim raw))) (file_of (trim raw) d) d"
  shows "\<exists>v. content t (trim raw) = Some (pretty v @ [char_of (10 :: nat)]) \<and>
    json_get v ''status'' = Some (JString ''failed'') \<and> json_get v ''lifecycle'' = Some (JString ''failed'') \<and>
    json_get v ''message'' = Some (JString message) \<and> json_get v ''recovery_required'' = Some (JBool True) \<and>
    (\<forall>k. k \<notin> {''status'', ''lifecycle'', ''message'', ''recovery_required''} \<longrightarrow> json_get v k = json_get (enc st) k)"
proof -
  from assms(1) obtain path where path: "safe_transaction_path raw = Inr path" and obj: "json_is_object (enc st)"
    and wr: "write_json pretty path (failure_document (enc st) message) d = (Inr u, t)"
    by (auto simp: write_failure_summary_def)
  obtain name parent where p: "starts_with path ''/''" "path_file_name path = Some name" "name \<noteq> []" "name \<noteq> ''..''"
    "parent_path path = Some parent" "path = trim raw"
    using safe_transaction_path_ok [OF path] by metis
  let ?v = "failure_document (enc st) message"
  have "replaced (path_key path) (file_of path d) (pretty ?v @ [char_of (10 :: nat)]) d True t"
    using write_json_outcome [OF p(1-5), of "file_of path d" d pretty ?v] assms(2,3) p(6) wr by (simp add: write_outcome_def)
  then have "content t path = Some (pretty ?v @ [char_of (10 :: nat)])" by (auto simp: replaced_def content_def)
  moreover obtain kvs where "enc st = JObject kvs" using obj by (cases "enc st") auto
  then have "json_get ?v ''status'' = Some (JString ''failed'') \<and> json_get ?v ''lifecycle'' = Some (JString ''failed'') \<and>
    json_get ?v ''message'' = Some (JString message) \<and> json_get ?v ''recovery_required'' = Some (JBool True) \<and>
    (\<forall>k. k \<notin> {''status'', ''lifecycle'', ''message'', ''recovery_required''} \<longrightarrow> json_get ?v k = json_get (enc st) k)"
    by (simp add: failure_document_def map_of_map_insert)
  ultimately show ?thesis using p(6) by blast
qed

section \<open>The support export\<close>

lemma copy_loop_exact:
  assumes "copy_loop source ok reads copied k out = (r, result)" and "copied = length out" and "length out \<le> MAX_SUPPORT_FILE_BYTES"
  shows "length result \<le> MAX_SUPPORT_FILE_BYTES \<and>
    (is_ok r \<longrightarrow> (\<exists>n \<le> length reads. (n = length reads \<or> reads ! n = Some []) \<and> None \<notin> set (take n reads) \<and>
       result = out @ concat (map the (take n reads))))"
  using assms
proof (induction source ok reads copied k out rule: copy_loop.induct)
  case (1 source ok copied k out)
  then show ?case by auto
next
  case (2 source ok rest copied k out)
  then show ?case by auto
next
  case (3 source ok chunk rest copied k out)
  let ?c = "saturating_add copied (length chunk)"
  show ?case
  proof (cases "chunk = [] \<or> ?c > MAX_SUPPORT_FILE_BYTES \<or> \<not> ok k")
    case True
    with 3(2-4) show ?thesis by (auto simp: Let_def split: if_splits intro!: exI [of _ 0])
  next
    case False
    then have c: "?c = length (out @ chunk)" "length (out @ chunk) \<le> MAX_SUPPORT_FILE_BYTES"
      using 3(3) by (auto simp: saturating_add_def MAX_SUPPORT_FILE_BYTES_def u64_max_def split: if_splits)
    from False 3(2) have "copy_loop source ok rest ?c (Suc k) (out @ chunk) = (r, result)" by (simp add: Let_def)
    from 3(1) [OF _ refl _ _ this c] False have ih: "length result \<le> MAX_SUPPORT_FILE_BYTES \<and>
      (is_ok r \<longrightarrow> (\<exists>n \<le> length rest. (n = length rest \<or> rest ! n = Some []) \<and> None \<notin> set (take n rest) \<and>
         result = (out @ chunk) @ concat (map the (take n rest))))" by blast
    have "\<exists>n \<le> length (Some chunk # rest). (n = length (Some chunk # rest) \<or> (Some chunk # rest) ! n = Some []) \<and>
        None \<notin> set (take n (Some chunk # rest)) \<and> result = out @ concat (map the (take n (Some chunk # rest)))" if ok: "is_ok r"
    proof -
      from ih ok obtain n where "n \<le> length rest" "n = length rest \<or> rest ! n = Some []" "None \<notin> set (take n rest)"
        "result = (out @ chunk) @ concat (map the (take n rest))" by blast
      then show ?thesis by (intro exI [of _ "Suc n"]) auto
    qed
    with ih show ?thesis by blast
  qed
qed

text \<open>A support file is copied within its limit also when it grows while it is read, and a copy that is
  reported holds exactly what was read up to the end of the file.\<close>

theorem support_copy_exact:
  assumes "copy_support_file a source = (r, Some out)"
  shows "length out \<le> 16 * 1024 * 1024 \<and>
    (r = Inr True \<longrightarrow> (\<exists>n \<le> length (ca_reads a). (n = length (ca_reads a) \<or> ca_reads a ! n = Some []) \<and>
       None \<notin> set (take n (ca_reads a)) \<and> out = concat (map the (take n (ca_reads a)))))"
proof -
  obtain q where q: "copy_loop source (ca_write a) (ca_reads a) 0 0 [] = (q, out)" "r = Inr True \<longrightarrow> is_ok q"
    using assms by (auto simp: copy_support_file_def split: option.splits if_splits prod.splits sum.splits)
  from copy_loop_exact [OF q(1)] q(2) show ?thesis by (auto simp: MAX_SUPPORT_FILE_BYTES_def)
qed

section \<open>An instance\<close>

definition sample_state :: transaction_state where
  "sample_state = \<lparr>tx_schema_version = 1, tx_transaction_id = ''t'', tx_job_id = Some 1, tx_updated_at = [], tx_status = ''started'',
     tx_phase = ''prepare'', tx_lifecycle = ''installing'', tx_install_mode = ''wipe'', tx_disk = ''/dev/sda'', tx_target_partition = [],
     tx_source = \<lparr>ts_kind = [], ts_digest = [], ts_verified = False, ts_target_ref = []\<rparr>, tx_checks = [], tx_partition_steps = [],
     tx_message = [], tx_recovery_required = False\<rparr>"

definition runtime_disk :: disk where
  "runtime_disk = \<lparr>dk_entries = [transaction_dir \<mapsto> NDir], dk_data = (\<lambda>_. []), dk_synced = (\<lambda>_. True),
     dk_pending = (\<lambda>k. [if k = transaction_dir then Some NDir else None]), dk_next = 0, dk_faults = (\<lambda>_. Fine), dk_calls = 0, dk_halted = False\<rparr>"

lemma runtime_paths:
  "safe_transaction_path ''/run/kyth-installer/txn/t.json'' = Inr ''/run/kyth-installer/txn/t.json''"
  "parent_path ''/run/kyth-installer/txn/t.json'' = Some ''/run/kyth-installer/txn''"
  "transaction_temporary ''/run/kyth-installer/txn/t.json'' = ''/run/kyth-installer/txn/t.json.tmp''"
  "path_key ''/run/kyth-installer/txn/t.json'' = (True, False, [''run'', ''kyth-installer'', ''txn'', ''t.json''])"
  "path_key ''/run/kyth-installer/txn/t.json.tmp'' = (True, False, [''run'', ''kyth-installer'', ''txn'', ''t.json.tmp''])"
  "path_key ''/run/kyth-installer/txn'' = transaction_dir"
  by (simp_all add: safe_transaction_path_def accepted_transaction_base_dir_def path_starts_with_def path_parts_def path_key_def
      TRANSACTION_BASE_def TRANSACTION_SUBDIR_def path_join_def parent_path_def drop_trivial_def path_file_name_def
      transaction_temporary_def path_extension_def with_extension_def file_stem_def transaction_dir_def str_simps)

lemma runtime_faultless: "faultless runtime_disk"
  by (simp add: faultless_def runtime_disk_def)

lemma runtime_free:
  "own_file (path_key (transaction_temporary ''/run/kyth-installer/txn/t.json'')) (file_of ''/run/kyth-installer/txn/t.json'' runtime_disk) runtime_disk"
  "torn_free runtime_disk" "settled ''/run/kyth-installer/txn/t.json'' runtime_disk" "recorded runtime_disk"
  by (simp_all add: own_file_def file_of_def runtime_disk_def runtime_paths torn_free_def settled_def recorded_def transaction_dir_def)

text \<open>Without faults a record is written wherever nothing but files stand in its way.\<close>

definition writable :: "path_key \<Rightarrow> disk \<Rightarrow> bool" where
  "writable k d \<longleftrightarrow> dk_entries d k \<noteq> Some NDir \<and> dk_entries d k \<noteq> Some NLink"

lemma writable_cases: "writable k d \<Longrightarrow> dk_entries d k = None \<or> (\<exists>i. dk_entries d k = Some (NFile i))"
  unfolding writable_def by (metis node.exhaust not_None_eq)

lemma fs_open_truncate_faultless:
  assumes "faultless d" and "writable (path_key p) d"
  shows "\<exists>i t. fs_open_truncate p err d = (Inr i, t) \<and> faultless t \<and> dk_entries t = (dk_entries d)(path_key p \<mapsto> NFile i) \<and> (recorded d \<longrightarrow> recorded t)"
proof (cases "dk_entries d (path_key p)")
  case None
  with assms show ?thesis by (simp add: fs_open_truncate_def fs_call_faultless) (simp add: new_file_def set_entry_def set_data_def recorded_def)
next
  case (Some n)
  with writable_cases [OF assms(2)] obtain i where "dk_entries d (path_key p) = Some (NFile i)" by auto
  with assms show ?thesis by (simp add: fs_open_truncate_def fs_call_faultless) (simp add: set_data_def recorded_def fun_upd_idem)
qed

lemma fs_small_faultless:
  assumes "faultless d"
  shows "\<exists>t. fs_append i b err d = (Inr (), t) \<and> faultless t \<and> dk_entries t = dk_entries d \<and> (recorded d \<longrightarrow> recorded t)"
    and "\<exists>t. fs_sync i err d = (Inr (), t) \<and> faultless t \<and> dk_entries t = dk_entries d \<and> (recorded d \<longrightarrow> recorded t)"
    and "\<exists>t. fs_chmod p mode err d = (Inr (), t) \<and> faultless t \<and> dk_entries t = dk_entries d \<and> (recorded d \<longrightarrow> recorded t)"
    and "\<exists>t. sync_directory p d = (Inr (), t) \<and> faultless t \<and> dk_entries t = dk_entries d \<and> (recorded d \<longrightarrow> recorded t)"
  using assms
  by (simp_all add: fs_append_def fs_sync_def fs_chmod_def sync_directory_def fs_open_dir_def fs_sync_dir_def fs_call_faultless)
    (simp_all add: set_data_def recorded_def)

lemma prepare_directory_faultless:
  assumes "faultless d" and "dk_entries d (path_key p) = Some NDir"
  shows "prepare_directory p d = (Inr (), d\<lparr>dk_calls := Suc (Suc (dk_calls d))\<rparr>)"
proof -
  have "fs_create_dir p d = ((Inr DirExists, d\<lparr>dk_calls := Suc (dk_calls d)\<rparr>) :: (transaction_error, _) res \<times> disk)"
    using assms by (simp add: fs_create_dir_def fs_call_faultless)
  moreover have "fs_stat p (d\<lparr>dk_calls := Suc (dk_calls d)\<rparr>) = ((Inr (Some (Some (NDir, 0))), d\<lparr>dk_calls := Suc (Suc (dk_calls d))\<rparr>) :: (transaction_error, _) res \<times> disk)"
    using assms by (simp add: fs_stat_def fs_call_faultless)
  ultimately show ?thesis
    unfolding prepare_directory_def by (simp only: then_do_def prod.case sum.case mkdir_answer.case option.case node.case return_simps)
qed

lemma write_json_faultless:
  assumes d: "faultless d" and dir: "parent_path p = Some dir" "dk_entries d (path_key dir) = Some NDir"
    and free: "writable (path_key p) d" "writable (path_key (transaction_temporary p)) d"
    and other: "path_key (transaction_temporary p) \<noteq> path_key p"
  shows "\<exists>t. write_json pretty p value d = (Inr (), t) \<and> faultless t \<and> (recorded d \<longrightarrow> recorded t) \<and>
    writable (path_key p) t \<and> writable (path_key (transaction_temporary p)) t \<and>
    (\<forall>k. k \<noteq> path_key p \<longrightarrow> k \<noteq> path_key (transaction_temporary p) \<longrightarrow> dk_entries t k = dk_entries d k)"
proof -
  let ?tmp = "transaction_temporary p"
  let ?d2 = "d\<lparr>dk_calls := Suc (Suc (dk_calls d))\<rparr>" and ?d3 = "d\<lparr>dk_calls := Suc (Suc (Suc (dk_calls d)))\<rparr>"
  have "\<exists>m. fs_stat p ?d2 = ((Inr (Some m), ?d3) :: (transaction_error, _) res \<times> disk) \<and>
      (case Some m of Some (Some (NFile _, _)) \<Rightarrow> True | Some (Some _) \<Rightarrow> False | _ \<Rightarrow> True)"
    using d writable_cases [OF free(1)] by (auto simp: fs_stat_def fs_call_faultless)
  then obtain m where m: "fs_stat p ?d2 = ((Inr (Some m), ?d3) :: (transaction_error, _) res \<times> disk)"
    and ok: "(case Some m of Some (Some (NFile _, _)) \<Rightarrow> True | Some (Some _) \<Rightarrow> False | _ \<Rightarrow> True) = True" by auto
  have d3: "faultless ?d3" "writable (path_key ?tmp) ?d3" "recorded ?d3 = recorded d" using d free(2) by (simp_all add: writable_def recorded_def)
  obtain i o' where op: "fs_open_truncate ?tmp TransactionNotOpened ?d3 = (Inr i, o')" "faultless o'"
      "dk_entries o' = (dk_entries ?d3)(path_key ?tmp \<mapsto> NFile i)" "recorded ?d3 \<longrightarrow> recorded o'"
    using fs_open_truncate_faultless [OF d3(1,2), of TransactionNotOpened] by blast
  obtain a where a: "fs_append i (pretty value) TransactionNotEncoded o' = (Inr (), a)" "faultless a" "dk_entries a = dk_entries o'" "recorded o' \<longrightarrow> recorded a"
    using fs_small_faultless(1) [OF op(2), of i "pretty value" TransactionNotEncoded] by blast
  obtain b where b: "fs_append i [char_of (10 :: nat)] TransactionNotFinished a = (Inr (), b)" "faultless b" "dk_entries b = dk_entries a" "recorded a \<longrightarrow> recorded b"
    using fs_small_faultless(1) [OF a(2), of i "[char_of (10 :: nat)]" TransactionNotFinished] by blast
  obtain c where c: "fs_sync i TransactionNotSynced b = (Inr (), c)" "faultless c" "dk_entries c = dk_entries b" "recorded b \<longrightarrow> recorded c"
    using fs_small_faultless(2) [OF b(2), of i TransactionNotSynced] by blast
  obtain e where e: "fs_chmod ?tmp 384 TransactionNotSecured c = (Inr (), e)" "faultless e" "dk_entries e = dk_entries c" "recorded c \<longrightarrow> recorded e"
    using fs_small_faultless(3) [OF c(2), of ?tmp 384 TransactionNotSecured] by blast
  have ents: "dk_entries e = (dk_entries d)(path_key ?tmp \<mapsto> NFile i)" using op(3) a(3) b(3) c(3) e(3) by simp
  have "\<exists>f. fs_rename ?tmp p TransactionNotReplaced e = (Inr (), f) \<and> faultless f \<and> (recorded e \<longrightarrow> recorded f) \<and>
      dk_entries f = (dk_entries e)(path_key p \<mapsto> NFile i, path_key ?tmp := None)"
    using e(2) ents other free(1) by (simp add: fs_rename_def fs_call_faultless writable_def) (simp add: recorded_def set_entry_def)
  then obtain f where f: "fs_rename ?tmp p TransactionNotReplaced e = (Inr (), f)" "faultless f" "recorded e \<longrightarrow> recorded f"
      "dk_entries f = (dk_entries e)(path_key p \<mapsto> NFile i, path_key ?tmp := None)" by blast
  obtain g where g: "sync_directory dir f = (Inr (), g)" "faultless g" "dk_entries g = dk_entries f" "recorded f \<longrightarrow> recorded g"
    using fs_small_faultless(4) [OF f(2), of dir] by blast
  have "write_json pretty p value d = (Inr (), g)"
    unfolding write_json_def Let_def
    by (simp only: then_do_def dir(1) ok_or_simps return_simps prepare_directory_faultless [OF d dir(2)] m ok op(1) a(1) b(1) c(1) e(1) f(1) g(1)
        prod.case sum.case guard_simps)
  moreover have "recorded d \<longrightarrow> recorded g" using d3(3) op(4) a(4) b(4) c(4) e(4) f(3) g(4) by blast
  moreover have "dk_entries g = (dk_entries d)(path_key p \<mapsto> NFile i, path_key ?tmp := None)" using g(3) f(4) ents by (simp add: fun_upd_twist)
  ultimately show ?thesis using g(2) other by (simp add: writable_def)
qed

lemma runtime_write:
  "\<exists>t. write_json pretty ''/run/kyth-installer/txn/t.json'' value runtime_disk = (Inr (), t) \<and> recorded t"
  using write_json_faultless [OF runtime_faultless runtime_paths(2), of pretty "value"] runtime_free(4)
  by (auto simp: runtime_paths runtime_disk_def writable_def transaction_dir_def)


theorem failure_summary_exact_witness:
  "\<exists>t v. write_failure_summary (\<lambda>_. JObject []) (\<lambda>_. ''{}'') ''/run/kyth-installer/txn/t.json'' sample_state ''m'' runtime_disk = (Inr (), t) \<and>
     content t ''/run/kyth-installer/txn/t.json'' = Some (''{}'' @ [char_of (10 :: nat)]) \<and> json_get v ''status'' = Some (JString ''failed'')"
proof -
  let ?p = "''/run/kyth-installer/txn/t.json''" and ?enc = "\<lambda>_ :: transaction_state. JObject []" and ?pretty = "\<lambda>_ :: json. ''{}''"
  have trim: "trim ?p = ?p" by (simp add: str_simps)
  obtain t where "write_json ?pretty ?p (failure_document (JObject []) ''m'') runtime_disk = (Inr (), t)" using runtime_write by blast
  then have w: "write_failure_summary ?enc ?pretty ?p sample_state ''m'' runtime_disk = (Inr (), t)"
    using runtime_paths(1) by (simp add: write_failure_summary_def)
  from failure_summary_exact [OF w runtime_free(2)] runtime_free(1) trim w show ?thesis by auto
qed

theorem support_copy_exact_witness:
  "let a = \<lparr>ca_stat = Some (Some (True, 2)), ca_open = True, ca_create = True, ca_reads = [Some ''a'', Some ''b'', Some []],
         ca_write = (\<lambda>_. True), ca_flush = True, ca_sync = True, ca_chmod = True\<rparr> in
   copy_support_file a ''/x'' = (Inr True, Some ''ab'') \<and> length ''ab'' \<le> 16 * 1024 * (1024 :: nat)"
proof -
  let ?a = "\<lparr>ca_stat = Some (Some (True, 2)), ca_open = True, ca_create = True, ca_reads = [Some ''a'', Some ''b'', Some []],
         ca_write = (\<lambda>_. True), ca_flush = True, ca_sync = True, ca_chmod = True\<rparr>"
  have c: "copy_support_file ?a ''/x'' = (Inr True, Some ''ab'')"
    by (simp add: copy_support_file_def MAX_SUPPORT_FILE_BYTES_def saturating_add_def u64_max_def)
  from support_copy_exact [OF c] c show ?thesis by simp
qed

end
