(* ===== verification/Phase_Events.thy ===== *)
theory Phase_Events
  imports Installer_Phases Transaction_Safety
begin

text \<open>
  What the steps of the storage phase add to the trace.  The locale \<open>exec_events\<close> carries a property of
  events through every operation that only causes events with it; its interpretations are the classes of
  events the theorems of \<open>Phase_Safety\<close> speak about.  The rest are exact accounts of the single steps.
\<close>

section \<open>Composition\<close>

lemma then_do_assoc: "then_do (then_do m f) g = then_do m (\<lambda>x. then_do (f x) g)"
  by (rule ext) (simp add: then_do_def split: prod.split sum.split)

lemma then_do_return: "then_do (return_ok v) f = f v"
  by (rule ext) (simp add: then_do_def)

lemma then_do_step: "m s = (Inr v, t) \<Longrightarrow> then_do m f s = f v t"
  by (simp add: then_do_def)

lemma run_all_step: "m s = (Inr (), t) \<Longrightarrow> run_all (m # ms) s = run_all ms t"
  by (simp add: then_do_def)

section \<open>What a computation adds to the trace\<close>

text \<open>The events of the changes to the partition table: everything but formatting and what follows it.\<close>

fun table_request :: "helper_request \<Rightarrow> bool" where
  "table_request (StreamHelper r) = True"
| "table_request (DiskHelper (FormatFilesystem _ _ _ _)) = False"
| "table_request (DiskHelper (UnmountFilesystem _ _ _)) = False"
| "table_request (DiskHelper (BtrfsSubvolumeCreate _ _)) = False"
| "table_request (DiskHelper (BtrfsSubvolumeSetDefault _ _)) = False"
| "table_request (DiskHelper _) = True"

fun table_event :: "phase_effect \<Rightarrow> bool" where
  "table_event (Requested _ r) = table_request r"
| "table_event (Performed r) = table_request r"
| "table_event (Journalled n _) = (n = ''ntfs_shrink'')"
| "table_event _ = True"

locale exec_events =
  fixes P :: "phase_effect \<Rightarrow> bool"
  assumes P_probe: "P (Probed a r)"
    and P_guard: "P (Guarded g)"
begin

definition only :: "'w exec_state \<Rightarrow> 'w exec_state \<Rightarrow> bool" where
  "only s t \<longleftrightarrow> (\<exists>es. xs_trace t = xs_trace s @ es \<and> list_all P es)"

lemma only_refl: "only s s"
  by (simp add: only_def)

lemma only_trans: "only s t \<Longrightarrow> only t u \<Longrightarrow> only s u"
  by (auto simp: only_def)

end

sublocale exec_events \<subseteq> effect_relation only
  by unfold_locales (blast intro: only_refl only_trans)+

context exec_events
begin

lemma keeps_base:
  "keeps (exec_call f)" "keeps (exec_ask g)" "keeps (exec_get h)" "keeps (exec_fail ph e)" "keeps (exec_res ph k r)"
  "keeps (exec_files ph k' m)" "P ev \<Longrightarrow> keeps (exec_log ev)" "(\<And>s. xs_trace (u s) = xs_trace s) \<Longrightarrow> keeps (exec_set u)"
  by (auto simp: keeps_def only_def exec_call_def exec_ask_def exec_get_def exec_fail_def exec_res_def exec_files_def
      exec_log_def exec_set_def split: prod.split)

lemma keeps_attempt: "keeps m \<Longrightarrow> keeps (attempt m)"
  by (simp add: keeps_def attempt_def split: prod.split) (metis snd_conv)

lemma keeps_ignore: "keeps m \<Longrightarrow> keeps (ignore m)"
  by (simp add: keeps_def ignore_def)

lemma keeps_Pair: "keeps (Pair r)"
  by (simp add: keeps_def R_refl)

lemmas keeps_rules = keeps_Pair keeps_base keeps_attempt keeps_ignore keeps_intros

lemma keeps_probes:
  "keeps (probe_command mc args)" "keeps (probe_output ph r)" "keeps (disk_snapshot mc ph d)"
  "keeps (disk_sector_size mc x ph)" "keeps (exec_validate_target_disk mc x ph)"
proof -
  show p: "keeps (probe_command mc args)" for mc :: "'w exec_machine" and args
    by (auto simp: probe_command_def intro!: keeps_rules P_probe)
  show o: "keeps (probe_output ph r :: ('w, string) exec)" for ph r
    by (cases r) (auto simp: probe_output_def intro!: keeps_rules)
  show "keeps (disk_snapshot mc ph d)" for mc :: "'w exec_machine"
    by (auto simp: disk_snapshot_def intro!: keeps_rules p o)
  show "keeps (disk_sector_size mc x ph)" for mc :: "'w exec_machine"
    by (auto simp: disk_sector_size_def intro!: keeps_rules p o)
  show "keeps (exec_validate_target_disk mc x ph)" for mc :: "'w exec_machine"
    by (auto simp: exec_validate_target_disk_def intro!: keeps_rules P_guard)
qed

lemma keeps_any_probe: "keeps (any_probe mc programs)"
  by (induction programs) (auto intro!: keeps_rules)

lemma keeps_preflight: "keeps (check_storage_preflight mc x ph)"
  by (auto simp: check_storage_preflight_def check_tpm_preflight_def Let_def intro!: keeps_rules keeps_probes keeps_any_probe)

lemma keeps_open_journal: "keeps (open_durable_journal mc x ph)"
  by (auto simp: open_durable_journal_def esp_mount_probe_def Let_def split: sum.split intro!: keeps_rules keeps_probes)

lemma keeps_journal_completed: "keeps (journal_completed mc ph n)"
  by (auto simp: journal_completed_def split: option.split intro!: keeps_rules)

lemma keeps_save: "keeps (save_transaction mc x ph)" "keeps (record_step mc x kind status target ph)"
  by (auto simp: save_transaction_def record_step_def append_partition_step_def Let_def split: option.split intro!: keeps_rules)

lemma keeps_call_helper:
  assumes "P (Requested token r)" and "P (Performed r)"
  shows "keeps (call_helper mc token r)"
  using assms by (auto simp: keeps_def only_def call_helper_def split: prod.split)

lemma keeps_helper:
  assumes "P (Requested token r)" and "P (Performed r)"
  shows "keeps (helper_with_step mc x ph token r kind target)"
  by (auto simp: helper_with_step_def intro!: keeps_rules keeps_save keeps_call_helper assms)

lemma keeps_disk_helper:
  assumes "P (Requested token (DiskHelper r))" and "P (Performed (DiskHelper r))"
  shows "keeps (execute_disk_helper mc x ph token r)"
  by (simp add: execute_disk_helper_def keeps_helper assms)

lemma keeps_stream_helper:
  assumes "P (Requested token (StreamHelper r))" and "P (Performed (StreamHelper r))"
  shows "keeps (execute_stream_helper mc x ph token r step)"
  by (auto simp: execute_stream_helper_def Let_def intro!: keeps_rules keeps_helper assms)

lemma keeps_record_journal: "P (Journalled n st) \<Longrightarrow> keeps (record_journal mc ph n st)"
  by (auto simp: record_journal_def split: option.split intro!: keeps_rules)

lemma keeps_run_all: "(\<And>m. m \<in> set ms \<Longrightarrow> keeps m) \<Longrightarrow> keeps (run_all ms)"
  by (induction ms) (auto intro!: keeps_rules)

lemma keeps_mounts: "keeps (register_mount p)" "keeps (release_mount p)"
  by (auto simp: register_mount_def release_mount_def intro!: keeps_rules)

lemma keeps_esp_journal:
  assumes "\<And>r. r = EnsureDirectory ESP_SCRATCH_MOUNTPOINT \<or> (\<exists>d. r = MountFilesystem d ESP_SCRATCH_MOUNTPOINT [] False) \<Longrightarrow>
      P (Requested token (DiskHelper r)) \<and> P (Performed (DiskHelper r))"
  shows "keeps (ensure_esp_journal mc x ph token)"
  using assms
  by (auto simp: ensure_esp_journal_def Let_def split: option.split
      intro!: keeps_rules keeps_probes keeps_run_all keeps_disk_helper keeps_mounts)

lemma keeps_with_lock:
  assumes "\<And>a. P (Locked a)" and "P Unlocked" and "keeps m"
  shows "keeps (with_disk_lock mc x ph m)"
  by (auto simp: with_disk_lock_def intro!: keeps_rules assms)

lemma keeps_run_guarded:
  assumes "keeps body" and "keeps restore"
  shows "keeps (run_guarded body restore)"
  unfolding keeps_def
proof
  fix s
  obtain r t where b: "body s = (r, t)" by fastforce
  obtain r' u where e: "restore t = (r', u)" by fastforce
  have "only s t" and "only t u" using keepsD [OF assms(1) b] keepsD [OF assms(2) e] by simp_all
  then show "only s (snd (run_guarded body restore s))"
    using R_trans [of s t u] by (cases r; cases r') (simp_all add: run_guarded_def b e)
qed

lemma keeps_guarded:
  assumes "\<And>a. P (Locked a)" and "P Unlocked" and "\<And>d. P (BackupDropped d)" and "keeps m"
    and "\<And>d p. P (Requested FreshToken (DiskHelper (BackupTable d p))) \<and> P (Performed (DiskHelper (BackupTable d p)))"
    and "\<And>d p. P (Requested FreshToken (DiskHelper (RestoreTable d p))) \<and> P (Performed (DiskHelper (RestoreTable d p)))"
  shows "keeps (guarded_table_mutation mc x ph m)"
  using assms
  by (auto simp: guarded_table_mutation_def backed_up_mutation_def Let_def split: sum.split option.split
      intro!: keeps_rules keeps_with_lock keeps_probes keeps_run_guarded keeps_disk_helper)

lemma keeps_create:
  assumes "\<And>e. table_event e \<Longrightarrow> P e"
  shows "keeps (create_target_partition mc x ph token a b n)"
  by (auto simp: create_target_partition_def create_bios_boot_def Let_def
      intro!: keeps_rules keeps_probes keeps_disk_helper assms)

lemma keeps_resume: "keeps (ntfs_shrink_resume_window mc x ph snap probe n)"
  by (auto simp: ntfs_shrink_resume_window_def Let_def split: option.split intro!: keeps_rules keeps_journal_completed)

lemma keeps_ntfs:
  assumes "\<And>e. table_event e \<Longrightarrow> P e"
  shows "keeps (shrink_ntfs mc x ph token part probe new_size n)"
  by (auto simp: shrink_ntfs_def shrink_ntfs_filesystem_def fresh_boundary_def finish_shrink_def Let_def
      intro!: keeps_rules keeps_probes keeps_disk_helper keeps_stream_helper keeps_record_journal keeps_create assms)

lemma keeps_resize:
  assumes "\<And>e. table_event e \<Longrightarrow> P e"
  shows "keeps (resize_ntfs_target mc x ph token)"
  by (auto simp: resize_ntfs_target_def Let_def split: option.split prod.split
      intro!: keeps_rules keeps_probes keeps_create keeps_resume keeps_ntfs keeps_esp_journal assms)

lemma keeps_requested: "keeps (requested_target mc x ph)"
  by (auto simp: requested_target_def Let_def intro!: keeps_rules keeps_probes)

lemma keeps_journalled:
  assumes "\<And>e. table_event e \<Longrightarrow> P e" and "\<And>st. P (Journalled ''partition_table'' st)" and "keeps m"
  shows "keeps (journalled_mutation mc x ph m)"
  by (auto simp: journalled_mutation_def intro!: keeps_rules keeps_record_journal keeps_guarded assms)

lemma keeps_storage_target:
  assumes "\<And>e. table_event e \<Longrightarrow> P e" and "\<And>st. P (Journalled ''partition_table'' st)"
  shows "keeps (storage_target mc x ph token)"
  by (auto simp: storage_target_def free_space_target_def Let_def
      intro!: keeps_rules keeps_probes keeps_requested keeps_journalled keeps_resize keeps_create assms)

lemma keepsE:
  assumes "keeps m" and "m s = (r, t)"
  obtains es where "xs_trace t = xs_trace s @ es" and "list_all P es"
  using keepsD [OF assms] by (auto simp: only_def)

end

section \<open>Steps that only look\<close>

text \<open>Events that neither ask the helper for anything nor write the journal.\<close>

fun quiet :: "phase_effect \<Rightarrow> bool" where
  "quiet (Requested _ _) = False"
| "quiet (Performed _) = False"
| "quiet (Journalled _ _) = False"
| "quiet _ = True"

interpretation looks: exec_events quiet
  by unfold_locales simp_all

interpretation anything: exec_events "\<lambda>_. True"
  by unfold_locales simp_all

lemma keeps_prepare: "anything.keeps (prepare_btrfs_target mc x ph token target)"
  by (auto simp: prepare_btrfs_target_def setup_btrfs_target_def confirm_target_def temporary_setup_def mount_efi_def Let_def split: option.split
      intro!: anything.keeps_rules anything.keeps_with_lock anything.keeps_probes anything.keeps_run_all anything.keeps_disk_helper
        anything.keeps_record_journal anything.keeps_mounts anything.keeps_esp_journal)

lemmas exec_defs = exec_call_def exec_ask_def exec_get_def exec_fail_def exec_res_def exec_files_def exec_log_def exec_set_def

lemma exec_steps [simp]:
  "exec_ask g s = (Inr (g (xs_world s)), s)" "exec_get h s = (Inr (h s), s)" "exec_set u s = (Inr (), u s)"
  "exec_log ev s = (Inr (), s\<lparr>xs_trace := xs_trace s @ [ev]\<rparr>)" "exec_fail ph e s = (Inl (Execution ph e), s)"
  "exec_res ph k r s = (map_err (\<lambda>e. Execution ph (k e)) r, s)"
  "exec_call f s = (Inr (fst (f (xs_world s))), s\<lparr>xs_world := snd (f (xs_world s))\<rparr>)"
  by (simp_all add: exec_defs split_beta)

lemma validate_ok:
  assumes "exec_validate_target_disk mc x ph s = (Inr u, t)"
  shows "\<exists>g. xs_trace t = xs_trace s @ [Guarded g] \<and>
     validate_target_disk_with_identity g (plan_disk (xe_plan x)) (target_disk_identity x) = Inr ()"
  using assms by (auto simp: exec_validate_target_disk_def)

lemma probe_command_step:
  "probe_command mc args s = (Inr (fst (xm_cmd mc args (xs_world s))),
     s\<lparr>xs_world := snd (xm_cmd mc args (xs_world s)), xs_trace := xs_trace s @ [Probed args (fst (xm_cmd mc args (xs_world s)))]\<rparr>)"
  by (simp add: probe_command_def then_do_def)

lemma probe_output_ok: "probe_output ph r s = (Inr out, t) \<longleftrightarrow> r = Output out \<and> t = s"
  by (cases r) (auto simp: probe_output_def)

lemma snapshot_ok:
  assumes "disk_snapshot mc ph d s = (Inr snap, t)"
  shows "\<exists>out. xs_trace t = xs_trace s @ [Probed (SNAPSHOT_ARGS @ [d]) (Output out)] \<and> snap = xm_decode mc out"
  using assms by (auto simp: disk_snapshot_def probe_command_step probe_output_ok)

lemma sector_ok:
  assumes "disk_sector_size mc x ph s = (Inr n, t)"
  shows "\<exists>out. xs_trace t = xs_trace s @ [Probed [''/usr/sbin/blockdev'', ''--getss'', plan_disk (xe_plan x)] (Output out)] \<and>
     valid_sector_size n = Inr ()"
  using assms by (auto simp: disk_sector_size_def probe_command_step probe_output_ok valid_sector_size_def guard_def split: if_splits)

lemma preflight_ok:
  assumes "check_storage_preflight mc x ph s = (Inr u, t)"
  shows "\<exists>es out n pf. xs_trace t = xs_trace s @ es \<and> list_all quiet es \<and>
     Probed (SNAPSHOT_ARGS @ [plan_disk (xe_plan x)]) (Output out) \<in> set es \<and>
     storage_preflight_from_snapshot (xm_decode mc out) (plan_disk (xe_plan x)) n = Inr pf \<and>
     validate_storage_preflight pf (plan_mode (xe_plan x)) = Inr ()"
proof -
  from assms obtain s1 s2 s3 n snap pf where
      st: "check_tpm_preflight mc x ph s = (Inr (), s1)" "disk_sector_size mc x ph s1 = (Inr n, s2)"
        "disk_snapshot mc ph (plan_disk (xe_plan x)) s2 = (Inr snap, s3)"
      and pf: "storage_preflight_from_snapshot snap (plan_disk (xe_plan x)) n = Inr pf"
        "validate_storage_preflight pf (plan_mode (xe_plan x)) = Inr ()" and t: "t = s3"
    by (auto simp: check_storage_preflight_def Let_def)
  have "looks.keeps (check_tpm_preflight mc x ph)"
    by (auto simp: check_tpm_preflight_def intro!: looks.keeps_rules looks.keeps_any_probe)
  from looks.keepsE [OF this st(1)] obtain e1 where e1: "xs_trace s1 = xs_trace s @ e1" "list_all quiet e1" .
  from sector_ok [OF st(2)] obtain o1 where o1: "xs_trace s2 = xs_trace s1 @ [Probed [''/usr/sbin/blockdev'', ''--getss'', plan_disk (xe_plan x)] (Output o1)]" by blast
  from snapshot_ok [OF st(3)] obtain o2 where o2: "xs_trace s3 = xs_trace s2 @ [Probed (SNAPSHOT_ARGS @ [plan_disk (xe_plan x)]) (Output o2)]"
      "snap = xm_decode mc o2" by blast
  show ?thesis
    by (rule exI [of _ "e1 @ [_, _]"], rule exI [of _ o2], rule exI [of _ n], rule exI [of _ pf])
      (use e1 o1 o2 pf t in auto)
qed

section \<open>What one helper call and one lock add\<close>

lemma record_step_trace: "record_step mc x kind status target ph s = (r, t) \<Longrightarrow> xs_trace t = xs_trace s"
  by (auto simp: record_step_def append_partition_step_def save_transaction_def then_do_def exec_files_def Let_def
      split: option.splits prod.splits sum.splits)

lemma call_helper_answers: "\<exists>answer t. call_helper mc token req s = (Inr answer, t)"
  by (simp add: call_helper_def split: prod.split)

lemma call_helper_trace:
  assumes "call_helper mc token req s = (Inr answer, t)"
  shows "(answer = Inr (Some 0) \<and> xs_trace t = xs_trace s @ [Requested token req, Performed req]) \<or>
    (\<exists>e. answer = Inl e) \<and> (xs_trace t = xs_trace s \<or> xs_trace t = xs_trace s @ [Requested token req])"
proof -
  obtain c w d where h: "xm_helper mc token req (xs_world s, xs_files s) = (c, w, d)" by (metis prod_cases3)
  obtain res k l where run: "run_command_with_input c = (res, k, l)" by (metis prod_cases3)
  show ?thesis
  proof (cases res)
    case (Inr code)
    with run_input_ok run have "code = Some 0" "ch_spawned c" by auto
    with assms h run Inr show ?thesis by (auto simp: call_helper_def)
  next
    case (Inl e)
    with assms h run show ?thesis by (auto simp: call_helper_def split: if_splits)
  qed
qed

text \<open>A helper call that succeeds was asked for and performed; one that fails was at most asked for, or
  performed when only its record could not be written.\<close>

lemma helper_events:
  assumes "helper_with_step mc x ph token req kind target s = (r, t)"
  shows "xs_trace t = xs_trace s @ [Requested token req, Performed req] \<or>
    (\<exists>e. r = Inl e) \<and> (xs_trace t = xs_trace s \<or> xs_trace t = xs_trace s @ [Requested token req])"
proof -
  obtain r1 s1 where a: "record_step mc x kind ''started'' target ph s = (r1, s1)" by fastforce
  obtain answer s2 where b: "call_helper mc token req s1 = (Inr answer, s2)"
    using call_helper_answers by blast
  obtain r3 s3 where c: "record_step mc x kind ''completed'' target ph s2 = (r3, s3)" by fastforce
  note tr = record_step_trace [OF a] record_step_trace [OF c] call_helper_trace [OF b]
  show ?thesis
  proof (cases r1)
    case (Inl e)
    with assms a tr show ?thesis by (auto simp: helper_with_step_def then_do_def)
  next
    case (Inr u)
    with assms a b c tr show ?thesis
      by (auto simp: helper_with_step_def then_do_def map_err_def split: sum.splits)
  qed
qed

lemma disk_helper_events:
  assumes "execute_disk_helper mc x ph token op s = (r, t)"
  shows "xs_trace t = xs_trace s @ [Requested token (DiskHelper op), Performed (DiskHelper op)] \<or>
    (\<exists>e. r = Inl e) \<and> (xs_trace t = xs_trace s \<or> xs_trace t = xs_trace s @ [Requested token (DiskHelper op)])"
  using helper_events [of mc x ph token "DiskHelper op"] assms by (simp add: execute_disk_helper_def)

lemma with_lock_events:
  assumes "with_disk_lock mc x ph m s = (r, t)"
  shows "(\<exists>e. r = Inl e \<and> xs_trace t = xs_trace s) \<or>
    (\<exists>a l s1 s2. acquire_disk_lock a (plan_disk (xe_plan x)) = Inr l \<and> xs_trace s1 = xs_trace s @ [Locked a] \<and>
       m s1 = (r, s2) \<and> xs_trace t = xs_trace s2 @ [Unlocked])"
proof -
  let ?a = "fst (xm_lock mc (xs_world s))"
  let ?s1 = "s\<lparr>xs_world := snd (xm_lock mc (xs_world s)), xs_trace := xs_trace s @ [Locked ?a]\<rparr>"
  obtain r2 s2 where m: "m ?s1 = (r2, s2)" by fastforce
  show ?thesis
  proof (cases "acquire_disk_lock ?a (plan_disk (xe_plan x))")
    case (Inl e)
    with assms show ?thesis by (auto simp: with_disk_lock_def then_do_def map_err_def)
  next
    case (Inr l)
    with assms m have "r = r2" "xs_trace t = xs_trace s2 @ [Unlocked]"
      by (auto simp: with_disk_lock_def then_do_def map_err_def attempt_def)
    moreover have "xs_trace ?s1 = xs_trace s @ [Locked ?a]" by simp
    ultimately show ?thesis using Inr m by blast
  qed
qed

lemma record_journal_events:
  assumes "record_journal mc ph n st s = (r, t)"
  shows "(r = Inr () \<and> xs_trace t = xs_trace s @ [Journalled n st]) \<or> ((\<exists>e. r = Inl e) \<and> xs_trace t = xs_trace s)"
  using assms by (auto simp: record_journal_def then_do_def exec_files_def map_err_def split: option.splits prod.splits sum.splits)

end
