(* ===== verification/Phase_Runs.thy ===== *)
theory Phase_Runs
  imports Phase_Events
begin

text \<open>
  Concrete runs of the storage phase: a machine with one disk, a disk of files without faults, and what
  the phase does on them.  The theorems of \<open>Phase_Safety\<close> are applied to these runs.
\<close>

section \<open>The machine\<close>

text \<open>A disk with a mounted ESP, an empty partition large enough for the system and an NTFS partition.\<close>

definition esp_part :: lsblk_device where
  "esp_part = LsblkDevice
     (blank_fields\<lparr>ld_name := Some ''/dev/sda1'', ld_partn := Some 1, ld_size := Some 10737418240,
        ld_device_type := Some ''part'', ld_start := Some 2048, ld_fstype := Some ''vfat'',
        ld_parttype := Some EFI_PART_GUID, ld_partuuid := Some ''ab-01'', ld_mountpoint := Some ''/e''\<rparr>) []"

definition ntfs_part :: lsblk_device where
  "ntfs_part = LsblkDevice
     (blank_fields\<lparr>ld_name := Some ''/dev/sda3'', ld_partn := Some 3, ld_size := Some 214748364800,
        ld_device_type := Some ''part'', ld_start := Some 209717248, ld_fstype := Some ''ntfs'', ld_partuuid := Some ''ab-03''\<rparr>) []"

definition install_snapshot :: lsblk_text where
  "install_snapshot = Inr [LsblkDevice
     (blank_fields\<lparr>ld_name := Some ''/dev/sda'', ld_size := Some 429496729600,
        ld_device_type := Some ''disk'', ld_pttype := Some ''gpt''\<rparr>) [esp_part, candidate_part, ntfs_part]]"

definition phase_machine :: "journal_op \<Rightarrow> (helper_request \<Rightarrow> int) \<Rightarrow> unit exec_machine" where
  "phase_machine r code =
     \<lparr>xm_cmd = (\<lambda>args w. (if hd args = ''/usr/sbin/blockdev'' then Output ''512'' else Output ''{}'', w)),
      xm_decode = (\<lambda>_. install_snapshot), xm_guard = (\<lambda>w. (guard_sample, w)), xm_lock = (\<lambda>w. (lock_sample, w)),
      xm_helper = (\<lambda>token request (w, d). (sample_child (code request), w, d)), xm_run = (\<lambda>_ w. (sample_child 0, w)),
      xm_exists = (\<lambda>_ _. True), xm_tempdir = (\<lambda>w. (Some ''/tmp/b'', w)), xm_supplies = (\<lambda>_. AcMissing),
      xm_power = (\<lambda>_. power_pass NoConstraint), xm_power_detail = (\<lambda>_. []), xm_clock = (\<lambda>_. Some 5), xm_cancelled = (\<lambda>_. False),
      xm_enc = sample_enc r, xm_dec = sample_dec r, xm_transaction = (\<lambda>_. JNull), xm_pretty = (\<lambda>_. ''{}''),
      xm_failure_path = ''/run/kyth-installer/txn/failure.json''\<rparr>"

definition phase_executor :: "string \<Rightarrow> executor" where
  "phase_executor mode =
     \<lparr>xe_plan = (projr (build_plan sample_input))\<lparr>plan_mode := mode, plan_target_partition := Some ''/dev/sda2''\<rparr>,
      xe_encryption = [], xe_transaction_path = ''/run/kyth-installer/txn/t.json''\<rparr>"

definition phase_disk :: disk where
  "phase_disk = sample_disk\<lparr>dk_entries := [path_key ''/e/.kyth-install-journal.json'' \<mapsto> NFile 0, path_key ''/e'' \<mapsto> NDir, transaction_dir \<mapsto> NDir]\<rparr>"

definition phase_state :: "unit exec_state" where
  "phase_state = \<lparr>xs_world = (), xs_files = phase_disk, xs_trace = [], xs_transaction = sample_state, xs_mounts = [], xs_target = None,
     xs_journal = None\<rparr>"

lemma normalize_ntfs_part: "storage_normalize ''/dev/sda3'' = Some ''/dev/sda3''"
  by (simp add: storage_normalize_def Let_def path_char_def str_simps)

lemmas install_simps = install_snapshot_def esp_part_def ntfs_part_def candidate_part_def blank_fields_def device_name_def
  normalize_samples normalize_sda2 normalize_ntfs_part is_disk_def parse_snapshot_def

lemma install_partitions:
  "\<exists>p1 p2 p3. parse_partitions install_snapshot 512 = Inr [p1, p2, p3] \<and> pr_name p1 = ''/dev/sda1'' \<and> pr_name p2 = ''/dev/sda2'' \<and>
     pr_name p3 = ''/dev/sda3'' \<and> pr_efi p1 \<and> pr_mountpoints p1 = [''/e''] \<and> \<not> pr_efi p2 \<and> \<not> pr_efi p3 \<and>
     list_all (\<lambda>p. \<not> bitlocker_indicator p) [p1, p2, p3] \<and>
     list_all (\<lambda>p. \<not> eq_ignore_ascii_case (pr_parttype p) BIOS_BOOT_GUID) [p1, p2, p3] \<and>
     map pr_start_bytes [p1, p2, p3] = [1048576, 10738466816, 107375230976] \<and>
     map pr_size_bytes [p1, p2, p3] = [10737418240, 42949672960, 214748364800]"
  by (simp add: parse_partitions_def install_simps partition_record_of_def mountpoints_def bitlocker_indicator_def
      saturating_mul_def u64_max_def EFI_PART_GUID_def valid_512 is_ntfs_def NTFS_MIN_BYTES_def MIN_KYTHOS_BYTES_def
      foreign_data_reason_def FOREIGN_DATA_FSTYPES_def BIOS_BOOT_GUID_def str_simps)

lemma install_on_disk:
  "on_selected_disk ''/dev/sda1'' ''/dev/sda''" "on_selected_disk ''/dev/sda2'' ''/dev/sda''" "on_selected_disk ''/dev/sda3'' ''/dev/sda''"
  by (simp_all add: on_selected_disk_def str_simps)

lemma install_mount: "first_safe_mountpoint [''/e''] = Some ''/e''"
  by (simp add: first_safe_mountpoint_def str_simps)

lemma install_esp:
  "efi_partition_from_snapshot install_snapshot ''/dev/sda'' 512 = Inr (Some \<lparr>efi_name = ''/dev/sda1'', mounted_at = Some ''/e''\<rparr>)"
proof -
  obtain p1 p2 p3 where "parse_partitions install_snapshot 512 = Inr [p1, p2, p3]" "pr_name p1 = ''/dev/sda1''" "pr_efi p1"
      "pr_mountpoints p1 = [''/e'']" "\<not> pr_efi p2" "\<not> pr_efi p3" using install_partitions by blast
  then show ?thesis
    by (simp add: efi_partition_from_snapshot_def normalize_samples efi_candidates_def resolve_esp_def install_on_disk install_mount)
qed

lemma install_preflight:
  "\<exists>pf. storage_preflight_from_snapshot install_snapshot ''/dev/sda'' 512 = Inr pf \<and> validate_storage_preflight pf mode = Inr ()"
proof -
  obtain p1 p2 p3 where p: "parse_partitions install_snapshot 512 = Inr [p1, p2, p3]" "pr_name p1 = ''/dev/sda1''" "pr_name p2 = ''/dev/sda2''"
      "pr_name p3 = ''/dev/sda3''" "pr_efi p1" "\<not> pr_efi p2" "\<not> pr_efi p3" "list_all (\<lambda>p. \<not> bitlocker_indicator p) [p1, p2, p3]"
    using install_partitions by blast
  then show ?thesis
    by (simp add: storage_preflight_from_snapshot_def normalize_samples efi_candidates_def resolve_esp_def install_on_disk
        validate_storage_preflight_def)
qed

lemma install_target:
  "\<exists>probe. validate_replace_target install_snapshot ''/dev/sda'' ''/dev/sda2'' role 512 = Inr probe \<and> pp_name probe = ''/dev/sda2''"
  by (simp add: validate_replace_target_def partition_probe_from_snapshot_def install_simps valid_512 probe_of_def mountpoints_def
      MIN_KYTHOS_BYTES_def foreign_data_reason_def FOREIGN_DATA_FSTYPES_def EFI_PART_GUID_def saturating_mul_def u64_max_def str_simps)

lemma install_ntfs:
  "\<exists>probe. partition_probe_from_snapshot install_snapshot ''/dev/sda'' ''/dev/sda3'' 512 = Inr probe \<and> is_ntfs (pp_fstype probe) \<and>
     \<not> (pp_efi probe \<or> pp_current probe \<or> pp_in_use probe \<or> pp_read_only probe) \<and> pp_size_bytes probe = 214748364800 \<and>
     pp_start_bytes probe = 107375230976 \<and> pp_number probe = 3"
  by (simp add: partition_probe_from_snapshot_def install_simps valid_512 probe_of_def mountpoints_def is_ntfs_def
      EFI_PART_GUID_def saturating_mul_def u64_max_def str_simps)

text \<open>The steps that only look, as they run on this machine.\<close>

definition logged :: "phase_effect list \<Rightarrow> 'w exec_state \<Rightarrow> 'w exec_state" where
  "logged es s = s\<lparr>xs_trace := xs_trace s @ es\<rparr>"

lemma logged_logged [simp]: "logged es (logged ds s) = logged (ds @ es) s"
  by (simp add: logged_def)

lemma unit_world: "s\<lparr>xs_world := u\<rparr> = (s :: unit exec_state)"
  by (cases s) simp

definition size_probe :: phase_effect where
  "size_probe = Probed [''/usr/sbin/blockdev'', ''--getss'', ''/dev/sda''] (Output ''512'')"

definition tree_probe :: phase_effect where
  "tree_probe = Probed (SNAPSHOT_ARGS @ [''/dev/sda'']) (Output ''{}'')"

lemma phase_plan [simp]:
  "plan_disk (xe_plan (phase_executor mode)) = ''/dev/sda''" "plan_mode (xe_plan (phase_executor mode)) = mode"
  "plan_target_partition (xe_plan (phase_executor mode)) = Some ''/dev/sda2''"
  "plan_resize_partition (xe_plan (phase_executor mode)) = Some ''/dev/sda3''"
  "plan_resize_bytes (xe_plan (phase_executor mode)) = 68719476736" "xe_encryption (phase_executor mode) = []"
  "xe_transaction_path (phase_executor mode) = ''/run/kyth-installer/txn/t.json''"
  "plan_pre_shrink_bytes (xe_plan (phase_executor mode)) = None"
  "target_disk_identity (phase_executor mode) = \<lparr>id_serial = None, id_model = None, id_size_bytes = None\<rparr>"
  by (simp_all add: phase_executor_def sample_plan target_disk_identity_def)

lemma guard_passes:
  "validate_target_disk_with_identity guard_sample ''/dev/sda'' \<lparr>id_serial = None, id_model = None, id_size_bytes = None\<rparr> = Inr ()"
proof -
  have "verify_disk_identity (probe_identity guard_sample) ''/dev/sda'' \<lparr>id_serial = None, id_model = None, id_size_bytes = None\<rparr> = Inr ()"
    by (simp add: guard_sample_def verify_disk_identity_def
        verify_disk_identity_in_snapshot_def identity_device_def candidate_simps str_simps)
  with guard_sample_passes show ?thesis
    by (simp add: validate_target_disk_with_identity_def validate_target_disk_inner_def normalized_def normalize_plan_sda)
qed

lemma parse_512: "parse_u64 (trim ''512'') = Some 512"
  by (simp add: parse_u64_def parse_unsigned_def Let_def all_digits_def digits_value_def u64_max_def str_simps)

lemma phase_looks:
  fixes s :: "unit exec_state"
  shows "exec_validate_target_disk (phase_machine r code) (phase_executor mode) ph s = (Inr (), logged [Guarded guard_sample] s)"
    and "disk_sector_size (phase_machine r code) (phase_executor mode) ph s = (Inr 512, logged [size_probe] s)"
    and "disk_snapshot (phase_machine r code) ph ''/dev/sda'' s = (Inr install_snapshot, logged [tree_probe] s)"
proof -
  show "exec_validate_target_disk (phase_machine r code) (phase_executor mode) ph s = (Inr (), logged [Guarded guard_sample] s)"
    using guard_passes
    by (simp add: exec_validate_target_disk_def then_do_def logged_def unit_world phase_machine_def)
  have "is_power_of_two 512" by (simp add: is_power_of_two.simps)
  then show "disk_sector_size (phase_machine r code) (phase_executor mode) ph s = (Inr 512, logged [size_probe] s)"
    by (simp add: disk_sector_size_def probe_command_step then_do_def probe_output_def logged_def size_probe_def unit_world parse_512 phase_machine_def)
  show "disk_snapshot (phase_machine r code) ph ''/dev/sda'' s = (Inr install_snapshot, logged [tree_probe] s)"
    by (simp add: disk_snapshot_def probe_command_step then_do_def probe_output_def logged_def tree_probe_def unit_world SNAPSHOT_ARGS_def phase_machine_def)
qed

lemma phase_fields [simp]:
  "xm_enc (phase_machine r code) = sample_enc r" "xm_dec (phase_machine r code) = sample_dec r" "xm_clock (phase_machine r code) w = Some 5"
  "xm_decode (phase_machine r code) out = install_snapshot" "xm_supplies (phase_machine r code) w = AcMissing"
  "xm_cancelled (phase_machine r code) w = False"
  "xm_lock (phase_machine r code) w = (lock_sample, w)" "xm_tempdir (phase_machine r code) w = (Some ''/tmp/b'', w)"
  "xm_helper (phase_machine r code) token q (w, d) = (sample_child (code q), w, d)"
  by (simp_all add: phase_machine_def)

lemma phase_esp:
  fixes s :: "unit exec_state"
  shows "esp_mount_probe (phase_machine r code) (phase_executor mode) ph s = (Inr (Some ''/e''), logged [size_probe, tree_probe] s)"
  by (simp add: esp_mount_probe_def then_do_def attempt_def phase_looks install_esp Let_def)

lemma phase_preflight:
  fixes s :: "unit exec_state"
  shows "check_storage_preflight (phase_machine r code) (phase_executor mode) ph s = (Inr (), logged [size_probe, tree_probe] s)"
  using install_preflight [of mode]
  by (auto simp: check_storage_preflight_def check_tpm_preflight_def then_do_def phase_looks Let_def str_simps)

text \<open>The files: a disk without faults on which journal and transaction can be written.\<close>

definition ready :: "disk \<Rightarrow> bool" where
  "ready d \<longleftrightarrow> faultless d \<and> dk_entries d transaction_dir = Some NDir \<and>
     writable (path_key ''/run/kyth-installer/txn/t.json'') d \<and> writable (path_key ''/run/kyth-installer/txn/t.json.tmp'') d"

definition recordable :: "journal_op \<Rightarrow> disk \<Rightarrow> bool" where
  "recordable r d \<longleftrightarrow> ready d \<and> journal_at (sample_dec r) d ''/e/.kyth-install-journal.json'' = Some [] \<and>
     dk_entries d (path_key ''/e/.kyth-install-journal.json.tmp'') = None"

definition with_files :: "disk \<Rightarrow> transaction_state \<Rightarrow> 'w exec_state \<Rightarrow> 'w exec_state" where
  "with_files d tx s = s\<lparr>xs_files := d, xs_transaction := tx\<rparr>"

lemma with_files_simps [simp]:
  "xs_trace (with_files d tx s) = xs_trace s" "xs_files (with_files d tx s) = d" "xs_journal (with_files d tx s) = xs_journal s"
  "with_files d tx (with_files d' tx' s) = with_files d tx s" "logged es (with_files d tx s) = with_files d tx (logged es s)"
  "xs_trace (logged es s) = xs_trace s @ es" "xs_files (logged es s) = xs_files s" "xs_journal (logged es s) = xs_journal s"
  by (simp_all add: with_files_def logged_def)

lemma ready_disk: "recordable r phase_disk"
proof -
  have "ready phase_disk"
    using sample_faultless
    by (simp add: ready_def phase_disk_def faultless_def writable_def runtime_paths sample_paths transaction_dir_def)
  moreover have "journal_at (sample_dec r) phase_disk ''/e/.kyth-install-journal.json'' = Some []"
    using sample_empty [of r] by (simp add: phase_disk_def journal_at_def content_def sample_disk_def sample_paths transaction_dir_def)
  ultimately show ?thesis by (simp add: recordable_def phase_disk_def sample_paths transaction_dir_def)
qed

lemma recordable_load:
  assumes "recordable r d" and "load (sample_dec r) p d = (Inr ops, t)"
  shows "recordable r t"
proof -
  have same: "same_disk d t" using load_ok [OF assms(2)] by simp
  moreover have "faultless t" using calm.keepsD [OF load_calm assms(2)] assms(1) by (simp add: recordable_def ready_def)
  moreover have "dk_entries t = dk_entries d" using same by (simp add: same_disk_def)
  ultimately show ?thesis using assms(1) same_disk_journal [OF same] by (simp add: recordable_def ready_def writable_def)
qed

lemma phase_save:
  fixes s :: "unit exec_state"
  assumes "ready (xs_files s)"
  shows "\<exists>d. save_transaction (phase_machine r code) (phase_executor mode) ph s = (Inr (), with_files d (xs_transaction s) s) \<and> ready d"
proof -
  let ?p = "''/run/kyth-installer/txn/t.json''"
  have a: "faultless (xs_files s)" "dk_entries (xs_files s) (path_key ''/run/kyth-installer/txn'') = Some NDir"
      "writable (path_key ?p) (xs_files s)" "writable (path_key (transaction_temporary ?p)) (xs_files s)"
      "path_key (transaction_temporary ?p) \<noteq> path_key ?p"
    using assms by (simp_all add: ready_def runtime_paths)
  obtain d where d: "write_json (\<lambda>_. ''{}'') ?p JNull (xs_files s) = (Inr (), d)" "faultless d" "writable (path_key ?p) d"
      "writable (path_key (transaction_temporary ?p)) d"
      "\<forall>k. k \<noteq> path_key ?p \<longrightarrow> k \<noteq> path_key (transaction_temporary ?p) \<longrightarrow> dk_entries d k = dk_entries (xs_files s) k"
    using write_json_faultless [OF a(1) runtime_paths(2) a(2-5), of "\<lambda>_. ''{}''" JNull] by blast
  have "ready d" using assms d by (simp add: ready_def runtime_paths sample_paths transaction_dir_def)
  moreover have "write_request (\<lambda>_. JNull) (\<lambda>_. ''{}'') ?p st (xs_files s) = (Inr (), d)" for st
    using d(1) by (simp add: write_request_def then_do_def runtime_paths(1))
  ultimately show ?thesis
    by (intro exI [of _ d]) (simp add: then_do_def save_transaction_def exec_files_def with_files_def phase_machine_def)
qed

lemma phase_open:
  fixes s :: "unit exec_state"
  assumes "xs_files s = phase_disk"
  shows "\<exists>d. open_durable_journal (phase_machine r code) (phase_executor mode) ph s =
      (Inr (), (with_files d (xs_transaction s) (logged [size_probe, tree_probe] s))\<lparr>xs_journal := Some ''/e/.kyth-install-journal.json''\<rparr>) \<and>
      recordable r d"
proof -
  let ?d1 = "phase_disk\<lparr>dk_calls := Suc 0\<rparr>" and ?d2 = "phase_disk\<lparr>dk_calls := Suc (Suc 0)\<rparr>" and ?d3 = "phase_disk\<lparr>dk_calls := Suc (Suc (Suc 0))\<rparr>"
  let ?p = "''/e/.kyth-install-journal.json''"
  have f: "faultless phase_disk" using ready_disk [of r] by (simp add: recordable_def ready_def)
  have e: "dk_entries phase_disk (path_key ''/e'') = Some NDir" "dk_entries phase_disk (path_key ?p) = Some (NFile 0)" "dk_calls phase_disk = 0"
    by (simp_all add: phase_disk_def sample_disk_def sample_paths transaction_dir_def)
  have 1: "fs_create_dir_all ''/e'' DirectoryNotCreated phase_disk = (Inr (), ?d1)"
    using f e by (simp add: fs_create_dir_all_def fs_call_faultless)
  have 2: "fs_stat ''/e'' ?d1 = ((Inr (Some (Some (NDir, 0))), ?d2) :: (durable_error, _) res \<times> disk)"
    using f e by (simp add: fs_stat_def fs_call_faultless)
  have 3: "\<exists>n. fs_stat ?p ?d2 = ((Inr (Some (Some (NFile 0, n))), ?d3) :: (durable_error, _) res \<times> disk)"
    using f e by (simp add: fs_stat_def fs_call_faultless)
  have d3: "recordable r ?d3"
    using ready_disk [of r] same_disk_journal [of phase_disk ?d3] by (simp add: recordable_def ready_def writable_def same_disk_def)
  then obtain d where d: "load (sample_dec r) ?p ?d3 = (Inr [], d)"
    using load_faultless [of ?d3 "sample_dec r" ?p "[]"] by (auto simp: recordable_def ready_def)
  have "open_journal (sample_enc r) (sample_dec r) (Some ''/e'') staging phase_disk = (Inr ?p, d)" for staging
    using 1 2 3 d by (auto simp: open_journal_def then_do_def sample_paths(3) sample_path [symmetric] Let_def)
  then show ?thesis
    using recordable_load [OF d3 d] assms
    by (intro exI [of _ d]) (simp add: open_durable_journal_def then_do_def phase_esp exec_files_def with_files_def logged_def Let_def)
qed

text \<open>Durable records and helper calls.\<close>

lemma phase_record:
  fixes s :: "unit exec_state"
  assumes s: "recordable r (xs_files s)" "xs_journal s = Some ''/e/.kyth-install-journal.json''" and name: "validated_op_name name = Inr name"
    and r: "r = \<lparr>jo_name = name, jo_started = 5, jo_completed = None\<rparr>"
  shows "\<exists>d. record_journal (phase_machine r code) ph name Started s =
      (Inr (), with_files d (xs_transaction s) (logged [Journalled name Started] s)) \<and> ready d"
proof -
  let ?p = "''/e/.kyth-install-journal.json''"
  have len: "length (sample_enc r (encode_state (apply_record name Started 5 []))) \<le> MAX_JOURNAL_BYTES"
    by (simp add: apply_record_def sample_enc_def MAX_JOURNAL_BYTES_def r)
  have a: "journal_at (sample_dec r) (xs_files s) ?p = Some []" "faultless (xs_files s)"
      "path_key (with_extension ?p ''json.tmp'') \<noteq> path_key ?p" "dk_entries (xs_files s) (path_key (with_extension ?p ''json.tmp'')) \<noteq> Some NDir"
    using s(1) by (simp_all add: recordable_def ready_def sample_paths)
  obtain d where
      d: "record_op (sample_enc r) (sample_dec r) (Some 5) ?p name Started (xs_files s) = (Inr (), d)" "faultless d"
        "\<forall>k. k \<noteq> path_key ?p \<longrightarrow> k \<noteq> path_key (with_extension ?p ''json.tmp'') \<longrightarrow> dk_entries d k = dk_entries (xs_files s) k"
    using record_op_faultless [OF sample_codec a(1) name len a(2) sample_paths(2,3) a(3,4)] by blast
  have "ready d" using s(1) d by (simp add: recordable_def ready_def writable_def runtime_paths sample_paths transaction_dir_def)
  then show ?thesis using s(2) d(1)
    by (intro exI [of _ d]) (simp add: record_journal_def then_do_def exec_files_def with_files_def logged_def)
qed

lemma phase_step:
  fixes s :: "unit exec_state"
  assumes "ready (xs_files s)"
  shows "\<exists>d tx. record_step (phase_machine r code) (phase_executor mode) kind status target ph s = (Inr (), with_files d tx s) \<and> ready d"
proof (cases kind)
  case None
  have "with_files (xs_files s) (xs_transaction s) s = s" by (simp add: with_files_def)
  with None assms show ?thesis by (intro exI [of _ "xs_files s"] exI [of _ "xs_transaction s"]) (simp add: record_step_def)
next
  case (Some k)
  let ?tx = "xs_transaction s\<lparr>tx_partition_steps := tx_partition_steps (xs_transaction s) @
      [partition_step (length (tx_partition_steps (xs_transaction s))) k status target]\<rparr>"
  have "ready (xs_files (with_files (xs_files s) ?tx s))" using assms by simp
  from phase_save [OF this, of r code mode ph] obtain d where
      "save_transaction (phase_machine r code) (phase_executor mode) ph (with_files (xs_files s) ?tx s) = (Inr (), with_files d ?tx s)" "ready d"
    by (auto simp: with_files_def)
  then show ?thesis using Some
    by (intro exI [of _ d] exI [of _ ?tx]) (simp add: record_step_def append_partition_step_def then_do_def with_files_def Let_def)
qed

lemma image_run:
  "\<exists>t. execute_phase_typed (phase_machine r code) (phase_executor mode) (\<lambda>_ _. return_ok ()) Image phase_state = (Inr (), t)"
proof -
  let ?m = "phase_machine r code" and ?x = "phase_executor mode"
  let ?tx = "xs_transaction phase_state\<lparr>tx_updated_at := nat_to_string 5, tx_status := ''image_complete'', tx_phase := phase_name Image,
      tx_lifecycle := ''installing'', tx_message := ''Operating system image written'', tx_recovery_required := False\<rparr>"
  let ?s = "with_files (xs_files phase_state) ?tx phase_state"
  have "ready (xs_files ?s)" using ready_disk by (simp add: phase_state_def recordable_def)
  from phase_save [OF this] obtain t where t: "save_transaction ?m ?x Image ?s = (Inr (), t)" by blast
  have "?s = phase_state\<lparr>xs_transaction := ?tx\<rparr>" by (simp add: with_files_def)
  with t have "write_transaction ?m ?x ''image_complete'' Image ''installing'' ''Operating system image written'' phase_state = (Inr (), t)"
    by (simp add: write_transaction_def then_do_def Let_def)
  then show ?thesis by (intro exI [of _ t]) (simp add: execute_phase_typed_def write_status_def then_do_def)
qed

lemma phase_helper:
  fixes s :: "unit exec_state"
  assumes "ready (xs_files s)"
  shows "code q = 0 \<Longrightarrow> \<exists>d tx. helper_with_step (phase_machine r code) (phase_executor mode) ph token q kind target s =
      (Inr (), with_files d tx (logged [Requested token q, Performed q] s)) \<and> ready d"
    and "code q = 3 \<Longrightarrow> \<exists>d tx e. helper_with_step (phase_machine r code) (phase_executor mode) ph token q kind target s =
      (Inl e, with_files d tx (logged [Requested token q] s)) \<and> ready d"
proof -
  let ?m = "phase_machine r code" and ?x = "phase_executor mode"
  obtain d tx where 1: "record_step ?m ?x kind ''started'' target ph s = (Inr (), with_files d tx s)" "ready d"
    using phase_step [OF assms] by blast
  have sp: "ch_spawned (sample_child n)" for n by (simp add: sample_child_def)
  {
    assume c: "code q = 0"
    have 2: "call_helper ?m token q (with_files d tx s) = (Inr (Inr (Some 0)), with_files d tx (logged [Requested token q, Performed q] s))"
      by (simp add: call_helper_def c sample_child_runs sp unit_world) (simp add: with_files_def logged_def unit_world)
    have "ready (xs_files (with_files d tx (logged [Requested token q, Performed q] s)))" using 1(2) by simp
    from phase_step [OF this] obtain d' tx' where
      "record_step ?m ?x kind ''completed'' target ph (with_files d tx (logged [Requested token q, Performed q] s)) =
         (Inr (), with_files d' tx' (logged [Requested token q, Performed q] s))" "ready d'" by fastforce
    with 1(1) 2 show "\<exists>d tx. helper_with_step ?m ?x ph token q kind target s =
      (Inr (), with_files d tx (logged [Requested token q, Performed q] s)) \<and> ready d"
      by (intro exI [of _ d'] exI [of _ tx']) (simp add: helper_with_step_def then_do_def)
  }
  assume c: "code q = 3"
  have "call_helper ?m token q (with_files d tx s) =
      (Inr (Inl (CommandFailed 3 ''No command output was captured.'')), with_files d tx (logged [Requested token q] s))"
    by (simp add: call_helper_def c sample_child_runs sp unit_world) (simp add: with_files_def logged_def unit_world)
  with 1 show "\<exists>d tx e. helper_with_step ?m ?x ph token q kind target s = (Inl e, with_files d tx (logged [Requested token q] s)) \<and> ready d"
    by (intro exI [of _ d] exI [of _ tx]) (simp add: helper_with_step_def then_do_def)
qed

lemma phase_disk_helper:
  fixes s :: "unit exec_state"
  assumes "ready (xs_files s)"
  shows "code (DiskHelper q) = 0 \<Longrightarrow> \<exists>d tx. execute_disk_helper (phase_machine r code) (phase_executor mode) ph token q s =
      (Inr (), with_files d tx (logged [Requested token (DiskHelper q), Performed (DiskHelper q)] s)) \<and> ready d"
    and "code (DiskHelper q) = 3 \<Longrightarrow> \<exists>d tx e. execute_disk_helper (phase_machine r code) (phase_executor mode) ph token q s =
      (Inl e, with_files d tx (logged [Requested token (DiskHelper q)] s)) \<and> ready d"
  unfolding execute_disk_helper_def by (rule phase_helper [OF assms], assumption)+

lemma phase_requested:
  fixes s :: "unit exec_state"
  shows "requested_target (phase_machine r code) (phase_executor ''manual'') ph s = (Inr ''/dev/sda2'', logged [size_probe, tree_probe] s)"
  using install_target [of "plan_role (phase_executor ''manual'')"]
  by (auto simp: requested_target_def then_do_def phase_looks Let_def)

lemma phase_confirm:
  fixes s :: "unit exec_state"
  shows "confirm_target (phase_machine r code) (phase_executor mode) ph s = (Inr ''/dev/sda2'', logged [tree_probe, size_probe] s)"
  using install_target [of "plan_role (phase_executor mode)"]
  by (auto simp: confirm_target_def then_do_def phase_looks Let_def)

lemma phase_lock:
  fixes s :: "unit exec_state"
  assumes "m (logged [Locked lock_sample] s) = (r', t)"
  shows "with_disk_lock (phase_machine r code) (phase_executor mode) ph m s = (r', logged [Unlocked] t)"
proof -
  obtain l where "acquire_disk_lock lock_sample ''/dev/sda'' = Inr l"
    using lock_sample_taken by (cases "acquire_disk_lock lock_sample ''/dev/sda''") auto
  with assms show ?thesis by (simp add: with_disk_lock_def then_do_def attempt_def logged_def unit_world)
qed

definition format_record :: journal_op where
  "format_record = \<lparr>jo_name = ''format'', jo_started = 5, jo_completed = None\<rparr>"

definition format_checks :: "phase_effect list" where
  "format_checks = [Guarded guard_sample, size_probe, tree_probe, size_probe, tree_probe, size_probe, tree_probe,
     Locked lock_sample, Guarded guard_sample, tree_probe, size_probe, Journalled ''format'' Started]"

text \<open>An installation on an existing partition whose format the helper refuses.\<close>

lemma format_run:
  "\<exists>e t. execute_storage (phase_machine format_record (\<lambda>_. 3)) (phase_executor ''manual'') Storage JobToken phase_state = (Inl e, t) \<and>
     xs_trace t = xs_trace phase_state @ format_checks @
       Requested JobToken (DiskHelper (FormatFilesystem ''/dev/sda2'' ''btrfs'' ''KythOS'' ''/dev/sda'')) # [Unlocked]"
proof -
  let ?m = "phase_machine format_record (\<lambda>_. 3)" and ?x = "phase_executor ''manual''"
  let ?s2 = "logged [Guarded guard_sample, size_probe, tree_probe] phase_state"
  have "xs_files ?s2 = phase_disk" by (simp add: phase_state_def)
  from phase_open [OF this] obtain d where open': "open_durable_journal ?m ?x Storage ?s2 =
      (Inr (), (with_files d (xs_transaction ?s2) (logged [size_probe, tree_probe] ?s2))\<lparr>xs_journal := Some ''/e/.kyth-install-journal.json''\<rparr>)"
      "recordable format_record d" by blast
  let ?s3 = "(with_files d (xs_transaction ?s2) (logged [size_probe, tree_probe] ?s2))\<lparr>xs_journal := Some ''/e/.kyth-install-journal.json''\<rparr>"
  let ?s4 = "logged [size_probe, tree_probe, Locked lock_sample, Guarded guard_sample, tree_probe, size_probe] ?s3"
  have name: "validated_op_name ''format'' = Inr ''format''" by (simp add: validated_op_name_def op_name_char_def str_simps)
  have "recordable format_record (xs_files ?s4)" "xs_journal ?s4 = Some ''/e/.kyth-install-journal.json''"
    using open'(2) by (simp_all add: with_files_def logged_def)
  from phase_record [OF this name format_record_def] obtain d5 where rec: "record_journal ?m Storage ''format'' Started ?s4 =
      (Inr (), with_files d5 (xs_transaction ?s4) (logged [Journalled ''format'' Started] ?s4))" "ready d5" by blast
  let ?s5 = "with_files d5 (xs_transaction ?s4) (logged [Journalled ''format'' Started] ?s4)"
  let ?q = "FormatFilesystem ''/dev/sda2'' ''btrfs'' ''KythOS'' ''/dev/sda''"
  have "ready (xs_files ?s5)" using rec(2) by simp
  from phase_disk_helper(2) [OF this refl] obtain d6 tx e where
      fmt: "execute_disk_helper ?m ?x Storage JobToken ?q ?s5 = (Inl e, with_files d6 tx (logged [Requested JobToken (DiskHelper ?q)] ?s5))" by blast
  have "prepare_btrfs_target ?m ?x Storage JobToken ''/dev/sda2'' (logged [size_probe, tree_probe] ?s3) =
      (Inl e, logged [Unlocked] (with_files d6 tx (logged [Requested JobToken (DiskHelper ?q)] ?s5)))"
    unfolding prepare_btrfs_target_def
    by (rule phase_lock) (use rec(1) fmt in \<open>simp add: then_do_def phase_looks phase_confirm\<close>)
  then have "execute_storage ?m ?x Storage JobToken phase_state = (Inl e, logged [Unlocked] (with_files d6 tx (logged [Requested JobToken (DiskHelper ?q)] ?s5)))"
    using open'(1) by (simp add: execute_storage_def then_do_def phase_looks phase_preflight storage_target_def phase_requested)
  then show ?thesis by (auto simp: format_checks_def)
qed

text \<open>A shrink whose last step, the move of the boundary, the helper refuses.\<close>

definition shrink_record :: journal_op where
  "shrink_record = \<lparr>jo_name = ''ntfs_shrink'', jo_started = 5, jo_completed = None\<rparr>"

fun move_refused :: "helper_request \<Rightarrow> int" where
  "move_refused (StreamHelper _) = 0"
| "move_refused (DiskHelper _) = 3"

lemma phase_stages:
  fixes s :: "unit exec_state"
  assumes "ready (xs_files s)"
  shows "\<exists>d tx. run_all (map (\<lambda>stage. then_do (execute_stream_helper (phase_machine r move_refused) (phase_executor mode) ph token
         (FilesystemResize part ''ntfs'' nsize stage) step) (\<lambda>_. return_ok ())) stages) s =
      (Inr (), with_files d tx (logged (concat (map (\<lambda>stage. [Requested token (StreamHelper (FilesystemResize part ''ntfs'' nsize stage)),
         Performed (StreamHelper (FilesystemResize part ''ntfs'' nsize stage))]) stages)) s)) \<and> ready d"
  using assms
proof (induction stages arbitrary: s)
  case Nil
  have "with_files (xs_files s) (xs_transaction s) (logged [] s) = s" by (simp add: with_files_def logged_def)
  with Nil show ?case by (intro exI [of _ "xs_files s"] exI [of _ "xs_transaction s"]) simp
next
  case (Cons stage stages)
  let ?q = "StreamHelper (FilesystemResize part ''ntfs'' nsize stage)"
  have "move_refused ?q = 0" by simp
  from phase_helper(1) [where code = move_refused and q = ?q and r = r and mode = mode and ph = ph and token = token
      and kind = "Some ''filesystem_resize''" and target = part, OF Cons.prems this] obtain d tx where
      1: "helper_with_step (phase_machine r move_refused) (phase_executor mode) ph token ?q (Some ''filesystem_resize'') part s =
        (Inr (), with_files d tx (logged [Requested token ?q, Performed ?q] s))" "ready d" by blast
  let ?t = "with_files d tx (logged [Requested token ?q, Performed ?q] s)"
  have "ready (xs_files ?t)" using 1(2) by simp
  from Cons.IH [OF this] obtain d' tx' where
      2: "run_all (map (\<lambda>stage. then_do (execute_stream_helper (phase_machine r move_refused) (phase_executor mode) ph token
         (FilesystemResize part ''ntfs'' nsize stage) step) (\<lambda>_. return_ok ())) stages) ?t =
        (Inr (), with_files d' tx' (logged (concat (map (\<lambda>stage. [Requested token (StreamHelper (FilesystemResize part ''ntfs'' nsize stage)),
         Performed (StreamHelper (FilesystemResize part ''ntfs'' nsize stage))]) stages)) ?t))" "ready d'" by blast
  let ?f = "\<lambda>stage. then_do (execute_stream_helper (phase_machine r move_refused) (phase_executor mode) ph token
         (FilesystemResize part ''ntfs'' nsize stage) step) (\<lambda>_. return_ok ())"
  let ?g = "\<lambda>stage. [Requested token (StreamHelper (FilesystemResize part ''ntfs'' nsize stage)),
         Performed (StreamHelper (FilesystemResize part ''ntfs'' nsize stage))]"
  have "?f stage s = (Inr (), ?t)" using 1(1) by (simp add: then_do_def execute_stream_helper_def)
  then have "run_all (map ?f (stage # stages)) s = run_all (map ?f stages) ?t" by (simp only: list.map run_all_step)
  also have "\<dots> = (Inr (), with_files d' tx' (logged (concat (map ?g (stage # stages))) s))" unfolding 2(1) by simp
  finally show ?case using 2(2) by blast
qed

definition shrink_state :: "unit exec_state" where
  "shrink_state = phase_state\<lparr>xs_journal := Some ''/e/.kyth-install-journal.json''\<rparr>"

lemma shrink_run:
  "\<exists>e t prior num start uuid. resize_ntfs_target (phase_machine shrink_record move_refused) (phase_executor ''resize_ntfs'') Storage JobToken shrink_state = (Inl e, t) \<and>
     xs_trace t = xs_trace shrink_state @ prior @
       Requested JobToken (DiskHelper (ResizePartition ''/dev/sda'' num start 146028888064 512 uuid)) # []"
proof -
  let ?m = "phase_machine shrink_record move_refused" and ?x = "phase_executor ''resize_ntfs''" and ?p = "''/e/.kyth-install-journal.json''"
  obtain probe where probe: "partition_probe_from_snapshot install_snapshot ''/dev/sda'' ''/dev/sda3'' 512 = Inr probe" "is_ntfs (pp_fstype probe)"
      "\<not> (pp_efi probe \<or> pp_current probe \<or> pp_in_use probe \<or> pp_read_only probe)" "pp_size_bytes probe = 214748364800"
    using install_ntfs by blast
  let ?s1 = "logged [size_probe, tree_probe] shrink_state"
  have s1: "recordable shrink_record (xs_files ?s1)" "xs_journal ?s1 = Some ?p" using ready_disk by (simp_all add: shrink_state_def phase_state_def)
  then obtain d where d: "load (sample_dec shrink_record) ?p (xs_files ?s1) = (Inr [], d)"
    using load_faultless [of "xs_files ?s1" "sample_dec shrink_record" ?p "[]"] by (auto simp: recordable_def ready_def)
  let ?s2 = "with_files d (xs_transaction ?s1) ?s1"
  have resume: "ntfs_shrink_resume_window ?m ?x Storage install_snapshot probe 512 ?s1 = (Inr None, ?s2)"
    using d s1(2) by (simp add: ntfs_shrink_resume_window_def journal_completed_def then_do_def exec_files_def op_completed_def with_files_def)
  let ?s3 = "logged [size_probe, tree_probe] ?s2"
  have j2: "xs_journal ?s3 = Some ?p" using s1(2) by simp
  have ensure: "ensure_esp_journal ?m ?x Storage JobToken ?s2 = (Inr (), ?s3)"
    using j2 by (simp add: ensure_esp_journal_def then_do_def phase_looks install_esp sample_path [symmetric] Let_def)
  have name: "validated_op_name ''ntfs_shrink'' = Inr ''ntfs_shrink''" by (simp add: validated_op_name_def op_name_char_def str_simps)
  have "recordable shrink_record (xs_files ?s3)" using recordable_load [OF s1(1) d] by simp
  from phase_record [OF this j2 name shrink_record_def] obtain d4 where rec: "record_journal ?m Storage ''ntfs_shrink'' Started ?s3 =
      (Inr (), with_files d4 (xs_transaction ?s3) (logged [Journalled ''ntfs_shrink'' Started] ?s3))" "ready d4" by blast
  let ?s4 = "with_files d4 (xs_transaction ?s3) (logged [Journalled ''ntfs_shrink'' Started] ?s3)"
  have "ready (xs_files ?s4)" using rec(2) by simp
  from phase_stages [OF this, of shrink_record "''resize_ntfs''" Storage JobToken "''/dev/sda3''" 146028888064
      "Some (''filesystem_resize'', ''/dev/sda3'')" "[''check'', ''info'', ''dry_run'', ''resize'']"] obtain d5 tx5 es where
      stages: "run_all (map (\<lambda>stage. then_do (execute_stream_helper ?m ?x Storage JobToken
         (FilesystemResize ''/dev/sda3'' ''ntfs'' 146028888064 stage) (Some (''filesystem_resize'', ''/dev/sda3''))) (\<lambda>_. return_ok ()))
         [''check'', ''info'', ''dry_run'', ''resize'']) ?s4 = (Inr (), with_files d5 tx5 (logged es ?s4))" "ready d5" by blast
  let ?s5 = "with_files d5 tx5 (logged es ?s4)"
  let ?s6 = "logged [tree_probe] ?s5"
  have fresh: "fresh_boundary ?m ?x Storage ''/dev/sda3'' probe 512 ?s5 = (Inr probe, ?s6)"
    using probe(1) by (simp add: fresh_boundary_def then_do_def phase_looks abs_diff_def Let_def)
  let ?q = "ResizePartition ''/dev/sda'' (pp_number probe) (pp_start_bytes probe) 146028888064 512 (pp_partuuid probe)"
  have "ready (xs_files ?s6)" "move_refused (DiskHelper ?q) = 3" using stages(2) by simp_all
  from phase_disk_helper(2) [where code = move_refused and q = ?q, OF this] obtain d7 tx7 e where
      mv: "execute_disk_helper ?m ?x Storage JobToken ?q ?s6 = (Inl e, with_files d7 tx7 (logged [Requested JobToken (DiskHelper ?q)] ?s6))" by blast
  have "shrink_ntfs ?m ?x Storage JobToken ''/dev/sda3'' probe 146028888064 512 ?s3 =
      (Inl e, with_files d7 tx7 (logged [Requested JobToken (DiskHelper ?q)] ?s6))"
    using rec(1) stages(1) fresh mv by (simp add: shrink_ntfs_def shrink_ntfs_filesystem_def then_do_def)
  then have "resize_ntfs_target ?m ?x Storage JobToken shrink_state = (Inl e, with_files d7 tx7 (logged [Requested JobToken (DiskHelper ?q)] ?s6))"
    using probe resume ensure
    by (simp add: resize_ntfs_target_def then_do_step phase_looks ac_online_in_def MIN_WINDOWS_BYTES_def Let_def)
  then show ?thesis by auto
qed

definition guided_executor :: executor where
  "guided_executor = \<lparr>xe_plan = projr (build_plan sample_input), xe_encryption = [], xe_transaction_path = ''/run/kyth-installer/txn/t.json''\<rparr>"

text \<open>A retry after a completed shrink.\<close>

definition shrunk_record :: journal_op where
  "shrunk_record = \<lparr>jo_name = ''ntfs_shrink'', jo_started = 5, jo_completed = Some 5\<rparr>"

definition shrunk_state :: "unit exec_state" where
  "shrunk_state = shrink_state\<lparr>xs_files := phase_disk\<lparr>dk_data := (\<lambda>_. ''1;'')\<rparr>\<rparr>"

lemma install_metadata: "disk_metadata install_snapshot ''/dev/sda'' = Inr (429496729600, True)"
  by (simp add: disk_metadata_def install_simps str_simps)

lemma install_free: "contains_free_region install_snapshot ''/dev/sda'' 322123595776 390843072512 512 = Inr True"
proof -
  obtain p1 p2 p3 where p: "parse_partitions install_snapshot 512 = Inr [p1, p2, p3]" "pr_name p1 = ''/dev/sda1''" "pr_name p2 = ''/dev/sda2''"
      "pr_name p3 = ''/dev/sda3''" "list_all (\<lambda>p. \<not> eq_ignore_ascii_case (pr_parttype p) BIOS_BOOT_GUID) [p1, p2, p3]"
      "map pr_start_bytes [p1, p2, p3] = [1048576, 10738466816, 107375230976]" "map pr_size_bytes [p1, p2, p3] = [10737418240, 42949672960, 214748364800]"
    using install_partitions by (elim exE conjE) (rule that)
  then show ?thesis
    by (simp add: contains_free_region_def free_regions_def valid_512 install_metadata normalize_samples install_on_disk
        saturating_mul_def saturating_sub_def u64_max_def GPT_RESERVE_BYTES_def regions_between_def append_region_def
        REGION_ALIGN_BYTES_def div_ceil_def required_bytes_def MIN_KYTHOS_BYTES_def)
qed

lemma resume_run:
  "\<exists>t. ntfs_shrink_resume_window (phase_machine shrunk_record (\<lambda>_. 0)) (phase_executor ''resize_ntfs'') Storage install_snapshot
      (projr (partition_probe_from_snapshot install_snapshot ''/dev/sda'' ''/dev/sda3'' 512)) 512 shrunk_state =
     (Inr (Some (322123595776, 390843072512)), t)"
proof -
  let ?p = "''/e/.kyth-install-journal.json''"
  obtain probe where probe: "partition_probe_from_snapshot install_snapshot ''/dev/sda'' ''/dev/sda3'' 512 = Inr probe"
      "pp_size_bytes probe = 214748364800" "pp_start_bytes probe = 107375230976"
    using install_ntfs by blast
  have "named_ops [shrunk_record]"
    by (simp add: named_ops_def shrunk_record_def validated_op_name_def op_name_char_def str_simps)
  from decode_encode [OF this] have "journal_at (sample_dec shrunk_record) (xs_files shrunk_state) ?p = Some [shrunk_record]"
    by (simp add: journal_at_def content_def shrunk_state_def phase_disk_def sample_paths sample_dec_def MAX_JOURNAL_BYTES_def transaction_dir_def)
  moreover have "faultless (xs_files shrunk_state)"
    using sample_faultless by (simp add: shrunk_state_def phase_disk_def faultless_def)
  ultimately obtain d where d: "load (sample_dec shrunk_record) ?p (xs_files shrunk_state) = (Inr [shrunk_record], d)"
    using load_faultless by blast
  have j: "xs_journal shrunk_state = Some ?p" by (simp add: shrunk_state_def shrink_state_def)
  have c: "op_completed [shrunk_record] ''ntfs_shrink''" by (simp add: shrunk_record_def)
  show ?thesis
    using d j c probe install_free
    by (simp add: ntfs_shrink_resume_window_def journal_completed_def then_do_def exec_files_def saturating_add_def checked_add_def u64_max_def Let_def)
qed

end
