(* ===== verification/Phase_Safety.thy ===== *)
theory Phase_Safety
  imports Phase_Runs
begin

text \<open>
  Correctness of the storage phase, as statements about the trace: what was asked of the helper, after
  which checks, what the journal claims and what is undone after a failure.  Three theorems state where the
  phase departs from its intention.
\<close>

section \<open>Checks before the first request\<close>


section \<open>Installations into free space and after a shrink\<close>

interpretation uncommitted: exec_events "\<lambda>e. e \<noteq> Journalled ''partition_table'' Completed"
  by unfold_locales simp_all

lemma prepare_without_target:
  assumes none: "plan_target_partition (xe_plan x) = None" and run: "prepare_btrfs_target mc x ph token target s = (r, t)"
  shows "\<exists>e. r = Inl e" and "looks.only s t"
proof -
  have "then_do (confirm_target mc x ph) f = exec_fail ph NoTargetPartition" for f :: "string \<Rightarrow> ('a, unit) exec"
    by (rule ext) (simp add: confirm_target_def Let_def none then_do_def)
  then have body: "prepare_btrfs_target mc x ph token target =
      with_disk_lock mc x ph (then_do (exec_validate_target_disk mc x ph) (\<lambda>_. exec_fail ph NoTargetPartition))"
    by (simp add: prepare_btrfs_target_def)
  have "looks.keeps (prepare_btrfs_target mc x ph token target)"
    unfolding body by (intro looks.keeps_with_lock looks.keeps_rules looks.keeps_probes) simp_all
  from looks.keepsD [OF this run] show "looks.only s t" .
  show "\<exists>e. r = Inl e"
  proof (cases r)
    case (Inr u)
    with run body have False by (auto simp: with_disk_lock_def attempt_def split: prod.splits)
    then show ?thesis ..
  qed simp
qed

text \<open>A computation that records the completed table change last and only when it succeeds.\<close>

definition commits :: "('w, 'a) exec \<Rightarrow> bool" where
  "commits m \<longleftrightarrow> (\<forall>s r t. m s = (r, t) \<longrightarrow>
     (\<exists>es v. r = Inr v \<and> xs_trace t = xs_trace s @ es @ [Journalled ''partition_table'' Completed] \<and>
        list_all (\<lambda>e. e \<noteq> Journalled ''partition_table'' Completed) es) \<or>
     (\<exists>e. r = Inl e \<and> uncommitted.only s t))"

lemma commits_then:
  assumes p: "uncommitted.keeps m" and f: "\<And>x. commits (f x)"
  shows "commits (then_do m f)"
  unfolding commits_def
proof (intro allI impI)
  fix s r t
  assume run: "then_do m f s = (r, t)"
  show "(\<exists>es v. r = Inr v \<and> xs_trace t = xs_trace s @ es @ [Journalled ''partition_table'' Completed] \<and>
        list_all (\<lambda>e. e \<noteq> Journalled ''partition_table'' Completed) es) \<or> (\<exists>e. r = Inl e \<and> uncommitted.only s t)"
  proof (cases rule: then_do_cases [of m s f])
    case (err e s')
    with run uncommitted.keepsD [OF p err(1)] show ?thesis by auto
  next
    case (ok y s')
    from uncommitted.keepsE [OF p ok(1)] obtain e1 where e1: "xs_trace s' = xs_trace s @ e1"
        "list_all (\<lambda>e. e \<noteq> Journalled ''partition_table'' Completed) e1" .
    from f [of y] ok(2) run have "(\<exists>es v. r = Inr v \<and> xs_trace t = xs_trace s' @ es @ [Journalled ''partition_table'' Completed] \<and>
        list_all (\<lambda>e. e \<noteq> Journalled ''partition_table'' Completed) es) \<or> (\<exists>e. r = Inl e \<and> uncommitted.only s' t)"
      by (simp add: commits_def)
    then show ?thesis
    proof (elim disjE exE conjE)
      fix es v
      assume "r = Inr v" "xs_trace t = xs_trace s' @ es @ [Journalled ''partition_table'' Completed]"
        "list_all (\<lambda>e. e \<noteq> Journalled ''partition_table'' Completed) es"
      with e1 have "xs_trace t = xs_trace s @ (e1 @ es) @ [Journalled ''partition_table'' Completed]"
        "list_all (\<lambda>e. e \<noteq> Journalled ''partition_table'' Completed) (e1 @ es)" by simp_all
      with \<open>r = Inr v\<close> show ?thesis by blast
    next
      fix e
      assume "r = Inl e" "uncommitted.only s' t"
      with uncommitted.R_trans [OF uncommitted.keepsD [OF p ok(1)]] show ?thesis by blast
    qed
  qed
qed

lemma commits_fail: "commits (exec_fail ph e)" "commits (return_err e')"
  by (auto simp: commits_def uncommitted.R_refl)

lemma commits_if: "commits m \<Longrightarrow> commits n \<Longrightarrow> commits (if b then m else n)"
  by simp

lemma journalled_mutation_commits:
  assumes keeps: "uncommitted.keeps m"
  shows "commits (journalled_mutation mc x ph m)"
  unfolding commits_def
proof (intro allI impI)
  fix s r t
  assume run: "journalled_mutation mc x ph m s = (r, t)"
  let ?g = "guarded_table_mutation mc x ph m"
  have k: "uncommitted.keeps (record_journal mc ph ''partition_table'' Started)" "uncommitted.keeps ?g"
    by (simp_all add: uncommitted.keeps_record_journal uncommitted.keeps_guarded keeps)
  obtain r1 s1 where st: "record_journal mc ph ''partition_table'' Started s = (r1, s1)" by fastforce
  obtain r2 s2 where g: "?g s1 = (r2, s2)" by fastforce
  obtain r3 s3 where c: "record_journal mc ph ''partition_table'' Completed s2 = (r3, s3)" by fastforce
  have o1: "uncommitted.only s s1" using uncommitted.keepsD [OF k(1) st] .
  have o2: "uncommitted.only s s2" using uncommitted.R_trans [OF o1 uncommitted.keepsD [OF k(2) g]] .
  have c': "(r3 = Inr () \<and> xs_trace s3 = xs_trace s2 @ [Journalled ''partition_table'' Completed]) \<or> (\<exists>e. r3 = Inl e) \<and> xs_trace s3 = xs_trace s2"
    using c by (auto simp: record_journal_def then_do_def exec_files_def map_err_def split: option.splits prod.splits sum.splits)
  consider (start) e where "r1 = Inl e" | (body) e where "r1 = Inr ()" "r2 = Inl e" | (done') v where "r1 = Inr ()" "r2 = Inr v"
    by (cases r1; cases r2) auto
  then show "(\<exists>es v. r = Inr v \<and> xs_trace t = xs_trace s @ es @ [Journalled ''partition_table'' Completed] \<and>
        list_all (\<lambda>e. e \<noteq> Journalled ''partition_table'' Completed) es) \<or> (\<exists>e. r = Inl e \<and> uncommitted.only s t)"
  proof cases
    case start
    with run st o1 show ?thesis by (auto simp: journalled_mutation_def then_do_def)
  next
    case body
    with run st g o2 show ?thesis by (auto simp: journalled_mutation_def then_do_def attempt_def is_ok_def)
  next
    case done'
    with run st g c have rt: "(r, t) = (case r3 of Inl e \<Rightarrow> Inl e | Inr _ \<Rightarrow> Inr v, s3)"
      by (auto simp: journalled_mutation_def then_do_def attempt_def is_ok_def split: sum.splits)
    from o2 obtain es where es: "xs_trace s2 = xs_trace s @ es" "list_all (\<lambda>e. e \<noteq> Journalled ''partition_table'' Completed) es"
      by (auto simp: uncommitted.only_def)
    from c' show ?thesis
    proof
      assume "r3 = Inr () \<and> xs_trace s3 = xs_trace s2 @ [Journalled ''partition_table'' Completed]"
      with rt es show ?thesis by simp
    next
      assume "(\<exists>e. r3 = Inl e) \<and> xs_trace s3 = xs_trace s2"
      with rt es show ?thesis by (auto simp: uncommitted.only_def)
    qed
  qed
qed

lemma guided_target_commits:
  assumes "plan_mode (xe_plan x) \<in> {''free_space'', ''resize_ntfs''}"
  shows "commits (storage_target mc x ph token)"
proof -
  have t: "uncommitted.keeps (create_target_partition mc x ph token a b n)" "uncommitted.keeps (resize_ntfs_target mc x ph token)" for a b n
    by (rule uncommitted.keeps_create uncommitted.keeps_resize, auto)+
  have "commits (free_space_target mc x ph token)"
    by (auto simp: free_space_target_def Let_def intro!: commits_then commits_fail commits_if journalled_mutation_commits t
        uncommitted.keeps_rules uncommitted.keeps_probes)
  with assms t(2) show ?thesis
    by (auto simp: storage_target_def journalled_mutation_commits)
qed

lemma guided_plan_no_target:
  assumes "build_plan input = Inr p" and "plan_mode p \<in> {''free_space'', ''resize_ntfs''}"
  shows "plan_target_partition p = None"
  using assms by (auto simp: build_plan_def Let_def plan_target_def split: if_splits)

text \<open>C36: With a plan that \<open>build_plan\<close> makes for an installation into free space or after an NTFS shrink the
  storage phase never succeeds: the partition it has just created is not the one it prepares, and the plan
  names none.  When the table change has been made and recorded, nothing more is asked of the helper, so
  the new layout is neither used nor undone.\<close>

theorem guided_modes_never_finish:
  assumes plan: "build_plan input = Inr p" "xe_plan x = p\<lparr>plan_pre_shrink_bytes := pre\<rparr>"
    and mode: "plan_mode p \<in> {''free_space'', ''resize_ntfs''}"
    and run: "execute_storage mc x ph token s = (r, t)" and es: "xs_trace t = xs_trace s @ es"
  shows "r \<noteq> Inr () \<and>
    (\<forall>before after. es = before @ Journalled ''partition_table'' Completed # after \<longrightarrow> list_all quiet after)"
proof -
  have none: "plan_target_partition (xe_plan x) = None" and m: "plan_mode (xe_plan x) \<in> {''free_space'', ''resize_ntfs''}"
    using guided_plan_no_target [OF plan(1) mode] plan(2) mode by simp_all
  let ?C = "then_do (then_do (exec_validate_target_disk mc x ph) (\<lambda>_. check_storage_preflight mc x ph))
      (\<lambda>_. then_do (open_durable_journal mc x ph) (\<lambda>_. storage_target mc x ph token))"
  let ?last = "\<lambda>target. then_do (prepare_btrfs_target mc x ph token target) (\<lambda>_. exec_set (\<lambda>s. s\<lparr>xs_target := Some target\<rparr>))"
  have run': "then_do ?C ?last s = (r, t)"
    using run m by (auto simp: execute_storage_def then_do_assoc)
  have commits: "commits ?C"
    by (intro commits_then guided_target_commits m uncommitted.keeps_rules uncommitted.keeps_probes
        uncommitted.keeps_preflight uncommitted.keeps_open_journal)
  obtain r1 s1 where c: "?C s = (r1, s1)" by fastforce
  show ?thesis
  proof (cases r1)
    case (Inl e)
    with run' c have "r = Inl e" "t = s1" by (simp_all add: then_do_def)
    moreover have "uncommitted.only s s1" using commits_def [THEN iffD1, rule_format, OF commits c] Inl by auto
    ultimately show ?thesis using es by (auto simp: uncommitted.only_def)
  next
    case (Inr v)
    from commits_def [THEN iffD1, rule_format, OF commits c] Inr obtain A where A: "xs_trace s1 = xs_trace s @ A @ [Journalled ''partition_table'' Completed]"
        "list_all (\<lambda>e. e \<noteq> Journalled ''partition_table'' Completed) A"
      by auto
    obtain r2 s2 where q: "prepare_btrfs_target mc x ph token v s1 = (r2, s2)" by fastforce
    from prepare_without_target [OF none q] obtain e B where e: "r2 = Inl e" and B: "xs_trace s2 = xs_trace s1 @ B" "list_all quiet B"
      by (auto simp: looks.only_def)
    from run' c Inr q e have rt: "r = Inl e" "t = s2" by (simp_all add: then_do_def)
    with A(1) B(1) es have split: "es = A @ Journalled ''partition_table'' Completed # B" by simp
    have "Journalled ''partition_table'' Completed \<notin> set A" "Journalled ''partition_table'' Completed \<notin> set B"
      using A(2) B(2) by (force simp: list_all_iff)+
    with split rt B(2) show ?thesis by (auto simp: append_Cons_eq_iff)
  qed
qed

section \<open>Formatting\<close>

fun unformatted :: "phase_effect \<Rightarrow> bool" where
  "unformatted (Requested _ (DiskHelper (FormatFilesystem _ _ _ _))) = False"
| "unformatted _ = True"

interpretation before_format: exec_events unformatted
  by unfold_locales simp_all

lemma table_unformatted: "table_event e \<Longrightarrow> unformatted e"
  by (cases e rule: unformatted.cases) auto

lemma confirm_ok:
  assumes "confirm_target mc x ph s = (Inr target, t)"
  shows "\<exists>out size n requested probe. xs_trace t = xs_trace s @ [Probed (SNAPSHOT_ARGS @ [plan_disk (xe_plan x)]) (Output out),
       Probed [''/usr/sbin/blockdev'', ''--getss'', plan_disk (xe_plan x)] (Output size)] \<and>
     plan_target_partition (xe_plan x) = Some requested \<and>
     validate_replace_target (xm_decode mc out) (plan_disk (xe_plan x)) requested (plan_role x) n = Inr probe \<and> target = pp_name probe"
proof -
  from assms obtain requested snap n probe s1 where st: "plan_target_partition (xe_plan x) = Some requested"
      "disk_snapshot mc ph (plan_disk (xe_plan x)) s = (Inr snap, s1)" "disk_sector_size mc x ph s1 = (Inr n, t)"
      "validate_replace_target snap (plan_disk (xe_plan x)) requested (plan_role x) n = Inr probe" "target = pp_name probe"
    by (auto simp: confirm_target_def Let_def)
  from snapshot_ok [OF st(2)] obtain o1 where "xs_trace s1 = xs_trace s @ [Probed (SNAPSHOT_ARGS @ [plan_disk (xe_plan x)]) (Output o1)]"
      "snap = xm_decode mc o1" by blast
  moreover from sector_ok [OF st(3)] obtain o2 where "xs_trace t = xs_trace s1 @ [Probed [''/usr/sbin/blockdev'', ''--getss'', plan_disk (xe_plan x)] (Output o2)]" by blast
  ultimately show ?thesis using st by auto
qed

text \<open>The body of the preparation up to the request to format, and from it on.\<close>

definition format_ready :: "'w exec_machine \<Rightarrow> executor \<Rightarrow> phase \<Rightarrow> ('w, string) exec" where
  "format_ready mc x ph =
     then_do (exec_validate_target_disk mc x ph) (\<lambda>_.
     then_do (confirm_target mc x ph) (\<lambda>target.
     then_do (record_journal mc ph ''format'' Started) (\<lambda>_. return_ok target)))"

lemma format_ready_keeps: "before_format.keeps (format_ready mc x ph)"
  by (auto simp: format_ready_def confirm_target_def Let_def
      intro!: before_format.keeps_rules before_format.keeps_probes before_format.keeps_record_journal)

lemma format_ready_ok:
  assumes "format_ready mc x ph s = (Inr target, t)"
  shows "\<exists>g out size n requested probe. xs_trace t = xs_trace s @ [Guarded g, Probed (SNAPSHOT_ARGS @ [plan_disk (xe_plan x)]) (Output out),
       Probed [''/usr/sbin/blockdev'', ''--getss'', plan_disk (xe_plan x)] (Output size), Journalled ''format'' Started] \<and>
     validate_target_disk_with_identity g (plan_disk (xe_plan x)) (target_disk_identity x) = Inr () \<and>
     plan_target_partition (xe_plan x) = Some requested \<and>
     validate_replace_target (xm_decode mc out) (plan_disk (xe_plan x)) requested (plan_role x) n = Inr probe \<and> target = pp_name probe"
proof -
  from assms obtain s1 s2 u where st: "exec_validate_target_disk mc x ph s = (Inr (), s1)" "confirm_target mc x ph s1 = (Inr target, s2)"
      "record_journal mc ph ''format'' Started s2 = (Inr u, t)"
    by (auto simp: format_ready_def)
  from validate_ok [OF st(1)] obtain g where "xs_trace s1 = xs_trace s @ [Guarded g]"
      "validate_target_disk_with_identity g (plan_disk (xe_plan x)) (target_disk_identity x) = Inr ()" by blast
  moreover have "xs_trace t = xs_trace s2 @ [Journalled ''format'' Started]" using record_journal_events [OF st(3)] by simp
  moreover from confirm_ok [OF st(2)] obtain out size n requested probe where
      "xs_trace s2 = xs_trace s1 @ [Probed (SNAPSHOT_ARGS @ [plan_disk (xe_plan x)]) (Output out),
         Probed [''/usr/sbin/blockdev'', ''--getss'', plan_disk (xe_plan x)] (Output size)]"
      "plan_target_partition (xe_plan x) = Some requested" "target = pp_name probe"
      "validate_replace_target (xm_decode mc out) (plan_disk (xe_plan x)) requested (plan_role x) n = Inr probe" by blast
  ultimately show ?thesis
    by (intro exI [of _ g] exI [of _ out] exI [of _ size] exI [of _ n] exI [of _ requested] exI [of _ probe]) simp
qed

lemma setup_keeps: "before_format.keeps (setup_btrfs_target mc x ph token target)"
  by (auto simp: setup_btrfs_target_def temporary_setup_def mount_efi_def efi_mount_operation_def Let_def split: option.split
      intro!: before_format.keeps_rules before_format.keeps_probes before_format.keeps_run_all before_format.keeps_disk_helper
        before_format.keeps_record_journal before_format.keeps_mounts before_format.keeps_esp_journal)

lemma prepare_events:
  assumes "prepare_btrfs_target mc x ph token unused s = (r, t)"
  shows "before_format.only s t \<or>
    (\<exists>a l g out size n requested probe es. acquire_disk_lock a (plan_disk (xe_plan x)) = Inr l \<and>
       xs_trace t = xs_trace s @ [Locked a, Guarded g, Probed (SNAPSHOT_ARGS @ [plan_disk (xe_plan x)]) (Output out),
         Probed [''/usr/sbin/blockdev'', ''--getss'', plan_disk (xe_plan x)] (Output size), Journalled ''format'' Started,
         Requested token (DiskHelper (FormatFilesystem (pp_name probe) ''btrfs'' ''KythOS'' (plan_disk (xe_plan x))))] @ es \<and>
       list_all unformatted es \<and>
       validate_target_disk_with_identity g (plan_disk (xe_plan x)) (target_disk_identity x) = Inr () \<and>
       plan_target_partition (xe_plan x) = Some requested \<and>
       validate_replace_target (xm_decode mc out) (plan_disk (xe_plan x)) requested (plan_role x) n = Inr probe)"
proof -
  let ?F = "\<lambda>target. execute_disk_helper mc x ph token (FormatFilesystem target ''btrfs'' ''KythOS'' (plan_disk (xe_plan x)))"
  let ?body = "then_do (format_ready mc x ph) (\<lambda>target. then_do (?F target) (\<lambda>_. setup_btrfs_target mc x ph token target))"
  have "prepare_btrfs_target mc x ph token unused = with_disk_lock mc x ph ?body"
    by (simp add: prepare_btrfs_target_def format_ready_def then_do_assoc then_do_return)
  with assms with_lock_events [of mc x ph ?body s r t]
  consider (none) "xs_trace t = xs_trace s" | (locked) a l s1 s2 where "acquire_disk_lock a (plan_disk (xe_plan x)) = Inr l"
      "xs_trace s1 = xs_trace s @ [Locked a]" "?body s1 = (r, s2)" "xs_trace t = xs_trace s2 @ [Unlocked]" by auto
  then show ?thesis
  proof cases
    case none
    then show ?thesis by (simp add: before_format.only_def)
  next
    case locked
    obtain r3 s3 where f: "format_ready mc x ph s1 = (r3, s3)" by fastforce
    from before_format.keepsE [OF format_ready_keeps f] obtain e3 where e3: "xs_trace s3 = xs_trace s1 @ e3" "list_all unformatted e3" .
    show ?thesis
    proof (cases r3)
      case (Inl e)
      with locked(3) f have "s2 = s3" by (simp add: then_do_def)
      with locked(2,4) e3 show ?thesis by (simp add: before_format.only_def)
    next
      case (Inr target)
      with format_ready_ok f obtain g out size n requested probe where g: "xs_trace s3 = xs_trace s1 @ [Guarded g,
          Probed (SNAPSHOT_ARGS @ [plan_disk (xe_plan x)]) (Output out),
          Probed [''/usr/sbin/blockdev'', ''--getss'', plan_disk (xe_plan x)] (Output size), Journalled ''format'' Started]"
          "validate_target_disk_with_identity g (plan_disk (xe_plan x)) (target_disk_identity x) = Inr ()"
          "plan_target_partition (xe_plan x) = Some requested"
          "validate_replace_target (xm_decode mc out) (plan_disk (xe_plan x)) requested (plan_role x) n = Inr probe" "target = pp_name probe"
        by blast
      obtain r4 s4 where h: "?F target s3 = (r4, s4)" by fastforce
      obtain r5 s5 where u: "setup_btrfs_target mc x ph token target s4 = (r5, s5)" by fastforce
      from before_format.keepsE [OF setup_keeps u] obtain e5 where e5: "xs_trace s5 = xs_trace s4 @ e5" "list_all unformatted e5" .
      have s2: "s2 = (case r4 of Inl _ \<Rightarrow> s4 | Inr _ \<Rightarrow> s5)"
        using locked(3) f Inr h u by (auto simp: then_do_def split: sum.splits)
      let ?q = "Requested token (DiskHelper (FormatFilesystem (pp_name probe) ''btrfs'' ''KythOS'' (plan_disk (xe_plan x))))"
      consider (asked) e4 where "xs_trace s2 = xs_trace s3 @ ?q # e4" "list_all unformatted e4" | (not_asked) "xs_trace s2 = xs_trace s3"
        using disk_helper_events [OF h] s2 e5 g(5) by (cases r4) auto
      then show ?thesis
      proof cases
        case asked
        with locked(2,4) g have "xs_trace t = xs_trace s @ [Locked a, Guarded g,
          Probed (SNAPSHOT_ARGS @ [plan_disk (xe_plan x)]) (Output out),
          Probed [''/usr/sbin/blockdev'', ''--getss'', plan_disk (xe_plan x)] (Output size), Journalled ''format'' Started, ?q] @ (e4 @ [Unlocked])"
          "list_all unformatted (e4 @ [Unlocked])" by simp_all
        with locked(1) g(2,3,4) show ?thesis by blast
      next
        case not_asked
        with locked(2,4) e3 show ?thesis by (simp add: before_format.only_def)
      qed
    qed
  qed
qed

text \<open>C7: The storage phase asks for a format only right after it took the lock and, under the lock, the guard
  accepted the disk with its identity, a fresh snapshot showed the planned partition to be replaceable, and
  the intention was made durable; the device formatted is the one of that snapshot, on the planned disk.\<close>

theorem format_confirmed:
  assumes run: "execute_storage mc x ph token s = (r, t)"
    and es: "xs_trace t = xs_trace s @ before @ Requested tok (DiskHelper (FormatFilesystem device fs name expected)) # after"
  shows "\<exists>prior a l g out size n requested probe.
     before = prior @ [Locked a, Guarded g, Probed (SNAPSHOT_ARGS @ [plan_disk (xe_plan x)]) (Output out),
         Probed [''/usr/sbin/blockdev'', ''--getss'', plan_disk (xe_plan x)] (Output size), Journalled ''format'' Started] \<and>
     acquire_disk_lock a (plan_disk (xe_plan x)) = Inr l \<and>
     validate_target_disk_with_identity g (plan_disk (xe_plan x)) (target_disk_identity x) = Inr () \<and>
     plan_target_partition (xe_plan x) = Some requested \<and>
     validate_replace_target (xm_decode mc out) (plan_disk (xe_plan x)) requested (plan_role x) n = Inr probe \<and>
     device = pp_name probe \<and> fs = ''btrfs'' \<and> expected = plan_disk (xe_plan x)"
proof -
  let ?q = "Requested tok (DiskHelper (FormatFilesystem device fs name expected))"
  let ?C = "then_do (if plan_mode (xe_plan x) \<noteq> ''wipe''
      then then_do (exec_validate_target_disk mc x ph) (\<lambda>_. check_storage_preflight mc x ph) else return_ok ())
      (\<lambda>_. then_do (open_durable_journal mc x ph) (\<lambda>_. if plan_mode (xe_plan x) = ''wipe'' then return_ok [] else storage_target mc x ph token))"
  let ?last = "\<lambda>target. if plan_mode (xe_plan x) = ''wipe'' then return_ok ()
      else then_do (prepare_btrfs_target mc x ph token target) (\<lambda>_. exec_set (\<lambda>s. s\<lparr>xs_target := Some target\<rparr>))"
  have run': "then_do ?C ?last s = (r, t)"
  proof (cases "plan_mode (xe_plan x) = ''wipe''")
    case True
    with run show ?thesis by (simp add: execute_storage_def then_do_return) (simp add: then_do_def split: prod.splits sum.splits)
  next
    case False
    with run show ?thesis by (simp add: execute_storage_def then_do_assoc)
  qed
  have "before_format.keeps (storage_target mc x ph token)"
    by (rule before_format.keeps_storage_target) (simp_all add: table_unformatted)
  then have keeps: "before_format.keeps ?C"
    by (auto intro!: before_format.keeps_rules before_format.keeps_probes before_format.keeps_preflight
        before_format.keeps_open_journal)
  obtain r1 s1 where c: "?C s = (r1, s1)" by fastforce
  from before_format.keepsE [OF keeps c] obtain e1 where e1: "xs_trace s1 = xs_trace s @ e1" "list_all unformatted e1" .
  have loud: "\<not> before_format.only s t" using es by (auto simp: before_format.only_def)
  have "\<not> (\<exists>e. r1 = Inl e) \<and> plan_mode (xe_plan x) \<noteq> ''wipe''"
  proof (rule ccontr)
    assume "\<not> (\<not> (\<exists>e. r1 = Inl e) \<and> plan_mode (xe_plan x) \<noteq> ''wipe'')"
    then have "t = s1" using run' c by (cases r1) (auto simp: then_do_def)
    with e1 loud show False by (simp add: before_format.only_def)
  qed
  then obtain v where v: "r1 = Inr v" and mode: "plan_mode (xe_plan x) \<noteq> ''wipe''" by (cases r1) auto
  obtain r2 s2 where q: "prepare_btrfs_target mc x ph token v s1 = (r2, s2)" by fastforce
  have t: "xs_trace t = xs_trace s2" using run' c v mode q by (auto simp: then_do_def split: sum.splits)
  have "\<not> before_format.only s1 s2" using loud e1 t before_format.R_trans by (auto simp: before_format.only_def)
  with prepare_events [OF q] obtain a l g out size n requested probe e2 where
      p: "acquire_disk_lock a (plan_disk (xe_plan x)) = Inr l"
        "xs_trace s2 = xs_trace s1 @ [Locked a, Guarded g, Probed (SNAPSHOT_ARGS @ [plan_disk (xe_plan x)]) (Output out),
           Probed [''/usr/sbin/blockdev'', ''--getss'', plan_disk (xe_plan x)] (Output size), Journalled ''format'' Started,
           Requested token (DiskHelper (FormatFilesystem (pp_name probe) ''btrfs'' ''KythOS'' (plan_disk (xe_plan x))))] @ e2"
        "list_all unformatted e2"
      and ok: "validate_target_disk_with_identity g (plan_disk (xe_plan x)) (target_disk_identity x) = Inr ()"
        "plan_target_partition (xe_plan x) = Some requested"
        "validate_replace_target (xm_decode mc out) (plan_disk (xe_plan x)) requested (plan_role x) n = Inr probe"
    by blast
  let ?p = "Requested token (DiskHelper (FormatFilesystem (pp_name probe) ''btrfs'' ''KythOS'' (plan_disk (xe_plan x))))"
  let ?pre = "e1 @ [Locked a, Guarded g, Probed (SNAPSHOT_ARGS @ [plan_disk (xe_plan x)]) (Output out),
           Probed [''/usr/sbin/blockdev'', ''--getss'', plan_disk (xe_plan x)] (Output size), Journalled ''format'' Started]"
  have eq: "before @ ?q # after = ?pre @ ?p # e2" using es t e1(1) p(2) by simp
  have pre: "list_all unformatted ?pre" using e1(2) by simp
  have "?q \<in> set (before @ ?q # after)" by simp
  then have "?q \<in> set (?pre @ ?p # e2)" unfolding eq .
  moreover have "?q \<notin> set ?pre" "?q \<notin> set e2" using pre p(3) by (force simp: list_all_iff)+
  ultimately have same: "?q = ?p" by auto
  moreover have "before = ?pre"
    using eq append_Cons_eq_iff [of ?p ?pre e2 before after] \<open>?q \<notin> set ?pre\<close> \<open>?q \<notin> set e2\<close> unfolding same by metis
  ultimately show ?thesis using p(1) ok by blast
qed

section \<open>Changes of the partition table\<close>

lemma backed_up_events:
  fixes body :: "('w, 'a) exec"
  defines "asked q \<equiv> Requested FreshToken (DiskHelper q)" and "performed q \<equiv> Performed (DiskHelper q)"
  assumes run: "backed_up_mutation mc x ph dir body s = (r, t)" and p: "p = path_join dir ''partition-table.backup''"
    and d: "d = plan_disk (xe_plan x)"
  shows "(\<exists>e es. r = Inl e \<and> xs_trace t = xs_trace s @ es @ [BackupDropped dir] \<and> set es \<subseteq> {asked (BackupTable d p), performed (BackupTable d p)}) \<or>
    (\<exists>v w bs. xs_trace v = xs_trace s @ [asked (BackupTable d p), performed (BackupTable d p)] \<and> body v = (bs, w) \<and>
       (case bs of
          Inr y \<Rightarrow> r = Inr y \<and> xs_trace t = xs_trace w @ [BackupDropped dir]
        | Inl e \<Rightarrow>
            (r = Inl e \<and> xs_trace t = xs_trace w @ [asked (RestoreTable d p), performed (RestoreTable d p), BackupDropped dir]) \<or>
            (\<exists>f es. r = Inl (Execution ph (RestoreFailed (failure_of e) f dir)) \<and> xs_trace t = xs_trace w @ es \<and>
               es \<in> {[], [asked (RestoreTable d p)], [asked (RestoreTable d p), performed (RestoreTable d p)]})))"
proof -
  obtain rb v where b: "execute_disk_helper mc x ph FreshToken (BackupTable d p) s = (rb, v)" by fastforce
  show ?thesis
  proof (cases rb)
    case (Inl e)
    with run b have r: "r = Inl e" "t = v\<lparr>xs_trace := xs_trace v @ [BackupDropped dir]\<rparr>"
      by (simp_all add: backed_up_mutation_def attempt_def then_do_def Let_def p d)
    from disk_helper_events [OF b] obtain es where "xs_trace v = xs_trace s @ es" "set es \<subseteq> {asked (BackupTable d p), performed (BackupTable d p)}"
      unfolding asked_def performed_def by fastforce
    with r show ?thesis by auto
  next
    case (Inr u)
    with disk_helper_events [OF b] have v: "xs_trace v = xs_trace s @ [asked (BackupTable d p), performed (BackupTable d p)]"
      by (simp add: asked_def performed_def)
    obtain bs w where w: "body v = (bs, w)" by fastforce
    obtain rr z where z: "execute_disk_helper mc x ph FreshToken (RestoreTable d p) w = (rr, z)" by fastforce
    note ev = disk_helper_events [OF z]
    have "case bs of
          Inr y \<Rightarrow> r = Inr y \<and> xs_trace t = xs_trace w @ [BackupDropped dir]
        | Inl e \<Rightarrow>
            (r = Inl e \<and> xs_trace t = xs_trace w @ [asked (RestoreTable d p), performed (RestoreTable d p), BackupDropped dir]) \<or>
            (\<exists>f es. r = Inl (Execution ph (RestoreFailed (failure_of e) f dir)) \<and> xs_trace t = xs_trace w @ es \<and>
               es \<in> {[], [asked (RestoreTable d p)], [asked (RestoreTable d p), performed (RestoreTable d p)]})"
    proof (cases bs)
      case Inr': (Inr y)
      with run b Inr w show ?thesis
        by (auto simp: backed_up_mutation_def attempt_def then_do_def run_guarded_def Let_def p d)
    next
      case Inl': (Inl e)
      show ?thesis
      proof (cases rr)
        case (Inl f)
        with run b Inr w Inl' z have "r = Inl (Execution ph (RestoreFailed (failure_of e) (failure_of f) dir))" "t = z"
          by (auto simp: backed_up_mutation_def attempt_def then_do_def run_guarded_def Let_def p d)
        with ev Inl' show ?thesis by (auto simp: asked_def performed_def)
      next
        case Inr'': (Inr f)
        with run b Inr w Inl' z have "r = Inl e" "t = z\<lparr>xs_trace := xs_trace z @ [BackupDropped dir]\<rparr>"
          by (auto simp: backed_up_mutation_def attempt_def then_do_def run_guarded_def Let_def p d)
        with ev Inr'' Inl' show ?thesis by (simp add: asked_def performed_def)
      qed
    qed
    with v w show ?thesis by blast
  qed
qed

text \<open>C8: A guarded change of the partition table takes the lock, has the disk accepted with its identity and a
  backup made before the change starts.  When the change fails, the next thing asked for is the restore of
  that backup of that disk, with a token no cancellation reaches; the backup is dropped unless the restore
  failed too, and then the error names it.\<close>

theorem table_change_guarded:
  assumes run: "guarded_table_mutation mc x ph body s = (r, t)" and d: "d = plan_disk (xe_plan x)"
  shows "(\<exists>e es. r = Inl e \<and> xs_trace t = xs_trace s @ es \<and>
       (\<forall>token q. Requested token q \<in> set es \<longrightarrow> (\<exists>p. q = DiskHelper (BackupTable d p)))) \<or>
    (\<exists>a l g dir p v w bs. acquire_disk_lock a d = Inr l \<and>
       validate_target_disk_with_identity g d (target_disk_identity x) = Inr () \<and>
       p = path_join dir ''partition-table.backup'' \<and>
       xs_trace v = xs_trace s @ [Locked a, Guarded g, Requested FreshToken (DiskHelper (BackupTable d p)), Performed (DiskHelper (BackupTable d p))] \<and>
       body v = (bs, w) \<and>
       (case bs of
          Inr y \<Rightarrow> r = Inr y \<and> xs_trace t = xs_trace w @ [BackupDropped dir, Unlocked]
        | Inl e \<Rightarrow>
            (r = Inl e \<and> xs_trace t = xs_trace w @ [Requested FreshToken (DiskHelper (RestoreTable d p)),
               Performed (DiskHelper (RestoreTable d p)), BackupDropped dir, Unlocked]) \<or>
            (\<exists>f es. r = Inl (Execution ph (RestoreFailed (failure_of e) f dir)) \<and> xs_trace t = xs_trace w @ es @ [Unlocked] \<and>
               es \<in> {[], [Requested FreshToken (DiskHelper (RestoreTable d p))],
                 [Requested FreshToken (DiskHelper (RestoreTable d p)), Performed (DiskHelper (RestoreTable d p))]})))"
  (is "?early \<or> ?late")
proof -
  let ?inner = "then_do (exec_call (xm_tempdir mc)) (\<lambda>made.
        then_do (exec_res ph (\<lambda>_. BackupDirectoryMissing) (ok_or () made)) (\<lambda>directory. backed_up_mutation mc x ph directory body))"
  let ?body = "then_do (exec_validate_target_disk mc x ph) (\<lambda>_. ?inner)"
  have g: "guarded_table_mutation mc x ph body = with_disk_lock mc x ph ?body" by (simp add: guarded_table_mutation_def)
  from with_lock_events [OF run [unfolded g]]
  consider (none) e where "r = Inl e" "xs_trace t = xs_trace s"
    | (locked) a l s1 s2 where "acquire_disk_lock a d = Inr l" "xs_trace s1 = xs_trace s @ [Locked a]" "?body s1 = (r, s2)"
        "xs_trace t = xs_trace s2 @ [Unlocked]" unfolding d by blast
  then show ?thesis
  proof cases
    case none
    then show ?thesis by auto
  next
    case locked
    obtain r3 s3 where val: "exec_validate_target_disk mc x ph s1 = (r3, s3)" by fastforce
    show ?thesis
    proof (cases r3)
      case (Inl e)
      have "looks.only s1 s3" using looks.keepsD [OF looks.keeps_probes(5) val] .
      moreover from locked(3) val Inl have "r = Inl e" "s2 = s3" by (simp_all add: then_do_def)
      ultimately show ?thesis using locked(2,4) by (force simp: looks.only_def list_all_iff)
    next
      case (Inr u)
      from validate_ok [OF val [unfolded Inr]] obtain g where g: "xs_trace s3 = xs_trace s1 @ [Guarded g]"
          "validate_target_disk_with_identity g d (target_disk_identity x) = Inr ()" unfolding d by blast
      let ?s4 = "s3\<lparr>xs_world := snd (xm_tempdir mc (xs_world s3))\<rparr>"
      show ?thesis
      proof (cases "fst (xm_tempdir mc (xs_world s3))")
        case None
        with locked(3) val Inr have "r = Inl (Execution ph BackupDirectoryMissing)" "s2 = ?s4" by (simp_all add: then_do_def)
        with locked(2,4) g(1) show ?thesis by auto
      next
        case (Some dir)
        with locked(3) val Inr have "backed_up_mutation mc x ph dir body ?s4 = (r, s2)" by (simp add: then_do_def)
        from backed_up_events [OF this refl d] consider
            (early) e es where "r = Inl e" "xs_trace s2 = xs_trace s3 @ es @ [BackupDropped dir]"
              "set es \<subseteq> {Requested FreshToken (DiskHelper (BackupTable d (path_join dir ''partition-table.backup''))),
                 Performed (DiskHelper (BackupTable d (path_join dir ''partition-table.backup'')))}"
          | (late) v w bs where "xs_trace v = xs_trace s3 @ [Requested FreshToken (DiskHelper (BackupTable d (path_join dir ''partition-table.backup''))),
                 Performed (DiskHelper (BackupTable d (path_join dir ''partition-table.backup'')))]" "body v = (bs, w)"
              "case bs of Inr y \<Rightarrow> r = Inr y \<and> xs_trace s2 = xs_trace w @ [BackupDropped dir]
               | Inl e \<Rightarrow> (r = Inl e \<and> xs_trace s2 = xs_trace w @ [Requested FreshToken (DiskHelper (RestoreTable d (path_join dir ''partition-table.backup''))),
                    Performed (DiskHelper (RestoreTable d (path_join dir ''partition-table.backup''))), BackupDropped dir]) \<or>
                  (\<exists>f es. r = Inl (Execution ph (RestoreFailed (failure_of e) f dir)) \<and> xs_trace s2 = xs_trace w @ es \<and>
                    es \<in> {[], [Requested FreshToken (DiskHelper (RestoreTable d (path_join dir ''partition-table.backup'')))],
                      [Requested FreshToken (DiskHelper (RestoreTable d (path_join dir ''partition-table.backup''))),
                       Performed (DiskHelper (RestoreTable d (path_join dir ''partition-table.backup'')))]})"
          by auto
        then show ?thesis
        proof cases
          case early
          with locked(2,4) g(1) have "xs_trace t = xs_trace s @ ([Locked a, Guarded g] @ es @ [BackupDropped dir, Unlocked])" by simp
          with early(1,3) have ?early by fastforce
          then show ?thesis ..
        next
          case late
          from late(1) locked(2) g(1) have v: "xs_trace v = xs_trace s @ [Locked a, Guarded g,
              Requested FreshToken (DiskHelper (BackupTable d (path_join dir ''partition-table.backup''))),
              Performed (DiskHelper (BackupTable d (path_join dir ''partition-table.backup'')))]" by simp
          let ?p = "path_join dir ''partition-table.backup''"
          have "case bs of
              Inr y \<Rightarrow> r = Inr y \<and> xs_trace t = xs_trace w @ [BackupDropped dir, Unlocked]
            | Inl e \<Rightarrow>
                (r = Inl e \<and> xs_trace t = xs_trace w @ [Requested FreshToken (DiskHelper (RestoreTable d ?p)),
                   Performed (DiskHelper (RestoreTable d ?p)), BackupDropped dir, Unlocked]) \<or>
                (\<exists>f es. r = Inl (Execution ph (RestoreFailed (failure_of e) f dir)) \<and> xs_trace t = xs_trace w @ es @ [Unlocked] \<and>
                   es \<in> {[], [Requested FreshToken (DiskHelper (RestoreTable d ?p))],
                     [Requested FreshToken (DiskHelper (RestoreTable d ?p)), Performed (DiskHelper (RestoreTable d ?p))]})"
            using late(3) by (cases bs) (auto simp: locked(4))
          note last = this
          have ?late
            by (rule exI [of _ a], rule exI [of _ l], rule exI [of _ g], rule exI [of _ dir], rule exI [of _ ?p],
                rule exI [of _ v], rule exI [of _ w], rule exI [of _ bs]) (intro conjI refl locked(1) g(2) v late(2) last)
          then show ?thesis ..
        qed
      qed
    qed
  qed
qed

section \<open>Shrinking Windows\<close>

fun unresized :: "phase_effect \<Rightarrow> bool" where
  "unresized (Requested _ (DiskHelper (ResizePartition _ _ _ _ _ _))) = False"
| "unresized _ = True"

interpretation before_resize: exec_events unresized
  by unfold_locales simp_all

lemma run_all_ok:
  assumes "\<And>y s t. f y s = (Inr (), t) \<Longrightarrow> xs_trace t = xs_trace s @ g y"
  shows "run_all (map f ys) s = (Inr (), t) \<Longrightarrow> xs_trace t = xs_trace s @ concat (map g ys)"
  by (induction ys arbitrary: s) (auto dest: assms)

definition stage_events :: "cancellation_token \<Rightarrow> string \<Rightarrow> nat \<Rightarrow> phase_effect list" where
  "stage_events token part nsize = concat (map (\<lambda>stage.
     [Requested token (StreamHelper (FilesystemResize part ''ntfs'' nsize stage)),
      Performed (StreamHelper (FilesystemResize part ''ntfs'' nsize stage))]) [''check'', ''info'', ''dry_run'', ''resize''])"

lemma shrink_ntfs_filesystem_ok:
  assumes "shrink_ntfs_filesystem mc x ph token part nsize s = (Inr (), t)"
  shows "xs_trace t = xs_trace s @ Journalled ''ntfs_shrink'' Started # stage_events token part nsize"
proof -
  let ?f = "\<lambda>stage. then_do (execute_stream_helper mc x ph token
         (FilesystemResize part ''ntfs'' nsize stage) (Some (''filesystem_resize'', part))) (\<lambda>_. return_ok ())"
  have f: "xs_trace t = xs_trace s @ [Requested token (StreamHelper (FilesystemResize part ''ntfs'' nsize stage)),
      Performed (StreamHelper (FilesystemResize part ''ntfs'' nsize stage))]" if "?f stage s = (Inr (), t)" for stage s t
    using that helper_events [of mc x ph token "StreamHelper (FilesystemResize part ''ntfs'' nsize stage)"]
    by (force simp: execute_stream_helper_def)
  from assms obtain s1 u where "record_journal mc ph ''ntfs_shrink'' Started s = (Inr u, s1)"
      and r: "run_all (map ?f [''check'', ''info'', ''dry_run'', ''resize'']) s1 = (Inr (), t)"
    unfolding shrink_ntfs_filesystem_def then_do_Inr by blast
  with record_journal_events have "xs_trace s1 = xs_trace s @ [Journalled ''ntfs_shrink'' Started]" by fastforce
  with run_all_ok [where f = ?f, OF f r] show ?thesis by (simp add: stage_events_def)
qed

lemma fresh_boundary_ok:
  assumes "fresh_boundary mc x ph part probe n s = (Inr fresh, t)"
  shows "\<exists>out. xs_trace t = xs_trace s @ [Probed (SNAPSHOT_ARGS @ [plan_disk (xe_plan x)]) (Output out)] \<and>
     partition_probe_from_snapshot (xm_decode mc out) (plan_disk (xe_plan x)) part n = Inr fresh \<and>
     pp_start_bytes fresh = pp_start_bytes probe \<and> abs_diff (pp_size_bytes fresh) (pp_size_bytes probe) \<le> n"
proof -
  from assms obtain snap where "disk_snapshot mc ph (plan_disk (xe_plan x)) s = (Inr snap, t)"
      "partition_probe_from_snapshot snap (plan_disk (xe_plan x)) part n = Inr fresh"
      "pp_start_bytes fresh = pp_start_bytes probe" "abs_diff (pp_size_bytes fresh) (pp_size_bytes probe) \<le> n"
    by (auto simp: fresh_boundary_def Let_def split: if_splits)
  with snapshot_ok show ?thesis by blast
qed

lemma shrink_keeps:
  "before_resize.keeps (shrink_ntfs_filesystem mc x ph token part nsize)"
  "before_resize.keeps (fresh_boundary mc x ph part probe n)"
  "before_resize.keeps (create_target_partition mc x ph token a b n)"
  "before_resize.keeps (finish_shrink mc x ph token part probe nsize n)"
proof -
  show c: "before_resize.keeps (create_target_partition mc x ph token a b n)" for a b
    by (auto simp: create_target_partition_def create_bios_boot_def Let_def
      intro!: before_resize.keeps_rules before_resize.keeps_probes before_resize.keeps_disk_helper)
  show "before_resize.keeps (finish_shrink mc x ph token part probe nsize n)"
    by (auto simp: finish_shrink_def Let_def intro!: before_resize.keeps_rules before_resize.keeps_probes before_resize.keeps_record_journal c)
qed (auto simp: shrink_ntfs_filesystem_def fresh_boundary_def Let_def
    intro!: before_resize.keeps_rules before_resize.keeps_probes before_resize.keeps_record_journal before_resize.keeps_stream_helper)

text \<open>When the shrink asks for the boundary to be moved: everything before the request.\<close>

lemma shrink_events:
  assumes "shrink_ntfs mc x ph token part probe nsize n s = (r, t)"
  shows "before_resize.only s t \<or>
    (\<exists>out fresh es. xs_trace t = xs_trace s @ (Journalled ''ntfs_shrink'' Started # stage_events token part nsize) @
         [Probed (SNAPSHOT_ARGS @ [plan_disk (xe_plan x)]) (Output out),
          Requested token (DiskHelper (ResizePartition (plan_disk (xe_plan x)) (pp_number fresh) (pp_start_bytes fresh) nsize n (pp_partuuid fresh)))] @ es \<and>
       list_all unresized es \<and>
       partition_probe_from_snapshot (xm_decode mc out) (plan_disk (xe_plan x)) part n = Inr fresh \<and>
       pp_start_bytes fresh = pp_start_bytes probe \<and> abs_diff (pp_size_bytes fresh) (pp_size_bytes probe) \<le> n)"
proof -
  obtain r1 s1 where a: "shrink_ntfs_filesystem mc x ph token part nsize s = (r1, s1)" by fastforce
  obtain r2 s2 where b: "fresh_boundary mc x ph part probe n s1 = (r2, s2)" by fastforce
  note only1 = before_resize.keepsD [OF shrink_keeps(1) a]
  note only2 = before_resize.R_trans [OF only1 before_resize.keepsD [OF shrink_keeps(2) b]]
  show ?thesis
  proof (cases "\<exists>u fresh. r1 = Inr u \<and> r2 = Inr fresh")
    case False
    then have "t = s1 \<or> t = s2" using assms a b by (cases r1; cases r2) (auto simp: shrink_ntfs_def then_do_def)
    with only1 only2 show ?thesis by blast
  next
    case True
    then obtain fresh where r: "r1 = Inr ()" "r2 = Inr fresh" by auto
    from shrink_ntfs_filesystem_ok [OF a [unfolded r]] fresh_boundary_ok [OF b [unfolded r]] obtain out where
      out: "xs_trace s2 = xs_trace s @ (Journalled ''ntfs_shrink'' Started # stage_events token part nsize) @
         [Probed (SNAPSHOT_ARGS @ [plan_disk (xe_plan x)]) (Output out)]"
        "partition_probe_from_snapshot (xm_decode mc out) (plan_disk (xe_plan x)) part n = Inr fresh"
        "pp_start_bytes fresh = pp_start_bytes probe" "abs_diff (pp_size_bytes fresh) (pp_size_bytes probe) \<le> n" by auto
    let ?op = "ResizePartition (plan_disk (xe_plan x)) (pp_number fresh) (pp_start_bytes fresh) nsize n (pp_partuuid fresh)"
    obtain r3 s3 where h: "execute_disk_helper mc x ph token ?op s2 = (r3, s3)" by fastforce
    obtain r4 s4 where f: "finish_shrink mc x ph token part probe nsize n s3 = (r4, s4)" by fastforce
    from before_resize.keepsE [OF shrink_keeps(4) f] obtain e4 where e4: "xs_trace s4 = xs_trace s3 @ e4" "list_all unresized e4" .
    have t: "t = (case r3 of Inl _ \<Rightarrow> s3 | Inr _ \<Rightarrow> s4)"
      using assms a b r h f by (auto simp: shrink_ntfs_def then_do_def split: sum.splits)
    consider (asked) es where "xs_trace t = xs_trace s2 @ Requested token (DiskHelper ?op) # es" "list_all unresized es" | (not_asked) "xs_trace t = xs_trace s2"
      using disk_helper_events [OF h] t e4 by (cases r3) auto
    then show ?thesis
    proof cases
      case asked
      with out show ?thesis by (intro disjI2 exI [of _ out] exI [of _ fresh] exI [of _ es]) simp
    next
      case not_asked
      with only2 show ?thesis by (simp add: before_resize.only_def)
    qed
  qed
qed

text \<open>The way to the shrink: every other end of the resize has asked for no move of a boundary.\<close>

lemma resize_reaches_shrink:
  assumes run: "resize_ntfs_target mc x ph token s = (r, t)" and d: "d = plan_disk (xe_plan x)"
  shows "before_resize.only s t \<or>
    (\<exists>part n out probe prior v. ac_online_in (xm_supplies mc (xs_world s)) \<and> plan_resize_partition (xe_plan x) = Some part \<and>
       xs_trace v = xs_trace s @ prior \<and> list_all unresized prior \<and> Probed (SNAPSHOT_ARGS @ [d]) (Output out) \<in> set prior \<and>
       partition_probe_from_snapshot (xm_decode mc out) d part n = Inr probe \<and> is_ntfs (pp_fstype probe) \<and>
       \<not> (pp_efi probe \<or> pp_current probe \<or> pp_in_use probe \<or> pp_read_only probe) \<and>
       plan_resize_bytes (xe_plan x) \<le> pp_size_bytes probe \<and>
       MIN_WINDOWS_BYTES \<le> pp_size_bytes probe - plan_resize_bytes (xe_plan x) \<and>
       (pp_size_bytes probe - plan_resize_bytes (xe_plan x)) mod n = 0 \<and>
       shrink_ntfs mc x ph token part probe (pp_size_bytes probe - plan_resize_bytes (xe_plan x)) n v = (r, t))"
  (is "?quiet \<or> ?shrinks")
proof (cases "ac_online_in (xm_supplies mc (xs_world s)) \<and> plan_resize_partition (xe_plan x) \<noteq> None")
  case False
  with run have "t = s" by (auto simp: resize_ntfs_target_def then_do_def Let_def map_err_def ok_or_def split: if_splits option.splits)
  then show ?thesis by (simp add: before_resize.only_refl)
next
  case True
  then obtain part where ac: "ac_online_in (xm_supplies mc (xs_world s))" and part: "plan_resize_partition (xe_plan x) = Some part" by auto
  obtain r1 s1 where a: "disk_sector_size mc x ph s = (r1, s1)" by fastforce
  obtain r2 s2 where b: "disk_snapshot mc ph d s1 = (r2, s2)" by fastforce
  note k1 = before_resize.keepsD [OF before_resize.keeps_probes(4) a]
  note k2 = before_resize.R_trans [OF k1 before_resize.keepsD [OF before_resize.keeps_probes(3) b]]
  show ?thesis
  proof (cases "\<exists>n snap probe. r1 = Inr n \<and> r2 = Inr snap \<and> partition_probe_from_snapshot snap d part n = Inr probe \<and> is_ntfs (pp_fstype probe) \<and>
       \<not> (pp_efi probe \<or> pp_current probe \<or> pp_in_use probe \<or> pp_read_only probe)")
    case False
    have "t = s1 \<or> t = s2"
    proof (cases r1)
      case (Inl e)
      with run ac part a show ?thesis by (simp add: resize_ntfs_target_def then_do_def Let_def)
    next
      case r1: (Inr n)
      show ?thesis
      proof (cases r2)
        case (Inl e)
        with run ac part a r1 b d show ?thesis by (simp add: resize_ntfs_target_def then_do_def Let_def)
      next
        case (Inr snap)
        with run ac part a r1 b False d show ?thesis
          by (cases "partition_probe_from_snapshot snap d part n") (auto simp: resize_ntfs_target_def then_do_def Let_def map_err_def split: if_splits)
      qed
    qed
    with k1 k2 show ?thesis by blast
  next
    case True
    then obtain n snap probe where r: "r1 = Inr n" "r2 = Inr snap" and probe: "partition_probe_from_snapshot snap d part n = Inr probe"
        "is_ntfs (pp_fstype probe)" "\<not> (pp_efi probe \<or> pp_current probe \<or> pp_in_use probe \<or> pp_read_only probe)" by blast
    from snapshot_ok [OF b [unfolded r]] obtain out where out: "xs_trace s2 = xs_trace s1 @ [Probed (SNAPSHOT_ARGS @ [d]) (Output out)]" "snap = xm_decode mc out" by blast
    obtain r3 s3 where c: "ntfs_shrink_resume_window mc x ph snap probe n s2 = (r3, s3)" by fastforce
    note k3 = before_resize.R_trans [OF k2 before_resize.keepsD [OF before_resize.keeps_resume c]]
    let ?nsize = "pp_size_bytes probe - plan_resize_bytes (xe_plan x)"
    let ?rest = "\<lambda>resume. case resume of
            Some (new_end, old_end) \<Rightarrow> create_target_partition mc x ph token new_end old_end n
          | None \<Rightarrow>
              then_do (ensure_esp_journal mc x ph token) (\<lambda>_.
              if pp_size_bytes probe < plan_resize_bytes (xe_plan x) then exec_fail ph ShrinkTooLarge
              else if ?nsize < MIN_WINDOWS_BYTES \<or> ?nsize mod n \<noteq> 0 then exec_fail ph ShrinkUnsafe
              else shrink_ntfs mc x ph token part probe ?nsize n)"
    have tail: "then_do (ntfs_shrink_resume_window mc x ph snap probe n) ?rest s2 = (r, t)"
      using run [unfolded resize_ntfs_target_def Let_def] ac part probe d
      by (simp add: then_do_step a [unfolded r] b [unfolded r d] split del: if_split)
    show ?thesis
    proof (cases r3)
      case (Inl e)
      with tail c k3 show ?thesis by (simp add: then_do_def)
    next
      case r3: (Inr w)
      with tail c have tail: "?rest w s3 = (r, t)" by (simp add: then_do_step)
      show ?thesis
      proof (cases w)
        case (Some win)
        with tail have "create_target_partition mc x ph token (fst win) (snd win) n s3 = (r, t)" by (simp add: split_beta)
        from before_resize.R_trans [OF k3 before_resize.keepsD [OF shrink_keeps(3) this]] show ?thesis ..
      next
        case None
        obtain r4 s4 where e: "ensure_esp_journal mc x ph token s3 = (r4, s4)" by fastforce
        have "before_resize.keeps (ensure_esp_journal mc x ph token)" by (rule before_resize.keeps_esp_journal) auto
        note k4 = before_resize.R_trans [OF k3 before_resize.keepsD [OF this e]]
        show ?thesis
        proof (cases "(\<exists>e. r4 = Inl e) \<or> pp_size_bytes probe < plan_resize_bytes (xe_plan x) \<or> ?nsize < MIN_WINDOWS_BYTES \<or> ?nsize mod n \<noteq> 0")
          case True
          with tail None e have "t = s4" by (cases r4) (auto simp: then_do_def split: if_splits)
          with k4 show ?thesis by simp
        next
          case False
          then obtain u where "r4 = Inr u" by (cases r4) auto
          with False tail None e have sh: "shrink_ntfs mc x ph token part probe ?nsize n s4 = (r, t)"
            by (simp add: then_do_def)
          have "before_resize.only s2 s4"
            using before_resize.R_trans [OF before_resize.keepsD [OF before_resize.keeps_resume c]
                before_resize.keepsD [OF \<open>before_resize.keeps (ensure_esp_journal mc x ph token)\<close> e]] .
          with k1 out obtain e1 e2 where tr: "xs_trace s4 = xs_trace s @ (e1 @ [Probed (SNAPSHOT_ARGS @ [d]) (Output out)] @ e2)"
              "list_all unresized (e1 @ [Probed (SNAPSHOT_ARGS @ [d]) (Output out)] @ e2)"
            by (auto simp: before_resize.only_def)
          have ?shrinks
            by (rule exI [of _ part], rule exI [of _ n], rule exI [of _ out], rule exI [of _ probe],
                rule exI [of _ "e1 @ [Probed (SNAPSHOT_ARGS @ [d]) (Output out)] @ e2"], rule exI [of _ s4])
              (use ac part tr out(2) probe False sh in auto)
          then show ?thesis ..
        qed
      qed
    qed
  qed
qed

text \<open>C9: The installer asks for the boundary of the Windows partition to be moved only on mains power and only
  after the intention was made durable and the four stages on the file system were performed in order, and
  right after a fresh snapshot: number, start and identity are those of the planned partition there, which
  has not moved since it was found to be an unused NTFS partition, and the new size is what that probe
  leaves after the planned shrink, at least the Windows minimum and a whole number of sectors.\<close>

theorem shrink_in_order:
  assumes run: "resize_ntfs_target mc x ph token s = (r, t)"
    and es: "xs_trace t = xs_trace s @ before @ Requested tok (DiskHelper (ResizePartition d num start nsize n uuid)) # after"
  shows "ac_online_in (xm_supplies mc (xs_world s)) \<and> d = plan_disk (xe_plan x) \<and>
    (\<exists>part prior out0 probe out fresh. plan_resize_partition (xe_plan x) = Some part \<and>
       before = prior @ (Journalled ''ntfs_shrink'' Started # stage_events token part nsize) @ [Probed (SNAPSHOT_ARGS @ [d]) (Output out)] \<and>
       Probed (SNAPSHOT_ARGS @ [d]) (Output out0) \<in> set prior \<and>
       partition_probe_from_snapshot (xm_decode mc out0) d part n = Inr probe \<and> is_ntfs (pp_fstype probe) \<and>
       \<not> (pp_efi probe \<or> pp_current probe \<or> pp_in_use probe \<or> pp_read_only probe) \<and>
       nsize + plan_resize_bytes (xe_plan x) = pp_size_bytes probe \<and> MIN_WINDOWS_BYTES \<le> nsize \<and> nsize mod n = 0 \<and>
       partition_probe_from_snapshot (xm_decode mc out) d part n = Inr fresh \<and>
       num = pp_number fresh \<and> start = pp_start_bytes fresh \<and> uuid = pp_partuuid fresh \<and>
       start = pp_start_bytes probe \<and> abs_diff (pp_size_bytes fresh) (pp_size_bytes probe) \<le> n)"
proof -
  let ?q = "Requested tok (DiskHelper (ResizePartition d num start nsize n uuid))"
  let ?d = "plan_disk (xe_plan x)"
  have loud: "\<not> before_resize.only s t" using es by (auto simp: before_resize.only_def)
  with resize_reaches_shrink [OF run refl] obtain part m out0 probe prior v where
      ac: "ac_online_in (xm_supplies mc (xs_world s))" and part: "plan_resize_partition (xe_plan x) = Some part"
      and v: "xs_trace v = xs_trace s @ prior" "list_all unresized prior" "Probed (SNAPSHOT_ARGS @ [?d]) (Output out0) \<in> set prior"
      and probe: "partition_probe_from_snapshot (xm_decode mc out0) ?d part m = Inr probe" "is_ntfs (pp_fstype probe)"
        "\<not> (pp_efi probe \<or> pp_current probe \<or> pp_in_use probe \<or> pp_read_only probe)" "plan_resize_bytes (xe_plan x) \<le> pp_size_bytes probe"
        "MIN_WINDOWS_BYTES \<le> pp_size_bytes probe - plan_resize_bytes (xe_plan x)"
        "(pp_size_bytes probe - plan_resize_bytes (xe_plan x)) mod m = 0"
      and sh: "shrink_ntfs mc x ph token part probe (pp_size_bytes probe - plan_resize_bytes (xe_plan x)) m v = (r, t)"
    by (elim disjE exE conjE, simp) (rule that)
  let ?new = "pp_size_bytes probe - plan_resize_bytes (xe_plan x)"
  have "\<not> before_resize.only v t" using loud v by (auto simp: before_resize.only_def)
  with shrink_events [OF sh] obtain out fresh es' where
      t: "xs_trace t = xs_trace v @ (Journalled ''ntfs_shrink'' Started # stage_events token part ?new) @
         [Probed (SNAPSHOT_ARGS @ [?d]) (Output out),
          Requested token (DiskHelper (ResizePartition ?d (pp_number fresh) (pp_start_bytes fresh) ?new m (pp_partuuid fresh)))] @ es'"
      and es': "list_all unresized es'" and fresh: "partition_probe_from_snapshot (xm_decode mc out) ?d part m = Inr fresh"
        "pp_start_bytes fresh = pp_start_bytes probe" "abs_diff (pp_size_bytes fresh) (pp_size_bytes probe) \<le> m"
    by (elim disjE exE conjE, simp) (rule that)
  let ?p = "Requested token (DiskHelper (ResizePartition ?d (pp_number fresh) (pp_start_bytes fresh) ?new m (pp_partuuid fresh)))"
  let ?pre = "prior @ (Journalled ''ntfs_shrink'' Started # stage_events token part ?new) @ [Probed (SNAPSHOT_ARGS @ [?d]) (Output out)]"
  have eq: "before @ ?q # after = ?pre @ ?p # es'" using es t v(1) by simp
  have "list_all unresized ?pre" using v(2) by (simp add: stage_events_def)
  then have no: "?q \<notin> set ?pre" "?q \<notin> set es'" using es' by (force simp: list_all_iff)+
  have "?q \<in> set (?pre @ ?p # es')" unfolding eq [symmetric] by simp
  with no have same: "?q = ?p" by auto
  have "before = ?pre" using eq append_Cons_eq_iff [of ?p ?pre es' before after] no unfolding same by metis
  moreover from same have "nsize = ?new" "n = m" "d = ?d" "num = pp_number fresh" "start = pp_start_bytes fresh" "uuid = pp_partuuid fresh" by simp_all
  ultimately show ?thesis using ac part v(3) probe fresh
    by (intro conjI exI [of _ part] exI [of _ prior] exI [of _ out0] exI [of _ probe] exI [of _ out] exI [of _ fresh]) simp_all
qed

section \<open>Resuming after a completed shrink\<close>


section \<open>What is recorded after a phase\<close>

lemma write_transaction_ok:
  assumes "write_transaction mc x status ph lifecycle message s = (Inr u, t)"
  shows "tx_status (xs_transaction t) = status \<and>
    (\<exists>d. write_request (xm_transaction mc) (xm_pretty mc) (xe_transaction_path x) (xs_transaction t) d = (Inr (), xs_files t))"
  using assms
  by (auto simp: write_transaction_def save_transaction_def then_do_def exec_files_def map_err_def ok_or_def Let_def
      split: option.splits prod.splits sum.splits)

lemma write_status_ok:
  assumes "write_status mc x ph (Some (status, message)) s = (Inr u, t)"
  shows "tx_status (xs_transaction t) = status \<and>
    (\<exists>d. write_request (xm_transaction mc) (xm_pretty mc) (xe_transaction_path x) (xs_transaction t) d = (Inr (), xs_files t))"
  using assms write_transaction_ok by (simp add: write_status_def)

lemma phase_recorded:
  assumes run: "execute_phase_typed mc x others ph s = (Inr u, t)" and ph: "ph \<noteq> Storage"
  shows "tx_status (xs_transaction t) = (if ph = Complete then ''complete'' else fst (the (completion_status ph))) \<and>
    (\<exists>d. write_request (xm_transaction mc) (xm_pretty mc) (xe_transaction_path x) (xs_transaction t) d = (Inr (), xs_files t))"
proof (cases "ph = Complete")
  case True
  with run obtain s1 where "execute_complete mc x s1 = (Inr (), t)"
    by (auto simp: execute_phase_typed_def write_status_def then_do_def split: if_splits prod.splits sum.splits)
  then obtain s2 where "write_transaction mc x ''complete'' Complete ''done'' ''Native installer completed successfully'' s2 = (Inr (), t)"
    by (auto simp: execute_complete_def)
  from write_transaction_ok [OF this] True show ?thesis by simp
next
  case False
  with ph obtain st msg where st: "completion_status ph = Some (st, msg)" by (cases ph) auto
  from run obtain s1 where "write_status mc x ph (completion_status ph) s1 = (Inr (), t)"
    by (auto simp: execute_phase_typed_def split: if_splits)
  from write_status_ok [OF this [unfolded st]] False st show ?thesis by simp
qed


section \<open>The theorems on concrete runs\<close>


theorem format_confirmed_witness:
  "\<exists>r t prior a l g out size n requested probe.
     execute_storage (phase_machine format_record (\<lambda>_. 3)) (phase_executor ''manual'') Storage JobToken phase_state = (r, t) \<and>
     format_checks = prior @ [Locked a, Guarded g, Probed (SNAPSHOT_ARGS @ [''/dev/sda'']) (Output out),
         Probed [''/usr/sbin/blockdev'', ''--getss'', ''/dev/sda''] (Output size), Journalled ''format'' Started] \<and>
     acquire_disk_lock a ''/dev/sda'' = Inr l \<and> requested = ''/dev/sda2'' \<and>
     validate_replace_target install_snapshot ''/dev/sda'' requested ''root partition'' n = Inr probe \<and> pp_name probe = ''/dev/sda2''"
proof -
  obtain e t where run: "execute_storage (phase_machine format_record (\<lambda>_. 3)) (phase_executor ''manual'') Storage JobToken phase_state = (Inl e, t)"
      "xs_trace t = xs_trace phase_state @ format_checks @
       Requested JobToken (DiskHelper (FormatFilesystem ''/dev/sda2'' ''btrfs'' ''KythOS'' ''/dev/sda'')) # [Unlocked]"
    using format_run by blast
  from format_confirmed [OF run] run(1) show ?thesis by (simp add: plan_role_def eq_commute [of "''/dev/sda2''"]) blast
qed


theorem shrink_in_order_witness:
  "\<exists>r t prior out part before. resize_ntfs_target (phase_machine shrink_record move_refused) (phase_executor ''resize_ntfs'') Storage JobToken shrink_state = (r, t) \<and>
     before = prior @ (Journalled ''ntfs_shrink'' Started # stage_events JobToken part 146028888064) @ [Probed (SNAPSHOT_ARGS @ [''/dev/sda'']) (Output out)] \<and>
     part = ''/dev/sda3'' \<and> MIN_WINDOWS_BYTES \<le> 146028888064 \<and> length before < length (xs_trace t)"
proof -
  obtain e t before num start uuid where run: "resize_ntfs_target (phase_machine shrink_record move_refused) (phase_executor ''resize_ntfs'') Storage JobToken shrink_state = (Inl e, t)"
      "xs_trace t = xs_trace shrink_state @ before @ Requested JobToken (DiskHelper (ResizePartition ''/dev/sda'' num start 146028888064 512 uuid)) # []"
    using shrink_run by blast
  from shrink_in_order [OF run] obtain prior out where
      "before = prior @ (Journalled ''ntfs_shrink'' Started # stage_events JobToken ''/dev/sda3'' 146028888064) @ [Probed (SNAPSHOT_ARGS @ [''/dev/sda'']) (Output out)]"
      "MIN_WINDOWS_BYTES \<le> 146028888064"
    unfolding phase_plan option.inject by blast
  moreover have "length before < length (xs_trace t)" using run(2) by simp
  ultimately show ?thesis using run(1) by blast
qed

theorem guided_modes_never_finish_witness:
  "fst (execute_storage (phase_machine shrink_record move_refused) guided_executor Storage JobToken phase_state) \<noteq> Inr ()"
proof -
  let ?p = "projr (build_plan sample_input)"
  have p: "build_plan sample_input = Inr ?p" "xe_plan guided_executor = ?p\<lparr>plan_pre_shrink_bytes := None\<rparr>" "plan_mode ?p \<in> {''free_space'', ''resize_ntfs''}"
    by (simp_all add: sample_plan guided_executor_def)
  obtain r t where run: "execute_storage (phase_machine shrink_record move_refused) guided_executor Storage JobToken phase_state = (r, t)" by fastforce
  have "xs_trace t = xs_trace phase_state @ xs_trace t" by (simp add: phase_state_def)
  from guided_modes_never_finish [OF p run this] run show ?thesis by simp
qed

theorem table_change_guarded_witness:
  "\<exists>r t. guarded_table_mutation (phase_machine shrink_record (\<lambda>_. 0)) (phase_executor ''free_space'') Storage
      (exec_fail Storage TargetTooSmall :: (unit, string) exec) phase_state = (r, t) \<and>
     r = Inl (Execution Storage TargetTooSmall) \<and>
     xs_trace t = [Locked lock_sample, Guarded guard_sample,
       Requested FreshToken (DiskHelper (BackupTable ''/dev/sda'' ''/tmp/b/partition-table.backup'')),
       Performed (DiskHelper (BackupTable ''/dev/sda'' ''/tmp/b/partition-table.backup'')),
       Requested FreshToken (DiskHelper (RestoreTable ''/dev/sda'' ''/tmp/b/partition-table.backup'')),
       Performed (DiskHelper (RestoreTable ''/dev/sda'' ''/tmp/b/partition-table.backup'')), BackupDropped ''/tmp/b'', Unlocked] \<and>
     (\<exists>a l. acquire_disk_lock a ''/dev/sda'' = Inr l)"
proof -
  let ?m = "phase_machine shrink_record (\<lambda>_. 0)" and ?x = "phase_executor ''free_space''"
  let ?b = "BackupTable ''/dev/sda'' ''/tmp/b/partition-table.backup''" and ?r = "RestoreTable ''/dev/sda'' ''/tmp/b/partition-table.backup''"
  let ?s1 = "logged [Locked lock_sample, Guarded guard_sample] phase_state"
  have path: "path_join ''/tmp/b'' ''partition-table.backup'' = ''/tmp/b/partition-table.backup''" by (simp add: path_join_def)
  have "ready (xs_files ?s1)" using ready_disk by (simp add: phase_state_def recordable_def)
  from phase_disk_helper(1) [where q = ?b, OF this refl] obtain d2 tx2 where
      b: "execute_disk_helper ?m ?x Storage FreshToken ?b ?s1 = (Inr (), with_files d2 tx2 (logged [Requested FreshToken (DiskHelper ?b), Performed (DiskHelper ?b)] ?s1))" "ready d2" by blast
  let ?s2 = "with_files d2 tx2 (logged [Requested FreshToken (DiskHelper ?b), Performed (DiskHelper ?b)] ?s1)"
  have "ready (xs_files ?s2)" using b(2) by simp
  from phase_disk_helper(1) [where q = ?r, OF this refl] obtain d3 tx3 where
      c: "execute_disk_helper ?m ?x Storage FreshToken ?r ?s2 = (Inr (), with_files d3 tx3 (logged [Requested FreshToken (DiskHelper ?r), Performed (DiskHelper ?r)] ?s2))" by blast
  let ?s3 = "with_files d3 tx3 (logged [Requested FreshToken (DiskHelper ?r), Performed (DiskHelper ?r)] ?s2)"
  let ?t = "logged [Unlocked] (logged [BackupDropped ''/tmp/b''] ?s3)"
  have "backed_up_mutation ?m ?x Storage ''/tmp/b'' (exec_fail Storage TargetTooSmall :: (unit, string) exec) ?s1 =
      (Inl (Execution Storage TargetTooSmall), logged [BackupDropped ''/tmp/b''] ?s3)"
    using b(1) c by (simp add: backed_up_mutation_def then_do_def attempt_def run_guarded_def path Let_def) (simp add: logged_def with_files_def)
  then have run: "guarded_table_mutation ?m ?x Storage (exec_fail Storage TargetTooSmall :: (unit, string) exec) phase_state =
      (Inl (Execution Storage TargetTooSmall), ?t)"
    unfolding guarded_table_mutation_def by (intro phase_lock) (simp add: then_do_def phase_looks unit_world)
  have trace: "xs_trace ?t = [Locked lock_sample, Guarded guard_sample, Requested FreshToken (DiskHelper ?b), Performed (DiskHelper ?b),
      Requested FreshToken (DiskHelper ?r), Performed (DiskHelper ?r), BackupDropped ''/tmp/b'', Unlocked]"
    by (simp add: phase_state_def)
  have "Requested FreshToken (DiskHelper ?r) \<in> set (xs_trace ?t)" unfolding trace by simp
  then have "\<exists>a l. acquire_disk_lock a ''/dev/sda'' = Inr l"
    using table_change_guarded [OF run refl] by (fastforce simp: phase_state_def)
  with run trace show ?thesis by blast
qed


end
