(* ===== verification/Spec2Isabelle.thy ===== *)
theory Spec2Isabelle
  imports Commit_Safety Job_Safety Phase_Safety
begin

text \<open>
  \<^bold>\<open>A verification library for the KythOS installer back end.\<close>

  The program is the privileged back end of the KythOS installer,
  \<open>src/src/kyth-installer-web/src-tauri/src\<close>: a Rust service that discovers disks, turns a request
  into a checked plan, edits and commits partition tables, mounts what the user assigned and runs the
  installation as one supervised job.  A mistake in it destroys data, so the development is about
  what is written, to which disk, after which checks, and what is reported afterwards.

  \<^bold>\<open>Parts and theories.\<close>  Every component has a theory with its data and operations and, where it is
  large, a second one with its correctness.

  \<^item> \<open>Kyth_Prelude\<close>: the fragment of the Rust standard library the code uses (results and options,
    strings, paths, saturating and checked arithmetic at 64 bits, \<open>serde_json\<close> values), the
    collection of evaluation rules, and the interfaces \<open>keyed_map\<close>, \<open>device_normalizer\<close> and
    \<open>argument_validator\<close>.
  \<^item> \<open>Installer_Plan\<close> (\<open>installer_plan.rs\<close>): request normalisation.
  \<^item> \<open>Installer_Storage\<close>, \<open>Storage_Regions\<close>, \<open>Storage_Safety\<close> (\<open>installer_storage.rs\<close>): the \<open>lsblk\<close> and
    \<open>findmnt\<close> trees, disk ancestry, protected disks, free regions, the replace and format gates, disk
    identity, the preflight.
  \<^item> \<open>Installer_Guard\<close> (\<open>installer_guard.rs\<close>): the operation lease and the re-probe before a write.
  \<^item> \<open>Installer_Disk\<close>, \<open>Disk_Safety\<close> (\<open>installer_disk.rs\<close>): typed disk requests and the command lines
    they become.
  \<^item> \<open>Installer_Manual\<close>, \<open>Manual_Safety\<close> (\<open>installer_manual.rs\<close>, and from \<open>installer_configuration.rs\<close>
    and \<open>installer_probe.rs\<close> what it calls): the manual mount matrix.
  \<^item> \<open>Installer_Journal\<close>, \<open>Journal_Safety\<close> (\<open>installer_journal.rs\<close>, staging and validation) and
    \<open>Installer_Effects\<close>, \<open>Installer_Commit\<close>, \<open>Commit_Safety\<close> (the same file, execution and commit).
  \<^item> \<open>Installer_Runtime\<close> (\<open>installer_runtime.rs\<close>, \<open>installer_mount.rs\<close>), \<open>Installer_Job\<close> and
    \<open>Job_Safety\<close> (\<open>installer_job.rs\<close>): lifecycle, phases and the job supervisor.
  \<^item> \<open>Kyth_Comp\<close>: computations with errors over a state, and the locale of what they keep.
  \<^item> \<open>Installer_Durable\<close>, \<open>Durable_Safety\<close> (\<open>installer_durable_journal.rs\<close>): the crash-recovery journal on a
    model of the disk that keeps what is visible apart from what survives a power loss.
  \<^item> \<open>Installer_Transaction\<close>, \<open>Transaction_Safety\<close> (\<open>installer_transaction.rs\<close>, and from
    \<open>installer_recovery.rs\<close> the support export): the transaction record on the same disk.
  \<^item> \<open>Installer_Orchestration\<close> (\<open>installer_orchestration.rs\<close>, and from \<open>installer_recovery.rs\<close> the rescue
    guidance): which lifecycle steps and statuses are accepted and what they mean after a crash.
  \<^item> \<open>Installer_Stream\<close>, \<open>Stream_Safety\<close> (\<open>installer_stream.rs\<close>): supervised child processes, the decoder
    and framer of their output, the watchdog.
  \<^item> \<open>Installer_Phases\<close>, \<open>Phase_Events\<close>, \<open>Phase_Runs\<close>, \<open>Phase_Safety\<close> (\<open>installer_job_executor.rs\<close>, and from
    \<open>installer_daemon.rs\<close> the test for mains power): the storage phase with everything it calls, the
    records around every phase and the terminal records; what each step adds to the trace, concrete
    runs, and the theorems.

  \<^bold>\<open>State and operations.\<close>  A struct is a record with the field names of the source behind a short
  prefix, an enum a datatype, \<open>Result\<close> the sum \<open>('e, 'a) res\<close> with the error on the left; the error
  texts are constructors of one error type per component.  A Rust string is its list of characters.
  Values of type \<open>u64\<close> are natural numbers with the saturating, checked or wrapping operation written
  out where the code uses it; conversions from \<open>i64\<close> and \<open>f64\<close> are explicit.  Code that changes the
  machine is a state transformer (\<open>Installer_Effects\<close>) over an abstract world with a trace of the
  effects: every command, file and lock the code touches is an event of the trace, and what the
  machine answers is a parameter.  Code shared between threads is a step relation
  (\<open>Installer_Job\<close>): one rule per section under the state lock and per access to an atomic flag.

  \<^bold>\<open>What is shown.\<close>  Discovery offers exactly the disks it should, follows ancestry exactly and never
  returns a region that overlaps a partition.  A plan and a disk request that are accepted name safe
  devices, run one of a fixed set of programs and carry exact sizes.  A journal that validation
  accepts describes a layout of disjoint regions that touches nothing in use.  A commit does nothing
  before guard, lock, validation and backup, and its response tells the truth about the trace.  A
  failing mount run leaves no mount behind.  The supervisor has one owner under every interleaving, a
  replay skips nothing, a job ends as done only after all its phases, an accepted cancellation is never
  overtaken, and the slot can always be freed.  Journal and transaction record are replaced atomically
  under power loss at any call, and a recorded completion is never lost.  The storage phase formats
  only what it has just confirmed under the lock, undoes a failed table change at once, moves the
  Windows boundary only after the file system was shrunk, and reports a helper as successful only when
  it was.  The theorems about defects state what the code does
  where it departs from its intention; the manifest lists them as findings.

  \<^bold>\<open>Interfaces.\<close>  \<open>keyed_map\<close> (the journal's and the probes' keyed lists), \<open>device_normalizer\<close> (the
  device-path normalisers), \<open>argument_validator\<close> (the string validators), \<open>effect_relation\<close> and
  \<open>trace_relation\<close> (what a computation may add to the trace), \<open>disk_relation\<close> (what a file operation may
  change, whatever faults it meets), \<open>exec_events\<close> (which events the steps of a phase cause) and
  \<open>transition_system\<close> (invariants of step relations) are locales; each is interpreted on the definitions
  of the components.

  \<^bold>\<open>Bounds and fuel.\<close>  Walks over parent links are bounded by the number of devices, which a visited
  set makes enough (\<open>parent_disk_exact\<close> has no bound in its statement).  The polling loop of a disk
  command recurses on the time left to its deadline, ten polls a second (\<open>wait_loop_ends\<close>).  Job and
  event identifiers saturate at the largest 64-bit value; the statements that depend on distinct
  identifiers say so.  A worker has at most twenty-eight steps, four for each phase and four for the
  rest.  A child process is the list of the rounds its supervisor makes before the clock reaches the
  deadline, so the polling loop recurses on a list; the round after the last one finds the deadline
  passed.  The loops of the decoder and the framer consume their input.

  \<^bold>\<open>Not modelled.\<close>  Of \<open>installer_job_executor.rs\<close> the image, configuration and secure-boot phases, which
  are arguments of the dispatcher, and the decoding of the request; the daemon that wires the parts to
  sockets and its entry points (\<open>installer_daemon.rs\<close>, \<open>native_main.rs\<close>, \<open>installer_exec_bin.rs\<close>, \<open>main.rs\<close>),
  the read-only queries, the event stream and the remaining configuration writers, the
  hub (\<open>kyth-hub-web\<close>), the shared library (\<open>kyth-shared-rs\<close>) and its command-line tools, the web front
  ends, the shell and Python build scripts and vendored code.  Within the modelled files: a poisoned mutex
  (no section panics while it holds its lock), file permissions beyond whether setting them succeeds, the
  wording of errors, and the parsing of JSON text, which \<open>serde_json\<close> does.  The hook
  \<open>success_mok_state\<close> at the end of a job is taken to return.
\<close>

end
